(* ===== verification/Prelude.thy ===== *)
theory Prelude
  imports Main "HOL-Library.AList" "HOL-Library.Sublist"
begin

text \<open>
  Shared vocabulary of the development: Python exceptions as values, programs that thread a
  state and may raise, insertion-ordered dictionaries, dynamic (JSON-like) values and the
  formatting of integers.  Nothing here is specific to one module of the repository; the
  component theories import it.

  Text is \<open>string\<close>, a list of 8-bit characters: the code points below 256 of a Python
  \<open>str\<close>.  Clock values, floats in Python, are integers (ticks): the code only compares
  them, adds a timeout and subtracts two of them.
\<close>

named_theorems wp_rules
  \<open>equations that push a postcondition through the program combinators\<close>

named_theorems preserving
  \<open>programs that keep an invariant, and the rules that compose them\<close>

named_theorems frame
  \<open>what an operation leaves unchanged\<close>

section \<open>Exceptions\<close>

text \<open>
  The exception classes the code raises or distinguishes in an \<open>except\<close> clause.
  \<open>OtherOSError\<close> and \<open>OtherException\<close> carry the name of any further class.
\<close>

datatype exn_type =
    ValueError | RuntimeError | KeyError | TypeError | AssertionError
  | OSError | PermissionError | FileNotFoundError | OtherOSError string
  | SubprocessError | ControlProtocolError | JSONDecodeError | OtherException string

datatype exn = Exn (exn_class: exn_type) (exn_arg: string)

fun exn_type_name :: "exn_type \<Rightarrow> string" where
  "exn_type_name ValueError = ''ValueError''"
| "exn_type_name RuntimeError = ''RuntimeError''"
| "exn_type_name KeyError = ''KeyError''"
| "exn_type_name TypeError = ''TypeError''"
| "exn_type_name AssertionError = ''AssertionError''"
| "exn_type_name OSError = ''OSError''"
| "exn_type_name PermissionError = ''PermissionError''"
| "exn_type_name FileNotFoundError = ''FileNotFoundError''"
| "exn_type_name (OtherOSError n) = n"
| "exn_type_name SubprocessError = ''SubprocessError''"
| "exn_type_name ControlProtocolError = ''ControlProtocolError''"
| "exn_type_name JSONDecodeError = ''JSONDecodeError''"
| "exn_type_name (OtherException n) = n"

text \<open>\<open>PermissionError\<close> and \<open>FileNotFoundError\<close> are subclasses of \<open>OSError\<close>.\<close>

fun is_os_error_type :: "exn_type \<Rightarrow> bool" where
  "is_os_error_type OSError = True"
| "is_os_error_type PermissionError = True"
| "is_os_error_type FileNotFoundError = True"
| "is_os_error_type (OtherOSError n) = True"
| "is_os_error_type _ = False"

definition is_os_error :: "exn \<Rightarrow> bool" where
  "is_os_error e = is_os_error_type (exn_class e)"

text \<open>\<open>json.JSONDecodeError\<close> and \<open>ControlProtocolError\<close> are subclasses of \<open>ValueError\<close>.\<close>

fun is_value_error_type :: "exn_type \<Rightarrow> bool" where
  "is_value_error_type ValueError = True"
| "is_value_error_type ControlProtocolError = True"
| "is_value_error_type JSONDecodeError = True"
| "is_value_error_type _ = False"

definition is_value_error :: "exn \<Rightarrow> bool" where
  "is_value_error e = is_value_error_type (exn_class e)"

text \<open>
  \<open>repr\<close> of a string, which \<open>str(KeyError(msg))\<close> returns: the quote is \<open>'\<close> unless the
  text holds \<open>'\<close> and no \<open>"\<close>; backslash, the quote, the three named control characters and
  unprintable characters are escaped.
\<close>

definition hex_digit :: "nat \<Rightarrow> char" where
  "hex_digit n = (''0123456789abcdef'' ! n)"

definition py_printable :: "char \<Rightarrow> bool" where
  "py_printable c = (let n = (of_char c :: nat) in (32 \<le> n \<and> n \<le> 126) \<or> (161 \<le> n \<and> n \<noteq> 173))"

definition repr_char :: "char \<Rightarrow> char \<Rightarrow> string" where
  "repr_char q c =
     (let n = (of_char c :: nat) in
      if c = q \<or> n = 92 then [char_of (92::nat), c]
      else if n = 10 then [char_of (92::nat), CHR ''n'']
      else if n = 13 then [char_of (92::nat), CHR ''r'']
      else if n = 9 then [char_of (92::nat), CHR ''t'']
      else if py_printable c then [c]
      else [char_of (92::nat), CHR ''x'', hex_digit (n div 16), hex_digit (n mod 16)])"

definition py_repr :: "string \<Rightarrow> string" where
  "py_repr s =
     (let sq = char_of (39::nat); dq = char_of (34::nat);
          q = (if sq \<in> set s \<and> dq \<notin> set s then dq else sq)
      in [q] @ concat (map (repr_char q) s) @ [q])"

text \<open>\<open>str(exc)\<close>, and the text \<open>f"{type(exc).__name__}: {exc}"\<close> the handlers build.\<close>

definition exn_str :: "exn \<Rightarrow> string" where
  "exn_str e = (if exn_class e = KeyError then py_repr (exn_arg e) else exn_arg e)"

definition exn_name :: "exn \<Rightarrow> string" where
  "exn_name e = exn_type_name (exn_class e)"

definition exn_text :: "exn \<Rightarrow> string" where
  "exn_text e = exn_name e @ '': '' @ exn_str e"

section \<open>Programs that thread a state and may raise\<close>

type_synonym ('s, 'a) prog = "'s \<Rightarrow> (exn + 'a) \<times> 's"

definition ret :: "'a \<Rightarrow> ('s, 'a) prog" where
  "ret v s = (Inr v, s)"

definition raise :: "exn \<Rightarrow> ('s, 'a) prog" where
  "raise e s = (Inl e, s)"

definition andthen :: "('s, 'a) prog \<Rightarrow> ('a \<Rightarrow> ('s, 'b) prog) \<Rightarrow> ('s, 'b) prog" where
  "andthen m k s = (case m s of (Inl e, s') \<Rightarrow> (Inl e, s') | (Inr v, s') \<Rightarrow> k v s')"

text \<open>\<open>try: m except Exception as e: h e\<close>.\<close>

definition catch :: "('s, 'a) prog \<Rightarrow> (exn \<Rightarrow> ('s, 'a) prog) \<Rightarrow> ('s, 'a) prog" where
  "catch m h s = (case m s of (Inl e, s') \<Rightarrow> h e s' | (Inr v, s') \<Rightarrow> (Inr v, s'))"

text \<open>The outcome of a block as a value, for handlers that only record the exception.\<close>

definition attempt :: "('s, 'a) prog \<Rightarrow> ('s, exn + 'a) prog" where
  "attempt m s = (case m s of (r, s') \<Rightarrow> (Inr r, s'))"

definition reading :: "('s \<Rightarrow> 'a) \<Rightarrow> ('s, 'a) prog" where
  "reading f s = (Inr (f s), s)"

definition modifying :: "('s \<Rightarrow> 's) \<Rightarrow> ('s, unit) prog" where
  "modifying f s = (Inr (), f s)"

definition guarding :: "bool \<Rightarrow> exn \<Rightarrow> ('s, unit) prog" where
  "guarding b e = (if b then ret () else raise e)"

text \<open>A result that is already known: an operation on a part of the state, lifted.\<close>

definition lift_result :: "exn + 'a \<Rightarrow> ('s, 'a) prog" where
  "lift_result r s = (r, s)"

text \<open>
  \<open>wp m Q s\<close>: running \<open>m\<close> from \<open>s\<close> ends in an outcome and a state that satisfy \<open>Q\<close>.
  A program always ends, so there is one predicate for returns and raises together.
\<close>

definition wp :: "('s, 'a) prog \<Rightarrow> ((exn + 'a) \<Rightarrow> 's \<Rightarrow> bool) \<Rightarrow> 's \<Rightarrow> bool" where
  "wp m Q s = (case m s of (r, s') \<Rightarrow> Q r s')"

lemma wp_ret [wp_rules]: "wp (ret v) Q s = Q (Inr v) s"
  by (simp add: wp_def ret_def)

lemma wp_raise [wp_rules]: "wp (raise e) Q s = Q (Inl e) s"
  by (simp add: wp_def raise_def)

lemma wp_andthen [wp_rules]:
  "wp (andthen m k) Q s =
     wp m (\<lambda>r s'. case r of Inl e \<Rightarrow> Q (Inl e) s' | Inr v \<Rightarrow> wp (k v) Q s') s"
  by (simp add: wp_def andthen_def split: prod.split sum.split)

lemma wp_catch [wp_rules]:
  "wp (catch m h) Q s =
     wp m (\<lambda>r s'. case r of Inl e \<Rightarrow> wp (h e) Q s' | Inr v \<Rightarrow> Q (Inr v) s') s"
  by (simp add: wp_def catch_def split: prod.split sum.split)

lemma wp_attempt [wp_rules]: "wp (attempt m) Q s = wp m (\<lambda>r s'. Q (Inr r) s') s"
  by (simp add: wp_def attempt_def split: prod.split)

lemma wp_reading [wp_rules]: "wp (reading f) Q s = Q (Inr (f s)) s"
  by (simp add: wp_def reading_def)

lemma wp_modifying [wp_rules]: "wp (modifying f) Q s = Q (Inr ()) (f s)"
  by (simp add: wp_def modifying_def)

lemma wp_guarding [wp_rules]: "wp (guarding b e) Q s = (if b then Q (Inr ()) s else Q (Inl e) s)"
  by (simp add: guarding_def wp_rules)

lemma wp_lift_result [wp_rules]: "wp (lift_result r) Q s = Q r s"
  by (simp add: wp_def lift_result_def)

lemma wp_if [wp_rules]: "wp (if b then m else n) Q s = (if b then wp m Q s else wp n Q s)"
  by simp

lemma wp_mono: "wp m Q s \<Longrightarrow> (\<And>r s'. Q r s' \<Longrightarrow> R r s') \<Longrightarrow> wp m R s"
  by (auto simp: wp_def split: prod.splits)

lemma wp_conj: "wp m (\<lambda>r s'. Q r s' \<and> R r s') s \<longleftrightarrow> wp m Q s \<and> wp m R s"
  by (simp add: wp_def split: prod.split)

lemma wpI: "(\<And>r s'. m s = (r, s') \<Longrightarrow> Q r s') \<Longrightarrow> wp m Q s"
  by (simp add: wp_def split: prod.split)

lemma wpD: "wp m Q s \<Longrightarrow> m s = (r, s') \<Longrightarrow> Q r s'"
  by (simp add: wp_def)

lemma andthen_returns:
  "andthen m k s = (Inr v, t) \<longleftrightarrow> (\<exists>u s'. m s = (Inr u, s') \<and> k u s' = (Inr v, t))"
  by (auto simp: andthen_def split: prod.splits sum.splits)

lemma andthen_run:
  "andthen m k s = (r, t) \<longleftrightarrow>
     (\<exists>e. m s = (Inl e, t) \<and> r = Inl e) \<or> (\<exists>v s'. m s = (Inr v, s') \<and> k v s' = (r, t))"
  by (auto simp: andthen_def split: prod.splits sum.splits)

lemma andthen_step: "m s = (Inr v, s') \<Longrightarrow> andthen m k s = k v s'"
  by (simp add: andthen_def)

lemma catch_run:
  "catch m h s = (r, t) \<longleftrightarrow>
     (\<exists>v. m s = (Inr v, t) \<and> r = Inr v) \<or> (\<exists>e s'. m s = (Inl e, s') \<and> h e s' = (r, t))"
  by (auto simp: catch_def split: prod.splits sum.splits)

lemma attempt_run: "attempt m s = (r, t) \<longleftrightarrow> (\<exists>v. m s = (v, t) \<and> r = Inr v)"
  by (auto simp: attempt_def split: prod.splits)

lemma ret_run: "ret v s = (r, t) \<longleftrightarrow> r = Inr v \<and> t = s"
  by (auto simp: ret_def)

lemma raise_run: "raise e s = (r, t) \<longleftrightarrow> r = Inl e \<and> t = s"
  by (auto simp: raise_def)

lemma reading_run: "reading f s = (r, t) \<longleftrightarrow> r = Inr (f s) \<and> t = s"
  by (auto simp: reading_def)

lemma modifying_run: "modifying f s = (r, t) \<longleftrightarrow> r = Inr () \<and> t = f s"
  by (auto simp: modifying_def)

lemma lift_result_run: "lift_result v s = (r, t) \<longleftrightarrow> r = v \<and> t = s"
  by (auto simp: lift_result_def)

lemma guarding_run: "guarding b e s = (r, t) \<longleftrightarrow> t = s \<and> r = (if b then Inr () else Inl e)"
  by (auto simp: guarding_def ret_def raise_def)

lemmas run_rules = andthen_run catch_run attempt_run ret_run raise_run reading_run modifying_run
  lift_result_run guarding_run

lemmas prog_defs = andthen_def attempt_def catch_def ret_def raise_def reading_def modifying_def
  lift_result_def guarding_def

text \<open>An invariant that a program keeps however it ends.\<close>

definition preserves :: "('s \<Rightarrow> bool) \<Rightarrow> ('s, 'a) prog \<Rightarrow> bool" where
  "preserves I m \<longleftrightarrow> (\<forall>s. I s \<longrightarrow> I (snd (m s)))"

lemma preservesI: "(\<And>s r t. I s \<Longrightarrow> m s = (r, t) \<Longrightarrow> I t) \<Longrightarrow> preserves I m"
  by (metis preserves_def prod.collapse)

lemma preservesD: "preserves I m \<Longrightarrow> m s = (r, t) \<Longrightarrow> I s \<Longrightarrow> I t"
  by (metis preserves_def snd_conv)

lemma preserves_andthen [preserving]:
  "preserves I m \<Longrightarrow> (\<And>v. preserves I (k v)) \<Longrightarrow> preserves I (andthen m k)"
  by (rule preservesI) (auto simp: andthen_run dest: preservesD)

lemma preserves_catch [preserving]:
  "preserves I m \<Longrightarrow> (\<And>e. preserves I (h e)) \<Longrightarrow> preserves I (catch m h)"
  by (rule preservesI) (auto simp: catch_run dest: preservesD)

lemma preserves_attempt [preserving]: "preserves I m \<Longrightarrow> preserves I (attempt m)"
  by (rule preservesI) (auto simp: attempt_run dest: preservesD)

lemma preserves_pure [preserving]:
  "preserves I (ret v)" "preserves I (raise e)" "preserves I (reading f)"
  "preserves I (lift_result r)" "preserves I (guarding b e)"
  by (auto simp: preserves_def ret_def raise_def reading_def lift_result_def guarding_def)

lemma preserves_if [preserving]:
  "(b \<Longrightarrow> preserves I m) \<Longrightarrow> (\<not> b \<Longrightarrow> preserves I n) \<Longrightarrow> preserves I (if b then m else n)"
  by simp

lemma preserves_sum [preserving]:
  "(\<And>e. preserves I (f e)) \<Longrightarrow> (\<And>x. preserves I (g x)) \<Longrightarrow>
     preserves I (case r of Inl e \<Rightarrow> f e | Inr x \<Rightarrow> g x)"
  by (cases r) simp_all

lemma preserves_option [preserving]:
  "preserves I m \<Longrightarrow> (\<And>x. v = Some x \<Longrightarrow> preserves I (k x)) \<Longrightarrow>
     preserves I (case v of None \<Rightarrow> m | Some x \<Rightarrow> k x)"
  by (cases v) auto

lemma preserves_pair [preserving]:
  "(\<And>x y. v = (x, y) \<Longrightarrow> preserves I (k x y)) \<Longrightarrow> preserves I (case v of (x, y) \<Rightarrow> k x y)"
  by (cases v) auto

lemma preserves_conj: "preserves I m \<Longrightarrow> preserves J m \<Longrightarrow> preserves (\<lambda>s. I s \<and> J s) m"
  by (auto simp: preserves_def)

section \<open>Insertion-ordered dictionaries\<close>

text \<open>
  A Python \<open>dict\<close> iterates in insertion order; storing an existing key keeps its place,
  which is what \<^term>\<open>AList.update\<close> does.
\<close>

type_synonym 'v dict = "(string \<times> 'v) list"

definition dict_get :: "'v dict \<Rightarrow> string \<Rightarrow> 'v option" where
  "dict_get d k = map_of d k"

definition dict_set :: "string \<Rightarrow> 'v \<Rightarrow> 'v dict \<Rightarrow> 'v dict" where
  "dict_set k v d = AList.update k v d"

definition dict_del :: "string \<Rightarrow> 'v dict \<Rightarrow> 'v dict" where
  "dict_del k d = AList.delete k d"

definition dict_values :: "'v dict \<Rightarrow> 'v list" where
  "dict_values d = map snd d"

definition dict_ok :: "'v dict \<Rightarrow> bool" where
  "dict_ok d = distinct (map fst d)"

lemma dict_get_empty [simp]: "dict_get [] k = None"
  by (simp add: dict_get_def)

lemma dict_get_set [simp]: "dict_get (dict_set k v d) k' = (if k' = k then Some v else dict_get d k')"
  by (simp add: dict_get_def dict_set_def update_conv')

lemma dict_get_del [simp]: "dict_get (dict_del k d) k' = (if k' = k then None else dict_get d k')"
  by (simp add: dict_get_def dict_del_def delete_conv' fun_upd_def)

lemma dict_set_set [simp]: "dict_set k v (dict_set k u d) = dict_set k v d"
  by (simp add: dict_set_def)

lemma dict_ok_empty [simp]: "dict_ok []"
  by (simp add: dict_ok_def)

lemma dict_ok_set [simp]: "dict_ok d \<Longrightarrow> dict_ok (dict_set k v d)"
  by (simp add: dict_ok_def dict_set_def distinct_update)

lemma dict_ok_del [simp]: "dict_ok d \<Longrightarrow> dict_ok (dict_del k d)"
  by (simp add: dict_ok_def dict_del_def distinct_delete)

lemma dict_get_in_values: "dict_get d k = Some v \<Longrightarrow> v \<in> set (dict_values d)"
  by (force simp: dict_values_def dict_get_def dest: map_of_SomeD)

lemma dict_values_get: "dict_ok d \<Longrightarrow> v \<in> set (dict_values d) \<Longrightarrow> \<exists>k. dict_get d k = Some v"
  by (force simp: dict_ok_def dict_values_def dict_get_def)

lemma dict_set_new: "dict_get d k = None \<Longrightarrow> dict_set k v d = d @ [(k, v)]"
proof (induction d)
  case Nil
  then show ?case by (simp add: dict_set_def)
next
  case (Cons p d)
  then show ?case by (cases p) (auto simp: dict_set_def dict_get_def split: if_splits)
qed

text \<open>\<open>{**d, **extra}\<close>: the pairs of \<open>extra\<close> are stored one by one.\<close>

lemma dict_update_all:
  assumes "\<forall>(k, v) \<in> set extra. P k v" and "dict_ok d" and "\<forall>(k, v) \<in> set d. P k v"
  shows "dict_ok (foldl (\<lambda>d (k, v). dict_set k v d) d extra)
    \<and> (\<forall>(k, v) \<in> set (foldl (\<lambda>d (k, v). dict_set k v d) d extra). P k v)"
  using assms
proof (induction extra arbitrary: d)
  case (Cons p extra)
  obtain k v where p: "p = (k, v)" by fastforce
  have "set (dict_set k v d) \<subseteq> insert (k, v) (set d)"
    unfolding dict_set_def by (induction d) auto
  with Cons.prems p Cons.IH [of "dict_set k v d"] show ?case by auto
qed simp

lemma dict_update_get_other:
  "k \<notin> fst ` set extra \<Longrightarrow> dict_get (foldl (\<lambda>d (k, v). dict_set k v d) d extra) k = dict_get d k"
  by (induction extra arbitrary: d) auto

section \<open>Options in a row\<close>

lemma those_Some: "those xs = Some ys \<longleftrightarrow> xs = map Some ys"
  by (induction xs arbitrary: ys) (auto split: option.splits)

section \<open>Dynamic values\<close>

text \<open>
  Values of type \<open>Any\<close> that reach \<open>json.dumps\<close> or come from \<open>json.loads\<close>; a dictionary is an
  association list.  A number that is not an integer is kept by its literal.
\<close>

datatype json =
    JNull | JBool bool | JInt int | JReal string | JStr string
  | JList "json list" | JObj "(string \<times> json) list"

fun json_get :: "json \<Rightarrow> string \<Rightarrow> json option" where
  "json_get (JObj kvs) k = map_of kvs k"
| "json_get _ k = None"

section \<open>Formatting\<close>

text \<open>Text between two single quotes, as \<open>f"'{x}'"\<close> writes it.\<close>

definition quoted :: "string \<Rightarrow> string" where
  "quoted s = [CHR 0x27] @ s @ [CHR 0x27]"

text \<open>\<open>sep.join(parts)\<close>.\<close>

fun join_with :: "string \<Rightarrow> string list \<Rightarrow> string" where
  "join_with sep [] = []"
| "join_with sep [x] = x"
| "join_with sep (x # y # ys) = x @ sep @ join_with sep (y # ys)"

text \<open>\<open>str(n)\<close> of an \<open>int\<close>, as the f-strings use it.\<close>

definition digit_char :: "nat \<Rightarrow> char" where
  "digit_char n = (''0123456789'' ! n)"

fun digits_of :: "nat \<Rightarrow> string" where
  "digits_of n = (if n < 10 then [digit_char n] else digits_of (n div 10) @ [digit_char (n mod 10)])"

declare digits_of.simps [simp del]

definition str_int :: "int \<Rightarrow> string" where
  "str_int i = (if i < 0 then ''-'' @ digits_of (nat (- i)) else digits_of (nat i))"

fun digits_value :: "nat \<Rightarrow> string \<Rightarrow> nat" where
  "digits_value a [] = a"
| "digits_value a (c # cs) = digits_value (10 * a + ((of_char c :: nat) - 48)) cs"

lemma digits_value_append: "digits_value a (xs @ ys) = digits_value (digits_value a xs) ys"
  by (induction xs arbitrary: a) auto

lemma digit_char_code: "n < 10 \<Longrightarrow> (of_char (digit_char n) :: nat) = 48 + n"
proof -
  assume "n < 10"
  then have "n \<in> {0, 1, 2, 3, 4, 5, 6, 7, 8, 9}" by auto
  then show ?thesis by (auto simp: digit_char_def)
qed

lemma digits_value_of: "digits_value 0 (digits_of n) = n"
proof (induction n rule: digits_of.induct)
  case (1 n)
  show ?case
  proof (cases "n < 10")
    case True
    then show ?thesis by (simp add: digits_of.simps [of n] digit_char_code)
  next
    case False
    with 1 show ?thesis
      by (simp add: digits_of.simps [of n] digits_value_append digit_char_code)
  qed
qed

lemma digits_of_chars: "c \<in> set (digits_of n) \<Longrightarrow> 48 \<le> (of_char c :: nat) \<and> (of_char c :: nat) \<le> 57"
proof (induction n rule: digits_of.induct)
  case (1 n)
  show ?case
  proof (cases "n < 10")
    case True
    with "1.prems" show ?thesis by (simp add: digits_of.simps [of n] digit_char_code)
  next
    case False
    with 1 show ?thesis
      by (auto simp: digits_of.simps [of n] digit_char_code)
  qed
qed

lemma digits_of_nonempty: "digits_of n \<noteq> []"
  by (subst digits_of.simps) simp

lemma str_int_chars: "c \<in> set (str_int i) \<Longrightarrow> c \<noteq> CHR '':''"
  by (auto simp: str_int_def split: if_splits dest: digits_of_chars)

lemma str_int_inj: "str_int i = str_int j \<longleftrightarrow> i = j"
proof
  assume eq: "str_int i = str_int j"
  have no_minus: "digits_of n \<noteq> CHR ''-'' # xs" for n xs
    using digits_of_chars [of "CHR ''-''" n] by auto
  from eq have sgn: "i < 0 \<longleftrightarrow> j < 0"
    by (auto simp: str_int_def no_minus no_minus [symmetric] split: if_splits)
  with eq have "digits_of (nat \<bar>i\<bar>) = digits_of (nat \<bar>j\<bar>)"
    by (auto simp: str_int_def abs_if split: if_splits)
  then have "nat \<bar>i\<bar> = nat \<bar>j\<bar>"
    by (metis digits_value_of)
  with sgn show "i = j" by linarith
qed simp

text \<open>
  The text before the last occurrence of a separator character and the text after it are
  determined by the whole when the latter does not hold the separator.
\<close>

lemma append_last_sep:
  assumes "xs @ c # ys = xs' @ c # ys'" and "c \<notin> set ys" and "c \<notin> set ys'"
  shows "xs = xs' \<and> ys = ys'"
proof -
  have split: "takeWhile ((\<noteq>) c) (rev (us @ c # vs)) = rev vs" if "c \<notin> set vs" for us vs
    using that by (simp add: takeWhile_append takeWhile_eq_all_conv [THEN iffD2])
  from assms have "rev ys = rev ys'"
    using split [of ys xs] split [of ys' xs'] by simp
  with assms(1) show ?thesis by simp
qed

section \<open>Runs of a step relation\<close>

text \<open>\<open>runs step s es t\<close>: the events \<open>es\<close>, in order, lead from \<open>s\<close> to \<open>t\<close>.\<close>

inductive runs :: "('st \<Rightarrow> 'ev \<Rightarrow> 'st \<Rightarrow> bool) \<Rightarrow> 'st \<Rightarrow> 'ev list \<Rightarrow> 'st \<Rightarrow> bool"
  for step :: "'st \<Rightarrow> 'ev \<Rightarrow> 'st \<Rightarrow> bool" where
  runs_nil: "runs step s [] s"
| runs_cons: "step s e u \<Longrightarrow> runs step u es t \<Longrightarrow> runs step s (e # es) t"

inductive_simps runs_Nil_iff [simp]: "runs step s [] t"
inductive_simps runs_Cons_iff: "runs step s (e # es) t"

lemma runs_append: "runs step s (es @ fs) t \<longleftrightarrow> (\<exists>u. runs step s es u \<and> runs step u fs t)"
  by (induction es arbitrary: s) (auto simp: runs_Cons_iff)

lemma runs_invariant:
  assumes "runs step s es t" and "I s" and "\<And>u e v. step u e v \<Longrightarrow> I u \<Longrightarrow> I v"
  shows "I t"
  using assms(1,2) by (induction rule: runs.induct) (auto intro: assms(3))

end
