(* ===== verification/Models.thy ===== *)
theory Models
  imports Prelude
begin

text \<open>
  \<open>models.py\<close>: decisions, actions and the decisions returned for them.
\<close>

datatype decision_type = ALLOW | DENY | PAUSE | HALT | CONTAIN

fun decision_value :: "decision_type \<Rightarrow> string" where
  "decision_value ALLOW = ''allow''"
| "decision_value DENY = ''deny''"
| "decision_value PAUSE = ''pause''"
| "decision_value HALT = ''halt''"
| "decision_value CONTAIN = ''contain''"

text \<open>The fields of \<open>Action\<close>; \<open>metadata\<close> is a dictionary of arbitrary values.\<close>

record action =
  act_agent_id :: string
  act_action_id :: string
  act_operation :: string
  act_resource :: string
  act_risk :: int
  act_metadata :: "json dict"

record decision =
  dec_action_id :: string
  dec_type :: decision_type
  dec_reason :: string
  dec_timestamp :: int

text \<open>
  \<open>Decision(action_id, decision, reason)\<close>: the timestamp defaults to \<open>time()\<close>, whose
  reading at the construction is the first argument.
\<close>

definition mk_decision :: "int \<Rightarrow> string \<Rightarrow> decision_type \<Rightarrow> string \<Rightarrow> decision" where
  "mk_decision now aid d reason =
     \<lparr>dec_action_id = aid, dec_type = d, dec_reason = reason, dec_timestamp = now\<rparr>"

lemma mk_decision_sel [simp]:
  "dec_action_id (mk_decision now aid d reason) = aid"
  "dec_type (mk_decision now aid d reason) = d"
  "dec_reason (mk_decision now aid d reason) = reason"
  "dec_timestamp (mk_decision now aid d reason) = now"
  by (simp_all add: mk_decision_def)

lemma decision_value_inj: "decision_value d = decision_value d' \<longleftrightarrow> d = d'"
  by (cases d; cases d') simp_all

end
