(* ===== verification/Policy.thy ===== *)
theory Policy
  imports Models
begin

text \<open>
  \<open>policy.py\<close>: sequence rules and the policy engine with its bounded history.

  The checks \<open>isinstance(item, str)\<close>, \<open>isinstance(risk, int)\<close> and
  \<open>isinstance(risk, bool)\<close> of the constructors are discharged by the types here.
\<close>

record sequence_rule =
  sr_name :: string
  sr_sequence :: "string list"
  sr_decision :: decision_type
  sr_consecutive :: bool

text \<open>\<open>SequenceRule(...)\<close> with its \<open>__post_init__\<close>.\<close>

definition mk_sequence_rule ::
  "string \<Rightarrow> string list \<Rightarrow> decision_type \<Rightarrow> bool \<Rightarrow> exn + sequence_rule" where
  "mk_sequence_rule name sq d cons =
     (if name = [] \<or> sq = [] then
        Inl (Exn ValueError ''sequence rules require a name and non-empty sequence'')
      else if (\<exists>item \<in> set sq. item = []) then
        Inl (Exn ValueError ''sequence entries must be non-empty strings'')
      else Inr \<lparr>sr_name = name, sr_sequence = sq, sr_decision = d, sr_consecutive = cons\<rparr>)"

record policy_engine =
  pe_denied :: "string set"
  pe_max_risk :: int
  pe_rules :: "sequence_rule list"
  pe_risk :: "int dict"
  pe_history :: "string list"
  pe_limit :: nat

definition mk_policy_engine ::
  "string set \<Rightarrow> int \<Rightarrow> sequence_rule list \<Rightarrow> int \<Rightarrow> int dict \<Rightarrow> exn + policy_engine" where
  "mk_policy_engine denied max_risk rules history_limit op_risk =
     (if \<not> (0 \<le> max_risk \<and> max_risk \<le> 100) then
        Inl (Exn ValueError ''max_risk must be from 0 to 100'')
      else if history_limit < 1 then Inl (Exn ValueError ''history_limit must be positive'')
      else if (\<exists>(op, risk) \<in> set op_risk. op = [] \<or> \<not> (0 \<le> risk \<and> risk \<le> 100)) then
        Inl (Exn ValueError (''operation_risk entries require non-empty operation names ''
               @ ''and integer risks from 0 to 100''))
      else Inr \<lparr>pe_denied = denied, pe_max_risk = max_risk, pe_rules = rules,
                pe_risk = op_risk, pe_history = [], pe_limit = nat history_limit\<rparr>)"

text \<open>\<open>PolicyEngine()\<close> with every default.\<close>

definition default_policy_engine :: policy_engine where
  "default_policy_engine =
     \<lparr>pe_denied = {}, pe_max_risk = 80, pe_rules = [], pe_risk = [], pe_history = [],
      pe_limit = 256\<rparr>"

text \<open>
  The scan over the candidate with an iterator on the rule's sequence: \<open>next_expected\<close> is
  the head of the first argument.
\<close>

fun scan_sequence :: "string list \<Rightarrow> string list \<Rightarrow> bool" where
  "scan_sequence expected [] = False"
| "scan_sequence [] (operation # ops) = False"
| "scan_sequence (e # es) (operation # ops) =
     (if operation = e then (if es = [] then True else scan_sequence es ops)
      else scan_sequence (e # es) ops)"

definition rule_matches :: "sequence_rule \<Rightarrow> string list \<Rightarrow> bool" where
  "rule_matches rule candidate =
     (if sr_consecutive rule then
        length (sr_sequence rule) \<le> length candidate
        \<and> drop (length candidate - length (sr_sequence rule)) candidate = sr_sequence rule
      else scan_sequence (sr_sequence rule) candidate)"

fun first_matching :: "sequence_rule list \<Rightarrow> string list \<Rightarrow> sequence_rule option" where
  "first_matching [] candidate = None"
| "first_matching (r # rs) candidate =
     (if rule_matches r candidate then Some r else first_matching rs candidate)"

text \<open>\<open>deque(maxlen=n).append(x)\<close>: the oldest entries fall out.\<close>

definition deque_append :: "nat \<Rightarrow> 'a list \<Rightarrow> 'a \<Rightarrow> 'a list" where
  "deque_append n xs x = drop (length xs + 1 - n) (xs @ [x])"

definition effective_risk :: "policy_engine \<Rightarrow> action \<Rightarrow> int" where
  "effective_risk pe a =
     max (act_risk a) (case dict_get (pe_risk pe) (act_operation a) of None \<Rightarrow> 0 | Some k \<Rightarrow> k)"

text \<open>\<open>evaluate\<close>; \<open>now\<close> is what \<open>time()\<close> returns when the \<open>Decision\<close> is built.\<close>

definition evaluate :: "int \<Rightarrow> policy_engine \<Rightarrow> action \<Rightarrow> decision \<times> policy_engine" where
  "evaluate now pe a =
     (if act_operation a \<in> pe_denied pe then
        (mk_decision now (act_action_id a) HALT
           (''operation '' @ quoted (act_operation a) @ '' is denied by policy''), pe)
      else if effective_risk pe a \<ge> pe_max_risk pe then
        (mk_decision now (act_action_id a) HALT
           (''effective risk '' @ str_int (effective_risk pe a) @ '' exceeds threshold ''
              @ str_int (pe_max_risk pe)), pe)
      else (case (if pe_rules pe = [] then None
                  else first_matching (pe_rules pe) (pe_history pe @ [act_operation a])) of
          Some rule \<Rightarrow>
            (mk_decision now (act_action_id a) (sr_decision rule)
               (''sequence rule '' @ quoted (sr_name rule) @ '' matched''), pe)
        | None \<Rightarrow>
            (mk_decision now (act_action_id a) ALLOW ''within policy'',
             pe\<lparr>pe_history := deque_append (pe_limit pe) (pe_history pe) (act_operation a)\<rparr>)))"

definition reset_history :: "policy_engine \<Rightarrow> policy_engine" where
  "reset_history pe = pe\<lparr>pe_history := []\<rparr>"

section \<open>The matching loop against its specification\<close>

lemma scan_sequence_Cons: "scan_sequence (e # es) ops \<longleftrightarrow> subseq (e # es) ops"
  by (induction ops arbitrary: e es) (auto simp: neq_Nil_conv subseq_Cons2_iff)

lemma scan_sequence_subseq: "es \<noteq> [] \<Longrightarrow> scan_sequence es ops \<longleftrightarrow> subseq es ops"
  by (cases es) (simp_all add: scan_sequence_Cons)

lemma drop_eq_suffix:
  "length ys \<le> length xs \<and> drop (length xs - length ys) xs = ys \<longleftrightarrow> suffix ys xs"
proof
  assume "length ys \<le> length xs \<and> drop (length xs - length ys) xs = ys"
  then show "suffix ys xs" using suffix_drop [of "length xs - length ys" xs] by simp
qed (auto simp: suffix_def)

lemma rule_matches_iff:
  "sr_sequence rule \<noteq> [] \<Longrightarrow> rule_matches rule c \<longleftrightarrow>
     (if sr_consecutive rule then suffix (sr_sequence rule) c else subseq (sr_sequence rule) c)"
  by (simp add: rule_matches_def drop_eq_suffix scan_sequence_subseq)

text \<open>
  For a rule the constructor accepts, the matching code decides exactly the intended
  predicate: adjacency at the end of the candidate for a consecutive rule, and otherwise
  being an ordered subsequence, whatever unrelated operations lie between.
\<close>

theorem rule_matches_specification:
  assumes "mk_sequence_rule name sq d cons = Inr rule"
  shows "rule_matches rule candidate \<longleftrightarrow>
           (if cons then suffix sq candidate else subseq sq candidate)"
proof -
  from assms have "rule = \<lparr>sr_name = name, sr_sequence = sq, sr_decision = d, sr_consecutive = cons\<rparr>"
    and "sq \<noteq> []" by (auto simp: mk_sequence_rule_def split: if_splits)
  then show ?thesis by (simp add: rule_matches_iff)
qed

theorem rule_matches_specification_witness:
  "let rule = \<lparr>sr_name = ''exfil'', sr_sequence = [''read'', ''send''], sr_decision = HALT,
               sr_consecutive = False\<rparr>
   in mk_sequence_rule ''exfil'' [''read'', ''send''] HALT False = Inr rule
      \<and> rule_matches rule [''read'', ''log'', ''send''] \<and> \<not> rule_matches rule [''send'', ''read'']"
proof -
  let ?rule = "\<lparr>sr_name = ''exfil'', sr_sequence = [''read'', ''send''], sr_decision = HALT,
               sr_consecutive = False\<rparr>"
  have mk: "mk_sequence_rule ''exfil'' [''read'', ''send''] HALT False = Inr ?rule"
    by (simp add: mk_sequence_rule_def)
  show ?thesis
    using mk rule_matches_specification [OF mk, of "[''read'', ''log'', ''send'']"]
      rule_matches_specification [OF mk, of "[''send'', ''read'']"] by simp
qed

section \<open>What the committed history can hold\<close>

definition forbidden_in :: "sequence_rule \<Rightarrow> string list \<Rightarrow> bool" where
  "forbidden_in rule h \<longleftrightarrow>
     (if sr_consecutive rule then sublist (sr_sequence rule) h else subseq (sr_sequence rule) h)"

definition engine_ok :: "policy_engine \<Rightarrow> bool" where
  "engine_ok pe \<longleftrightarrow>
     1 \<le> pe_limit pe \<and> length (pe_history pe) \<le> pe_limit pe
     \<and> set (pe_history pe) \<inter> pe_denied pe = {}
     \<and> (\<forall>rule \<in> set (pe_rules pe). sr_sequence rule \<noteq> [] \<and> \<not> forbidden_in rule (pe_history pe))"

fun evaluate_all :: "int \<Rightarrow> policy_engine \<Rightarrow> action list \<Rightarrow> policy_engine" where
  "evaluate_all now pe [] = pe"
| "evaluate_all now pe (a # as) = evaluate_all now (snd (evaluate now pe a)) as"

lemma sublist_snoc_cases: "sublist ys (xs @ [x]) \<Longrightarrow> suffix ys (xs @ [x]) \<or> sublist ys xs"
proof -
  assume "sublist ys (xs @ [x])"
  then obtain us vs where eq: "xs @ [x] = us @ ys @ vs" by (auto simp: sublist_def)
  show ?thesis
  proof (cases vs rule: rev_cases)
    case Nil
    with eq show ?thesis by (auto simp: suffix_def)
  next
    case (snoc ws w)
    with eq show ?thesis by (auto simp: sublist_def)
  qed
qed

lemma forbidden_snoc:
  "forbidden_in rule (h @ [x]) \<Longrightarrow> sr_sequence rule \<noteq> [] \<Longrightarrow> \<not> rule_matches rule (h @ [x]) \<Longrightarrow>
     forbidden_in rule h"
  using sublist_snoc_cases [of "sr_sequence rule" h x]
  by (metis forbidden_in_def rule_matches_iff)

lemma forbidden_drop: "forbidden_in rule (drop n h) \<Longrightarrow> forbidden_in rule h"
proof (cases "sr_consecutive rule")
  case True
  assume "forbidden_in rule (drop n h)"
  then obtain us vs where "drop n h = us @ sr_sequence rule @ vs"
    using True by (auto simp: forbidden_in_def sublist_def)
  then have "h = (take n h @ us) @ sr_sequence rule @ vs"
    by (metis append.assoc append_take_drop_id)
  then have "sublist (sr_sequence rule) h" unfolding sublist_def by blast
  with True show ?thesis by (simp add: forbidden_in_def)
next
  case False
  assume "forbidden_in rule (drop n h)"
  with False have "subseq (sr_sequence rule) (take n h @ drop n h)"
    by (auto simp: forbidden_in_def simp del: append_take_drop_id intro: subseq_drop_many)
  with False show ?thesis by (simp add: forbidden_in_def)
qed

lemma first_matching_None:
  "first_matching rules c = None \<longleftrightarrow> (\<forall>r \<in> set rules. \<not> rule_matches r c)"
  by (induction rules) auto

lemma first_matching_Some:
  "first_matching rules c = Some r \<Longrightarrow> r \<in> set rules \<and> rule_matches r c"
  by (induction rules) (auto split: if_splits)

lemma deque_append_length: "length xs \<le> n \<Longrightarrow> 1 \<le> n \<Longrightarrow> length (deque_append n xs x) \<le> n"
  by (simp add: deque_append_def)

lemma set_deque_append: "set (deque_append n xs x) \<subseteq> set xs \<union> {x}"
  by (auto simp: deque_append_def dest: in_set_dropD)

lemma evaluate_cases:
  obtains (halted) "act_operation a \<in> pe_denied pe \<or> pe_max_risk pe \<le> effective_risk pe a"
      "snd (evaluate now pe a) = pe" "dec_type (fst (evaluate now pe a)) = HALT"
  | (matched) rule where "rule \<in> set (pe_rules pe)"
      "rule_matches rule (pe_history pe @ [act_operation a])"
      "snd (evaluate now pe a) = pe" "dec_type (fst (evaluate now pe a)) = sr_decision rule"
  | (committed) "act_operation a \<notin> pe_denied pe" "effective_risk pe a < pe_max_risk pe"
      "\<forall>r \<in> set (pe_rules pe). \<not> rule_matches r (pe_history pe @ [act_operation a])"
      "dec_type (fst (evaluate now pe a)) = ALLOW"
      "snd (evaluate now pe a) =
         pe\<lparr>pe_history := deque_append (pe_limit pe) (pe_history pe) (act_operation a)\<rparr>"
proof (cases "act_operation a \<in> pe_denied pe \<or> pe_max_risk pe \<le> effective_risk pe a")
  case True
  then show ?thesis by (intro halted) (auto simp: evaluate_def)
next
  case False
  show ?thesis
  proof (cases "first_matching (pe_rules pe) (pe_history pe @ [act_operation a])")
    case None
    then have "\<forall>r \<in> set (pe_rules pe). \<not> rule_matches r (pe_history pe @ [act_operation a])"
      by (simp only: first_matching_None)
    with False None show ?thesis
      by (intro committed) (simp_all add: evaluate_def)
  next
    case (Some rule)
    with False have "pe_rules pe \<noteq> []" by auto
    with False Some show ?thesis
      by (intro matched [of rule]) (auto simp: evaluate_def dest: first_matching_Some)
  qed
qed

lemma evaluate_engine_ok: "engine_ok pe \<Longrightarrow> engine_ok (snd (evaluate now pe a))"
proof (cases rule: evaluate_cases [of a pe now])
  case committed
  assume ok: "engine_ok pe"
  let ?h = "deque_append (pe_limit pe) (pe_history pe) (act_operation a)"
  have "\<not> forbidden_in r ?h" if "r \<in> set (pe_rules pe)" for r
    using that ok committed(3)
      forbidden_drop [of r _ "pe_history pe @ [act_operation a]"]
      forbidden_snoc [of r "pe_history pe" "act_operation a"]
    unfolding deque_append_def engine_ok_def by blast
  moreover have "set ?h \<inter> pe_denied pe = {}"
    using ok committed(1) set_deque_append [of "pe_limit pe" "pe_history pe"]
    by (fastforce simp: engine_ok_def)
  ultimately show ?thesis
    using ok by (simp add: committed engine_ok_def deque_append_length)
qed simp_all

lemma evaluate_all_engine_ok: "engine_ok pe \<Longrightarrow> engine_ok (evaluate_all now pe as)"
  by (induction as arbitrary: pe) (auto intro: evaluate_engine_ok)

lemma evaluate_frame [frame]:
  "pe_rules (snd (evaluate now pe a)) = pe_rules pe"
  "pe_denied (snd (evaluate now pe a)) = pe_denied pe"
  by (cases rule: evaluate_cases [of a pe now]; simp)+

lemma evaluate_all_frame [frame]:
  "pe_rules (evaluate_all now pe as) = pe_rules pe"
  by (induction as arbitrary: pe) (simp_all add: frame)

lemma mk_policy_engine_ok:
  assumes "mk_policy_engine denied mr rules lim risks = Inr pe"
    and "\<forall>rule \<in> set rules. sr_sequence rule \<noteq> []"
  shows "engine_ok pe"
  using assms
  by (auto simp: mk_policy_engine_def engine_ok_def forbidden_in_def split: if_splits)

text \<open>
  C17: Whatever actions an engine built by the constructor evaluates, the committed history
  stays within its limit, holds no denied operation, and never contains a complete forbidden
  sequence: contiguously for a consecutive rule, in order for the others.
\<close>

theorem history_never_holds_forbidden_sequence:
  assumes "mk_policy_engine denied max_risk rules limit risks = Inr pe"
    and "\<forall>rule \<in> set rules. sr_sequence rule \<noteq> []"
  shows "let h = pe_history (evaluate_all now pe actions) in
           int (length h) \<le> limit \<and> set h \<inter> denied = {}
           \<and> (\<forall>rule \<in> set rules. \<not> forbidden_in rule h)"
proof -
  have fields: "pe_denied pe = denied" "pe_rules pe = rules" "int (pe_limit pe) = limit"
    using assms(1) by (auto simp: mk_policy_engine_def split: if_splits)
  have frame': "pe_denied (evaluate_all now pe actions) = pe_denied pe"
      "pe_limit (evaluate_all now pe actions) = pe_limit pe"
    by (induction actions arbitrary: pe)
       (simp_all add: frame evaluate_def Let_def split: option.split)
  have "engine_ok (evaluate_all now pe actions)"
    using assms by (intro evaluate_all_engine_ok mk_policy_engine_ok)
  then show ?thesis
    using fields frame' by (auto simp: engine_ok_def frame)
qed

theorem history_never_holds_forbidden_sequence_witness:
  "let rule = \<lparr>sr_name = ''exfil'', sr_sequence = [''read'', ''send''], sr_decision = HALT,
               sr_consecutive = False\<rparr>;
       act = (\<lambda>op. \<lparr>act_agent_id = ''a'', act_action_id = ''1'', act_operation = op,
                    act_resource = ''r'', act_risk = 0, act_metadata = []\<rparr>);
       pe = \<lparr>pe_denied = {''rm''}, pe_max_risk = 80, pe_rules = [rule], pe_risk = [],
             pe_history = [], pe_limit = 4\<rparr>
   in pe_history (evaluate_all 0 pe [act ''read'', act ''rm'', act ''send'', act ''log''])
        = [''read'', ''log''] \<and> \<not> forbidden_in rule [''read'', ''log'']"
proof -
  let ?rule = "\<lparr>sr_name = ''exfil'', sr_sequence = [''read'', ''send''], sr_decision = HALT,
               sr_consecutive = False\<rparr>"
  let ?act = "\<lambda>op. \<lparr>act_agent_id = ''a'', act_action_id = ''1'', act_operation = op,
                   act_resource = ''r'', act_risk = 0, act_metadata = []\<rparr> :: action"
  let ?pe = "\<lparr>pe_denied = {''rm''}, pe_max_risk = 80, pe_rules = [?rule], pe_risk = [],
             pe_history = [], pe_limit = 4\<rparr>"
  let ?acts = "[?act ''read'', ?act ''rm'', ?act ''send'', ?act ''log'']"
  have mk: "mk_policy_engine {''rm''} 80 [?rule] 4 [] = Inr ?pe"
    by (simp add: mk_policy_engine_def)
  have run: "pe_history (evaluate_all 0 ?pe ?acts) = [''read'', ''log'']"
    by (simp add: evaluate_def effective_risk_def rule_matches_def deque_append_def)
  show ?thesis
    using history_never_holds_forbidden_sequence [OF mk, of 0 ?acts] run by (simp add: Let_def)
qed

section \<open>What an ALLOW means\<close>

text \<open>
  When no sequence rule itself decides ALLOW, an ALLOW decision implies that the
  operation is not denied, that neither the risk the caller states nor the risk the
  controller assigns to the operation reaches the threshold, and that no sequence rule
  matches the history extended by the operation; the operation is then the newest entry of
  the history.  Every other decision leaves the engine unchanged.
\<close>

theorem allow_only_within_policy:
  assumes "\<forall>rule \<in> set (pe_rules pe). sr_decision rule \<noteq> ALLOW" and "1 \<le> pe_limit pe"
  shows "if dec_type (fst (evaluate now pe a)) = ALLOW
         then act_operation a \<notin> pe_denied pe \<and> act_risk a < pe_max_risk pe
              \<and> (case dict_get (pe_risk pe) (act_operation a) of None \<Rightarrow> True
                 | Some risk \<Rightarrow> risk < pe_max_risk pe)
              \<and> (\<forall>rule \<in> set (pe_rules pe).
                    \<not> rule_matches rule (pe_history pe @ [act_operation a]))
              \<and> last (pe_history (snd (evaluate now pe a))) = act_operation a
         else snd (evaluate now pe a) = pe"
proof (cases rule: evaluate_cases [of a pe now])
  case committed
  then show ?thesis
    using assms(2) by (auto simp: effective_risk_def deque_append_def split: option.splits)
next
  case (matched rule)
  then show ?thesis using assms(1) by simp
qed simp

theorem allow_only_within_policy_witness:
  "dec_type (fst (evaluate 7 (default_policy_engine\<lparr>pe_risk := [(''wire'', 90)]\<rparr>)
       \<lparr>act_agent_id = ''a'', act_action_id = ''1'', act_operation = ''wire'',
        act_resource = ''r'', act_risk = 0, act_metadata = []\<rparr>)) \<noteq> ALLOW"
proof
  let ?pe = "default_policy_engine\<lparr>pe_risk := [(''wire'', 90)]\<rparr>"
  let ?a = "\<lparr>act_agent_id = ''a'', act_action_id = ''1'', act_operation = ''wire'',
            act_resource = ''r'', act_risk = 0, act_metadata = []\<rparr> :: action"
  assume allow: "dec_type (fst (evaluate 7 ?pe ?a)) = ALLOW"
  have rules: "\<forall>rule \<in> set (pe_rules ?pe). sr_decision rule \<noteq> ALLOW"
    and limit: "1 \<le> pe_limit ?pe" by (simp_all add: default_policy_engine_def)
  show False
    using allow_only_within_policy [OF rules limit, of 7 ?a] allow
    by (simp add: default_policy_engine_def dict_get_def)
qed

end
