(* ===== verification/Enforcer.thy ===== *)
theory Enforcer
  imports Models
begin

text \<open>
  \<open>enforcer.py\<close>: the boundary to the external enforcement providers.

  \<open>Enforcer\<close> is a Protocol: any object with the four methods.  Its instances are records of
  functions on the world \<open>'w\<close> outside the controller (kernel, cluster, clocks, disk); a
  call may raise and may change that world.
\<close>

datatype enforcement_status =
    ENFORCED | RELEASED | VERIFICATION_FAILED | DEGRADED | NOT_CONFIGURED

fun enforcement_value :: "enforcement_status \<Rightarrow> string" where
  "enforcement_value ENFORCED = ''enforced''"
| "enforcement_value RELEASED = ''released''"
| "enforcement_value VERIFICATION_FAILED = ''verification_failed''"
| "enforcement_value DEGRADED = ''degraded''"
| "enforcement_value NOT_CONFIGURED = ''not_configured''"

record enforcement_result =
  er_provider :: string
  er_status :: enforcement_status
  er_detail :: string

definition mk_result :: "string \<Rightarrow> enforcement_status \<Rightarrow> string \<Rightarrow> enforcement_result" where
  "mk_result provider status detail =
     \<lparr>er_provider = provider, er_status = status, er_detail = detail\<rparr>"

lemma mk_result_sel [simp]:
  "er_provider (mk_result p s d) = p" "er_status (mk_result p s d) = s"
  "er_detail (mk_result p s d) = d"
  by (simp_all add: mk_result_def)

definition er_enforced :: "enforcement_result \<Rightarrow> bool" where
  "er_enforced r \<longleftrightarrow> er_status r = ENFORCED"

definition er_released :: "enforcement_result \<Rightarrow> bool" where
  "er_released r \<longleftrightarrow> er_status r = RELEASED"

record 'w enforcer =
  enf_name :: string
  enf_contain :: "string \<Rightarrow> ('w, enforcement_result) prog"
  enf_release :: "string \<Rightarrow> ('w, enforcement_result) prog"
  enf_verify_contained :: "string \<Rightarrow> ('w, enforcement_result) prog"
  enf_verify_released :: "string \<Rightarrow> ('w, enforcement_result) prog"

definition noop_result :: "string \<Rightarrow> ('w, enforcement_result) prog" where
  "noop_result agent_id =
     ret (mk_result ''noop'' NOT_CONFIGURED ''no external enforcement provider configured'')"

definition noop_enforcer :: "'w enforcer" where
  "noop_enforcer =
     \<lparr>enf_name = ''noop'', enf_contain = noop_result, enf_release = noop_result,
      enf_verify_contained = noop_result, enf_verify_released = noop_result\<rparr>"

text \<open>The text \<open>f": {detail}" if detail else ""\<close>.\<close>

definition detail_suffix :: "enforcement_result \<Rightarrow> string" where
  "detail_suffix r = (if er_detail r = [] then [] else '': '' @ er_detail r)"

text \<open>Readings of the clocks: \<open>time()\<close>, \<open>monotonic()\<close> and the UTC time as text.\<close>

record 'w clock =
  clk_time :: "'w \<Rightarrow> int \<times> 'w"
  clk_monotonic :: "'w \<Rightarrow> int \<times> 'w"
  clk_utcnow :: "'w \<Rightarrow> string \<times> 'w"

section \<open>Loops over the providers\<close>

text \<open>
  The controller runs three loops over its providers; each iteration is one step on an
  accumulator.  \<open>each_provider\<close> is the loop.
\<close>

fun each_provider ::
  "('w enforcer \<Rightarrow> 'acc \<Rightarrow> 'w \<Rightarrow> 'acc \<times> 'w) \<Rightarrow> 'w enforcer list \<Rightarrow> 'acc \<Rightarrow> 'w \<Rightarrow> 'acc \<times> 'w" where
  "each_provider step [] acc w = (acc, w)"
| "each_provider step (e # es) acc w =
     (let (acc', w') = step e acc w in each_provider step es acc' w')"

text \<open>Every provider satisfies \<open>good\<close> in the state the loop reaches it in.\<close>

fun all_providers ::
  "('w enforcer \<Rightarrow> 'acc \<Rightarrow> 'w \<Rightarrow> 'acc \<times> 'w) \<Rightarrow> ('w enforcer \<Rightarrow> 'acc \<Rightarrow> 'w \<Rightarrow> bool) \<Rightarrow>
     'w enforcer list \<Rightarrow> 'acc \<Rightarrow> 'w \<Rightarrow> bool" where
  "all_providers step good [] acc w = True"
| "all_providers step good (e # es) acc w =
     (good e acc w \<and> (let (acc', w') = step e acc w in all_providers step good es acc' w'))"

text \<open>
  The contract of such a loop: a provider adds exactly one failure when it is not good and
  none when it is.  Then no failure is missed and none is invented.
\<close>

locale provider_loop =
  fixes step :: "'w enforcer \<Rightarrow> 'acc \<Rightarrow> 'w \<Rightarrow> 'acc \<times> 'w"
    and failures :: "'acc \<Rightarrow> string list"
    and good :: "'w enforcer \<Rightarrow> 'acc \<Rightarrow> 'w \<Rightarrow> bool"
  assumes step_good: "good e acc w \<Longrightarrow> failures (fst (step e acc w)) = failures acc"
    and step_bad: "\<not> good e acc w \<Longrightarrow> \<exists>m. failures (fst (step e acc w)) = failures acc @ [m]"
begin

lemma failures_grow:
  "\<exists>ms. failures (fst (each_provider step es acc w)) = failures acc @ ms \<and> length ms \<le> length es
        \<and> (ms = [] \<longleftrightarrow> all_providers step good es acc w)"
proof (induction es arbitrary: acc w)
  case Nil
  then show ?case by simp
next
  case (Cons e es)
  obtain acc' w' where step: "step e acc w = (acc', w')" by fastforce
  obtain ms where ms: "failures (fst (each_provider step es acc' w')) = failures acc' @ ms"
      "length ms \<le> length es" "ms = [] \<longleftrightarrow> all_providers step good es acc' w'"
    using Cons.IH by blast
  show ?case
  proof (cases "good e acc w")
    case True
    then have "failures acc' = failures acc" using step_good [of e acc w] step by simp
    with True ms step show ?thesis by auto
  next
    case False
    then obtain m where "failures acc' = failures acc @ [m]"
      using step_bad [of e acc w] step by auto
    with False ms step show ?thesis by auto
  qed
qed

lemma no_failures_iff:
  "failures acc = [] \<Longrightarrow>
     failures (fst (each_provider step es acc w)) = [] \<longleftrightarrow> all_providers step good es acc w"
  using failures_grow [of es acc w] by auto

lemma failures_bound:
  "length (failures (fst (each_provider step es acc w))) \<le> length (failures acc) + length es"
  using failures_grow [of es acc w] by auto

end

end
