(* ===== verification/Runtime.thy ===== *)
theory Runtime
  imports Models
begin

text \<open>
  \<open>runtime.py\<close>: the runtime of one agent, its epoch and the leases bound to it.

  Every operation of \<open>Runtime\<close> holds the lock \<open>_lock\<close> for its whole body, so an
  operation is one atomic step.  Object identity (\<open>object()\<close>, \<open>_RecoveryCapability()\<close>,
  compared with \<open>is\<close>) is a number: an operation that allocates takes the number of the new
  object as its first argument, and whoever composes operations passes one that no earlier
  allocation used.  \<open>rt_ref\<close> is the identity of the \<open>Runtime\<close> object itself.
\<close>

type_synonym obj = nat

datatype runtime_state = ACTIVE | PAUSED | HALTED | CONTAINED

fun runtime_state_value :: "runtime_state \<Rightarrow> string" where
  "runtime_state_value ACTIVE = ''active''"
| "runtime_state_value PAUSED = ''paused''"
| "runtime_state_value HALTED = ''halted''"
| "runtime_state_value CONTAINED = ''contained''"

record execution_lease =
  el_agent_id :: string
  el_epoch :: int
  el_proof :: "obj option"

record runtime_snapshot =
  sn_runtime_id :: string
  sn_agent_id :: string
  sn_epoch :: int
  sn_state :: runtime_state
  sn_can_execute :: bool

record runtime =
  rt_ref :: obj
  rt_agent_id :: string
  rt_runtime_id :: string
  rt_state :: runtime_state
  rt_epoch :: int
  rt_proof :: obj
  rt_capability :: obj

text \<open>
  \<open>Runtime(agent_id, runtime_id)\<close>.  \<open>ref\<close>, \<open>p\<close> and \<open>c\<close> are the three objects the
  constructor allocates and \<open>uuid\<close> is the text of \<open>uuid.uuid4()\<close>, used when no (or an
  empty) runtime id is given.
\<close>

definition mk_runtime :: "obj \<Rightarrow> obj \<Rightarrow> obj \<Rightarrow> string \<Rightarrow> string \<Rightarrow> string option \<Rightarrow> runtime" where
  "mk_runtime ref p c uuid agent_id runtime_id =
     \<lparr>rt_ref = ref, rt_agent_id = agent_id,
      rt_runtime_id = (case runtime_id of None \<Rightarrow> uuid | Some r \<Rightarrow> if r = [] then uuid else r),
      rt_state = ACTIVE, rt_epoch = 0, rt_proof = p, rt_capability = c\<rparr>"

definition rt_halt :: "obj \<Rightarrow> runtime \<Rightarrow> runtime" where
  "rt_halt p r = r\<lparr>rt_state := HALTED, rt_epoch := rt_epoch r + 1, rt_proof := p\<rparr>"

definition rt_contain :: "obj \<Rightarrow> runtime \<Rightarrow> runtime" where
  "rt_contain p r = r\<lparr>rt_state := CONTAINED, rt_epoch := rt_epoch r + 1, rt_proof := p\<rparr>"

definition rt_restore_contained :: "obj \<Rightarrow> int \<Rightarrow> runtime \<Rightarrow> exn + runtime" where
  "rt_restore_contained p epoch r =
     (if epoch < 0 then Inl (Exn ValueError ''epoch must be non-negative'')
      else if rt_state r = ACTIVE then
        Inr (r\<lparr>rt_state := CONTAINED, rt_epoch := epoch, rt_proof := p\<rparr>)
      else if rt_state r = CONTAINED then
        (if rt_epoch r \<noteq> epoch then
           Inl (Exn ValueError (''contained runtime epoch mismatch: '' @ str_int (rt_epoch r)
                  @ '' != '' @ str_int epoch))
         else Inr r)
      else Inl (Exn ValueError (''cannot restore contained state from runtime state ''
                  @ runtime_state_value (rt_state r))))"

text \<open>\<open>_rotate_recovery_capability\<close>: the new capability is also the returned value.\<close>

definition rt_rotate_capability :: "obj \<Rightarrow> runtime \<Rightarrow> obj \<times> runtime" where
  "rt_rotate_capability c r = (c, r\<lparr>rt_capability := c\<rparr>)"

definition rt_recover :: "obj \<Rightarrow> obj option \<Rightarrow> int \<Rightarrow> runtime \<Rightarrow> exn + (int \<times> runtime)" where
  "rt_recover p capability expected_epoch r =
     (if expected_epoch < 0 then Inl (Exn ValueError ''expected_epoch must be non-negative'')
      else if capability \<noteq> Some (rt_capability r) then
        Inl (Exn PermissionError ''recovery requires current controller authorization'')
      else if rt_state r \<noteq> CONTAINED then
        Inl (Exn RuntimeError (''runtime is not contained: '' @ runtime_state_value (rt_state r)))
      else if rt_epoch r \<noteq> expected_epoch then
        Inl (Exn RuntimeError (''contained runtime epoch mismatch: '' @ str_int (rt_epoch r)
               @ '' != '' @ str_int expected_epoch))
      else Inr (rt_epoch r + 1,
                r\<lparr>rt_epoch := rt_epoch r + 1, rt_state := ACTIVE, rt_proof := p\<rparr>))"

definition rt_restore_active :: "obj \<Rightarrow> int \<Rightarrow> runtime \<Rightarrow> exn + runtime" where
  "rt_restore_active p epoch r =
     (if epoch < 0 then Inl (Exn ValueError ''epoch must be non-negative'')
      else Inr (r\<lparr>rt_state := ACTIVE, rt_epoch := epoch, rt_proof := p\<rparr>))"

definition rt_can_execute :: "runtime \<Rightarrow> bool" where
  "rt_can_execute r \<longleftrightarrow> rt_state r = ACTIVE"

definition rt_snapshot :: "runtime \<Rightarrow> runtime_snapshot" where
  "rt_snapshot r =
     \<lparr>sn_runtime_id = rt_runtime_id r, sn_agent_id = rt_agent_id r, sn_epoch = rt_epoch r,
      sn_state = rt_state r, sn_can_execute = (rt_state r = ACTIVE)\<rparr>"

definition rt_acquire_lease :: "runtime \<Rightarrow> execution_lease option" where
  "rt_acquire_lease r =
     (if rt_state r \<noteq> ACTIVE then None
      else Some \<lparr>el_agent_id = rt_agent_id r, el_epoch = rt_epoch r,
                 el_proof = Some (rt_proof r)\<rparr>)"

text \<open>
  \<open>issue_if_active(issuer)\<close> and \<open>execute_if_active(lease, executor)\<close> call back while the
  lock is held; the callback is a function on the state \<open>'s\<close> it may change (which does not
  hold this runtime).  \<open>None\<close> stands for the Python value \<open>None\<close> returned without a call.
\<close>

definition rt_issue_if_active ::
  "(execution_lease \<Rightarrow> 's \<Rightarrow> 'a \<times> 's) \<Rightarrow> runtime \<Rightarrow> 's \<Rightarrow> 'a option \<times> 's" where
  "rt_issue_if_active issuer r s =
     (if rt_state r \<noteq> ACTIVE then (None, s)
      else (let (v, s') = issuer \<lparr>el_agent_id = rt_agent_id r, el_epoch = rt_epoch r,
                                   el_proof = Some (rt_proof r)\<rparr> s
            in (Some v, s')))"

definition rt_lease_valid :: "runtime \<Rightarrow> execution_lease \<Rightarrow> bool" where
  "rt_lease_valid r lease \<longleftrightarrow>
     el_agent_id lease = rt_agent_id r \<and> el_epoch lease = rt_epoch r
     \<and> el_proof lease = Some (rt_proof r) \<and> rt_state r = ACTIVE"

definition rt_execute_if_active ::
  "runtime \<Rightarrow> execution_lease \<Rightarrow> ('s \<Rightarrow> 'a \<times> 's) \<Rightarrow> 's \<Rightarrow> 'a option \<times> 's" where
  "rt_execute_if_active r lease executor s =
     (if \<not> (el_agent_id lease = rt_agent_id r \<and> el_epoch lease = rt_epoch r
             \<and> el_proof lease = Some (rt_proof r) \<and> rt_state r = ACTIVE)
      then (None, s)
      else (let (v, s') = executor s in (Some v, s')))"

section \<open>Facts the other components use\<close>

lemma rt_contain_sel [simp]:
  "rt_state (rt_contain p r) = CONTAINED" "rt_epoch (rt_contain p r) = rt_epoch r + 1"
  "rt_proof (rt_contain p r) = p" "rt_agent_id (rt_contain p r) = rt_agent_id r"
  "rt_capability (rt_contain p r) = rt_capability r" "rt_ref (rt_contain p r) = rt_ref r"
  by (simp_all add: rt_contain_def)

lemma rt_halt_sel [simp]:
  "rt_state (rt_halt p r) = HALTED" "rt_epoch (rt_halt p r) = rt_epoch r + 1"
  "rt_proof (rt_halt p r) = p" "rt_agent_id (rt_halt p r) = rt_agent_id r"
  "rt_capability (rt_halt p r) = rt_capability r" "rt_ref (rt_halt p r) = rt_ref r"
  by (simp_all add: rt_halt_def)

lemma rt_recover_Inr:
  "rt_recover p cap e r = Inr (n, r') \<longleftrightarrow>
     0 \<le> e \<and> cap = Some (rt_capability r) \<and> rt_state r = CONTAINED \<and> rt_epoch r = e
     \<and> n = e + 1 \<and> r' = r\<lparr>rt_epoch := e + 1, rt_state := ACTIVE, rt_proof := p\<rparr>"
  by (auto simp: rt_recover_def)

lemma rt_restore_contained_Inr:
  "rt_restore_contained p e r = Inr r' \<longleftrightarrow>
     0 \<le> e \<and> (rt_state r = ACTIVE \<and> r' = r\<lparr>rt_state := CONTAINED, rt_epoch := e, rt_proof := p\<rparr>
             \<or> rt_state r = CONTAINED \<and> rt_epoch r = e \<and> r' = r)"
  by (auto simp: rt_restore_contained_def)

lemma rt_execute_if_active_eq:
  "rt_execute_if_active r lease executor s =
     (if rt_lease_valid r lease then (let (v, s') = executor s in (Some v, s')) else (None, s))"
  by (simp add: rt_execute_if_active_def rt_lease_valid_def)

lemma rt_acquired_lease_valid: "rt_acquire_lease r = Some l \<Longrightarrow> rt_lease_valid r l"
  by (auto simp: rt_acquire_lease_def rt_lease_valid_def split: if_splits)

end
