(* ===== verification/Runtime_Fencing.thy ===== *)
theory Runtime_Fencing
  imports Runtime
begin

text \<open>
  The runtime as a state machine.  Every operation is atomic (it holds \<open>_lock\<close>), so a
  concurrent execution is a sequence of operations.  The state adds to the runtime the next
  unused object number and the results of the calls made so far, leases among them.

  The interface \<open>lease_fence\<close> says what an epoch fence promises; it is interpreted on the
  runtime here, and on the egress and credential leases in their own theories.
\<close>

record runtime_system =
  sys_runtime :: runtime
  sys_next :: obj
  sys_issued :: "execution_lease option list"

datatype runtime_event =
    EvAcquire | EvHalt | EvContain | EvRestoreContained int | EvRotate
  | EvRecover "obj option" int | EvRestoreActive int

text \<open>An operation that raises leaves the runtime as it was; it may still have allocated.\<close>

fun runtime_apply :: "runtime_event \<Rightarrow> obj \<Rightarrow> runtime \<Rightarrow> runtime" where
  "runtime_apply EvAcquire p r = r"
| "runtime_apply EvHalt p r = rt_halt p r"
| "runtime_apply EvContain p r = rt_contain p r"
| "runtime_apply (EvRestoreContained e) p r =
     (case rt_restore_contained p e r of Inl _ \<Rightarrow> r | Inr r' \<Rightarrow> r')"
| "runtime_apply EvRotate p r = snd (rt_rotate_capability p r)"
| "runtime_apply (EvRecover cap e) p r =
     (case rt_recover p cap e r of Inl _ \<Rightarrow> r | Inr (_, r') \<Rightarrow> r')"
| "runtime_apply (EvRestoreActive e) p r =
     (case rt_restore_active p e r of Inl _ \<Rightarrow> r | Inr r' \<Rightarrow> r')"

fun issued_by :: "runtime_event \<Rightarrow> runtime \<Rightarrow> execution_lease option" where
  "issued_by EvAcquire r = rt_acquire_lease r"
| "issued_by _ r = None"

definition runtime_exec :: "runtime_event \<Rightarrow> runtime_system \<Rightarrow> runtime_system" where
  "runtime_exec ev s =
     \<lparr>sys_runtime = runtime_apply ev (sys_next s) (sys_runtime s),
      sys_next = sys_next s + 1,
      sys_issued = issued_by ev (sys_runtime s) # sys_issued s\<rparr>"

inductive runtime_step :: "runtime_system \<Rightarrow> runtime_event \<Rightarrow> runtime_system \<Rightarrow> bool" where
  do_event: "runtime_step s ev (runtime_exec ev s)"

inductive_simps runtime_step_iff: "runtime_step s ev t"

text \<open>A system starts with a new runtime and no lease.\<close>

definition runtime_init :: "string \<Rightarrow> string \<Rightarrow> runtime_system" where
  "runtime_init uuid agent_id =
     \<lparr>sys_runtime = mk_runtime 0 1 2 uuid agent_id None, sys_next = 3, sys_issued = []\<rparr>"

text \<open>
  The invariant: the current proof object and those of all issued leases have been
  allocated, and no lease carries a proof newer than the current one.
\<close>

definition proofs_allocated :: "runtime_system \<Rightarrow> bool" where
  "proofs_allocated s \<longleftrightarrow>
     rt_proof (sys_runtime s) < sys_next s \<and>
     (\<forall>l. Some l \<in> set (sys_issued s) \<longrightarrow> (\<exists>p. el_proof l = Some p \<and> p \<le> rt_proof (sys_runtime s)))"

definition fencing_event :: "runtime_event \<Rightarrow> bool" where
  "fencing_event ev \<longleftrightarrow> ev = EvHalt \<or> ev = EvContain"

section \<open>What an epoch fence promises\<close>

locale lease_fence =
  fixes valid :: "'st \<Rightarrow> 'lease \<Rightarrow> bool"
    and stamp :: "'st \<Rightarrow> nat"
    and lease_stamp :: "'lease \<Rightarrow> nat option"
    and inv :: "'st \<Rightarrow> bool"
    and step :: "'st \<Rightarrow> 'ev \<Rightarrow> 'st \<Rightarrow> bool"
    and fences :: "'ev \<Rightarrow> bool"
  assumes valid_stamp: "valid s l \<Longrightarrow> lease_stamp l = Some (stamp s)"
    and inv_step: "step s e t \<Longrightarrow> inv s \<Longrightarrow> inv t"
    and stamp_mono: "step s e t \<Longrightarrow> inv s \<Longrightarrow> stamp s \<le> stamp t"
    and fence_strict: "step s e t \<Longrightarrow> inv s \<Longrightarrow> fences e \<Longrightarrow> stamp s < stamp t"
begin

lemma run_mono: "runs step s es t \<Longrightarrow> inv s \<Longrightarrow> stamp s \<le> stamp t"
  by (induction rule: runs.induct) (auto dest: stamp_mono inv_step intro: order_trans)

lemma run_fence:
  "runs step s es t \<Longrightarrow> inv s \<Longrightarrow> \<exists>e \<in> set es. fences e \<Longrightarrow> stamp s < stamp t"
proof (induction rule: runs.induct)
  case (runs_nil s)
  then show ?case by simp
next
  case (runs_cons s e u es t)
  then have u: "inv u" "stamp s \<le> stamp u" and t: "stamp u \<le> stamp t"
    by (auto intro: inv_step stamp_mono run_mono)
  show ?case
  proof (cases "fences e")
    case True
    then have "stamp s < stamp u" using runs_cons by (auto intro: fence_strict)
    with t show ?thesis by simp
  next
    case False
    with runs_cons u show ?thesis by auto
  qed
qed

lemma stale_after_fence:
  assumes "inv s" and "runs step s es t" and "\<exists>e \<in> set es. fences e"
    and "\<And>n. lease_stamp l = Some n \<Longrightarrow> n \<le> stamp s"
  shows "\<not> valid t l"
proof
  assume "valid t l"
  then have "lease_stamp l = Some (stamp t)" by (rule valid_stamp)
  then have "stamp t \<le> stamp s" by (rule assms(4))
  with run_fence [OF assms(2,1,3)] show False by simp
qed

end

section \<open>The runtime provides the fence\<close>

lemma runtime_apply_proof:
  "rt_proof (runtime_apply ev p r) = rt_proof r \<or> rt_proof (runtime_apply ev p r) = p"
  by (cases ev)
     (simp_all add: rt_restore_contained_def rt_recover_def rt_restore_active_def
        rt_rotate_capability_def)

lemma runtime_apply_fencing: "fencing_event ev \<Longrightarrow> rt_proof (runtime_apply ev p r) = p"
  by (auto simp: fencing_event_def)

lemma issued_by_proof: "issued_by ev r = Some l \<Longrightarrow> el_proof l = Some (rt_proof r)"
  by (cases ev) (auto simp: rt_acquire_lease_def split: if_splits)

lemma issued_proof_le:
  "issued_by ev r = Some l \<Longrightarrow> rt_proof r < p \<Longrightarrow>
     \<exists>q. el_proof l = Some q \<and> q \<le> rt_proof (runtime_apply ev p r)"
  using issued_by_proof [of ev r l] runtime_apply_proof [of ev p r] by auto

lemma runtime_step_proof_mono:
  "runtime_step s ev t \<Longrightarrow> proofs_allocated s \<Longrightarrow>
     rt_proof (sys_runtime s) \<le> rt_proof (sys_runtime t)"
  using runtime_apply_proof [of ev "sys_next s" "sys_runtime s"]
  by (auto simp: runtime_step_iff runtime_exec_def proofs_allocated_def)

lemma runtime_step_allocated:
  assumes "runtime_step s ev t" and "proofs_allocated s"
  shows "proofs_allocated t"
proof -
  have mono: "rt_proof (sys_runtime s) \<le> rt_proof (sys_runtime t)"
    using assms by (rule runtime_step_proof_mono)
  have below: "rt_proof (sys_runtime t) < sys_next t"
    using assms runtime_apply_proof [of ev "sys_next s" "sys_runtime s"]
    by (auto simp: runtime_step_iff runtime_exec_def proofs_allocated_def)
  have "\<exists>p. el_proof l = Some p \<and> p \<le> rt_proof (sys_runtime t)"
    if "Some l \<in> set (sys_issued t)" for l
  proof (cases "Some l \<in> set (sys_issued s)")
    case True
    with assms(2) mono show ?thesis by (fastforce simp: proofs_allocated_def)
  next
    case False
    with that assms show ?thesis
      by (auto simp: runtime_step_iff runtime_exec_def proofs_allocated_def intro!: issued_proof_le)
  qed
  with below show ?thesis by (auto simp: proofs_allocated_def)
qed

lemma runtime_step_fence_strict:
  "runtime_step s ev t \<Longrightarrow> proofs_allocated s \<Longrightarrow> fencing_event ev \<Longrightarrow>
     rt_proof (sys_runtime s) < rt_proof (sys_runtime t)"
  by (auto simp: runtime_step_iff runtime_exec_def runtime_apply_fencing proofs_allocated_def)

interpretation execution_fence: lease_fence
  "\<lambda>s. rt_lease_valid (sys_runtime s)" "\<lambda>s. rt_proof (sys_runtime s)" el_proof
  proofs_allocated runtime_step fencing_event
proof unfold_locales
  show "el_proof l = Some (rt_proof (sys_runtime s))" if "rt_lease_valid (sys_runtime s) l" for s l
    using that by (simp add: rt_lease_valid_def)
qed (auto intro: runtime_step_allocated runtime_step_proof_mono runtime_step_fence_strict)

lemma runtime_init_allocated: "proofs_allocated (runtime_init uuid a)"
  by (simp add: proofs_allocated_def runtime_init_def mk_runtime_def)

text \<open>
  C13: Once an execution lease has been issued, any halt or containment that follows makes
  it invalid for good: no later interleaving of operations, recovery and controller restarts
  included, makes it valid again.  This holds in every execution from a new runtime.
\<close>

theorem fenced_lease_never_valid_again:
  assumes "runs runtime_step (runtime_init uuid agent_id) before s"
    and "Some lease \<in> set (sys_issued s)"
    and "runs runtime_step s after t"
    and "EvHalt \<in> set after \<or> EvContain \<in> set after"
  shows "\<not> rt_lease_valid (sys_runtime t) lease"
proof (rule execution_fence.stale_after_fence)
  show inv: "proofs_allocated s"
    using assms(1) runtime_init_allocated runtime_step_allocated by (rule runs_invariant)
  show "runs runtime_step s after t" by (rule assms(3))
  show "\<exists>e \<in> set after. fencing_event e" using assms(4) by (auto simp: fencing_event_def)
  show "n \<le> rt_proof (sys_runtime s)" if "el_proof lease = Some n" for n
    using that inv assms(2) by (auto simp: proofs_allocated_def)
qed

theorem fenced_lease_never_valid_again_witness:
  "let s = runtime_exec EvAcquire (runtime_init ''u'' ''agent'');
       t = runtime_exec (EvRecover (Some 2) 1) (runtime_exec EvContain s);
       l = \<lparr>el_agent_id = ''agent'', el_epoch = 0, el_proof = Some 1\<rparr>
   in rt_lease_valid (sys_runtime s) l \<and> rt_state (sys_runtime t) = ACTIVE
      \<and> \<not> rt_lease_valid (sys_runtime t) l"
proof -
  let ?i = "runtime_init ''u'' ''agent''"
  let ?s = "runtime_exec EvAcquire ?i"
  let ?t = "runtime_exec (EvRecover (Some 2) 1) (runtime_exec EvContain ?s)"
  let ?l = "\<lparr>el_agent_id = ''agent'', el_epoch = 0, el_proof = Some 1\<rparr>"
  have before: "runs runtime_step ?i [EvAcquire] ?s"
    by (auto simp: runs_Cons_iff runtime_step_iff)
  have issued: "Some ?l \<in> set (sys_issued ?s)"
    by (simp add: runtime_exec_def runtime_init_def mk_runtime_def rt_acquire_lease_def)
  have after: "runs runtime_step ?s [EvContain, EvRecover (Some 2) 1] ?t"
    by (auto simp: runs_Cons_iff runtime_step_iff)
  have "\<not> rt_lease_valid (sys_runtime ?t) ?l"
    by (rule fenced_lease_never_valid_again [OF before issued after]) simp
  then show ?thesis
    by (simp add: runtime_exec_def runtime_init_def mk_runtime_def rt_lease_valid_def
        rt_contain_def rt_recover_def)
qed

section \<open>How a runtime becomes executable\<close>

text \<open>
  A runtime that is not ACTIVE (paused, halted or contained) becomes executable only by
  a recovery that presents the current recovery capability and the exact contained epoch, or
  by the explicit restoration of an active runtime; the recovery moves the epoch on by one.
\<close>

theorem only_authorized_activation:
  assumes "runtime_step s ev t"
    and "\<not> rt_can_execute (sys_runtime s)" and "rt_can_execute (sys_runtime t)"
  shows "(ev = EvRecover (Some (rt_capability (sys_runtime s))) (rt_epoch (sys_runtime s))
            \<and> rt_state (sys_runtime s) = CONTAINED
            \<and> rt_epoch (sys_runtime t) = rt_epoch (sys_runtime s) + 1)
         \<or> (\<exists>e. ev = EvRestoreActive e \<and> rt_epoch (sys_runtime t) = e)"
  using assms
  by (cases ev)
     (auto simp: runtime_step_iff runtime_exec_def rt_can_execute_def rt_restore_contained_def
       rt_recover_def rt_restore_active_def rt_rotate_capability_def split: if_splits)

theorem only_authorized_activation_witness:
  "let s = runtime_exec EvContain (runtime_init ''u'' ''agent'');
       t = runtime_exec (EvRecover (Some 2) 1) s
   in \<not> rt_can_execute (sys_runtime s) \<and> rt_can_execute (sys_runtime t)
      \<and> rt_epoch (sys_runtime t) = rt_epoch (sys_runtime s) + 1"
proof -
  let ?s = "runtime_exec EvContain (runtime_init ''u'' ''agent'')"
  let ?t = "runtime_exec (EvRecover (Some 2) 1) ?s"
  have step: "runtime_step ?s (EvRecover (Some 2) 1) ?t"
    by (simp add: runtime_step_iff)
  have before: "\<not> rt_can_execute (sys_runtime ?s)"
    by (simp add: runtime_exec_def rt_can_execute_def)
  have after: "rt_can_execute (sys_runtime ?t)"
    by (simp add: runtime_exec_def runtime_init_def mk_runtime_def rt_can_execute_def
        rt_contain_def rt_recover_def)
  show ?thesis
    using only_authorized_activation [OF step before after] before after by simp
qed

text \<open>
  Apart from the two controller-restart restorations, the epoch never goes back: a halt,
  a containment and a successful recovery move it on by exactly one and every other
  operation, failed ones included, leaves it.
\<close>

theorem epoch_advances_by_one:
  assumes "runtime_step s ev t"
    and "\<forall>e. ev \<noteq> EvRestoreContained e \<and> ev \<noteq> EvRestoreActive e"
  shows "rt_epoch (sys_runtime t) = rt_epoch (sys_runtime s)
           + (if fencing_event ev
                 \<or> (\<not> rt_can_execute (sys_runtime s) \<and> rt_can_execute (sys_runtime t))
              then 1 else 0)"
  using assms
  by (cases ev)
     (auto simp: runtime_step_iff runtime_exec_def rt_can_execute_def fencing_event_def
       rt_recover_def rt_rotate_capability_def split: if_splits)

theorem epoch_advances_by_one_witness:
  "rt_epoch (sys_runtime (runtime_exec EvContain (runtime_init ''u'' ''agent''))) = 1"
proof -
  let ?i = "runtime_init ''u'' ''agent''"
  have "runtime_step ?i EvContain (runtime_exec EvContain ?i)"
    by (simp add: runtime_step_iff)
  from epoch_advances_by_one [OF this] show ?thesis
    by (simp add: fencing_event_def runtime_init_def mk_runtime_def)
qed

end
