(* ===== verification/Credentials.thy ===== *)
theory Credentials
  imports Runtime_Fencing
begin

text \<open>
  \<open>credentials.py\<close>: revocable credentials, optionally bound to a runtime.

  The store's lock and, when a runtime is bound, the runtime's lock are held together, so
  each operation is one atomic step on the store and the runtime.  The bound runtime, a
  shared object, is an argument: \<open>None\<close> for a store without one.
\<close>

record credential_lease =
  cl_credential_id :: string
  cl_epoch :: int
  cl_proof :: "obj option"

record credential_store =
  cs_credentials :: "string set"
  cs_epochs :: "string \<rightharpoonup> int"

definition credential_epoch :: "credential_store \<Rightarrow> string \<Rightarrow> int" where
  "credential_epoch st cid = (case cs_epochs st cid of None \<Rightarrow> 0 | Some e \<Rightarrow> e)"

text \<open>The callback \<open>issue\<close> that runs under the runtime's lock.\<close>

definition issue_under_runtime ::
  "string \<Rightarrow> execution_lease \<Rightarrow> credential_store \<Rightarrow> credential_lease \<times> credential_store" where
  "issue_under_runtime cid rl st =
     (\<lparr>cl_credential_id = cid, cl_epoch = el_epoch rl, cl_proof = el_proof rl\<rparr>,
      st\<lparr>cs_credentials := insert cid (cs_credentials st),
         cs_epochs := (cs_epochs st)(cid \<mapsto> el_epoch rl)\<rparr>)"

definition cs_issue ::
  "string \<Rightarrow> runtime option \<Rightarrow> credential_store \<Rightarrow> (exn + credential_lease) \<times> credential_store" where
  "cs_issue cid rt st =
     (case rt of
        Some r \<Rightarrow>
          (case rt_issue_if_active (issue_under_runtime cid) r st of
             (None, st') \<Rightarrow>
               (Inl (Exn RuntimeError ''credential issuance requires an active runtime''), st')
           | (Some lease, st') \<Rightarrow> (Inr lease, st'))
      | None \<Rightarrow>
          (Inr \<lparr>cl_credential_id = cid, cl_epoch = credential_epoch st cid, cl_proof = None\<rparr>,
           st\<lparr>cs_credentials := insert cid (cs_credentials st)\<rparr>))"

definition cs_revoke :: "string \<Rightarrow> credential_store \<Rightarrow> credential_store" where
  "cs_revoke cid st =
     st\<lparr>cs_credentials := cs_credentials st - {cid},
        cs_epochs := (cs_epochs st)(cid \<mapsto> credential_epoch st cid + 1)\<rparr>"

text \<open>
  \<open>revoke_all\<close> iterates over the set of present credentials, so it bumps the epoch of each
  of them once and of no other, then clears the set.
\<close>

definition cs_revoke_all :: "credential_store \<Rightarrow> credential_store" where
  "cs_revoke_all st =
     st\<lparr>cs_epochs := (\<lambda>cid. if cid \<in> cs_credentials st then Some (credential_epoch st cid + 1)
                            else cs_epochs st cid),
        cs_credentials := {}\<rparr>"

definition cs_present :: "credential_store \<Rightarrow> credential_lease \<Rightarrow> bool" where
  "cs_present st lease \<longleftrightarrow>
     cl_credential_id lease \<in> cs_credentials st
     \<and> cl_epoch lease = credential_epoch st (cl_credential_id lease)"

definition runtime_lease_of :: "runtime \<Rightarrow> credential_lease \<Rightarrow> execution_lease" where
  "runtime_lease_of r lease =
     \<lparr>el_agent_id = rt_agent_id r, el_epoch = cl_epoch lease, el_proof = cl_proof lease\<rparr>"

definition cs_valid :: "runtime option \<Rightarrow> credential_store \<Rightarrow> credential_lease \<Rightarrow> bool" where
  "cs_valid rt st lease =
     (case rt of
        Some r \<Rightarrow> if \<not> rt_lease_valid r (runtime_lease_of r lease) then False
                  else cs_present st lease
      | None \<Rightarrow> cs_present st lease)"

text \<open>
  \<open>execute_if_valid\<close>; \<open>executor\<close> acts on the world \<open>'s\<close>.  The result \<open>None\<close> is Python's
  \<open>None\<close>: the executor was not called.
\<close>

definition cs_execute_if_valid ::
  "runtime option \<Rightarrow> credential_store \<Rightarrow> credential_lease \<Rightarrow> ('s \<Rightarrow> 'a \<times> 's) \<Rightarrow> 's \<Rightarrow>
     'a option \<times> 's" where
  "cs_execute_if_valid rt st lease executor s =
     (let guarded = (\<lambda>s. if \<not> cs_present st lease then (None, s)
                         else (let (v, s') = executor s in (Some v, s')))
      in case rt of
           Some r \<Rightarrow> (case rt_execute_if_active r (runtime_lease_of r lease) guarded s of
                        (None, s') \<Rightarrow> (None, s') | (Some v, s') \<Rightarrow> (v, s'))
         | None \<Rightarrow> guarded s)"

section \<open>Credentials bound to a runtime are fenced with it\<close>

lemma cs_valid_runtime: "cs_valid (Some r) st lease \<Longrightarrow> rt_lease_valid r (runtime_lease_of r lease)"
  by (simp add: cs_valid_def split: if_splits)

interpretation credential_fence: lease_fence
  "\<lambda>s lease. \<exists>st. cs_valid (Some (sys_runtime s)) st lease" "\<lambda>s. rt_proof (sys_runtime s)" cl_proof
  proofs_allocated runtime_step fencing_event
proof unfold_locales
  fix s lease
  assume "\<exists>st. cs_valid (Some (sys_runtime s)) st lease"
  then have "rt_lease_valid (sys_runtime s) (runtime_lease_of (sys_runtime s) lease)"
    by (auto dest: cs_valid_runtime)
  then show "cl_proof lease = Some (rt_proof (sys_runtime s))"
    by (simp add: rt_lease_valid_def runtime_lease_of_def)
qed (auto intro: runtime_step_allocated runtime_step_proof_mono runtime_step_fence_strict)

lemma cs_issue_bound:
  "cs_issue cid (Some r) st = (Inr lease, st') \<longleftrightarrow>
     rt_state r = ACTIVE
     \<and> lease = \<lparr>cl_credential_id = cid, cl_epoch = rt_epoch r, cl_proof = Some (rt_proof r)\<rparr>
     \<and> st' = st\<lparr>cs_credentials := insert cid (cs_credentials st),
                cs_epochs := (cs_epochs st)(cid \<mapsto> rt_epoch r)\<rparr>"
  by (auto simp: cs_issue_def rt_issue_if_active_def issue_under_runtime_def)

text \<open>
  A credential issued by a store bound to a runtime is valid when issued and, once the
  runtime has been halted or contained, is never valid again, whatever is issued, revoked or
  put into the store afterwards and however the runtime is recovered or restored.
\<close>

theorem credential_revoked_by_fence:
  assumes "proofs_allocated s"
    and "cs_issue cid (Some (sys_runtime s)) st = (Inr lease, st')"
    and "runs runtime_step s after t" and "\<exists>e \<in> set after. fencing_event e"
  shows "cs_valid (Some (sys_runtime s)) st' lease
         \<and> \<not> cs_valid (Some (sys_runtime t)) later lease"
proof
  show "cs_valid (Some (sys_runtime s)) st' lease"
    using assms(2)
    by (simp add: cs_issue_bound cs_valid_def rt_lease_valid_def runtime_lease_of_def
        cs_present_def credential_epoch_def)
  have "\<not> (\<exists>st. cs_valid (Some (sys_runtime t)) st lease)"
    by (rule credential_fence.stale_after_fence [OF assms(1,3,4)])
       (use assms(2) in \<open>simp add: cs_issue_bound\<close>)
  then show "\<not> cs_valid (Some (sys_runtime t)) later lease" by blast
qed

theorem credential_revoked_by_fence_witness:
  "let s = runtime_init ''u'' ''agent''; t = runtime_exec EvContain s;
       st = \<lparr>cs_credentials = {}, cs_epochs = Map.empty\<rparr>;
       lease = \<lparr>cl_credential_id = ''key'', cl_epoch = 0, cl_proof = Some 1\<rparr>
   in fst (cs_issue ''key'' (Some (sys_runtime s)) st) = Inr lease
      \<and> \<not> cs_valid (Some (sys_runtime t)) (snd (cs_issue ''key'' (Some (sys_runtime s)) st)) lease"
proof -
  let ?s = "runtime_init ''u'' ''agent''"
  let ?t = "runtime_exec EvContain ?s"
  let ?st = "\<lparr>cs_credentials = {}, cs_epochs = Map.empty\<rparr>"
  let ?lease = "\<lparr>cl_credential_id = ''key'', cl_epoch = 0, cl_proof = Some 1\<rparr>"
  have issue: "cs_issue ''key'' (Some (sys_runtime ?s)) ?st
      = (Inr ?lease, snd (cs_issue ''key'' (Some (sys_runtime ?s)) ?st))"
    by (simp add: cs_issue_def rt_issue_if_active_def issue_under_runtime_def runtime_init_def
        mk_runtime_def)
  have run: "runs runtime_step ?s [EvContain] ?t"
    by (simp add: runs_Cons_iff runtime_step_iff)
  show ?thesis
    using credential_revoked_by_fence [OF runtime_init_allocated issue run] issue
    by (simp add: fencing_event_def prod_eq_iff)
qed

section \<open>Revocation of a single credential\<close>

fun reissue :: "nat \<Rightarrow> runtime option \<Rightarrow> string \<Rightarrow> credential_store \<Rightarrow> credential_store" where
  "reissue 0 rt cid st = st"
| "reissue (Suc n) rt cid st = reissue n rt cid (snd (cs_issue cid rt st))"

lemma reissue_epoch: "credential_epoch (reissue n None cid st) cid' = credential_epoch st cid'"
  by (induction n arbitrary: st) (simp_all add: cs_issue_def credential_epoch_def)

text \<open>
  In a store without a runtime, revocation is final for the leases it revokes: after
  \<open>revoke\<close>, re-issuing the credential any number of times produces leases of the new epoch
  and the old lease stays invalid.
\<close>

theorem unbound_revocation_is_final:
  assumes "cs_issue cid None st = (Inr lease, st')"
  shows "cs_valid None st' lease \<and> \<not> cs_valid None (reissue n None cid (cs_revoke cid st')) lease"
proof -
  have "credential_epoch (reissue n None cid (cs_revoke cid st')) cid = credential_epoch st' cid + 1"
    by (simp add: reissue_epoch) (simp add: cs_revoke_def credential_epoch_def)
  moreover have "cl_credential_id lease = cid" "cl_epoch lease = credential_epoch st' cid"
      "cid \<in> cs_credentials st'"
    using assms by (auto simp: cs_issue_def credential_epoch_def)
  ultimately show ?thesis by (simp add: cs_valid_def cs_present_def)
qed

theorem unbound_revocation_is_final_witness:
  "\<not> cs_valid None
      (reissue 1 None ''key'' (cs_revoke ''key''
         \<lparr>cs_credentials = {''key''}, cs_epochs = Map.empty\<rparr>))
      \<lparr>cl_credential_id = ''key'', cl_epoch = 0, cl_proof = None\<rparr>"
proof -
  have "cs_issue ''key'' None \<lparr>cs_credentials = {}, cs_epochs = Map.empty\<rparr>
      = (Inr \<lparr>cl_credential_id = ''key'', cl_epoch = 0, cl_proof = None\<rparr>,
         \<lparr>cs_credentials = {''key''}, cs_epochs = Map.empty\<rparr>)"
    by (simp add: cs_issue_def credential_epoch_def)
  from unbound_revocation_is_final [OF this, of 1] show ?thesis by blast
qed

text \<open>
  In a store bound to a runtime it is not: \<open>issue\<close> overwrites the credential's epoch
  with the runtime's, so as long as the runtime is not fenced, re-issuing a revoked
  credential makes the revoked lease valid again.
\<close>

theorem bound_reissue_revives_revoked_lease:
  assumes "cs_issue cid (Some r) st = (Inr lease, st')"
  shows "let revoked = cs_revoke cid st' in
           \<not> cs_valid (Some r) revoked lease
           \<and> cs_valid (Some r) (snd (cs_issue cid (Some r) revoked)) lease"
proof -
  let ?revoked = "cs_revoke cid st'"
  have active: "rt_state r = ACTIVE"
    and lease: "lease = \<lparr>cl_credential_id = cid, cl_epoch = rt_epoch r, cl_proof = Some (rt_proof r)\<rparr>"
    using assms by (simp_all add: cs_issue_bound)
  obtain st'' where again: "cs_issue cid (Some r) ?revoked = (Inr lease, st'')"
    using active lease by (auto simp: cs_issue_bound)
  have "cs_valid (Some r) st'' lease"
    using again lease
    by (auto simp: cs_issue_bound cs_valid_def rt_lease_valid_def runtime_lease_of_def
        cs_present_def credential_epoch_def)
  moreover have "\<not> cs_valid (Some r) ?revoked lease"
    by (simp add: lease cs_valid_def cs_present_def cs_revoke_def)
  ultimately show ?thesis by (simp add: again)
qed

theorem bound_reissue_revives_revoked_lease_witness:
  "let r = mk_runtime 0 1 2 ''u'' ''agent'' None;
       issue = (\<lambda>st. snd (cs_issue ''key'' (Some r) st));
       st = \<lparr>cs_credentials = {}, cs_epochs = Map.empty\<rparr>;
       lease = \<lparr>cl_credential_id = ''key'', cl_epoch = 0, cl_proof = Some 1\<rparr>
   in \<not> cs_valid (Some r) (cs_revoke ''key'' (issue st)) lease
      \<and> cs_valid (Some r) (issue (cs_revoke ''key'' (issue st))) lease"
proof -
  let ?r = "mk_runtime 0 1 2 ''u'' ''agent'' None"
  let ?st = "\<lparr>cs_credentials = {}, cs_epochs = Map.empty\<rparr>"
  let ?lease = "\<lparr>cl_credential_id = ''key'', cl_epoch = 0, cl_proof = Some 1\<rparr>"
  have "cs_issue ''key'' (Some ?r) ?st = (Inr ?lease, snd (cs_issue ''key'' (Some ?r) ?st))"
    by (simp add: cs_issue_def rt_issue_if_active_def issue_under_runtime_def mk_runtime_def)
  from bound_reissue_revives_revoked_lease [OF this] show ?thesis by (simp add: Let_def)
qed

end
