(* ===== verification/Egress.thy ===== *)
theory Egress
  imports Runtime_Fencing
begin

text \<open>
  \<open>egress.py\<close>: egress leases and the registry of in-flight connections.

  The controller's runtime is a shared object and an argument of the operations that read
  it.  A terminator is a callback on the outside world \<open>'w\<close> that may raise.
\<close>

record egress_lease =
  eg_agent_id :: string
  eg_epoch :: int
  eg_proof :: "obj option"

type_synonym 'w terminator = "('w, unit) prog"

record 'w egress_controller =
  eg_connections :: "'w terminator dict dict"

definition eg_acquire_lease :: "runtime \<Rightarrow> egress_lease option" where
  "eg_acquire_lease r =
     (case rt_acquire_lease r of
        None \<Rightarrow> None
      | Some l \<Rightarrow> Some \<lparr>eg_agent_id = el_agent_id l, eg_epoch = el_epoch l, eg_proof = el_proof l\<rparr>)"

definition execution_lease_of :: "egress_lease \<Rightarrow> execution_lease" where
  "execution_lease_of l =
     \<lparr>el_agent_id = eg_agent_id l, el_epoch = eg_epoch l, el_proof = eg_proof l\<rparr>"

definition eg_lease_valid :: "runtime \<Rightarrow> egress_lease \<Rightarrow> bool" where
  "eg_lease_valid r l = rt_lease_valid r (execution_lease_of l)"

definition eg_authorize :: "runtime \<Rightarrow> egress_lease \<Rightarrow> bool" where
  "eg_authorize r l = eg_lease_valid r l"

definition connections_of :: "'w egress_controller \<Rightarrow> string \<Rightarrow> 'w terminator dict" where
  "connections_of eg a = (case dict_get (eg_connections eg) a of None \<Rightarrow> [] | Some d \<Rightarrow> d)"

definition eg_register_connection ::
  "runtime \<Rightarrow> string \<Rightarrow> string \<Rightarrow> 'w terminator \<Rightarrow> 'w egress_controller \<Rightarrow>
     bool \<times> 'w egress_controller" where
  "eg_register_connection r agent_id cid term eg =
     (if agent_id \<noteq> rt_agent_id r \<or> \<not> rt_can_execute r then (False, eg)
      else (True, eg\<lparr>eg_connections :=
                       dict_set agent_id (dict_set cid term (connections_of eg agent_id))
                         (eg_connections eg)\<rparr>))"

definition eg_unregister_connection ::
  "string \<Rightarrow> string \<Rightarrow> 'w egress_controller \<Rightarrow> 'w egress_controller" where
  "eg_unregister_connection agent_id cid eg =
     (if connections_of eg agent_id = [] then eg
      else (let conns = dict_del cid (connections_of eg agent_id) in
            if conns = [] then eg\<lparr>eg_connections := dict_del agent_id (eg_connections eg)\<rparr>
            else eg\<lparr>eg_connections := dict_set agent_id conns (eg_connections eg)\<rparr>))"

text \<open>\<open>agent_id or self.runtime.agent_id\<close>: an absent or empty id means the runtime's.\<close>

definition target_agent :: "runtime \<Rightarrow> string option \<Rightarrow> string" where
  "target_agent r a = (case a of None \<Rightarrow> rt_agent_id r | Some s \<Rightarrow> if s = [] then rt_agent_id r else s)"

definition eg_active_connection_ids ::
  "runtime \<Rightarrow> string option \<Rightarrow> 'w egress_controller \<Rightarrow> string list" where
  "eg_active_connection_ids r a eg = map fst (connections_of eg (target_agent r a))"

text \<open>The loop over the terminators: one that raises is skipped and not counted.\<close>

fun terminate_each :: "'w terminator list \<Rightarrow> nat \<Rightarrow> 'w \<Rightarrow> nat \<times> 'w" where
  "terminate_each [] n w = (n, w)"
| "terminate_each (t # ts) n w =
     (case t w of (Inr _, w') \<Rightarrow> terminate_each ts (n + 1) w' | (Inl _, w') \<Rightarrow> terminate_each ts n w')"

definition eg_terminate_all ::
  "runtime \<Rightarrow> string option \<Rightarrow> 'w egress_controller \<Rightarrow> 'w \<Rightarrow> (nat \<times> 'w egress_controller) \<times> 'w" where
  "eg_terminate_all r a eg w =
     (let target = target_agent r a;
          (n, w') = terminate_each (dict_values (connections_of eg target)) 0 w
      in ((n, eg\<lparr>eg_connections := dict_del target (eg_connections eg)\<rparr>), w'))"

section \<open>Egress leases are fenced with the runtime\<close>

interpretation egress_fence: lease_fence
  "\<lambda>s. eg_authorize (sys_runtime s)" "\<lambda>s. rt_proof (sys_runtime s)" eg_proof
  proofs_allocated runtime_step fencing_event
proof unfold_locales
  show "eg_proof l = Some (rt_proof (sys_runtime s))" if "eg_authorize (sys_runtime s) l" for s l
    using that by (simp add: eg_authorize_def eg_lease_valid_def rt_lease_valid_def
        execution_lease_of_def)
qed (auto intro: runtime_step_allocated runtime_step_proof_mono runtime_step_fence_strict)

lemma eg_acquire_lease_Some:
  "eg_acquire_lease r = Some l \<longleftrightarrow>
     rt_state r = ACTIVE
     \<and> l = \<lparr>eg_agent_id = rt_agent_id r, eg_epoch = rt_epoch r, eg_proof = Some (rt_proof r)\<rparr>"
  by (auto simp: eg_acquire_lease_def rt_acquire_lease_def)

text \<open>
  An egress lease authorizes egress when acquired, and not once the runtime has been
  halted or contained, even after recovery or a restart.
\<close>

theorem egress_lease_fenced:
  assumes "proofs_allocated s" and "eg_acquire_lease (sys_runtime s) = Some lease"
    and "runs runtime_step s after t" and "\<exists>e \<in> set after. fencing_event e"
  shows "eg_authorize (sys_runtime s) lease \<and> \<not> eg_authorize (sys_runtime t) lease"
proof
  show "eg_authorize (sys_runtime s) lease"
    using assms(2) by (auto simp: eg_acquire_lease_Some eg_authorize_def eg_lease_valid_def
        rt_lease_valid_def execution_lease_of_def)
  show "\<not> eg_authorize (sys_runtime t) lease"
    by (rule egress_fence.stale_after_fence [OF assms(1,3,4)])
       (use assms(2) in \<open>simp add: eg_acquire_lease_Some\<close>)
qed

theorem egress_lease_fenced_witness:
  "let s = runtime_init ''u'' ''agent''; t = runtime_exec (EvRecover (Some 2) 1) (runtime_exec EvContain s);
       l = \<lparr>eg_agent_id = ''agent'', eg_epoch = 0, eg_proof = Some 1\<rparr>
   in eg_acquire_lease (sys_runtime s) = Some l \<and> rt_can_execute (sys_runtime t)
      \<and> \<not> eg_authorize (sys_runtime t) l"
proof -
  let ?s = "runtime_init ''u'' ''agent''"
  let ?t = "runtime_exec (EvRecover (Some 2) 1) (runtime_exec EvContain ?s)"
  let ?l = "\<lparr>eg_agent_id = ''agent'', eg_epoch = 0, eg_proof = Some 1\<rparr>"
  have acq: "eg_acquire_lease (sys_runtime ?s) = Some ?l"
    by (simp add: eg_acquire_lease_Some runtime_init_def mk_runtime_def)
  have run: "runs runtime_step ?s [EvContain, EvRecover (Some 2) 1] ?t"
    by (auto simp: runs_Cons_iff runtime_step_iff)
  have "rt_can_execute (sys_runtime ?t)"
    by (simp add: runtime_exec_def runtime_init_def mk_runtime_def rt_can_execute_def
        rt_contain_def rt_recover_def)
  then show ?thesis
    using egress_lease_fenced [OF runtime_init_allocated acq run] acq
    by (simp add: fencing_event_def)
qed

section \<open>The registry\<close>

lemma terminate_each_bound: "fst (terminate_each ts n w) \<le> n + length ts"
proof (induction ts arbitrary: n w)
  case (Cons t ts)
  show ?case
  proof (cases "t w")
    case (Pair r w')
    then show ?thesis using Cons.IH [of n w'] Cons.IH [of "n + 1" w'] by (cases r) auto
  qed
qed simp

text \<open>
  Terminating an agent's connections empties its registry entry even when terminators
  raise, leaves the connections of every other agent registered, and counts at most one
  termination per registered connection.
\<close>

theorem terminate_all_clears_agent:
  "let ((n, eg'), w') = eg_terminate_all r a eg w in
     eg_active_connection_ids r a eg' = []
     \<and> n \<le> length (eg_active_connection_ids r a eg)
     \<and> (\<forall>b. b \<noteq> target_agent r a \<longrightarrow> connections_of eg' b = connections_of eg b)"
  using terminate_each_bound [of "dict_values (connections_of eg (target_agent r a))" 0 w]
  by (auto simp: eg_terminate_all_def eg_active_connection_ids_def connections_of_def Let_def
      dict_values_def split: prod.splits)

theorem terminate_all_clears_agent_witness:
  "let r = mk_runtime 0 1 2 ''u'' ''agent'' None;
       fails = (\<lambda>w. (Inl (Exn RuntimeError ''x''), w)); works = (\<lambda>w. (Inr (), w + (1::nat)));
       eg = \<lparr>eg_connections = [(''agent'', [(''c1'', fails), (''c2'', works)])]\<rparr>;
       result = eg_terminate_all r None eg 0
   in fst (fst result) = 1 \<and> snd result = 1
      \<and> eg_active_connection_ids r None (snd (fst result)) = []"
proof -
  let ?r = "mk_runtime 0 1 2 ''u'' ''agent'' None"
  let ?fails = "\<lambda>w. (Inl (Exn RuntimeError ''x''), w)" and ?works = "\<lambda>w. (Inr (), w + (1::nat))"
  let ?eg = "\<lparr>eg_connections = [(''agent'', [(''c1'', ?fails), (''c2'', ?works)])]\<rparr>"
  have run: "eg_terminate_all ?r None ?eg 0 = ((1, \<lparr>eg_connections = []\<rparr>), 1)"
    by (simp add: eg_terminate_all_def target_agent_def mk_runtime_def connections_of_def
        dict_get_def dict_values_def dict_del_def)
  show ?thesis
    using terminate_all_clears_agent [of ?r None ?eg 0] run by (simp add: Let_def)
qed

section \<open>Closing a socket\<close>

text \<open>\<open>hard_close_socket\<close>: \<open>linger\<close> is the \<open>setsockopt\<close> call with the imports before it.\<close>

definition hard_close_socket :: "('w, unit) prog \<Rightarrow> ('w, unit) prog \<Rightarrow> ('w, unit) prog" where
  "hard_close_socket linger close_socket =
     andthen (attempt linger) (\<lambda>r.
     andthen close_socket (\<lambda>_.
       case r of
         Inr _ \<Rightarrow> ret ()
       | Inl e \<Rightarrow> if is_os_error e \<or> exn_class e \<in> {OtherException ''AttributeError'', OtherException ''ImportError''}
                  then ret () else raise e))"

text \<open>The socket is closed last, whatever became of the option, so its close decides the state that is left.\<close>

lemma hard_close_closes: "snd (hard_close_socket linger close_socket w) = snd (close_socket (snd (linger w)))"
  by (cases "linger w") (auto simp: hard_close_socket_def prog_defs split: prod.split sum.split)

end
