(* ===== verification/Containment.thy ===== *)
theory Containment
  imports Enforcer Credentials Egress
begin

text \<open>
  \<open>containment.py\<close>: the containment controller, its reports and the recovery transaction.

  The controller owns the runtime object; credentials, egress registry, process and kernel
  adapters are optional parts it was configured with.  Adapters are callbacks on the outside
  world \<open>'w\<close> that may raise.  The evidence records and receipts, which serialise a report,
  are not part of this theory.
\<close>

record containment_report =
  rep_agent_id :: string
  rep_epoch :: int
  rep_stages :: "string list"
  rep_failures :: "string list"
  rep_persistence_failures :: "string list"
  rep_external_verified :: bool
  rep_requested_at :: "int option"
  rep_applied_at :: "int option"
  rep_verified_at :: "int option"
  rep_revoked_at :: "string option"
  rep_occurred_at :: "string option"

definition rep_latency :: "containment_report \<Rightarrow> int option" where
  "rep_latency r =
     (case (rep_requested_at r, rep_verified_at r) of
        (Some q, Some v) \<Rightarrow> Some (max 0 (v - q))
      | _ \<Rightarrow> None)"

definition rep_complete :: "containment_report \<Rightarrow> bool" where
  "rep_complete r \<longleftrightarrow> rep_failures r = []"

definition rep_certified :: "containment_report \<Rightarrow> bool" where
  "rep_certified r \<longleftrightarrow> rep_complete r \<and> rep_external_verified r"

definition rep_durable :: "containment_report \<Rightarrow> bool" where
  "rep_durable r \<longleftrightarrow> rep_persistence_failures r = []"

definition with_persistence_failure :: "string \<Rightarrow> containment_report \<Rightarrow> exn + containment_report" where
  "with_persistence_failure failure r =
     (if failure = [] then Inl (Exn ValueError ''failure must be non-empty'')
      else Inr (r\<lparr>rep_persistence_failures := rep_persistence_failures r @ [failure]\<rparr>))"

record recovery_report =
  rr_agent_id :: string
  rr_contained_epoch :: int
  rr_events :: "string list"
  rr_failures :: "string list"
  rr_recontainment_failures :: "string list"
  rr_recovered_epoch :: "int option"

definition rr_successful :: "recovery_report \<Rightarrow> bool" where
  "rr_successful r \<longleftrightarrow> rr_recovered_epoch r \<noteq> None \<and> rr_failures r = []"

definition rr_proof_status :: "recovery_report \<Rightarrow> string" where
  "rr_proof_status r =
     (if rr_successful r \<and> rr_recontainment_failures r = [] then ''verified'' else ''degraded'')"

record 'w controller =
  ctl_runtime :: runtime
  ctl_capabilities :: "string set"
  ctl_credentials :: "credential_store option"
  ctl_egress :: "'w egress_controller option"
  ctl_process :: "('w, int) prog option"
  ctl_kernel_egress :: "('w, unit) prog option"
  ctl_enforcers :: "'w enforcer list"
  ctl_last_report :: "containment_report option"
  ctl_last_recovery :: "recovery_report option"

text \<open>\<open>ContainmentController(runtime, capabilities, ...)\<close>; no egress controller is attached yet.\<close>

definition mk_controller ::
  "runtime \<Rightarrow> string set \<Rightarrow> ('w, int) prog option \<Rightarrow> ('w, unit) prog option \<Rightarrow>
     credential_store option \<Rightarrow> 'w enforcer list \<Rightarrow> 'w controller" where
  "mk_controller r caps process kern creds enforcers =
     \<lparr>ctl_runtime = r, ctl_capabilities = caps, ctl_credentials = creds, ctl_egress = None,
      ctl_process = process, ctl_kernel_egress = kern, ctl_enforcers = enforcers,
      ctl_last_report = None, ctl_last_recovery = None\<rparr>"

definition ctl_attach_egress :: "'w egress_controller \<Rightarrow> 'w controller \<Rightarrow> 'w controller" where
  "ctl_attach_egress eg c = c\<lparr>ctl_egress := Some eg\<rparr>"

definition ctl_halt :: "obj \<Rightarrow> 'w controller \<Rightarrow> 'w controller" where
  "ctl_halt p c = c\<lparr>ctl_runtime := rt_halt p (ctl_runtime c)\<rparr>"

definition ctl_contained :: "'w controller \<Rightarrow> bool" where
  "ctl_contained c \<longleftrightarrow> rt_state (ctl_runtime c) = CONTAINED"

section \<open>Containment\<close>

text \<open>The local \<open>enforce(name, callback)\<close>: a stage on success, a failure when it raises.\<close>

definition enforce_stage ::
  "string \<Rightarrow> ('w, 'a) prog \<Rightarrow> string list \<times> string list \<Rightarrow> 'w \<Rightarrow> (string list \<times> string list) \<times> 'w" where
  "enforce_stage name callback acc w =
     (case acc of (stages, failures) \<Rightarrow>
        (case callback w of
           (Inr _, w') \<Rightarrow> ((stages @ [name], failures), w')
         | (Inl e, w') \<Rightarrow> ((stages, failures @ [name @ '': '' @ exn_text e]), w')))"

text \<open>\<open>if adapter is not None: enforce(name, ...)\<close>.\<close>

definition optional_stage ::
  "string \<Rightarrow> ('w, 'a) prog option \<Rightarrow> string list \<times> string list \<Rightarrow> 'w \<Rightarrow>
     (string list \<times> string list) \<times> 'w" where
  "optional_stage name callback acc w =
     (case callback of None \<Rightarrow> (acc, w) | Some m \<Rightarrow> enforce_stage name m acc w)"

text \<open>
  The accumulator of the loop over the enforcers: stages, failures, \<open>provider_applied_at\<close>
  and the number of verified enforcers.
\<close>

type_synonym contain_acc = "string list \<times> string list \<times> int option \<times> nat"

text \<open>\<open>provider_applied_at or monotonic()\<close>: a missing time, or a zero, is read again.\<close>

definition first_applied :: "'w clock \<Rightarrow> int option \<Rightarrow> 'w \<Rightarrow> int option \<times> 'w" where
  "first_applied clk pa w =
     (if pa = None \<or> pa = Some 0 then (let (t, w') = clk_monotonic clk w in (Some t, w'))
      else (pa, w))"

definition contain_provider ::
  "'w clock \<Rightarrow> string \<Rightarrow> 'w enforcer \<Rightarrow> contain_acc \<Rightarrow> 'w \<Rightarrow> contain_acc \<times> 'w" where
  "contain_provider clk agent_id e acc w =
     (case acc of (stages, failures, pa, n) \<Rightarrow>
      (case enf_contain e agent_id w of
         (Inl exc, w1) \<Rightarrow> ((stages, failures @ [enf_name e @ '': '' @ exn_text exc], pa, n), w1)
       | (Inr result, w1) \<Rightarrow>
           if er_status result \<noteq> ENFORCED then
             ((stages,
               failures @ [enf_name e @ '': contain returned ''
                             @ enforcement_value (er_status result) @ detail_suffix result],
               pa, n), w1)
           else
             (let (pa', w2) = first_applied clk pa w1 in
              case enf_verify_contained e agent_id w2 of
                (Inl exc, w3) \<Rightarrow>
                  ((stages, failures @ [enf_name e @ '': '' @ exn_text exc], pa', n), w3)
              | (Inr verification, w3) \<Rightarrow>
                  if er_status verification \<noteq> ENFORCED then
                    ((stages,
                      failures @ [enf_name e @ '': containment verification returned ''
                                    @ enforcement_value (er_status verification)
                                    @ detail_suffix verification],
                      pa', n), w3)
                  else ((stages @ [''enforcer:'' @ enf_name e @ '':verified''],
                         failures, pa', n + 1), w3))))"

text \<open>
  The stages inside the controller, after the fence: capabilities (always), credentials,
  kernel egress, in-flight connections and processes, each only if configured.  The result
  holds the stages and failures and the egress registry afterwards.
\<close>

definition contain_local_stages ::
  "'w controller \<Rightarrow> runtime \<Rightarrow> 'w \<Rightarrow> (string list \<times> string list) \<times> 'w egress_controller option \<times> 'w" where
  "contain_local_stages c runtime w2 =
     (let acc0 = ([''runtime_fenced'', ''capabilities_revoked''], []);
          acc1 = (case ctl_credentials c of None \<Rightarrow> acc0
                  | Some st \<Rightarrow> (fst acc0 @ [''credentials_revoked''], snd acc0));
          (acc2, w3) = optional_stage ''kernel_egress_contained'' (ctl_kernel_egress c) acc1 w2;
          (acc3, egress, w4) =
            (case ctl_egress c of None \<Rightarrow> (acc2, None, w3)
             | Some eg \<Rightarrow>
                 (let ((n, eg'), w') = eg_terminate_all runtime (Some (rt_agent_id runtime)) eg w3
                  in ((fst acc2 @ [''connections_terminated''], snd acc2), Some eg', w')));
          (acc4, w5) = optional_stage ''processes_contained'' (ctl_process c) acc3 w4
      in (acc4, egress, w5))"

definition ctl_contain ::
  "'w clock \<Rightarrow> obj \<Rightarrow> 'w controller \<Rightarrow> 'w \<Rightarrow> (containment_report \<times> 'w controller) \<times> 'w" where
  "ctl_contain clk p c w0 =
     (let (requested_at, w1) = clk_monotonic clk w0;
          runtime = rt_contain p (ctl_runtime c);
          agent_id = rt_agent_id runtime;
          (revoked_at, w2) = clk_utcnow clk w1;
          (acc4, egress, w5) = contain_local_stages c runtime w2;
          credentials = map_option cs_revoke_all (ctl_credentials c);
          ((stages, failures, applied_at, verified), w6) =
            each_provider (contain_provider clk agent_id) (ctl_enforcers c)
              (fst acc4, snd acc4, None, 0) w5;
          all_verified = (verified = length (ctl_enforcers c) \<and> ctl_enforcers c \<noteq> []);
          (verified_at, w7) =
            (if all_verified then (let (t, w') = clk_monotonic clk w6 in (Some t, w'))
             else (None, w6));
          (occurred_at, w8) =
            (if verified_at \<noteq> None then (let (t, w') = clk_utcnow clk w7 in (Some t, w'))
             else (None, w7));
          report =
            \<lparr>rep_agent_id = agent_id, rep_epoch = rt_epoch runtime, rep_stages = stages,
             rep_failures = failures, rep_persistence_failures = [],
             rep_external_verified =
               (ctl_enforcers c \<noteq> [] \<and> verified = length (ctl_enforcers c)),
             rep_requested_at = Some requested_at, rep_applied_at = applied_at,
             rep_verified_at = verified_at, rep_revoked_at = Some revoked_at,
             rep_occurred_at = occurred_at\<rparr>
      in ((report,
           c\<lparr>ctl_runtime := runtime, ctl_capabilities := {}, ctl_credentials := credentials,
             ctl_egress := egress, ctl_last_report := Some report\<rparr>), w8))"

section \<open>Release, recontainment and recovery\<close>

definition release_provider ::
  "string \<Rightarrow> 'w enforcer \<Rightarrow> string list \<Rightarrow> 'w \<Rightarrow> string list \<times> 'w" where
  "release_provider agent_id e failures w =
     (case enf_release e agent_id w of
        (Inl exc, w1) \<Rightarrow> (failures @ [enf_name e @ '': '' @ exn_text exc], w1)
      | (Inr result, w1) \<Rightarrow>
          if er_status result \<noteq> RELEASED then
            (failures @ [enf_name e @ '': release returned ''
                           @ enforcement_value (er_status result) @ detail_suffix result], w1)
          else
            (case enf_verify_released e agent_id w1 of
               (Inl exc, w2) \<Rightarrow> (failures @ [enf_name e @ '': '' @ exn_text exc], w2)
             | (Inr verification, w2) \<Rightarrow>
                 if er_status verification \<noteq> RELEASED then
                   (failures @ [enf_name e @ '': release verification returned ''
                                  @ enforcement_value (er_status verification)
                                  @ detail_suffix verification], w2)
                 else (failures, w2)))"

definition ctl_release_enforcers :: "'w controller \<Rightarrow> 'w \<Rightarrow> string list \<times> 'w" where
  "ctl_release_enforcers c w =
     each_provider (release_provider (rt_agent_id (ctl_runtime c))) (rev (ctl_enforcers c)) [] w"

definition recontain_provider ::
  "string \<Rightarrow> 'w enforcer \<Rightarrow> string list \<Rightarrow> 'w \<Rightarrow> string list \<times> 'w" where
  "recontain_provider agent_id e failures w =
     (case enf_contain e agent_id w of
        (Inl exc, w1) \<Rightarrow> (failures @ [enf_name e @ '': '' @ exn_text exc], w1)
      | (Inr result, w1) \<Rightarrow>
          if er_status result \<noteq> ENFORCED then
            (failures @ [enf_name e @ '': recontain returned ''
                           @ enforcement_value (er_status result) @ detail_suffix result], w1)
          else
            (case enf_verify_contained e agent_id w1 of
               (Inl exc, w2) \<Rightarrow> (failures @ [enf_name e @ '': '' @ exn_text exc], w2)
             | (Inr verification, w2) \<Rightarrow>
                 if er_status verification \<noteq> ENFORCED then
                   (failures @ [enf_name e @ '': recontain verification returned ''
                                  @ enforcement_value (er_status verification)
                                  @ detail_suffix verification], w2)
                 else (failures, w2)))"

definition ctl_recontain_enforcers :: "'w controller \<Rightarrow> 'w \<Rightarrow> string list \<times> 'w" where
  "ctl_recontain_enforcers c w =
     each_provider (recontain_provider (rt_agent_id (ctl_runtime c))) (ctl_enforcers c) [] w"

definition recontainment_event :: "string list \<Rightarrow> string" where
  "recontainment_event failures =
     (if failures = [] then ''recontainment_verified'' else ''recontainment_degraded'')"

text \<open>The transaction \<open>ContainmentController.recover(capability, expected_epoch)\<close>.\<close>

definition ctl_recover ::
  "obj \<Rightarrow> obj option \<Rightarrow> int \<Rightarrow> 'w controller \<Rightarrow> 'w \<Rightarrow> ((exn + int) \<times> 'w controller) \<times> 'w" where
  "ctl_recover p capability expected_epoch c w0 =
     (let contained_epoch = rt_epoch (ctl_runtime c);
          agent_id = rt_agent_id (ctl_runtime c);
          (release_failures, w1) = ctl_release_enforcers c w0
      in if release_failures \<noteq> [] then
           (let (recontainment_failures, w2) = ctl_recontain_enforcers c w1;
                report = \<lparr>rr_agent_id = agent_id, rr_contained_epoch = contained_epoch,
                          rr_events = [''recovery_requested'', ''external_release_failed'',
                                       recontainment_event recontainment_failures],
                          rr_failures = release_failures,
                          rr_recontainment_failures = recontainment_failures,
                          rr_recovered_epoch = None\<rparr>
            in ((Inl (Exn RuntimeError (''recovery aborted; runtime remains contained: ''
                        @ join_with ''; '' release_failures)),
                 c\<lparr>ctl_last_recovery := Some report\<rparr>), w2))
         else
           (case rt_recover p capability expected_epoch (ctl_runtime c) of
              Inl exc \<Rightarrow>
                (let (recontainment_failures, w2) = ctl_recontain_enforcers c w1;
                     report = \<lparr>rr_agent_id = agent_id, rr_contained_epoch = contained_epoch,
                               rr_events = [''recovery_requested'', ''external_release_verified'',
                                            ''runtime_recovery_failed'',
                                            recontainment_event recontainment_failures],
                               rr_failures = [exn_text exc],
                               rr_recontainment_failures = recontainment_failures,
                               rr_recovered_epoch = None\<rparr>
                 in ((Inl exc, c\<lparr>ctl_last_recovery := Some report\<rparr>), w2))
            | Inr (recovered_epoch, runtime) \<Rightarrow>
                (let report = \<lparr>rr_agent_id = agent_id, rr_contained_epoch = contained_epoch,
                               rr_events = [''recovery_requested'', ''external_release_verified'',
                                            ''runtime_recovery_complete''],
                               rr_failures = [], rr_recontainment_failures = [],
                               rr_recovered_epoch = Some recovered_epoch\<rparr>
                 in ((Inr recovered_epoch,
                      c\<lparr>ctl_runtime := runtime, ctl_last_recovery := Some report\<rparr>), w1))))"

end
