(* ===== verification/Durable.thy ===== *)
theory Durable
  imports Prelude
begin

text \<open>
  What the two durable registries (\<open>runtime_fence.py\<close>, \<open>incident_state.py\<close>) share: a JSON
  file replaced atomically, the loading loop, and the contract of a registry whose memory
  and file agree after every operation.

  \<open>json.dump\<close>, \<open>json.loads\<close>, \<open>tempfile\<close> and \<open>os.replace\<close> are library code.  A file holds
  a JSON document, or reading or parsing it raises.  A write either replaces the document or
  raises and leaves it: the text goes to a temporary file first and \<open>os.replace\<close> is atomic.
  Which of the two happens is the argument \<open>io\<close>: \<open>None\<close> for success, \<open>Some e\<close> for a write
  that raises \<open>e\<close>.  The exact wording of the interpreter's own \<open>TypeError\<close> and enumeration
  messages is the argument \<open>wording\<close>.
\<close>

datatype disk_file = Unparsable exn | Doc json

text \<open>\<open>_persist_locked\<close> of both classes; nothing is written without a path.\<close>

definition persist ::
  "bool \<Rightarrow> exn option \<Rightarrow> json \<Rightarrow> disk_file option \<Rightarrow> (exn + unit) \<times> disk_file option" where
  "persist has_path io doc contents =
     (if \<not> has_path then (Inr (), contents)
      else (case io of None \<Rightarrow> (Inr (), Some (Doc doc)) | Some e \<Rightarrow> (Inl e, contents)))"

fun json_kind :: "json \<Rightarrow> string" where
  "json_kind JNull = ''NoneType''"
| "json_kind (JBool b) = ''bool''"
| "json_kind (JInt i) = ''int''"
| "json_kind (JReal l) = ''float''"
| "json_kind (JStr s) = ''str''"
| "json_kind (JList xs) = ''list''"
| "json_kind (JObj kvs) = ''dict''"

text \<open>\<open>records = raw.get("records")\<close> and the check that it is a list.\<close>

definition raw_records :: "string \<Rightarrow> json \<Rightarrow> exn + json list" where
  "raw_records message raw =
     (case raw of
        JObj kvs \<Rightarrow>
          (case map_of kvs ''records'' of
             Some (JList items) \<Rightarrow> Inr items
           | _ \<Rightarrow> Inl (Exn ValueError message))
      | _ \<Rightarrow> Inl (Exn (OtherException ''AttributeError'')
                   (quoted (json_kind raw) @ '' object has no attribute '' @ quoted ''get'')))"

text \<open>The loop over the items: parse, refuse a duplicate key, store.\<close>

fun load_items ::
  "(json \<Rightarrow> exn + 'r) \<Rightarrow> ('r \<Rightarrow> string) \<Rightarrow> string \<Rightarrow> json list \<Rightarrow> 'r dict \<Rightarrow> exn + 'r dict" where
  "load_items parse key duplicate [] loaded = Inr loaded"
| "load_items parse key duplicate (item # items) loaded =
     (case parse item of
        Inl e \<Rightarrow> Inl e
      | Inr r \<Rightarrow>
          if dict_get loaded (key r) \<noteq> None then Inl (Exn ValueError (duplicate @ key r))
          else load_items parse key duplicate items (dict_set (key r) r loaded))"

text \<open>\<open>except (OSError, json.JSONDecodeError, KeyError, TypeError, ValueError)\<close>.\<close>

definition load_error_caught :: "exn \<Rightarrow> bool" where
  "load_error_caught e \<longleftrightarrow>
     is_os_error e \<or> is_value_error e \<or> exn_class e = KeyError \<or> exn_class e = TypeError"

definition wrap_load_error :: "string \<Rightarrow> exn + 'a \<Rightarrow> exn + 'a" where
  "wrap_load_error heading r =
     (case r of
        Inl e \<Rightarrow> Inl (if load_error_caught e then Exn RuntimeError (heading @ exn_str e) else e)
      | Inr v \<Rightarrow> Inr v)"

definition load_registry ::
  "string \<Rightarrow> string \<Rightarrow> string \<Rightarrow> (json \<Rightarrow> exn + 'r) \<Rightarrow> ('r \<Rightarrow> string) \<Rightarrow> bool \<Rightarrow> disk_file option \<Rightarrow>
     exn + 'r dict" where
  "load_registry heading not_list duplicate parse key has_path contents =
     (if \<not> has_path then Inr []
      else (case contents of
              None \<Rightarrow> Inr []
            | Some (Unparsable e) \<Rightarrow> wrap_load_error heading (Inl e)
            | Some (Doc raw) \<Rightarrow>
                wrap_load_error heading
                  (case raw_records not_list raw of
                     Inl e \<Rightarrow> Inl e
                   | Inr items \<Rightarrow> load_items parse key duplicate items [])))"

text \<open>The document both classes write: \<open>{"records": [...], "version": 1}\<close>, keys sorted.\<close>

definition registry_doc :: "('r \<Rightarrow> json) \<Rightarrow> 'r dict \<Rightarrow> json" where
  "registry_doc enc d =
     JObj [(''records'', JList (map enc (dict_values d))), (''version'', JInt 1)]"

definition keyed :: "('r \<Rightarrow> string) \<Rightarrow> 'r dict \<Rightarrow> bool" where
  "keyed key d \<longleftrightarrow> dict_ok d \<and> (\<forall>(k, r) \<in> set d. key r = k)"

lemma keyed_empty [simp]: "keyed key []"
  by (simp add: keyed_def)

lemma keyed_set [simp]: "keyed key d \<Longrightarrow> key r = k \<Longrightarrow> keyed key (dict_set k r d)"
proof -
  assume ok: "keyed key d" and k: "key r = k"
  have "set (dict_set k r d) \<subseteq> insert (k, r) (set d)"
    unfolding dict_set_def by (induction d) auto
  with ok k show ?thesis by (auto simp: keyed_def)
qed

lemma keyed_del [simp]: "keyed key d \<Longrightarrow> keyed key (dict_del k d)"
proof -
  assume ok: "keyed key d"
  have "set (dict_del k d) \<subseteq> set d" by (auto simp: dict_del_def AList.delete_eq)
  with ok show ?thesis by (auto simp: keyed_def)
qed

lemma keyed_get: "keyed key d \<Longrightarrow> dict_get d k = Some r \<Longrightarrow> key r = k"
  by (auto simp: keyed_def dict_get_def dest!: map_of_SomeD)

lemma load_items_roundtrip_acc:
  assumes "\<And>r. parse (enc r) = Inr r" and "keyed key (acc @ d)"
  shows "load_items parse key duplicate (map enc (dict_values d)) acc = Inr (acc @ d)"
  using assms(2)
proof (induction d arbitrary: acc)
  case Nil
  then show ?case by (simp add: dict_values_def)
next
  case (Cons p d)
  obtain k r where p: "p = (k, r)" by fastforce
  with Cons.prems have key: "key r = k" and new: "dict_get acc k = None"
    by (auto simp: keyed_def dict_ok_def dict_get_def map_of_eq_None_iff)
  have "keyed key ((acc @ [(k, r)]) @ d)" using Cons.prems p by simp
  from Cons.IH [OF this] show ?case
    using key new p by (simp add: assms(1) dict_values_def dict_set_new)
qed

lemma load_registry_roundtrip:
  assumes "\<And>r. parse (enc r) = Inr r" and "keyed key d"
  shows "load_registry heading not_list duplicate parse key True (Some (Doc (registry_doc enc d))) = Inr d"
  using load_items_roundtrip_acc [of parse enc key "[]" d duplicate] assms
  by (simp add: load_registry_def registry_doc_def raw_records_def wrap_load_error_def)

section \<open>The contract of a durable registry\<close>

text \<open>A sequence of writes, each with what the file system does to it.\<close>

fun write_all ::
  "('op \<Rightarrow> exn option \<Rightarrow> 'reg \<Rightarrow> (exn + 'res) \<times> 'reg) \<Rightarrow> ('op \<times> exn option) list \<Rightarrow> 'reg \<Rightarrow> 'reg" where
  "write_all store [] reg = reg"
| "write_all store ((op, io) # ops) reg = write_all store ops (snd (store op io reg))"

locale durable_registry =
  fixes store :: "'op \<Rightarrow> exn option \<Rightarrow> 'reg \<Rightarrow> (exn + 'res) \<times> 'reg"
    and mem :: "'reg \<Rightarrow> 'v dict"
    and reload :: "'reg \<Rightarrow> exn + 'v dict"
    and wf :: "'reg \<Rightarrow> bool"
  assumes failed_write: "store op io reg = (Inl e, reg') \<Longrightarrow> reg' = reg"
    and wf_write: "wf reg \<Longrightarrow> wf (snd (store op io reg))"
    and write_synced: "wf reg \<Longrightarrow> reload reg = Inr (mem reg) \<Longrightarrow> store op io reg = (Inr r, reg') \<Longrightarrow>
        reload reg' = Inr (mem reg')"
begin

lemma step_synced:
  assumes "wf reg" and "reload reg = Inr (mem reg)"
  shows "reload (snd (store op io reg)) = Inr (mem (snd (store op io reg)))"
proof (cases "store op io reg")
  case (Pair res reg')
  show ?thesis
  proof (cases res)
    case (Inl e)
    with Pair have "reg' = reg" by (auto dest: failed_write)
    with assms Pair show ?thesis by simp
  next
    case (Inr v)
    with assms Pair show ?thesis by (auto dest: write_synced)
  qed
qed

lemma all_wf: "wf reg \<Longrightarrow> wf (write_all store ops reg)"
  by (induction ops arbitrary: reg) (auto simp: wf_write)

lemma crash_consistent:
  "wf reg \<Longrightarrow> reload reg = Inr (mem reg) \<Longrightarrow>
     reload (write_all store ops reg) = Inr (mem (write_all store ops reg))"
  by (induction ops arbitrary: reg) (auto simp: wf_write step_synced)

end

end
