(* ===== verification/Runtime_Fence.thy ===== *)
theory Runtime_Fence
  imports Durable
begin

text \<open>
  \<open>runtime_fence.py\<close>: the durable fence written before a runtime is contained.
\<close>

record fence_record =
  fr_agent_id :: string
  fr_epoch :: int

text \<open>\<open>fg_has_path\<close>: a path was given; \<open>fg_file\<close>: what the file at that path holds.\<close>

record fence_registry =
  fg_has_path :: bool
  fg_records :: "fence_record dict"
  fg_file :: "disk_file option"

definition fence_json :: "fence_record \<Rightarrow> json" where
  "fence_json r =
     JObj [(''agent_id'', JStr (fr_agent_id r)), (''containment_epoch'', JInt (fr_epoch r))]"

text \<open>
  \<open>FenceRecord(**item)\<close>: exactly the two fields.  Python does not check the types of their
  values; a document with values of other types is outside the model and reported apart.
\<close>

definition parse_fence :: "(json \<Rightarrow> string) \<Rightarrow> json \<Rightarrow> exn + fence_record" where
  "parse_fence wording item =
     (case item of
        JObj kvs \<Rightarrow>
          if set (map fst kvs) \<noteq> {''agent_id'', ''containment_epoch''} then
            Inl (Exn TypeError (wording item))
          else (case (map_of kvs ''agent_id'', map_of kvs ''containment_epoch'') of
                  (Some (JStr a), Some (JInt e)) \<Rightarrow> Inr \<lparr>fr_agent_id = a, fr_epoch = e\<rparr>
                | _ \<Rightarrow> Inl (Exn (OtherException ''ill-typed fence record'') (wording item)))
      | _ \<Rightarrow> Inl (Exn ValueError ''runtime fence record must be an object''))"

definition fg_load :: "(json \<Rightarrow> string) \<Rightarrow> bool \<Rightarrow> disk_file option \<Rightarrow> exn + fence_record dict" where
  "fg_load wording =
     load_registry ''invalid runtime fence registry: '' ''runtime fence records must be a list''
       ''duplicate runtime fence: '' (parse_fence wording) fr_agent_id"

text \<open>\<open>RuntimeFenceRegistry(path)\<close>.\<close>

definition mk_fence_registry :: "(json \<Rightarrow> string) \<Rightarrow> bool \<Rightarrow> disk_file option \<Rightarrow> exn + fence_registry" where
  "mk_fence_registry wording has_path contents =
     (case fg_load wording has_path contents of
        Inl e \<Rightarrow> Inl e
      | Inr records \<Rightarrow> Inr \<lparr>fg_has_path = has_path, fg_records = records, fg_file = contents\<rparr>)"

text \<open>\<open>self._persist_locked(candidate); self._records = candidate\<close>.\<close>

definition fg_commit ::
  "exn option \<Rightarrow> fence_record dict \<Rightarrow> fence_registry \<Rightarrow> (exn + unit) \<times> fence_registry" where
  "fg_commit io candidate g =
     (case persist (fg_has_path g) io (registry_doc fence_json candidate) (fg_file g) of
        (Inl e, f) \<Rightarrow> (Inl e, g\<lparr>fg_file := f\<rparr>)
      | (Inr _, f) \<Rightarrow> (Inr (), g\<lparr>fg_file := f, fg_records := candidate\<rparr>))"

definition fg_prepare ::
  "exn option \<Rightarrow> string \<Rightarrow> int \<Rightarrow> fence_registry \<Rightarrow> (exn + fence_record) \<times> fence_registry" where
  "fg_prepare io agent_id epoch g =
     (if agent_id = [] then (Inl (Exn ValueError ''agent_id must be non-empty''), g)
      else if epoch < 0 then (Inl (Exn ValueError ''containment_epoch must be non-negative''), g)
      else (let record = \<lparr>fr_agent_id = agent_id, fr_epoch = epoch\<rparr> in
            case fg_commit io (dict_set agent_id record (fg_records g)) g of
              (Inl e, g') \<Rightarrow> (Inl e, g')
            | (Inr _, g') \<Rightarrow> (Inr record, g')))"

definition fg_get :: "string \<Rightarrow> fence_registry \<Rightarrow> fence_record option" where
  "fg_get agent_id g = dict_get (fg_records g) agent_id"

definition fg_clear :: "exn option \<Rightarrow> string \<Rightarrow> fence_registry \<Rightarrow> (exn + unit) \<times> fence_registry" where
  "fg_clear io agent_id g =
     (if dict_get (fg_records g) agent_id = None then (Inr (), g)
      else fg_commit io (dict_del agent_id (fg_records g)) g)"

definition fg_persistence_available :: "fence_registry \<Rightarrow> bool" where
  "fg_persistence_available g = fg_has_path g"

section \<open>Facts about the operations\<close>

lemma fg_commit_fails: "fg_commit io d g = (Inl e, g') \<Longrightarrow> g' = g"
  by (auto simp: fg_commit_def persist_def split: if_splits option.splits)

lemma fg_commit_ok: "fg_commit io d g = (Inr u, g') \<Longrightarrow>
    fg_records g' = d \<and> fg_has_path g' = fg_has_path g
    \<and> (fg_has_path g \<longrightarrow> fg_file g' = Some (Doc (registry_doc fence_json d)))"
  by (auto simp: fg_commit_def persist_def split: if_splits option.splits)

lemma fg_prepare_fails: "fg_prepare io a e g = (Inl x, g') \<Longrightarrow> g' = g"
  by (auto simp: fg_prepare_def Let_def split: if_splits prod.splits sum.splits dest: fg_commit_fails)

lemma fg_prepare_ok:
  "fg_prepare io a e g = (Inr r, g') \<Longrightarrow>
     r = \<lparr>fr_agent_id = a, fr_epoch = e\<rparr> \<and> a \<noteq> [] \<and> 0 \<le> e
     \<and> fg_commit io (dict_set a r (fg_records g)) g = (Inr (), g')"
  by (auto simp: fg_prepare_def Let_def split: if_splits prod.splits sum.splits)

lemma fg_prepare_get:
  "fg_prepare io a e g = (Inr r, g') \<Longrightarrow>
     fg_get b g' = (if b = a then Some \<lparr>fr_agent_id = a, fr_epoch = e\<rparr> else fg_get b g)"
  by (auto simp: fg_get_def dest!: fg_prepare_ok fg_commit_ok)

lemma fg_prepare_get_other: "b \<noteq> a \<Longrightarrow> fg_get b (snd (fg_prepare io a e g)) = fg_get b g"
  using fg_prepare_get [of io a e g _ _ b] fg_prepare_fails [of io a e g]
  by (cases "fg_prepare io a e g"; cases "fst (fg_prepare io a e g)") auto

lemma fg_clear_fails: "fg_clear io a g = (Inl x, g') \<Longrightarrow> g' = g"
  by (auto simp: fg_clear_def split: if_splits dest: fg_commit_fails)

lemma fg_clear_get:
  "fg_clear io a g = (Inr u, g') \<Longrightarrow> fg_get b g' = (if b = a then None else fg_get b g)"
  by (auto simp: fg_clear_def fg_get_def split: if_splits dest!: fg_commit_ok)

lemma fg_clear_get_other: "b \<noteq> a \<Longrightarrow> fg_get b (snd (fg_clear io a g)) = fg_get b g"
  using fg_clear_get [of io a g _ _ b] fg_clear_fails [of io a g]
  by (cases "fg_clear io a g"; cases "fst (fg_clear io a g)") auto

lemma parse_fence_json: "parse_fence wording (fence_json r) = Inr r"
  by (cases r) (auto simp: parse_fence_def fence_json_def)

section \<open>The registry is durable\<close>

datatype fence_op = FencePrepare string int | FenceClear string

fun fence_write :: "fence_op \<Rightarrow> exn option \<Rightarrow> fence_registry \<Rightarrow> (exn + unit) \<times> fence_registry" where
  "fence_write (FencePrepare a e) io g =
     (case fg_prepare io a e g of (Inl x, g') \<Rightarrow> (Inl x, g') | (Inr _, g') \<Rightarrow> (Inr (), g'))"
| "fence_write (FenceClear a) io g = fg_clear io a g"

definition fence_wf :: "fence_registry \<Rightarrow> bool" where
  "fence_wf g \<longleftrightarrow> fg_has_path g \<and> keyed fr_agent_id (fg_records g)"

lemma fence_write_fails: "fence_write op io g = (Inl e, g') \<Longrightarrow> g' = g"
  by (cases op) (auto split: prod.splits sum.splits dest: fg_prepare_fails fg_clear_fails)

lemma fence_write_ok:
  assumes "fence_wf g" and "fence_write op io g = (Inr u, g')"
  shows "g' = g \<or> (fence_wf g' \<and> fg_file g' = Some (Doc (registry_doc fence_json (fg_records g'))))"
  using assms
  by (cases op)
     (auto simp: fence_wf_def fg_clear_def split: prod.splits sum.splits if_splits
       dest!: fg_prepare_ok fg_commit_ok)

interpretation fences: durable_registry fence_write fg_records
  "\<lambda>g. fg_load wording (fg_has_path g) (fg_file g)" fence_wf
proof unfold_locales
  fix op io g e g'
  show "fence_write op io g = (Inl e, g') \<Longrightarrow> g' = g" by (rule fence_write_fails)
next
  fix op io g
  assume wf: "fence_wf g"
  obtain res g' where run: "fence_write op io g = (res, g')" by fastforce
  show "fence_wf (snd (fence_write op io g))"
  proof (cases res)
    case (Inl e)
    then have "g' = g" using run by (auto dest: fence_write_fails)
    with wf run show ?thesis by simp
  next
    case (Inr u)
    with fence_write_ok [OF wf, of op io u g'] wf run show ?thesis by auto
  qed
next
  fix op io g u g'
  assume wf: "fence_wf g" and synced: "fg_load wording (fg_has_path g) (fg_file g) = Inr (fg_records g)"
    and run: "fence_write op io g = (Inr u, g')"
  from fence_write_ok [OF wf run] synced
  show "fg_load wording (fg_has_path g') (fg_file g') = Inr (fg_records g')"
    by (auto simp: fence_wf_def fg_load_def intro!: load_registry_roundtrip parse_fence_json)
qed

text \<open>
  C14: Crash consistency of the fences.  A registry opened on a path, after any sequence of
  prepare and clear operations of which any may fail to write, is what a controller that
  restarts at that moment loads from the file: no fence is lost, invented or changed.
\<close>

theorem fence_registry_crash_consistent:
  assumes "mk_fence_registry wording True None = Inr g0"
  shows "let g = write_all fence_write ops g0 in
           mk_fence_registry wording True (fg_file g) = Inr g"
proof -
  let ?g = "write_all fence_write ops g0"
  from assms have g0: "g0 = \<lparr>fg_has_path = True, fg_records = [], fg_file = None\<rparr>"
    by (simp add: mk_fence_registry_def fg_load_def load_registry_def)
  have wf: "fence_wf ?g" by (rule fences.all_wf) (simp add: g0 fence_wf_def)
  have "fg_load wording (fg_has_path ?g) (fg_file ?g) = Inr (fg_records ?g)"
    by (rule fences.crash_consistent)
       (simp_all add: g0 fence_wf_def fg_load_def load_registry_def)
  with wf show ?thesis by (simp add: mk_fence_registry_def fence_wf_def)
qed

theorem fence_registry_crash_consistent_witness:
  "let g0 = \<lparr>fg_has_path = True, fg_records = [], fg_file = None\<rparr>;
       g = write_all fence_write
             [(FencePrepare ''a'' 1, None), (FencePrepare ''b'' 4, Some (Exn OSError ''full'')),
              (FencePrepare ''c'' 2, None), (FenceClear ''a'', None)] g0
   in fg_get ''c'' g = Some \<lparr>fr_agent_id = ''c'', fr_epoch = 2\<rparr> \<and> fg_get ''b'' g = None
      \<and> mk_fence_registry (\<lambda>_. []) True (fg_file g) = Inr g"
proof -
  let ?g0 = "\<lparr>fg_has_path = True, fg_records = [], fg_file = None\<rparr>"
  let ?ops = "[(FencePrepare ''a'' 1, None), (FencePrepare ''b'' 4, Some (Exn OSError ''full'')),
              (FencePrepare ''c'' 2, None), (FenceClear ''a'', None)]"
  have "mk_fence_registry (\<lambda>_. []) True None = Inr ?g0"
    by (simp add: mk_fence_registry_def fg_load_def load_registry_def)
  from fence_registry_crash_consistent [OF this, of ?ops] show ?thesis
    by (simp add: fg_get_def fg_prepare_def fg_clear_def fg_commit_def persist_def Let_def)
qed

end
