(* ===== verification/Incident_State.thy ===== *)
theory Incident_State
  imports Durable
begin

text \<open>
  \<open>incident_state.py\<close>: the incident registry, the authority for recovery.

  \<open>now\<close> is the reading of \<open>time()\<close> where a record is created and \<open>io\<close> what the file system
  does to the write.
\<close>

datatype incident_state = OPEN | INC_CONTAINED | PROOF_DEGRADED | RECOVERED

fun incident_state_value :: "incident_state \<Rightarrow> string" where
  "incident_state_value OPEN = ''open''"
| "incident_state_value INC_CONTAINED = ''contained''"
| "incident_state_value PROOF_DEGRADED = ''proof_degraded''"
| "incident_state_value RECOVERED = ''recovered''"

record incident_record =
  inc_id :: string
  inc_agent_id :: string
  inc_state :: incident_state
  inc_epoch :: int
  inc_created_at :: int
  inc_proof_attached :: bool
  inc_proof_reference :: "string option"
  inc_reason :: "string option"
  inc_degraded_reason :: "string option"
  inc_recovery_epoch :: "int option"

record incident_registry =
  ig_has_path :: bool
  ig_records :: "incident_record dict"
  ig_file :: "disk_file option"

section \<open>Serialisation\<close>

fun json_opt_str :: "string option \<Rightarrow> json" where
  "json_opt_str None = JNull"
| "json_opt_str (Some s) = JStr s"

fun json_opt_int :: "int option \<Rightarrow> json" where
  "json_opt_int None = JNull"
| "json_opt_int (Some i) = JInt i"

text \<open>\<open>asdict(record) | {"state": record.state.value}\<close>, with sorted keys.\<close>

definition incident_json :: "incident_record \<Rightarrow> json" where
  "incident_json r =
     JObj [(''agent_id'', JStr (inc_agent_id r)),
           (''containment_epoch'', JInt (inc_epoch r)),
           (''created_at'', JInt (inc_created_at r)),
           (''incident_id'', JStr (inc_id r)),
           (''proof_attached'', JBool (inc_proof_attached r)),
           (''proof_degraded_reason'', json_opt_str (inc_degraded_reason r)),
           (''proof_reference'', json_opt_str (inc_proof_reference r)),
           (''reason'', json_opt_str (inc_reason r)),
           (''recovery_epoch'', json_opt_int (inc_recovery_epoch r)),
           (''state'', JStr (incident_state_value (inc_state r)))]"

text \<open>\<open>IncidentState(item["state"])\<close>.\<close>

definition parse_state :: "(json \<Rightarrow> string) \<Rightarrow> json \<Rightarrow> exn + incident_state" where
  "parse_state wording v =
     (if v = JStr ''open'' then Inr OPEN
      else if v = JStr ''contained'' then Inr INC_CONTAINED
      else if v = JStr ''proof_degraded'' then Inr PROOF_DEGRADED
      else if v = JStr ''recovered'' then Inr RECOVERED
      else Inl (Exn ValueError (wording v)))"

fun opt_str_of :: "json option \<Rightarrow> string option option" where
  "opt_str_of None = Some None"
| "opt_str_of (Some JNull) = Some None"
| "opt_str_of (Some (JStr s)) = Some (Some s)"
| "opt_str_of _ = None"

fun opt_int_of :: "json option \<Rightarrow> int option option" where
  "opt_int_of None = Some None"
| "opt_int_of (Some JNull) = Some None"
| "opt_int_of (Some (JInt i)) = Some (Some i)"
| "opt_int_of _ = None"

fun bool_of :: "json option \<Rightarrow> bool option" where
  "bool_of None = Some False"
| "bool_of (Some (JBool b)) = Some b"
| "bool_of _ = None"

definition required_keys :: "string set" where
  "required_keys = {''incident_id'', ''agent_id'', ''state'', ''containment_epoch'', ''created_at''}"

definition optional_keys :: "string set" where
  "optional_keys = {''proof_attached'', ''proof_reference'', ''reason'', ''proof_degraded_reason'',
                    ''recovery_epoch''}"

text \<open>
  One item of the loading loop.  Python does not check the types of the field values; a
  document with values of other types is outside the model and reported apart.
\<close>

definition parse_incident :: "(json \<Rightarrow> string) \<Rightarrow> json \<Rightarrow> exn + incident_record" where
  "parse_incident wording item =
     (case item of
        JObj kvs \<Rightarrow>
          (case map_of kvs ''state'' of
             None \<Rightarrow> Inl (Exn KeyError ''state'')
           | Some v \<Rightarrow>
               (case parse_state wording v of
                  Inl e \<Rightarrow> Inl e
                | Inr st \<Rightarrow>
                    if \<not> (required_keys \<subseteq> set (map fst kvs)
                          \<and> set (map fst kvs) \<subseteq> required_keys \<union> optional_keys)
                    then Inl (Exn TypeError (wording item))
                    else (case (map_of kvs ''incident_id'', map_of kvs ''agent_id'',
                                map_of kvs ''containment_epoch'', map_of kvs ''created_at'',
                                bool_of (map_of kvs ''proof_attached''),
                                opt_str_of (map_of kvs ''proof_reference''),
                                opt_str_of (map_of kvs ''reason''),
                                opt_str_of (map_of kvs ''proof_degraded_reason''),
                                opt_int_of (map_of kvs ''recovery_epoch'')) of
                            (Some (JStr i), Some (JStr a), Some (JInt ep), Some (JInt t),
                             Some pa, Some pr, Some rs, Some dr, Some re) \<Rightarrow>
                              Inr \<lparr>inc_id = i, inc_agent_id = a, inc_state = st, inc_epoch = ep,
                                   inc_created_at = t, inc_proof_attached = pa,
                                   inc_proof_reference = pr, inc_reason = rs,
                                   inc_degraded_reason = dr, inc_recovery_epoch = re\<rparr>
                          | _ \<Rightarrow> Inl (Exn (OtherException ''ill-typed incident record'')
                                        (wording item)))))
      | _ \<Rightarrow> Inl (Exn ValueError ''incident registry record must be an object''))"

definition ig_load :: "(json \<Rightarrow> string) \<Rightarrow> bool \<Rightarrow> disk_file option \<Rightarrow> exn + incident_record dict" where
  "ig_load wording =
     load_registry ''invalid incident registry: '' ''incident registry records must be a list''
       ''duplicate incident: '' (parse_incident wording) inc_id"

definition mk_incident_registry ::
  "(json \<Rightarrow> string) \<Rightarrow> bool \<Rightarrow> disk_file option \<Rightarrow> exn + incident_registry" where
  "mk_incident_registry wording has_path contents =
     (case ig_load wording has_path contents of
        Inl e \<Rightarrow> Inl e
      | Inr records \<Rightarrow> Inr \<lparr>ig_has_path = has_path, ig_records = records, ig_file = contents\<rparr>)"

section \<open>Operations\<close>

text \<open>Store the record under its id in a copy, persist the copy, then adopt it.\<close>

definition ig_store ::
  "exn option \<Rightarrow> incident_record \<Rightarrow> incident_registry \<Rightarrow> (exn + incident_record) \<times> incident_registry" where
  "ig_store io r g =
     (let candidate = dict_set (inc_id r) r (ig_records g) in
      case persist (ig_has_path g) io (registry_doc incident_json candidate) (ig_file g) of
        (Inl e, f) \<Rightarrow> (Inl e, g\<lparr>ig_file := f\<rparr>)
      | (Inr _, f) \<Rightarrow> (Inr r, g\<lparr>ig_file := f, ig_records := candidate\<rparr>))"

definition ig_record_containment ::
  "int \<Rightarrow> exn option \<Rightarrow> string \<Rightarrow> string \<Rightarrow> int \<Rightarrow> string option \<Rightarrow> incident_registry \<Rightarrow>
     (exn + incident_record) \<times> incident_registry" where
  "ig_record_containment now io incident_id agent_id epoch reason g =
     (if incident_id = [] \<or> agent_id = [] then
        (Inl (Exn ValueError ''incident_id and agent_id must be non-empty''), g)
      else if epoch < 0 then (Inl (Exn ValueError ''containment_epoch must be non-negative''), g)
      else if dict_get (ig_records g) incident_id \<noteq> None then
        (Inl (Exn ValueError (''incident already exists: '' @ incident_id)), g)
      else ig_store io
             \<lparr>inc_id = incident_id, inc_agent_id = agent_id, inc_state = INC_CONTAINED,
              inc_epoch = epoch, inc_created_at = now, inc_proof_attached = False,
              inc_proof_reference = None, inc_reason = reason, inc_degraded_reason = None,
              inc_recovery_epoch = None\<rparr> g)"

definition ig_require :: "string \<Rightarrow> incident_registry \<Rightarrow> exn + incident_record" where
  "ig_require incident_id g =
     (case dict_get (ig_records g) incident_id of
        None \<Rightarrow> Inl (Exn KeyError (''unknown incident: '' @ incident_id))
      | Some r \<Rightarrow> Inr r)"

definition ig_mark_proof_degraded ::
  "exn option \<Rightarrow> string \<Rightarrow> string \<Rightarrow> incident_registry \<Rightarrow> (exn + incident_record) \<times> incident_registry" where
  "ig_mark_proof_degraded io incident_id reason g =
     (if reason = [] then (Inl (Exn ValueError ''reason must be non-empty''), g)
      else (case ig_require incident_id g of
              Inl e \<Rightarrow> (Inl e, g)
            | Inr r \<Rightarrow>
                ig_store io (r\<lparr>inc_state := PROOF_DEGRADED, inc_proof_attached := False,
                               inc_proof_reference := None, inc_degraded_reason := Some reason\<rparr>) g))"

definition ig_restore_contained ::
  "exn option \<Rightarrow> string \<Rightarrow> incident_registry \<Rightarrow> (exn + incident_record) \<times> incident_registry" where
  "ig_restore_contained io incident_id g =
     (case ig_require incident_id g of
        Inl e \<Rightarrow> (Inl e, g)
      | Inr r \<Rightarrow>
          if inc_state r \<noteq> RECOVERED then
            (Inl (Exn ValueError ''incident is not in recovered state''), g)
          else ig_store io (r\<lparr>inc_state := INC_CONTAINED\<rparr>) g)"

definition ig_mark_recovered ::
  "exn option \<Rightarrow> string \<Rightarrow> incident_registry \<Rightarrow> (exn + incident_record) \<times> incident_registry" where
  "ig_mark_recovered io incident_id g =
     (case ig_require incident_id g of
        Inl e \<Rightarrow> (Inl e, g)
      | Inr r \<Rightarrow>
          if inc_state r \<notin> {INC_CONTAINED, PROOF_DEGRADED} then
            (Inl (Exn ValueError (''incident is not recoverable from state ''
                    @ incident_state_value (inc_state r))), g)
          else ig_store io (r\<lparr>inc_state := RECOVERED,
                              inc_recovery_epoch := Some (inc_epoch r + 1)\<rparr>) g)"

definition ig_attach_proof ::
  "exn option \<Rightarrow> string \<Rightarrow> string \<Rightarrow> incident_registry \<Rightarrow> (exn + incident_record) \<times> incident_registry" where
  "ig_attach_proof io incident_id proof_reference g =
     (if proof_reference = [] then (Inl (Exn ValueError ''proof_reference must be non-empty''), g)
      else (case ig_require incident_id g of
              Inl e \<Rightarrow> (Inl e, g)
            | Inr r \<Rightarrow>
                if inc_state r = RECOVERED then
                  (Inl (Exn ValueError ''cannot attach proof after recovery''), g)
                else ig_store io (r\<lparr>inc_state := INC_CONTAINED, inc_proof_attached := True,
                                    inc_proof_reference := Some proof_reference\<rparr>) g))"

text \<open>\<open>max(records, key=created_at, default=None)\<close>: the first of the largest.\<close>

fun first_latest :: "incident_record \<Rightarrow> incident_record list \<Rightarrow> incident_record" where
  "first_latest best [] = best"
| "first_latest best (r # rs) =
     first_latest (if inc_created_at best < inc_created_at r then r else best) rs"

definition ig_latest_for_agent :: "string \<Rightarrow> incident_registry \<Rightarrow> exn + incident_record option" where
  "ig_latest_for_agent agent_id g =
     (if agent_id = [] then Inl (Exn ValueError ''agent_id must be non-empty'')
      else (case filter (\<lambda>r. inc_agent_id r = agent_id) (dict_values (ig_records g)) of
              [] \<Rightarrow> Inr None
            | r # rs \<Rightarrow> Inr (Some (first_latest r rs))))"

definition ig_get :: "string \<Rightarrow> incident_registry \<Rightarrow> incident_record option" where
  "ig_get incident_id g = dict_get (ig_records g) incident_id"

definition ig_all :: "incident_registry \<Rightarrow> incident_record list" where
  "ig_all g = dict_values (ig_records g)"

definition ig_persistence_available :: "incident_registry \<Rightarrow> bool" where
  "ig_persistence_available g = ig_has_path g"

section \<open>Facts about the operations\<close>

lemma parse_state_value: "parse_state wording (JStr (incident_state_value s)) = Inr s"
  by (cases s) (simp_all add: parse_state_def)

lemma opt_str_of_json: "opt_str_of (Some (json_opt_str s)) = Some s"
  by (cases s) simp_all

lemma opt_int_of_json: "opt_int_of (Some (json_opt_int i)) = Some i"
  by (cases i) simp_all

lemma parse_incident_json: "parse_incident wording (incident_json r) = Inr r"
  by (simp add: parse_incident_def incident_json_def parse_state_value required_keys_def
      optional_keys_def opt_str_of_json opt_int_of_json)

lemma ig_store_fails: "ig_store io r g = (Inl e, g') \<Longrightarrow> g' = g"
  by (auto simp: ig_store_def persist_def Let_def split: if_splits option.splits)

lemma ig_store_ok:
  "ig_store io r g = (Inr r', g') \<Longrightarrow>
     r' = r \<and> ig_records g' = dict_set (inc_id r) r (ig_records g) \<and> ig_has_path g' = ig_has_path g
     \<and> (ig_has_path g \<longrightarrow> ig_file g' = Some (Doc (registry_doc incident_json (ig_records g'))))"
  by (auto simp: ig_store_def persist_def Let_def split: if_splits option.splits)

lemmas ig_op_defs = ig_record_containment_def ig_mark_proof_degraded_def ig_restore_contained_def
  ig_mark_recovered_def ig_attach_proof_def ig_require_def

datatype incident_op =
    RecordContainment int string string int "string option"
  | MarkProofDegraded string string
  | RestoreContained string
  | MarkRecovered string
  | AttachProof string string

fun incident_write ::
  "incident_op \<Rightarrow> exn option \<Rightarrow> incident_registry \<Rightarrow> (exn + incident_record) \<times> incident_registry" where
  "incident_write (RecordContainment now i a e reason) io g = ig_record_containment now io i a e reason g"
| "incident_write (MarkProofDegraded i reason) io g = ig_mark_proof_degraded io i reason g"
| "incident_write (RestoreContained i) io g = ig_restore_contained io i g"
| "incident_write (MarkRecovered i) io g = ig_mark_recovered io i g"
| "incident_write (AttachProof i ref) io g = ig_attach_proof io i ref g"

lemma incident_write_fails: "incident_write op io g = (Inl e, g') \<Longrightarrow> g' = g"
  by (cases op) (auto simp: ig_op_defs dest: ig_store_fails split: if_splits sum.splits option.splits)

text \<open>A successful operation stores one record, and returns it.\<close>

lemma ig_store_ret: "ig_store io r0 g = (Inr r, g') \<Longrightarrow> ig_store io r g = (Inr r, g')"
  by (frule ig_store_ok) simp

lemma incident_write_stores: "incident_write op io g = (Inr r, g') \<Longrightarrow> ig_store io r g = (Inr r, g')"
  by (cases op) (auto simp: ig_op_defs intro: ig_store_ret split: if_splits sum.splits option.splits)

lemma incident_write_get:
  "incident_write op io g = (Inr r, g') \<Longrightarrow>
     ig_get i g' = (if i = inc_id r then Some r else ig_get i g)"
  by (auto simp: ig_get_def dest!: incident_write_stores ig_store_ok)

section \<open>The registry is durable\<close>

definition incident_wf :: "incident_registry \<Rightarrow> bool" where
  "incident_wf g \<longleftrightarrow> ig_has_path g \<and> keyed inc_id (ig_records g)"

lemma ig_store_wf:
  assumes "incident_wf g" and "ig_store io r g = (Inr r', g')"
  shows "incident_wf g' \<and> ig_file g' = Some (Doc (registry_doc incident_json (ig_records g')))"
  using assms ig_store_ok [OF assms(2)] by (auto simp: incident_wf_def)

interpretation incidents: durable_registry incident_write ig_records
  "\<lambda>g. ig_load wording (ig_has_path g) (ig_file g)" incident_wf
proof unfold_locales
  fix op io g e g'
  show "incident_write op io g = (Inl e, g') \<Longrightarrow> g' = g" by (rule incident_write_fails)
next
  fix op io g
  assume wf: "incident_wf g"
  obtain res g' where run: "incident_write op io g = (res, g')" by fastforce
  show "incident_wf (snd (incident_write op io g))"
  proof (cases res)
    case (Inl e)
    then have "g' = g" using run by (auto dest: incident_write_fails)
    with wf run show ?thesis by simp
  next
    case (Inr r)
    with run have "ig_store io r g = (Inr r, g')" by (auto dest: incident_write_stores)
    from ig_store_wf [OF wf this] run show ?thesis by simp
  qed
next
  fix op io g r g'
  assume wf: "incident_wf g" and synced: "ig_load wording (ig_has_path g) (ig_file g) = Inr (ig_records g)"
    and run: "incident_write op io g = (Inr r, g')"
  from ig_store_wf [OF wf incident_write_stores [OF run]]
  show "ig_load wording (ig_has_path g') (ig_file g') = Inr (ig_records g')"
    by (auto simp: incident_wf_def ig_load_def intro!: load_registry_roundtrip parse_incident_json)
qed

text \<open>
  Crash consistency of the incidents.  A registry opened on a path, after any sequence of
  its operations of which any may be refused or fail to write, is what a controller that
  restarts at that moment loads from the file.
\<close>

theorem incident_registry_crash_consistent:
  assumes "mk_incident_registry wording True None = Inr g0"
  shows "let g = write_all incident_write ops g0 in
           mk_incident_registry wording True (ig_file g) = Inr g"
proof -
  let ?g = "write_all incident_write ops g0"
  from assms have g0: "g0 = \<lparr>ig_has_path = True, ig_records = [], ig_file = None\<rparr>"
    by (simp add: mk_incident_registry_def ig_load_def load_registry_def)
  have wf: "incident_wf ?g" by (rule incidents.all_wf) (simp add: g0 incident_wf_def)
  have "ig_load wording (ig_has_path ?g) (ig_file ?g) = Inr (ig_records ?g)"
    by (rule incidents.crash_consistent)
       (simp_all add: g0 incident_wf_def ig_load_def load_registry_def)
  with wf show ?thesis by (simp add: mk_incident_registry_def incident_wf_def)
qed

theorem incident_registry_crash_consistent_witness:
  "let g0 = \<lparr>ig_has_path = True, ig_records = [], ig_file = None\<rparr>;
       g = write_all incident_write
             [(RecordContainment 7 ''a:1'' ''a'' 1 None, None), (MarkProofDegraded ''a:1'' ''audit'', None),
              (MarkRecovered ''a:1'', Some (Exn OSError ''full'')), (RestoreContained ''a:1'', None)] g0
   in map_option inc_state (ig_get ''a:1'' g) = Some PROOF_DEGRADED
      \<and> mk_incident_registry (\<lambda>_. []) True (ig_file g) = Inr g"
proof -
  let ?g0 = "\<lparr>ig_has_path = True, ig_records = [], ig_file = None\<rparr>"
  let ?ops = "[(RecordContainment 7 ''a:1'' ''a'' 1 None, None), (MarkProofDegraded ''a:1'' ''audit'', None),
              (MarkRecovered ''a:1'', Some (Exn OSError ''full'')), (RestoreContained ''a:1'', None)]"
  have "mk_incident_registry (\<lambda>_. []) True None = Inr ?g0"
    by (simp add: mk_incident_registry_def ig_load_def load_registry_def)
  from incident_registry_crash_consistent [OF this, of ?ops] show ?thesis
    by (simp add: ig_op_defs ig_get_def ig_store_def persist_def Let_def)
qed

section \<open>The incident state machine\<close>

text \<open>The transitions the operations are meant to make on one incident.\<close>

inductive incident_step :: "incident_op \<Rightarrow> incident_record option \<Rightarrow> incident_record \<Rightarrow> bool" where
  recorded: "i \<noteq> [] \<Longrightarrow> a \<noteq> [] \<Longrightarrow> 0 \<le> e \<Longrightarrow>
    incident_step (RecordContainment now i a e reason) None
      \<lparr>inc_id = i, inc_agent_id = a, inc_state = INC_CONTAINED, inc_epoch = e, inc_created_at = now,
       inc_proof_attached = False, inc_proof_reference = None, inc_reason = reason,
       inc_degraded_reason = None, inc_recovery_epoch = None\<rparr>"
| degraded: "reason \<noteq> [] \<Longrightarrow>
    incident_step (MarkProofDegraded (inc_id r) reason) (Some r)
      (r\<lparr>inc_state := PROOF_DEGRADED, inc_proof_attached := False, inc_proof_reference := None,
         inc_degraded_reason := Some reason\<rparr>)"
| restored: "inc_state r = RECOVERED \<Longrightarrow>
    incident_step (RestoreContained (inc_id r)) (Some r) (r\<lparr>inc_state := INC_CONTAINED\<rparr>)"
| recovered: "inc_state r \<in> {INC_CONTAINED, PROOF_DEGRADED} \<Longrightarrow>
    incident_step (MarkRecovered (inc_id r)) (Some r)
      (r\<lparr>inc_state := RECOVERED, inc_recovery_epoch := Some (inc_epoch r + 1)\<rparr>)"
| attached: "ref \<noteq> [] \<Longrightarrow> inc_state r \<noteq> RECOVERED \<Longrightarrow>
    incident_step (AttachProof (inc_id r) ref) (Some r)
      (r\<lparr>inc_state := INC_CONTAINED, inc_proof_attached := True, inc_proof_reference := Some ref\<rparr>)"

inductive_cases incident_stepE: "incident_step op before r"

lemma incident_write_step:
  assumes wf: "keyed inc_id (ig_records g)" and run: "incident_write op io g = (Inr r, g')"
  shows "incident_step op (ig_get (inc_id r) g) r"
proof -
  have key: "inc_id r0 = i" if "dict_get (ig_records g) i = Some r0" for i r0
    using wf that by (rule keyed_get)
  show ?thesis
  proof (cases op)
    case (RecordContainment now i a e reason)
    with run show ?thesis
      by (auto simp: ig_op_defs ig_get_def not_less split: if_splits dest!: ig_store_ok
          intro: incident_step.intros)
  next
    case (MarkProofDegraded i reason)
    with run obtain r0 where "reason \<noteq> []" "dict_get (ig_records g) i = Some r0"
      "r = r0\<lparr>inc_state := PROOF_DEGRADED, inc_proof_attached := False, inc_proof_reference := None,
              inc_degraded_reason := Some reason\<rparr>"
      by (auto simp: ig_op_defs split: if_splits sum.splits option.splits dest!: ig_store_ok)
    with key degraded [of reason r0] MarkProofDegraded show ?thesis by (auto simp: ig_get_def)
  next
    case (RestoreContained i)
    with run obtain r0 where "inc_state r0 = RECOVERED" "dict_get (ig_records g) i = Some r0"
      "r = r0\<lparr>inc_state := INC_CONTAINED\<rparr>"
      by (auto simp: ig_op_defs split: if_splits sum.splits option.splits dest!: ig_store_ok)
    with key restored [of r0] RestoreContained show ?thesis by (auto simp: ig_get_def)
  next
    case (MarkRecovered i)
    with run obtain r0 where "inc_state r0 \<in> {INC_CONTAINED, PROOF_DEGRADED}"
      "dict_get (ig_records g) i = Some r0"
      "r = r0\<lparr>inc_state := RECOVERED, inc_recovery_epoch := Some (inc_epoch r0 + 1)\<rparr>"
      by (auto simp: ig_op_defs split: if_splits sum.splits option.splits dest!: ig_store_ok)
    with key incident_step.recovered [of r0] MarkRecovered show ?thesis by (auto simp: ig_get_def)
  next
    case (AttachProof i ref)
    with run obtain r0 where "ref \<noteq> []" "inc_state r0 \<noteq> RECOVERED"
      "dict_get (ig_records g) i = Some r0"
      "r = r0\<lparr>inc_state := INC_CONTAINED, inc_proof_attached := True, inc_proof_reference := Some ref\<rparr>"
      by (auto simp: ig_op_defs split: if_splits sum.splits option.splits dest!: ig_store_ok)
    with key attached [of ref r0] AttachProof show ?thesis by (auto simp: ig_get_def)
  qed
qed

definition incident_ok :: "incident_record \<Rightarrow> bool" where
  "incident_ok r \<longleftrightarrow> inc_id r \<noteq> [] \<and> inc_agent_id r \<noteq> [] \<and> 0 \<le> inc_epoch r
     \<and> (inc_state r = RECOVERED \<longrightarrow> inc_recovery_epoch r = Some (inc_epoch r + 1))
     \<and> inc_recovery_epoch r \<in> {None, Some (inc_epoch r + 1)}
     \<and> (inc_proof_attached r \<longleftrightarrow> inc_proof_reference r \<noteq> None)
     \<and> (inc_state r = PROOF_DEGRADED \<longrightarrow> inc_degraded_reason r \<noteq> None \<and> \<not> inc_proof_attached r)
     \<and> inc_state r \<noteq> OPEN"

text \<open>What no operation rewrites.\<close>

definition incident_fact :: "incident_record \<Rightarrow> string \<times> string \<times> int \<times> int \<times> string option" where
  "incident_fact r = (inc_id r, inc_agent_id r, inc_epoch r, inc_created_at r, inc_reason r)"

lemma incident_step_ok:
  "incident_step op before r \<Longrightarrow> (\<forall>r0. before = Some r0 \<longrightarrow> incident_ok r0) \<Longrightarrow> incident_ok r"
  by (induction rule: incident_step.induct) (auto simp: incident_ok_def)

lemma incident_step_fact:
  "incident_step op (Some r0) r \<Longrightarrow> incident_fact r = incident_fact r0"
  by (erule incident_stepE) (auto simp: incident_fact_def)

definition incidents_ok :: "incident_registry \<Rightarrow> bool" where
  "incidents_ok g \<longleftrightarrow> keyed inc_id (ig_records g) \<and> (\<forall>i r. ig_get i g = Some r \<longrightarrow> incident_ok r)"

lemma incident_write_ok:
  assumes ok: "incidents_ok g" and run: "incident_write op io g = (res, g')"
  shows "incidents_ok g' \<and> (ig_get i g = Some r \<longrightarrow> (\<exists>r'. ig_get i g' = Some r' \<and> incident_fact r' = incident_fact r))"
proof (cases res)
  case (Inl e)
  with ok run show ?thesis by (auto dest: incident_write_fails)
next
  case (Inr r1)
  from ok have keyed: "keyed inc_id (ig_records g)" by (simp add: incidents_ok_def)
  from Inr run have run: "incident_write op io g = (Inr r1, g')" by simp
  note get = incident_write_get [OF run] and step = incident_write_step [OF keyed run]
  have "incident_ok r1"
    using ok by (intro incident_step_ok [OF step]) (auto simp: incidents_ok_def)
  moreover have "keyed inc_id (ig_records g')"
    using keyed ig_store_ok [OF incident_write_stores [OF run]] by auto
  ultimately have "incidents_ok g'" using ok by (auto simp: incidents_ok_def get)
  then show ?thesis using step by (auto simp: get dest: incident_step_fact)
qed

lemma write_all_ok:
  "incidents_ok g \<Longrightarrow> incidents_ok (write_all incident_write ops g)
     \<and> (ig_get i g = Some r \<longrightarrow>
         (\<exists>r'. ig_get i (write_all incident_write ops g) = Some r' \<and> incident_fact r' = incident_fact r))"
proof (induction ops arbitrary: g r)
  case Nil
  then show ?case by simp
next
  case (Cons p ops)
  obtain op io where p: "p = (op, io)" by fastforce
  obtain res g1 where run: "incident_write op io g = (res, g1)" by fastforce
  from incident_write_ok [OF Cons.prems run] Cons.IH [of g1] show ?case
    by (simp add: p run) metis
qed

text \<open>
  C15: The incident history is append-only and consistent.  In a registry that starts empty,
  after any sequence of operations, of which any may be refused or fail to write, every record
  is well formed (a recovered incident names the epoch after its containment as its recovery
  epoch, a proof is attached exactly when a reference is stored, a degraded incident says why);
  and after any further sequence an incident that was there is still there, with its agent,
  epoch, time and reason unchanged.
\<close>

theorem incident_history_append_only:
  assumes "mk_incident_registry wording has_path None = Inr g0"
    and "g = write_all incident_write ops g0" and "ig_get i g = Some r"
  shows "incident_ok r
     \<and> (\<exists>r'. ig_get i (write_all incident_write later g) = Some r' \<and> incident_fact r' = incident_fact r)"
proof -
  from assms(1) have "ig_records g0 = []"
    by (cases has_path) (auto simp: mk_incident_registry_def ig_load_def load_registry_def)
  then have "incidents_ok g0" by (simp add: incidents_ok_def ig_get_def)
  then have "incidents_ok g" using assms(2) by (simp add: write_all_ok)
  then show ?thesis using assms(3) write_all_ok [of g later i r] by (auto simp: incidents_ok_def)
qed

theorem incident_history_append_only_witness:
  "let g = write_all incident_write [(RecordContainment 7 ''a:1'' ''a'' 1 None, None),
             (MarkRecovered ''a:1'', None)] \<lparr>ig_has_path = False, ig_records = [], ig_file = None\<rparr>;
       g' = write_all incident_write [(RestoreContained ''a:1'', None), (AttachProof ''a:1'' ''p'', None)] g
   in map_option inc_recovery_epoch (ig_get ''a:1'' g) = Some (Some 2)
      \<and> map_option incident_fact (ig_get ''a:1'' g') = Some (''a:1'', ''a'', 1, 7, None)"
proof -
  let ?g0 = "\<lparr>ig_has_path = False, ig_records = [], ig_file = None\<rparr>"
  let ?ops = "[(RecordContainment 7 ''a:1'' ''a'' 1 None, None), (MarkRecovered ''a:1'', None)]"
  let ?r = "\<lparr>inc_id = ''a:1'', inc_agent_id = ''a'', inc_state = RECOVERED, inc_epoch = 1,
              inc_created_at = 7, inc_proof_attached = False, inc_proof_reference = None,
              inc_reason = None, inc_degraded_reason = None, inc_recovery_epoch = Some 2\<rparr>"
  have start: "mk_incident_registry (\<lambda>_. []) False None = Inr ?g0"
    by (simp add: mk_incident_registry_def ig_load_def load_registry_def)
  have get: "ig_get ''a:1'' (write_all incident_write ?ops ?g0) = Some ?r"
    by (simp add: ig_op_defs ig_get_def ig_store_def persist_def Let_def)
  from incident_history_append_only [OF start refl get,
      of "[(RestoreContained ''a:1'', None), (AttachProof ''a:1'' ''p'', None)]"] get
  show ?thesis by (auto simp: incident_fact_def Let_def)
qed

text \<open>
  \<open>mark_proof_degraded\<close> has no guard on the state.  A recovered incident, which no
  operation should contain again without a release failure, can be marked degraded and then
  recovered a second time.
\<close>

theorem recovered_incident_can_be_reopened:
  assumes "ig_get i g = Some r" and "inc_state r = RECOVERED" and "keyed inc_id (ig_records g)"
    and "reason \<noteq> []"
  shows "let (res, g') = ig_mark_proof_degraded None i reason g
         in (\<exists>r'. res = Inr r' \<and> inc_state r' = PROOF_DEGRADED)
            \<and> (\<exists>r''. fst (ig_mark_recovered None i g') = Inr r'' \<and> inc_state r'' = RECOVERED)"
proof -
  from assms have get: "dict_get (ig_records g) i = Some r" and id: "inc_id r = i"
    by (auto simp: ig_get_def dest: keyed_get)
  with assms(4) show ?thesis
    by (simp add: ig_mark_proof_degraded_def ig_mark_recovered_def ig_require_def ig_store_def
        persist_def Let_def)
qed

theorem recovered_incident_can_be_reopened_witness:
  "let g = write_all incident_write [(RecordContainment 7 ''a:1'' ''a'' 1 None, None),
             (MarkRecovered ''a:1'', None)] \<lparr>ig_has_path = False, ig_records = [], ig_file = None\<rparr>;
       (res, g') = ig_mark_proof_degraded None ''a:1'' ''late'' g
   in (\<exists>r'. res = Inr r' \<and> inc_state r' = PROOF_DEGRADED)
      \<and> (\<exists>r''. fst (ig_mark_recovered None ''a:1'' g') = Inr r'' \<and> inc_state r'' = RECOVERED)"
proof -
  let ?g = "write_all incident_write [(RecordContainment 7 ''a:1'' ''a'' 1 None, None),
              (MarkRecovered ''a:1'', None)] \<lparr>ig_has_path = False, ig_records = [], ig_file = None\<rparr>"
  let ?r = "\<lparr>inc_id = ''a:1'', inc_agent_id = ''a'', inc_state = RECOVERED, inc_epoch = 1,
              inc_created_at = 7, inc_proof_attached = False, inc_proof_reference = None,
              inc_reason = None, inc_degraded_reason = None, inc_recovery_epoch = Some 2\<rparr>"
  have "ig_get ''a:1'' ?g = Some ?r" and "keyed inc_id (ig_records ?g)"
    by (simp_all add: ig_op_defs ig_get_def ig_store_def persist_def Let_def)
  from recovered_incident_can_be_reopened [OF this(1) _ this(2), of "''late''"] show ?thesis
    by (simp add: Let_def)
qed

section \<open>The latest incident\<close>

lemma first_latest_member: "first_latest b rs \<in> insert b (set rs)"
proof (induction rs arbitrary: b)
  case (Cons x rs)
  from Cons.IH [of "if inc_created_at b < inc_created_at x then x else b"] show ?case by auto
qed simp

lemma first_latest_max: "r \<in> insert b (set rs) \<Longrightarrow> inc_created_at r \<le> inc_created_at (first_latest b rs)"
proof (induction rs arbitrary: b r)
  case Nil
  then show ?case by simp
next
  case (Cons x rs)
  have le: "inc_created_at y \<le> inc_created_at (first_latest (if inc_created_at b < inc_created_at x then x else b) rs)"
    if "y \<in> insert (if inc_created_at b < inc_created_at x then x else b) (set rs)" for y
    using that by (rule Cons.IH)
  from Cons.prems le [of "if inc_created_at b < inc_created_at x then x else b"] le [of r] show ?case
    by (auto split: if_splits)
qed

lemma ig_latest_sound:
  assumes "ig_latest_for_agent a g = Inr (Some r)"
  shows "r \<in> set (ig_all g) \<and> inc_agent_id r = a
     \<and> (\<forall>r' \<in> set (ig_all g). inc_agent_id r' = a \<longrightarrow> inc_created_at r' \<le> inc_created_at r)"
proof -
  from assms obtain x xs where f: "filter (\<lambda>r. inc_agent_id r = a) (dict_values (ig_records g)) = x # xs"
    and r: "r = first_latest x xs"
    by (auto simp: ig_latest_for_agent_def split: if_splits list.splits)
  have mem: "y \<in> insert x (set xs) \<longleftrightarrow> y \<in> set (ig_all g) \<and> inc_agent_id y = a" for y
    using arg_cong [OF f, of set] by (auto simp: ig_all_def set_eq_iff)
  from first_latest_member [of x xs] first_latest_max [of _ x xs] mem r show ?thesis by blast
qed

text \<open>With no incident of the agent recorded there is no latest one, and conversely.\<close>

lemma ig_latest_none:
  "a \<noteq> [] \<Longrightarrow> ig_latest_for_agent a g = Inr None \<longleftrightarrow> (\<forall>r \<in> set (ig_all g). inc_agent_id r \<noteq> a)"
  using filter_empty_conv [of "\<lambda>r. inc_agent_id r = a" "dict_values (ig_records g)"]
  by (cases "filter (\<lambda>r. inc_agent_id r = a) (dict_values (ig_records g))")
     (simp_all add: ig_latest_for_agent_def ig_all_def)

end
