(* ===== verification/Review.thy ===== *)
theory Review
  imports Prelude
begin

text \<open>
  \<open>review.py\<close>: a human review of one paused action, with its deadline.
\<close>

datatype review_state = REVIEW_PENDING | APPROVED | EXPIRED | ESCALATED

fun review_state_value :: "review_state \<Rightarrow> string" where
  "review_state_value REVIEW_PENDING = ''pending''"
| "review_state_value APPROVED = ''approved''"
| "review_state_value EXPIRED = ''expired''"
| "review_state_value ESCALATED = ''escalated''"

record review_request =
  rv_id :: string
  rv_agent_id :: string
  rv_action_id :: string
  rv_requested_at :: int
  rv_deadline :: int
  rv_state :: review_state

text \<open>The property \<open>expired\<close>, and \<open>current_state()\<close>, at the reading \<open>now\<close> of \<open>time()\<close>.\<close>

definition rv_expired :: "int \<Rightarrow> review_request \<Rightarrow> bool" where
  "rv_expired now r \<longleftrightarrow> rv_deadline r \<le> now"

definition rv_current_state :: "int \<Rightarrow> review_request \<Rightarrow> review_state" where
  "rv_current_state now r =
     (if rv_state r \<noteq> REVIEW_PENDING then rv_state r
      else if rv_deadline r \<le> now then EXPIRED
      else REVIEW_PENDING)"

lemma rv_current_pending:
  "rv_current_state now r = REVIEW_PENDING \<longleftrightarrow> rv_state r = REVIEW_PENDING \<and> \<not> rv_expired now r"
  by (auto simp: rv_current_state_def rv_expired_def)

lemma rv_current_final: "rv_state r \<noteq> REVIEW_PENDING \<Longrightarrow> rv_current_state now r = rv_state r"
  by (simp add: rv_current_state_def)

lemma rv_current_idem: "rv_current_state now (r\<lparr>rv_state := rv_current_state now r\<rparr>) = rv_current_state now r"
  by (simp add: rv_current_state_def)

end
