(* ===== verification/Verification_Signal.thy ===== *)
theory Verification_Signal
  imports Models
begin

text \<open>
  \<open>verification_signal.py\<close>: the parsing of a verifier's signal and the decision made from it.

  A mapping is a JSON object; the code reads it with \<open>get\<close>, so its keys can come in any
  order and further keys are ignored.  Non-integral numbers, which the code rejects for the
  counts like every other value that is not an \<open>int\<close>, are not in the \<open>json\<close> type.
\<close>

record verification_signal =
  vs_disposition :: string
  vs_report_fingerprint :: string
  vs_policy_fingerprint :: string
  vs_blocking_claim_ids :: "string list"
  vs_review_claim_ids :: "string list"
  vs_supported_count :: int
  vs_total_count :: int
  vs_trace_id :: "string option"
  vs_run_id :: "string option"
  vs_action_id :: "string option"
  vs_version :: int

fun then_result :: "exn + 'a \<Rightarrow> ('a \<Rightarrow> exn + 'b) \<Rightarrow> exn + 'b" where
  "then_result (Inl e) k = Inl e"
| "then_result (Inr v) k = k v"

lemma then_result_Inr: "then_result r k = Inr v \<longleftrightarrow> (\<exists>u. r = Inr u \<and> k u = Inr v)"
  by (cases r) auto

section \<open>The constructor\<close>

text \<open>One round of the loop over the identifiers: absent, or a non-empty string.\<close>

fun optional_id :: "string \<Rightarrow> json option \<Rightarrow> exn + string option" where
  "optional_id name None = Inr None"
| "optional_id name (Some JNull) = Inr None"
| "optional_id name (Some (JStr s)) =
     (if s = [] then Inl (Exn ValueError (name @ '' must be non-empty when provided'')) else Inr (Some s))"
| "optional_id name (Some v) = Inl (Exn ValueError (name @ '' must be non-empty when provided''))"

text \<open>\<open>VerificationSignal(...)\<close> with its \<open>__post_init__\<close>; the identifiers are unchecked values.\<close>

definition mk_signal ::
  "int \<Rightarrow> string \<Rightarrow> string \<Rightarrow> string \<Rightarrow> string list \<Rightarrow> string list \<Rightarrow> int \<Rightarrow> int \<Rightarrow>
     json option \<Rightarrow> json option \<Rightarrow> json option \<Rightarrow> exn + verification_signal" where
  "mk_signal version disposition report policy blocking review supported_count total_count trace run act =
     (if disposition \<notin> {''allow'', ''requireReview'', ''block''} then
        Inl (Exn ValueError ''unsupported verification disposition'')
      else if report = [] \<or> policy = [] then
        Inl (Exn ValueError ''verification fingerprints must be non-empty'')
      else if supported_count < 0 \<or> total_count < 0 then
        Inl (Exn ValueError ''claim counts must be non-negative'')
      else if total_count < supported_count then
        Inl (Exn ValueError ''supported claim count cannot exceed total claim count'')
      else then_result (optional_id ''trace_id'' trace) (\<lambda>trace_id.
           then_result (optional_id ''run_id'' run) (\<lambda>run_id.
           then_result (optional_id ''action_id'' act) (\<lambda>action_id.
             Inr \<lparr>vs_disposition = disposition, vs_report_fingerprint = report,
                  vs_policy_fingerprint = policy, vs_blocking_claim_ids = blocking,
                  vs_review_claim_ids = review, vs_supported_count = supported_count,
                  vs_total_count = total_count, vs_trace_id = trace_id, vs_run_id = run_id,
                  vs_action_id = action_id, vs_version = version\<rparr>))))"

section \<open>Parsing\<close>

definition required_string :: "json \<Rightarrow> string \<Rightarrow> exn + string" where
  "required_string value key =
     (case json_get value key of
        Some (JStr s) \<Rightarrow> if s = [] then Inl (Exn ValueError (key @ '' must be a non-empty string'')) else Inr s
      | _ \<Rightarrow> Inl (Exn ValueError (key @ '' must be a non-empty string'')))"

definition non_negative_int :: "json \<Rightarrow> string \<Rightarrow> int \<Rightarrow> exn + int" where
  "non_negative_int value key otherwise =
     (case json_get value key of
        None \<Rightarrow> Inr otherwise
      | Some (JInt i) \<Rightarrow>
          if i < 0 then Inl (Exn ValueError (key @ '' must be a non-negative integer'')) else Inr i
      | _ \<Rightarrow> Inl (Exn ValueError (key @ '' must be a non-negative integer'')))"

fun string_items :: "string \<Rightarrow> json list \<Rightarrow> exn + string list" where
  "string_items key [] = Inr []"
| "string_items key (JStr s # items) =
     (if s = [] then Inl (Exn ValueError (key @ '' entries must be non-empty strings''))
      else then_result (string_items key items) (\<lambda>ss. Inr (s # ss)))"
| "string_items key (item # items) =
     Inl (Exn ValueError (key @ '' entries must be non-empty strings''))"

definition signal_strings :: "json \<Rightarrow> string \<Rightarrow> exn + string list" where
  "signal_strings value key =
     (case json_get value key of
        None \<Rightarrow> Inr []
      | Some (JList items) \<Rightarrow> string_items key items
      | _ \<Rightarrow> Inl (Exn ValueError (key @ '' must be a list'')))"

text \<open>\<open>VerificationSignal.from_mapping(value)\<close>, its arguments evaluated in the code's order.\<close>

definition signal_from_mapping :: "json \<Rightarrow> exn + verification_signal" where
  "signal_from_mapping value =
     (case value of
        JObj kvs \<Rightarrow>
          then_result (non_negative_int value ''version'' 1) (\<lambda>version.
          then_result (required_string value ''disposition'') (\<lambda>disposition.
          then_result (required_string value ''reportFingerprint'') (\<lambda>report.
          then_result (required_string value ''policyFingerprint'') (\<lambda>policy.
          then_result (signal_strings value ''blockingClaimIDs'') (\<lambda>blocking.
          then_result (signal_strings value ''reviewClaimIDs'') (\<lambda>review.
          then_result (non_negative_int value ''supportedClaimCount'' 0) (\<lambda>supported_count.
          then_result (non_negative_int value ''totalClaimCount'' 0) (\<lambda>total_count.
            mk_signal version disposition report policy blocking review supported_count total_count
              (json_get value ''traceID'') (json_get value ''runID'') (json_get value ''actionID'')))))))))
      | _ \<Rightarrow> Inl (Exn ValueError ''verification signal must be a mapping''))"

section \<open>The decision\<close>

text \<open>\<open>now\<close> is the timestamp the decision takes.\<close>

definition decision_from_verification :: "int \<Rightarrow> action \<Rightarrow> verification_signal \<Rightarrow> decision" where
  "decision_from_verification now a signal =
     (if vs_action_id signal \<noteq> None \<and> vs_action_id signal \<noteq> Some (act_action_id a) then
        mk_decision now (act_action_id a) DENY ''verification signal is bound to another action''
      else if vs_disposition signal = ''block'' then
        mk_decision now (act_action_id a) HALT ''claim verification blocked publication or execution''
      else if vs_disposition signal = ''requireReview'' then
        mk_decision now (act_action_id a) PAUSE ''claim verification requires human review''
      else mk_decision now (act_action_id a) ALLOW ''claim verification allows action'')"

section \<open>Facts\<close>

definition signal_bound :: "verification_signal \<Rightarrow> action \<Rightarrow> bool" where
  "signal_bound signal a \<longleftrightarrow> vs_action_id signal = None \<or> vs_action_id signal = Some (act_action_id a)"

lemma string_items_nonempty: "string_items key items = Inr ss \<Longrightarrow> [] \<notin> set ss \<and> map JStr ss = items"
proof (induction items arbitrary: ss)
  case (Cons item items)
  show ?case
  proof (cases item)
    case (JStr s)
    with Cons.prems obtain ss' where "s \<noteq> []" "string_items key items = Inr ss'" "ss = s # ss'"
      by (auto simp: then_result_Inr split: if_splits)
    with Cons.IH JStr show ?thesis by auto
  qed (use Cons.prems in simp_all)
qed simp

lemma optional_id_Inr: "optional_id name v = Inr i \<Longrightarrow> i \<noteq> Some []"
  by (cases "(name, v)" rule: optional_id.cases) (auto split: if_splits)

lemma signal_strings_nonempty: "signal_strings value key = Inr ss \<Longrightarrow> [] \<notin> set ss"
  by (auto simp: signal_strings_def split: option.splits json.splits dest: string_items_nonempty)

lemma mk_signal_ok:
  assumes "mk_signal version disposition report policy blocking review supported_count total_count trace run act = Inr s"
  shows "vs_disposition s = disposition \<and> disposition \<in> {''allow'', ''requireReview'', ''block''}
     \<and> vs_report_fingerprint s \<noteq> [] \<and> vs_policy_fingerprint s \<noteq> []
     \<and> 0 \<le> vs_supported_count s \<and> vs_supported_count s \<le> vs_total_count s
     \<and> vs_trace_id s \<noteq> Some [] \<and> vs_run_id s \<noteq> Some [] \<and> vs_action_id s \<noteq> Some []
     \<and> vs_blocking_claim_ids s = blocking \<and> vs_review_claim_ids s = review"
  using assms by (auto simp: mk_signal_def then_result_Inr dest: optional_id_Inr split: if_splits)

text \<open>
  A signal parsed from untrusted data is well formed, and the only one that allows an
  action is an \<open>allow\<close> signal that names no action or this one.  The other signals deny, pause or
  halt: any other binding denies, a block halts, a required review pauses.
\<close>

theorem verified_signal_decision:
  assumes "signal_from_mapping value = Inr s"
  shows "0 \<le> vs_supported_count s \<and> vs_supported_count s \<le> vs_total_count s
     \<and> vs_report_fingerprint s \<noteq> [] \<and> vs_policy_fingerprint s \<noteq> []
     \<and> [] \<notin> set (vs_blocking_claim_ids s) \<union> set (vs_review_claim_ids s)
     \<and> dec_type (decision_from_verification now a s) =
         (if \<not> signal_bound s a then DENY
          else if json_get value ''disposition'' = Some (JStr ''allow'') then ALLOW
          else if json_get value ''disposition'' = Some (JStr ''block'') then HALT
          else PAUSE)"
proof -
  from assms obtain version disposition report policy blocking review supported_count total_count where
    disp: "required_string value ''disposition'' = Inr disposition"
    and lists: "signal_strings value ''blockingClaimIDs'' = Inr blocking"
      "signal_strings value ''reviewClaimIDs'' = Inr review"
    and mk: "mk_signal version disposition report policy blocking review supported_count total_count
       (json_get value ''traceID'') (json_get value ''runID'') (json_get value ''actionID'') = Inr s"
    by (cases "value") (auto simp: signal_from_mapping_def then_result_Inr)
  have "json_get value ''disposition'' = Some (JStr disposition)"
    using disp by (auto simp: required_string_def split: option.splits json.splits if_splits)
  then show ?thesis
    using mk_signal_ok [OF mk] signal_strings_nonempty [OF lists(1)] signal_strings_nonempty [OF lists(2)]
    by (auto simp: decision_from_verification_def signal_bound_def)
qed

theorem verified_signal_decision_witness:
  "let value = JObj [(''actionID'', JStr ''act-1''), (''disposition'', JStr ''allow''),
                     (''reportFingerprint'', JStr ''r''), (''policyFingerprint'', JStr ''p''),
                     (''totalClaimCount'', JInt 2), (''supportedClaimCount'', JInt 1)];
       a = (\<lambda>i. \<lparr>act_agent_id = ''a'', act_action_id = i, act_operation = ''send'', act_resource = ''r'',
                 act_risk = 0, act_metadata = []\<rparr>)
   in \<exists>s. signal_from_mapping value = Inr s
        \<and> dec_type (decision_from_verification 5 (a ''act-1'') s) = ALLOW
        \<and> dec_type (decision_from_verification 5 (a ''act-2'') s) = DENY"
proof -
  let ?data = "JObj [(''actionID'', JStr ''act-1''), (''disposition'', JStr ''allow''),
                     (''reportFingerprint'', JStr ''r''), (''policyFingerprint'', JStr ''p''),
                     (''totalClaimCount'', JInt 2), (''supportedClaimCount'', JInt 1)]"
  let ?a = "\<lambda>i. \<lparr>act_agent_id = ''a'', act_action_id = i, act_operation = ''send'', act_resource = ''r'',
                 act_risk = 0, act_metadata = []\<rparr> :: action"
  let ?s = "\<lparr>vs_disposition = ''allow'', vs_report_fingerprint = ''r'', vs_policy_fingerprint = ''p'',
             vs_blocking_claim_ids = [], vs_review_claim_ids = [], vs_supported_count = 1,
             vs_total_count = 2, vs_trace_id = None, vs_run_id = None, vs_action_id = Some ''act-1'',
             vs_version = 1\<rparr>"
  have parsed: "signal_from_mapping ?data = Inr ?s"
    by (simp add: signal_from_mapping_def non_negative_int_def required_string_def signal_strings_def
        mk_signal_def)
  show ?thesis
    using parsed verified_signal_decision [OF parsed, of 5 "?a ''act-1''"]
      verified_signal_decision [OF parsed, of 5 "?a ''act-2''"]
    by (simp add: signal_bound_def)
qed

end
