(* ===== verification/Governance_Event.thy ===== *)
theory Governance_Event
  imports Prelude
begin

text \<open>
  \<open>governance_event.py\<close>: the events the service emits.  Attributes are a JSON object.
\<close>

record governance_event =
  ge_event_id :: string
  ge_event_type :: string
  ge_timestamp :: int
  ge_agent_id :: string
  ge_trace_id :: "string option"
  ge_run_id :: "string option"
  ge_action_id :: "string option"
  ge_policy_decision_id :: "string option"
  ge_incident_id :: "string option"
  ge_containment_epoch :: "int option"
  ge_reason :: "string option"
  ge_attributes :: "json option"

text \<open>
  \<open>GovernanceEvent.create(event_id, event_type, agent_id, **kwargs)\<close>: the keyword arguments
  are an update of the event with no optional field; \<open>now\<close> is the reading of \<open>time()\<close>.
\<close>

definition create_event ::
  "int \<Rightarrow> string \<Rightarrow> string \<Rightarrow> string \<Rightarrow> (governance_event \<Rightarrow> governance_event) \<Rightarrow> exn + governance_event" where
  "create_event now event_id event_type agent_id kwargs =
     (if event_id = [] \<or> event_type = [] \<or> agent_id = [] then
        Inl (Exn ValueError ''event_id, event_type, and agent_id must be non-empty'')
      else Inr (kwargs \<lparr>ge_event_id = event_id, ge_event_type = event_type, ge_timestamp = now,
                       ge_agent_id = agent_id, ge_trace_id = None, ge_run_id = None,
                       ge_action_id = None, ge_policy_decision_id = None, ge_incident_id = None,
                       ge_containment_epoch = None, ge_reason = None, ge_attributes = None\<rparr>))"

fun opt_json :: "('a \<Rightarrow> json) \<Rightarrow> 'a option \<Rightarrow> json" where
  "opt_json f None = JNull"
| "opt_json f (Some v) = f v"

text \<open>\<open>to_dict()\<close>: missing attributes become an empty object.  The timestamp is a number.\<close>

definition event_dict :: "governance_event \<Rightarrow> json" where
  "event_dict e =
     JObj [(''event_id'', JStr (ge_event_id e)), (''event_type'', JStr (ge_event_type e)),
           (''timestamp'', JInt (ge_timestamp e)), (''agent_id'', JStr (ge_agent_id e)),
           (''trace_id'', opt_json JStr (ge_trace_id e)), (''run_id'', opt_json JStr (ge_run_id e)),
           (''action_id'', opt_json JStr (ge_action_id e)),
           (''policy_decision_id'', opt_json JStr (ge_policy_decision_id e)),
           (''incident_id'', opt_json JStr (ge_incident_id e)),
           (''containment_epoch'', opt_json JInt (ge_containment_epoch e)),
           (''reason'', opt_json JStr (ge_reason e)),
           (''attributes'', case ge_attributes e of None \<Rightarrow> JObj [] | Some v \<Rightarrow> v)]"

lemma create_event_ok:
  "event_id \<noteq> [] \<Longrightarrow> event_type \<noteq> [] \<Longrightarrow> agent_id \<noteq> [] \<Longrightarrow>
     \<exists>e. create_event now event_id event_type agent_id kwargs = Inr e"
  by (simp add: create_event_def)

end
