(* ===== verification/Control.thy ===== *)
theory Control
  imports Policy Containment Runtime_Fence Incident_State Review Verification_Signal Governance_Event
begin

text \<open>
  \<open>control.py\<close>, part 1: the state of \<open>ContainmentService\<close> and the pieces its operations
  share.

  The service holds its lock for the whole of every operation except \<open>authorize\<close> and
  \<open>authorize_verified\<close>; an operation is a program on the service state.  The managed agent
  owns its containment controller, which owns the runtime, so \<open>managed.runtime\<close> is the
  runtime inside the controller.  What is outside (clock, disk, tokens, audit log, event sink,
  cgroup supervisor, adapters and providers) acts on the world \<open>'w\<close>; any call to it may raise.
  A callback does not call the service back.
\<close>

record recovery_authorization =
  ra_agent_id :: string
  ra_epoch :: int
  ra_capability :: "obj option"

record 'w managed_agent =
  ma_containment :: "'w controller"
  ma_metadata :: "string dict"
  ma_policy :: policy_engine
  ma_identity_digest :: "string option"
  ma_identity_pid :: "int option"
  ma_identity_cgroup :: "string option"
  ma_capability :: "obj option"

definition ma_runtime :: "'w managed_agent \<Rightarrow> runtime" where
  "ma_runtime m = ctl_runtime (ma_containment m)"

record 'w service =
  svc_agents :: "'w managed_agent dict"
  svc_incidents :: incident_registry
  svc_fences :: fence_registry
  svc_reviews :: "review_request dict"
  svc_next :: obj
  svc_world :: 'w

record audit_entry =
  au_event_type :: string
  au_agent_id :: string
  au_action_id :: "string option"
  au_decision :: "string option"
  au_reason :: "string option"
  au_fields :: "json dict"

record 'w supervisor =
  spv_create_agent :: "string \<Rightarrow> ('w, string) prog"
  spv_attach_pid :: "string \<Rightarrow> int \<Rightarrow> ('w, unit) prog"

text \<open>
  What the service is constructed with and the library functions it calls: \<open>env_disk\<close> says
  what the file system does to the next write, \<open>env_resolve\<close> is \<open>Path.resolve\<close>, \<open>env_sha256\<close>
  the hexadecimal digest of the encoded text.
\<close>

record 'w environment =
  env_clock :: "'w clock"
  env_disk :: "'w \<Rightarrow> exn option \<times> 'w"
  env_audit :: "(audit_entry \<Rightarrow> ('w, unit) prog) option"
  env_sink :: "(governance_event \<Rightarrow> ('w, unit) prog) option"
  env_supervisor :: "'w supervisor option"
  env_resolve :: "string \<Rightarrow> ('w, string) prog"
  env_uuid :: "'w \<Rightarrow> string \<times> 'w"
  env_token_urlsafe :: "'w \<Rightarrow> string \<times> 'w"
  env_token_hex :: "'w \<Rightarrow> string \<times> 'w"
  env_sha256 :: "string \<Rightarrow> string"
  env_review_timeout :: int

text \<open>
  \<open>ContainmentService(...)\<close>.  The incidents are given or an empty registry without a path;
  without given fences the registry is opened on the file derived from the incidents' path,
  whose contents are \<open>fence_contents\<close>, or has no path.
\<close>

definition mk_service ::
  "(json \<Rightarrow> string) \<Rightarrow> disk_file option \<Rightarrow> 'w environment \<Rightarrow> incident_registry option \<Rightarrow>
     fence_registry option \<Rightarrow> obj \<Rightarrow> 'w \<Rightarrow> exn + 'w service" where
  "mk_service wording fence_contents env incidents fences next_obj w =
     (if env_review_timeout env \<le> 0 then
        Inl (Exn ValueError ''review_timeout_seconds must be positive'')
      else (let ig = (case incidents of None \<Rightarrow> \<lparr>ig_has_path = False, ig_records = [], ig_file = None\<rparr>
                      | Some g \<Rightarrow> g);
                opened = (case fences of
                    Some g \<Rightarrow> Inr g
                  | None \<Rightarrow>
                      if ig_has_path ig then mk_fence_registry wording True fence_contents
                      else mk_fence_registry wording False None)
            in (case opened of
                  Inl e \<Rightarrow> Inl e
                | Inr fg \<Rightarrow> Inr \<lparr>svc_agents = [], svc_incidents = ig, svc_fences = fg,
                                svc_reviews = [], svc_next = next_obj, svc_world = w\<rparr>)))"

section \<open>Access to the parts of the state\<close>

definition on_world :: "('w, 'a) prog \<Rightarrow> ('w service, 'a) prog" where
  "on_world f s = (case f (svc_world s) of (r, w) \<Rightarrow> (r, s\<lparr>svc_world := w\<rparr>))"

definition sense :: "('w \<Rightarrow> 'a \<times> 'w) \<Rightarrow> ('w service, 'a) prog" where
  "sense f s = (case f (svc_world s) of (v, w) \<Rightarrow> (Inr v, s\<lparr>svc_world := w\<rparr>))"

definition read_time :: "'w environment \<Rightarrow> ('w service, int) prog" where
  "read_time env = sense (clk_time (env_clock env))"

definition alloc :: "('w service, obj) prog" where
  "alloc s = (Inr (svc_next s), s\<lparr>svc_next := svc_next s + 1\<rparr>)"

text \<open>An operation of a registry, with what the file system will do to its write.\<close>

definition with_fences ::
  "'w environment \<Rightarrow> (exn option \<Rightarrow> fence_registry \<Rightarrow> (exn + 'a) \<times> fence_registry) \<Rightarrow>
     ('w service, 'a) prog" where
  "with_fences env f s =
     (case env_disk env (svc_world s) of (io, w) \<Rightarrow>
        (case f io (svc_fences s) of (r, g) \<Rightarrow> (r, s\<lparr>svc_fences := g, svc_world := w\<rparr>)))"

definition with_incidents ::
  "'w environment \<Rightarrow> (exn option \<Rightarrow> incident_registry \<Rightarrow> (exn + 'a) \<times> incident_registry) \<Rightarrow>
     ('w service, 'a) prog" where
  "with_incidents env f s =
     (case env_disk env (svc_world s) of (io, w) \<Rightarrow>
        (case f io (svc_incidents s) of (r, g) \<Rightarrow> (r, s\<lparr>svc_incidents := g, svc_world := w\<rparr>)))"

definition unknown_agent :: "string \<Rightarrow> exn" where
  "unknown_agent agent_id = Exn KeyError (''unknown agent: '' @ agent_id)"

text \<open>\<open>_managed(agent_id)\<close>; the agent is an object the caller reads or updates in place.\<close>

definition svc_managed :: "string \<Rightarrow> ('w service, 'w managed_agent) prog" where
  "svc_managed agent_id s =
     (case dict_get (svc_agents s) agent_id of
        None \<Rightarrow> (Inl (unknown_agent agent_id), s)
      | Some m \<Rightarrow> (Inr m, s))"

definition update_managed :: "string \<Rightarrow> ('w managed_agent \<Rightarrow> 'w managed_agent) \<Rightarrow> ('w service, unit) prog" where
  "update_managed agent_id f s =
     (case dict_get (svc_agents s) agent_id of
        None \<Rightarrow> (Inr (), s)
      | Some m \<Rightarrow> (Inr (), s\<lparr>svc_agents := dict_set agent_id (f m) (svc_agents s)\<rparr>))"

text \<open>An operation of the agent's containment controller, acting on the world.\<close>

definition on_controller ::
  "string \<Rightarrow> ('w controller \<Rightarrow> 'w \<Rightarrow> ('a \<times> 'w controller) \<times> 'w) \<Rightarrow> ('w service, 'a) prog" where
  "on_controller agent_id f s =
     (case dict_get (svc_agents s) agent_id of
        None \<Rightarrow> (Inl (unknown_agent agent_id), s)
      | Some m \<Rightarrow>
          (case f (ma_containment m) (svc_world s) of ((v, c), w) \<Rightarrow>
             (Inr v, s\<lparr>svc_agents := dict_set agent_id (m\<lparr>ma_containment := c\<rparr>) (svc_agents s),
                       svc_world := w\<rparr>)))"

text \<open>\<open>if self.audit: self.audit.record(event_type, agent_id=..., ...)\<close>.\<close>

definition audit_record ::
  "'w environment \<Rightarrow> string \<Rightarrow> string \<Rightarrow> (audit_entry \<Rightarrow> audit_entry) \<Rightarrow> ('w service, unit) prog" where
  "audit_record env event_type agent_id kwargs =
     (case env_audit env of
        None \<Rightarrow> ret ()
      | Some record \<Rightarrow> on_world (record (kwargs \<lparr>au_event_type = event_type, au_agent_id = agent_id,
            au_action_id = None, au_decision = None, au_reason = None, au_fields = []\<rparr>)))"

text \<open>
  \<open>_emit_event\<close>.  When the sink raises, the handler calls \<open>self.audit.record\<close> with its first
  parameter \<open>event_type\<close> given both by position and by keyword; the call fails with a
  \<open>TypeError\<close> before \<open>record\<close> runs, and the handler around it swallows that.
\<close>

definition audit_sink_failure :: "'w environment \<Rightarrow> ('w service, unit) prog" where
  "audit_sink_failure env =
     (if env_audit env = None then ret ()
      else catch (raise (Exn TypeError (''AuditLog.record() got multiple values for argument ''
                           @ quoted ''event_type'')))
             (\<lambda>_. ret ()))"

definition emit_event ::
  "'w environment \<Rightarrow> string \<Rightarrow> string \<Rightarrow> (governance_event \<Rightarrow> governance_event) \<Rightarrow>
     ('w service, unit) prog" where
  "emit_event env event_type agent_id kwargs =
     (case env_sink env of
        None \<Rightarrow> ret ()
      | Some sink \<Rightarrow>
          andthen (sense (env_token_hex env)) (\<lambda>token.
          andthen (read_time env) (\<lambda>now.
          andthen (lift_result (create_event now (agent_id @ '':'' @ event_type @ '':'' @ token)
                     event_type agent_id kwargs)) (\<lambda>event.
          catch (on_world (sink event)) (\<lambda>_. audit_sink_failure env)))))"

definition incident_id :: "string \<Rightarrow> int \<Rightarrow> string" where
  "incident_id agent_id epoch = agent_id @ '':containment:'' @ str_int epoch"

text \<open>\<open>_revoke_identity\<close>: the digest and the process binding go, the cgroup stays.\<close>

definition revoke_identity :: "string \<Rightarrow> ('w service, unit) prog" where
  "revoke_identity agent_id =
     update_managed agent_id (\<lambda>m. m\<lparr>ma_identity_digest := None, ma_identity_pid := None\<rparr>)"

definition token_matches :: "'w environment \<Rightarrow> string \<Rightarrow> string \<Rightarrow> bool" where
  "token_matches env token digest \<longleftrightarrow> env_sha256 env token = digest"

definition latest_incident :: "string \<Rightarrow> ('w service, incident_record option) prog" where
  "latest_incident agent_id s = (ig_latest_for_agent agent_id (svc_incidents s), s)"

text \<open>\<open>managed.runtime._rotate_recovery_capability()\<close>, kept in \<open>managed.recovery_capability\<close>.\<close>

definition rotate_capability :: "string \<Rightarrow> ('w service, unit) prog" where
  "rotate_capability agent_id =
     andthen alloc (\<lambda>c.
     update_managed agent_id (\<lambda>m.
       let (cap, runtime) = rt_rotate_capability c (ma_runtime m) in
       m\<lparr>ma_containment := (ma_containment m)\<lparr>ctl_runtime := runtime\<rparr>, ma_capability := Some cap\<rparr>))"

section \<open>Queries and workloads\<close>

definition svc_status :: "string \<Rightarrow> ('w service, runtime_state) prog" where
  "svc_status agent_id = andthen (svc_managed agent_id) (\<lambda>m. ret (rt_state (ma_runtime m)))"

definition svc_runtime_snapshot :: "string \<Rightarrow> ('w service, runtime_snapshot) prog" where
  "svc_runtime_snapshot agent_id = andthen (svc_managed agent_id) (\<lambda>m. ret (rt_snapshot (ma_runtime m)))"

definition svc_report :: "string \<Rightarrow> ('w service, containment_report option) prog" where
  "svc_report agent_id =
     andthen (svc_managed agent_id) (\<lambda>m. ret (ctl_last_report (ma_containment m)))"

definition svc_snapshot :: "'w service \<Rightarrow> runtime_state dict" where
  "svc_snapshot s = map (\<lambda>(agent_id, m). (agent_id, rt_state (ma_runtime m))) (svc_agents s)"

definition svc_identity_cgroup :: "string \<Rightarrow> ('w service, string option) prog" where
  "svc_identity_cgroup agent_id =
     andthen (svc_managed agent_id) (\<lambda>m. ret (ma_identity_cgroup m))"

definition svc_unregister :: "string \<Rightarrow> ('w service, unit) prog" where
  "svc_unregister agent_id = modifying (\<lambda>s. s\<lparr>svc_agents := dict_del agent_id (svc_agents s)\<rparr>)"

text \<open>
  \<open>configure_containment\<close>: the new controller holds the same runtime object, which the
  comparison with \<open>is\<close> checks; so its runtime is the registered one.
\<close>

definition svc_configure_containment :: "string \<Rightarrow> 'w controller \<Rightarrow> ('w service, unit) prog" where
  "svc_configure_containment agent_id c =
     andthen (svc_managed agent_id) (\<lambda>m.
     andthen (guarding (rt_ref (ctl_runtime c) = rt_ref (ma_runtime m))
                (Exn ValueError ''containment runtime must match the registered runtime'')) (\<lambda>_.
     update_managed agent_id (\<lambda>m. m\<lparr>ma_containment := c\<lparr>ctl_runtime := ma_runtime m\<rparr>\<rparr>)))"

definition svc_create_workload :: "'w environment \<Rightarrow> string \<Rightarrow> ('w service, string) prog" where
  "svc_create_workload env agent_id =
     (case env_supervisor env of
        None \<Rightarrow> raise (Exn RuntimeError ''cgroup supervisor is not configured'')
      | Some spv \<Rightarrow>
          andthen (svc_managed agent_id) (\<lambda>m.
          andthen (guarding (ma_identity_cgroup m = None)
                     (Exn ValueError (''agent workload already exists: '' @ agent_id))) (\<lambda>_.
          andthen (on_world (spv_create_agent spv agent_id)) (\<lambda>path.
          andthen (on_world (env_resolve env path)) (\<lambda>resolved.
          andthen (update_managed agent_id (\<lambda>m. m\<lparr>ma_identity_cgroup := Some resolved\<rparr>)) (\<lambda>_.
          andthen (audit_record env ''workload_created'' agent_id
                     (\<lambda>e. e\<lparr>au_reason := Some ''controller-created cgroup identity boundary'',
                            au_fields := [(''cgroup_path'', JStr resolved)]\<rparr>)) (\<lambda>_.
          ret resolved)))))))"

definition svc_attach_workload :: "'w environment \<Rightarrow> string \<Rightarrow> int \<Rightarrow> ('w service, string) prog" where
  "svc_attach_workload env agent_id pid =
     (case env_supervisor env of
        None \<Rightarrow> raise (Exn RuntimeError ''cgroup supervisor is not configured'')
      | Some spv \<Rightarrow>
          andthen (guarding (0 < pid) (Exn ValueError ''pid must be positive'')) (\<lambda>_.
          andthen (svc_managed agent_id) (\<lambda>m.
            (case ma_identity_cgroup m of
               None \<Rightarrow> raise (Exn RuntimeError ''agent workload has not been created'')
             | Some cgroup \<Rightarrow>
                 andthen (on_world (spv_attach_pid spv cgroup pid)) (\<lambda>_.
                 andthen (audit_record env ''workload_attached'' agent_id
                            (\<lambda>e. e\<lparr>au_reason := Some ''controller attached process to workload cgroup'',
                                   au_fields := [(''pid'', JInt pid), (''cgroup_path'', JStr cgroup)]\<rparr>)) (\<lambda>_.
                 ret cgroup))))))"

definition svc_issue_identity_token ::
  "'w environment \<Rightarrow> string \<Rightarrow> int option \<Rightarrow> ('w service, string) prog" where
  "svc_issue_identity_token env agent_id peer_pid =
     andthen (guarding (case peer_pid of None \<Rightarrow> True | Some pid \<Rightarrow> 0 < pid)
                (Exn ValueError ''peer_pid must be positive'')) (\<lambda>_.
     andthen (svc_managed agent_id) (\<lambda>m.
     andthen (guarding (ma_identity_cgroup m \<noteq> None)
                (Exn RuntimeError ''create_workload must establish cgroup identity first'')) (\<lambda>_.
     andthen (sense (env_token_urlsafe env)) (\<lambda>token.
     andthen (update_managed agent_id
                (\<lambda>m. m\<lparr>ma_identity_digest := Some (env_sha256 env token),
                       ma_identity_pid := peer_pid\<rparr>)) (\<lambda>_.
     ret token)))))"

end
