(* ===== verification/Control_Register.thy ===== *)
theory Control_Register
  imports Control
begin

text \<open>
  \<open>control.py\<close>, part 2: \<open>register\<close>, the admission of an agent against the durable fence and
  the latest incident.

  The body is one function in the code; each stage of it is a definition here, in order.
\<close>

definition reconstruction_reason :: string where
  "reconstruction_reason =
     ''incident reconstructed from durable containment fence ''
     @ ''after interrupted containment; external enforcement ''
     @ ''must be reconciled before recovery''"

definition reconstruction_reason_after_recovery :: string where
  "reconstruction_reason_after_recovery =
     ''incident reconstructed from durable containment fence ''
     @ ''after interrupted containment following prior recovery; ''
     @ ''external enforcement must be reconciled before recovery''"

text \<open>\<open>record_containment\<close> for the fence's epoch, then the latest incident again.\<close>

definition reconstruct_incident ::
  "'w environment \<Rightarrow> string \<Rightarrow> int \<Rightarrow> string \<Rightarrow> ('w service, incident_record option) prog" where
  "reconstruct_incident env agent_id epoch reason =
     andthen (read_time env) (\<lambda>now.
     andthen (with_incidents env (\<lambda>io. ig_record_containment now io (incident_id agent_id epoch)
                agent_id epoch (Some reason))) (\<lambda>_.
     latest_incident agent_id))"

text \<open>A fence without any incident: the process died between the two writes.\<close>

definition admit_orphan_fence ::
  "'w environment \<Rightarrow> string \<Rightarrow> fence_record option \<Rightarrow> incident_record option \<Rightarrow>
     ('w service, incident_record option) prog" where
  "admit_orphan_fence env agent_id fence prior =
     (case (fence, prior) of
        (Some f, None) \<Rightarrow> reconstruct_incident env agent_id (fr_epoch f) reconstruction_reason
      | _ \<Rightarrow> ret prior)"

text \<open>A fence that survives next to a recovered incident.\<close>

definition admit_fence_over_recovery ::
  "'w environment \<Rightarrow> string \<Rightarrow> fence_record option \<Rightarrow> incident_record option \<Rightarrow>
     ('w service, incident_record option) prog" where
  "admit_fence_over_recovery env agent_id fence prior =
     (case (fence, prior) of
        (Some f, Some r) \<Rightarrow>
          if inc_state r \<noteq> RECOVERED then ret prior
          else if inc_epoch r = fr_epoch f then
            andthen (with_incidents env (\<lambda>io. ig_restore_contained io (inc_id r))) (\<lambda>_.
            latest_incident agent_id)
          else if (case inc_recovery_epoch r of None \<Rightarrow> False | Some e \<Rightarrow> e < fr_epoch f) then
            reconstruct_incident env agent_id (fr_epoch f) reconstruction_reason_after_recovery
          else raise (Exn RuntimeError ''durable fence epoch conflicts with recovered incident'')
      | _ \<Rightarrow> ret prior)"

text \<open>\<open>runtime.restore_contained(epoch)\<close> on the runtime being admitted.\<close>

definition restore_runtime :: "int \<Rightarrow> runtime \<Rightarrow> ('w service, runtime) prog" where
  "restore_runtime epoch runtime =
     andthen alloc (\<lambda>p. lift_result (rt_restore_contained p epoch runtime))"

text \<open>The runtime against the fence; \<open>supplied\<close>: a controller was given.\<close>

definition admit_runtime_fenced ::
  "bool \<Rightarrow> fence_record option \<Rightarrow> runtime \<Rightarrow> ('w service, runtime) prog" where
  "admit_runtime_fenced supplied fence runtime =
     (case fence of
        None \<Rightarrow> ret runtime
      | Some f \<Rightarrow>
          if \<not> supplied then restore_runtime (fr_epoch f) runtime
          else if rt_can_execute runtime then
            raise (Exn RuntimeError (''agent has durable containment state; supplied runtime ''
                     @ ''must already be contained''))
          else if rt_state runtime = CONTAINED \<and> rt_epoch runtime \<noteq> fr_epoch f then
            raise (Exn RuntimeError ''supplied contained runtime epoch does not match durable runtime fence'')
          else ret runtime)"

text \<open>The runtime against a recovered incident, without a fence.\<close>

definition admit_recovered ::
  "'w environment \<Rightarrow> string \<Rightarrow> bool \<Rightarrow> incident_record \<Rightarrow> runtime \<Rightarrow> ('w service, runtime) prog" where
  "admit_recovered env agent_id supplied r runtime =
     (case inc_recovery_epoch r of
        None \<Rightarrow> raise (Exn RuntimeError ''durable recovered incident is missing recovery epoch'')
      | Some recovery_epoch \<Rightarrow>
          if \<not> supplied then
            raise (Exn RuntimeError (''durable recovery state requires an explicitly supplied active ''
                     @ ''runtime or contained runtime with containment controller''))
          else if rt_state runtime = CONTAINED \<and> rt_epoch runtime = inc_epoch r then
            andthen (with_incidents env (\<lambda>io. ig_restore_contained io (inc_id r))) (\<lambda>_.
            andthen (with_fences env (\<lambda>io. fg_prepare io agent_id (inc_epoch r))) (\<lambda>_.
            andthen (latest_incident agent_id) (\<lambda>_. ret runtime)))
          else if \<not> rt_can_execute runtime then
            raise (Exn RuntimeError (''durable recovery state requires a contained runtime at the ''
                     @ ''containment epoch or an active runtime at the recovery epoch''))
          else if rt_epoch runtime \<noteq> recovery_epoch then
            raise (Exn RuntimeError ''supplied active runtime epoch does not match durable recovery state'')
          else ret runtime)"

text \<open>The runtime against an incident that is still contained.\<close>

definition admit_contained ::
  "'w environment \<Rightarrow> string \<Rightarrow> bool \<Rightarrow> fence_record option \<Rightarrow> incident_record \<Rightarrow> runtime \<Rightarrow>
     ('w service, runtime) prog" where
  "admit_contained env agent_id supplied fence r runtime =
     andthen (if fence = None
              then andthen (with_fences env (\<lambda>io. fg_prepare io agent_id (inc_epoch r))) (\<lambda>_. ret ())
              else ret ()) (\<lambda>_.
     (if \<not> supplied then restore_runtime (inc_epoch r) runtime
      else if rt_can_execute runtime then
        raise (Exn RuntimeError (''agent has durable containment state; supplied runtime ''
                 @ ''must already be contained''))
      else if rt_state runtime = CONTAINED \<and> rt_epoch runtime \<noteq> inc_epoch r then
        raise (Exn RuntimeError (''supplied contained runtime epoch does not match ''
                 @ ''durable containment state''))
      else ret runtime))"

definition admit_runtime ::
  "'w environment \<Rightarrow> string \<Rightarrow> bool \<Rightarrow> fence_record option \<Rightarrow> incident_record option \<Rightarrow> runtime \<Rightarrow>
     ('w service, runtime) prog" where
  "admit_runtime env agent_id supplied fence prior runtime =
     (case prior of
        None \<Rightarrow> ret runtime
      | Some r \<Rightarrow>
          if fence = None \<and> inc_state r = RECOVERED then admit_recovered env agent_id supplied r runtime
          else if inc_state r \<in> {INC_CONTAINED, PROOF_DEGRADED} then
            admit_contained env agent_id supplied fence r runtime
          else ret runtime)"

text \<open>\<open>Runtime(agent_id)\<close>, or the runtime of the supplied controller.\<close>

definition new_runtime :: "'w environment \<Rightarrow> string \<Rightarrow> ('w service, runtime) prog" where
  "new_runtime env agent_id =
     andthen (sense (env_uuid env)) (\<lambda>uuid.
     andthen alloc (\<lambda>ref. andthen alloc (\<lambda>p. andthen alloc (\<lambda>c.
     ret (mk_runtime ref p c uuid agent_id None)))))"

definition register_runtime ::
  "'w environment \<Rightarrow> string \<Rightarrow> 'w controller option \<Rightarrow> ('w service, runtime) prog" where
  "register_runtime env agent_id containment =
     (case containment of None \<Rightarrow> new_runtime env agent_id | Some c \<Rightarrow> ret (ctl_runtime c))"

definition mk_managed ::
  "runtime \<Rightarrow> 'w controller option \<Rightarrow> string dict option \<Rightarrow> policy_engine option \<Rightarrow> 'w managed_agent" where
  "mk_managed runtime containment metadata policy =
     \<lparr>ma_containment = (case containment of
          None \<Rightarrow> mk_controller runtime {} None None None []
        | Some c \<Rightarrow> c\<lparr>ctl_runtime := runtime\<rparr>),
      ma_metadata = (case metadata of None \<Rightarrow> [] | Some d \<Rightarrow> d),
      ma_policy = (case policy of None \<Rightarrow> default_policy_engine | Some pe \<Rightarrow> pe),
      ma_identity_digest = None, ma_identity_pid = None, ma_identity_cgroup = None,
      ma_capability = None\<rparr>"

text \<open>The checks before anything is stored, then the admission, then the installation.\<close>

definition admit ::
  "'w environment \<Rightarrow> string \<Rightarrow> 'w controller option \<Rightarrow> ('w service, runtime) prog" where
  "admit env agent_id containment =
     andthen (reading (\<lambda>s. dict_get (svc_agents s) agent_id)) (\<lambda>known.
     andthen (guarding (known = None) (Exn ValueError (''agent already registered: '' @ agent_id))) (\<lambda>_.
     andthen (register_runtime env agent_id containment) (\<lambda>runtime.
     andthen (guarding (rt_agent_id runtime = agent_id)
                (Exn ValueError ''containment runtime agent_id does not match registration'')) (\<lambda>_.
     andthen (reading (\<lambda>s. fg_get agent_id (svc_fences s))) (\<lambda>fence.
     andthen (latest_incident agent_id) (\<lambda>prior0.
     andthen (admit_orphan_fence env agent_id fence prior0) (\<lambda>prior1.
     andthen (admit_fence_over_recovery env agent_id fence prior1) (\<lambda>prior2.
     andthen (admit_runtime_fenced (containment \<noteq> None) fence runtime) (\<lambda>runtime1.
     admit_runtime env agent_id (containment \<noteq> None) fence prior2 runtime1)))))))))"

definition svc_register ::
  "'w environment \<Rightarrow> string \<Rightarrow> 'w controller option \<Rightarrow> string dict option \<Rightarrow> policy_engine option \<Rightarrow>
     ('w service, runtime) prog" where
  "svc_register env agent_id containment metadata policy =
     andthen (admit env agent_id containment) (\<lambda>runtime.
     andthen (modifying (\<lambda>s. s\<lparr>svc_agents :=
                dict_set agent_id (mk_managed runtime containment metadata policy) (svc_agents s)\<rparr>)) (\<lambda>_.
     andthen (rotate_capability agent_id) (\<lambda>_.
     andthen (audit_record env ''agent_registered'' agent_id (\<lambda>e. e)) (\<lambda>_.
     andthen (emit_event env ''agent_registered'' agent_id (\<lambda>e. e)) (\<lambda>_.
     andthen (svc_managed agent_id) (\<lambda>m. ret (ma_runtime m)))))))"

end
