(* ===== verification/Control_Contain.thy ===== *)
theory Control_Contain
  imports Control
begin

text \<open>
  \<open>control.py\<close>, part 3: \<open>contain\<close>, \<open>reconcile_containment\<close>,
  \<open>issue_recovery_authorization\<close> and \<open>recover\<close>.
\<close>

section \<open>Containment\<close>

definition contain_reason :: string where
  "contain_reason = ''controller containment requested''"

text \<open>Keyword arguments the events of one incident share.\<close>

definition incident_event :: "string \<Rightarrow> int \<Rightarrow> string \<Rightarrow> governance_event \<Rightarrow> governance_event" where
  "incident_event incident epoch reason e =
     e\<lparr>ge_incident_id := Some incident, ge_containment_epoch := Some epoch, ge_reason := Some reason\<rparr>"

fun persistence_failure :: "string \<Rightarrow> exn + 'a \<Rightarrow> string option" where
  "persistence_failure what (Inl e) = Some (what @ '' persistence unavailable: '' @ exn_text e)"
| "persistence_failure what (Inr v) = None"

text \<open>The \<open>attributes\<close> and audit fields that describe a report.\<close>

definition json_strs :: "string list \<Rightarrow> json" where
  "json_strs xs = JList (map JStr xs)"

definition audit_containment ::
  "'w environment \<Rightarrow> string \<Rightarrow> string \<Rightarrow> containment_report \<Rightarrow> ('w service, unit) prog" where
  "audit_containment env agent_id incident report =
     (if env_audit env = None then ret ()
      else catch
        (audit_record env ''containment'' agent_id
          (\<lambda>e. e\<lparr>au_decision := Some (decision_value CONTAIN), au_reason := Some contain_reason,
                 au_fields := [(''epoch'', JInt (rep_epoch report)), (''incident_id'', JStr incident),
                   (''stages'', json_strs (rep_stages report)),
                   (''failures'', json_strs (rep_failures report)),
                   (''complete'', JBool (rep_complete report)),
                   (''external_verified'', JBool (rep_external_verified report)),
                   (''certified'', JBool (rep_certified report))]\<rparr>))
        (\<lambda>exc.
          andthen (reading (\<lambda>s. ig_get incident (svc_incidents s))) (\<lambda>found.
            if found = None then ret ()
            else andthen (with_incidents env (\<lambda>io. ig_mark_proof_degraded io incident
                            (''audit persistence unavailable: '' @ exn_text exc))) (\<lambda>_. ret ()))))"

text \<open>From the fence to the revocation of the identity; the result is the report.\<close>

definition contain_runtime ::
  "'w environment \<Rightarrow> string \<Rightarrow> string \<Rightarrow> int \<Rightarrow> ('w service, containment_report) prog" where
  "contain_runtime env agent_id incident next_epoch =
     andthen (emit_event env ''containment_requested'' agent_id
                (incident_event incident next_epoch contain_reason)) (\<lambda>_.
     andthen alloc (\<lambda>p.
     andthen (on_controller agent_id (ctl_contain (env_clock env) p)) (\<lambda>report.
     andthen (revoke_identity agent_id) (\<lambda>_.
     andthen (emit_event env ''capability_revoked'' agent_id
                (incident_event incident (rep_epoch report)
                   ''identity credentials revoked at containment'')) (\<lambda>_.
     ret report)))))"

definition verification_failed_reason :: "containment_report \<Rightarrow> string" where
  "verification_failed_reason report =
     (if rep_complete report \<and> \<not> rep_external_verified report then
        ''containment stages completed without independent external verification''
      else ''one or more containment stages or external enforcement verifications failed'')"

text \<open>The events and the report after the incident and the audit record.\<close>

definition contain_finish ::
  "'w environment \<Rightarrow> string \<Rightarrow> string \<Rightarrow> string option \<Rightarrow> string option \<Rightarrow> containment_report \<Rightarrow>
     ('w service, containment_report) prog" where
  "contain_finish env agent_id incident fence_failure incident_failure report0 =
     andthen (emit_event env ''containment_enforced'' agent_id
        (\<lambda>e. (incident_event incident (rep_epoch report0) contain_reason e)
           \<lparr>ge_attributes := Some (JObj [(''complete'', JBool (rep_complete report0)),
              (''stages'', json_strs (rep_stages report0)),
              (''failures'', json_strs (rep_failures report0))])\<rparr>)) (\<lambda>_.
     andthen (case fence_failure of
                None \<Rightarrow> ret report0
              | Some failure \<Rightarrow> lift_result (with_persistence_failure failure report0)) (\<lambda>report.
     (case incident_failure of
        Some failure \<Rightarrow>
          andthen (emit_event env ''containment_proof_degraded'' agent_id
                     (incident_event incident (rep_epoch report) failure)) (\<lambda>_.
          lift_result (with_persistence_failure failure report))
      | None \<Rightarrow>
          if rep_certified report then
            andthen (emit_event env ''containment_certified'' agent_id
                       (incident_event incident (rep_epoch report)
                          (''all configured containment stages completed and ''
                           @ ''external enforcement was independently verified''))) (\<lambda>_. ret report)
          else
            andthen (emit_event env ''containment_verification_failed'' agent_id
              (\<lambda>e. (incident_event incident (rep_epoch report) (verification_failed_reason report) e)
                 \<lparr>ge_attributes := Some (JObj [(''failures'', json_strs (rep_failures report)),
                    (''external_verified'', JBool (rep_external_verified report))])\<rparr>)) (\<lambda>_.
            ret report))))"

definition svc_contain :: "'w environment \<Rightarrow> string \<Rightarrow> ('w service, containment_report) prog" where
  "svc_contain env agent_id =
     andthen (svc_managed agent_id) (\<lambda>m.
     andthen (attempt (with_fences env (\<lambda>io. fg_prepare io agent_id (rt_epoch (ma_runtime m) + 1))))
       (\<lambda>fence_outcome.
     andthen (contain_runtime env agent_id
                (incident_id agent_id (rt_epoch (ma_runtime m) + 1)) (rt_epoch (ma_runtime m) + 1)) (\<lambda>report.
     andthen (read_time env) (\<lambda>now.
     andthen (attempt (with_incidents env (\<lambda>io.
                ig_record_containment now io (incident_id agent_id (rt_epoch (ma_runtime m) + 1))
                  agent_id (rep_epoch report) (Some contain_reason)))) (\<lambda>incident_outcome.
     andthen (audit_containment env agent_id
                (incident_id agent_id (rt_epoch (ma_runtime m) + 1)) report) (\<lambda>_.
     contain_finish env agent_id (incident_id agent_id (rt_epoch (ma_runtime m) + 1))
       (persistence_failure ''durable fence'' fence_outcome)
       (persistence_failure ''incident'' incident_outcome) report))))))"

section \<open>Reconciliation and the recovery authorization\<close>

definition recoverable_incident :: "incident_record option \<Rightarrow> incident_record option" where
  "recoverable_incident incident =
     (case incident of
        None \<Rightarrow> None
      | Some r \<Rightarrow> if inc_state r \<in> {INC_CONTAINED, PROOF_DEGRADED} then Some r else None)"

text \<open>The guard \<open>if incident is None or incident.state not in (...): raise\<close>.\<close>

definition need_recoverable :: "incident_record option \<Rightarrow> ('w service, incident_record) prog" where
  "need_recoverable incident =
     (case recoverable_incident incident of
        None \<Rightarrow> raise (Exn RuntimeError ''agent has no durably recoverable containment incident'')
      | Some r \<Rightarrow> ret r)"

text \<open>The two guards on the runtime, which three operations repeat.\<close>

definition need_contained_at :: "'w managed_agent \<Rightarrow> incident_record \<Rightarrow> ('w service, unit) prog" where
  "need_contained_at m r =
     andthen (guarding (rt_state (ma_runtime m) = CONTAINED)
                (Exn RuntimeError ''runtime is not contained'')) (\<lambda>_.
     guarding (rt_epoch (ma_runtime m) = inc_epoch r)
       (Exn RuntimeError ''runtime epoch does not match durable containment''))"

text \<open>\<open>recontain_enforcers\<close> and \<open>release_enforcers\<close> leave the controller as it is.\<close>

definition recontain_all :: "string \<Rightarrow> ('w service, string list) prog" where
  "recontain_all agent_id =
     on_controller agent_id (\<lambda>c w. case ctl_recontain_enforcers c w of (fs, w') \<Rightarrow> ((fs, c), w'))"

definition release_all :: "string \<Rightarrow> ('w service, string list) prog" where
  "release_all agent_id =
     on_controller agent_id (\<lambda>c w. case ctl_release_enforcers c w of (fs, w') \<Rightarrow> ((fs, c), w'))"

definition svc_reconcile_containment :: "string \<Rightarrow> ('w service, string list) prog" where
  "svc_reconcile_containment agent_id =
     andthen (svc_managed agent_id) (\<lambda>m.
     andthen (latest_incident agent_id) (\<lambda>incident.
     andthen (reading (\<lambda>s. fg_get agent_id (svc_fences s))) (\<lambda>fence.
     andthen (need_recoverable incident) (\<lambda>r.
     (case fence of
        None \<Rightarrow> raise (Exn RuntimeError ''agent has no durable containment fence'')
      | Some f \<Rightarrow>
          andthen (guarding (fr_epoch f = inc_epoch r)
                     (Exn RuntimeError ''durable fence epoch does not match containment incident'')) (\<lambda>_.
          andthen (need_contained_at m r) (\<lambda>_.
          recontain_all agent_id)))))))"

definition svc_issue_recovery_authorization ::
  "'w environment \<Rightarrow> string \<Rightarrow> ('w service, recovery_authorization) prog" where
  "svc_issue_recovery_authorization env agent_id =
     andthen (svc_managed agent_id) (\<lambda>m.
     andthen (latest_incident agent_id) (\<lambda>incident.
     andthen (need_recoverable incident) (\<lambda>r.
     andthen (need_contained_at m r) (\<lambda>_.
     andthen (svc_reconcile_containment agent_id) (\<lambda>failures.
     andthen (guarding (failures = [])
                (Exn RuntimeError (''recovery authorization blocked; containment reconciliation failed: ''
                   @ join_with ''; '' failures))) (\<lambda>_.
     andthen (emit_event env ''recovery_requested'' agent_id
                (\<lambda>e. e\<lparr>ge_incident_id := Some (inc_id r), ge_containment_epoch := Some (inc_epoch r)\<rparr>)) (\<lambda>_.
     ret \<lparr>ra_agent_id = agent_id, ra_epoch = inc_epoch r, ra_capability = ma_capability m\<rparr>)))))))"

section \<open>Recovery\<close>

text \<open>The checks before anything changes; the result is the incident to recover.\<close>

definition recover_checks ::
  "string \<Rightarrow> recovery_authorization option \<Rightarrow> ('w service, incident_record) prog" where
  "recover_checks agent_id authorization =
     andthen (svc_managed agent_id) (\<lambda>m.
     (case authorization of
        None \<Rightarrow> raise (Exn PermissionError ''recovery requires controller authorization'')
      | Some auth \<Rightarrow>
          andthen (guarding (ra_agent_id auth = agent_id)
                     (Exn PermissionError ''recovery authorization is bound to another agent'')) (\<lambda>_.
          andthen (guarding (ra_capability auth = ma_capability m)
                     (Exn PermissionError ''recovery authorization is stale'')) (\<lambda>_.
          andthen (latest_incident agent_id) (\<lambda>incident.
          andthen (need_recoverable incident) (\<lambda>r.
          andthen (guarding (ra_epoch auth = inc_epoch r)
                     (Exn PermissionError ''recovery authorization epoch is stale'')) (\<lambda>_.
          andthen (need_contained_at m r) (\<lambda>_. ret r))))))))"

definition recover_clear_fence :: "'w environment \<Rightarrow> string \<Rightarrow> ('w service, unit) prog" where
  "recover_clear_fence env agent_id =
     catch (with_fences env (\<lambda>io. fg_clear io agent_id))
       (\<lambda>_. raise (Exn RuntimeError
          ''durable recovery fence could not be cleared; runtime remains contained''))"

text \<open>Release the providers; if one fails, put the fence back if possible, and raise.\<close>

definition recover_release :: "'w environment \<Rightarrow> string \<Rightarrow> int \<Rightarrow> ('w service, unit) prog" where
  "recover_release env agent_id epoch =
     andthen (release_all agent_id) (\<lambda>failures.
       if failures = [] then ret ()
       else andthen (attempt (with_fences env (\<lambda>io. fg_prepare io agent_id epoch))) (\<lambda>_.
         raise (Exn RuntimeError (''external enforcement could not be released; runtime remains contained: ''
                  @ join_with ''; '' failures))))"

text \<open>The parts of the compensation: each yields the failures it adds.\<close>

definition compensate_fence :: "'w environment \<Rightarrow> string \<Rightarrow> int \<Rightarrow> ('w service, string list) prog" where
  "compensate_fence env agent_id epoch =
     andthen (attempt (with_fences env (\<lambda>io. fg_prepare io agent_id epoch))) (\<lambda>outcome.
       ret (case outcome of
              Inl e \<Rightarrow> [''durable fence restoration failed: '' @ exn_text e] | Inr _ \<Rightarrow> []))"

definition compensate_incident :: "'w environment \<Rightarrow> string \<Rightarrow> ('w service, string list) prog" where
  "compensate_incident env iid =
     andthen (attempt (with_incidents env (\<lambda>io. ig_restore_contained io iid))) (\<lambda>outcome.
       ret (case outcome of Inl e \<Rightarrow> [''incident rollback failed: '' @ exn_text e] | Inr _ \<Rightarrow> []))"

text \<open>
  \<open>except OSError\<close> around \<open>mark_recovered\<close>: restore fence, incident and external containment,
  then raise; every other exception passes.
\<close>

definition recover_commit :: "'w environment \<Rightarrow> string \<Rightarrow> incident_record \<Rightarrow> ('w service, unit) prog" where
  "recover_commit env agent_id r =
     catch (andthen (with_incidents env (\<lambda>io. ig_mark_recovered io (inc_id r))) (\<lambda>_. ret ()))
       (\<lambda>exc.
         if \<not> is_os_error exc then raise exc
         else
           andthen (compensate_fence env agent_id (inc_epoch r)) (\<lambda>f1.
           andthen (latest_incident agent_id) (\<lambda>current.
           andthen (case current of
                      None \<Rightarrow> ret []
                    | Some r' \<Rightarrow>
                        if inc_state r' = RECOVERED then compensate_incident env (inc_id r')
                        else ret []) (\<lambda>f2.
           andthen (recontain_all agent_id) (\<lambda>f3.
             if f1 @ f2 @ f3 \<noteq> [] then
               raise (Exn RuntimeError (''recovery aborted after incident persistence failure; ''
                  @ ''runtime remains contained; compensation failures: ''
                  @ join_with ''; '' (f1 @ f2 @ f3)))
             else raise exc)))))"

text \<open>\<open>managed.runtime.recover(managed.recovery_capability, epoch)\<close>.\<close>

definition activate_runtime :: "string \<Rightarrow> int \<Rightarrow> ('w service, int) prog" where
  "activate_runtime agent_id epoch =
     andthen alloc (\<lambda>p.
     andthen (svc_managed agent_id) (\<lambda>m.
     andthen (lift_result (rt_recover p (ma_capability m) epoch (ma_runtime m))) (\<lambda>res.
     andthen (update_managed agent_id
                (\<lambda>m. m\<lparr>ma_containment := (ma_containment m)\<lparr>ctl_runtime := snd res\<rparr>\<rparr>)) (\<lambda>_.
     ret (fst res)))))"

definition recover_activate :: "'w environment \<Rightarrow> string \<Rightarrow> incident_record \<Rightarrow> ('w service, int) prog" where
  "recover_activate env agent_id r =
     catch (activate_runtime agent_id (inc_epoch r))
       (\<lambda>exc.
         andthen (compensate_fence env agent_id (inc_epoch r)) (\<lambda>f1.
         andthen (compensate_incident env (inc_id r)) (\<lambda>f2.
         andthen (recontain_all agent_id) (\<lambda>f3.
           if f1 @ f2 @ f3 \<noteq> [] then
             raise (Exn RuntimeError (''runtime activation failed; runtime remains contained; ''
                @ ''compensation failures: '' @ join_with ''; '' (f1 @ f2 @ f3)))
           else raise exc))))"

definition recover_finish ::
  "'w environment \<Rightarrow> string \<Rightarrow> incident_record \<Rightarrow> int \<Rightarrow> ('w service, int) prog" where
  "recover_finish env agent_id r epoch =
     andthen (rotate_capability agent_id) (\<lambda>_.
     andthen (catch (audit_record env ''recovery'' agent_id
                (\<lambda>e. e\<lparr>au_decision := Some ''recover'',
                       au_reason := Some ''controller recovery authorization accepted'',
                       au_fields := [(''epoch'', JInt epoch), (''incident_id'', JStr (inc_id r))]\<rparr>))
              (\<lambda>_. ret ())) (\<lambda>_.
     andthen (emit_event env ''recovery_completed'' agent_id
                (\<lambda>e. e\<lparr>ge_incident_id := Some (inc_id r), ge_containment_epoch := Some (inc_epoch r),
                       ge_attributes := Some (JObj [(''recovery_epoch'', JInt epoch)])\<rparr>)) (\<lambda>_.
     ret epoch)))"

definition svc_recover ::
  "'w environment \<Rightarrow> string \<Rightarrow> recovery_authorization option \<Rightarrow> ('w service, int) prog" where
  "svc_recover env agent_id authorization =
     andthen (recover_checks agent_id authorization) (\<lambda>r.
     andthen (emit_event env ''recovery_authorized'' agent_id
                (incident_event (inc_id r) (inc_epoch r) ''controller recovery authorization accepted'')) (\<lambda>_.
     andthen (recover_clear_fence env agent_id) (\<lambda>_.
     andthen (recover_release env agent_id (inc_epoch r)) (\<lambda>_.
     andthen (recover_commit env agent_id r) (\<lambda>_.
     andthen (recover_activate env agent_id r) (\<lambda>epoch.
     recover_finish env agent_id r epoch))))))"

end
