(* ===== verification/Control_Authorize.thy ===== *)
theory Control_Authorize
  imports Control_Contain
begin

text \<open>
  \<open>control.py\<close>, part 4: \<open>authorize\<close>, \<open>authorize_verified\<close> and the human reviews.

  \<open>authorize\<close> takes the service lock twice and calls the membership predicate in between,
  so it is three steps (\<open>auth_snapshot\<close>, \<open>auth_check\<close>, \<open>auth_decide\<close>) and a last one outside the
  lock (\<open>auth_finish\<close>); other operations of the service can run between them.
\<close>

section \<open>Authorization\<close>

record identity_snapshot =
  snap_ref :: obj
  snap_digest :: "string option"
  snap_pid :: "int option"
  snap_cgroup :: "string option"
  snap_epoch :: int
  snap_active :: bool

text \<open>
  The first locked section.  \<open>snap_ref\<close> is the runtime of the agent object \<open>managed\<close>, which
  the last step refers to again.
\<close>

definition auth_snapshot :: "action \<Rightarrow> ('w service, identity_snapshot) prog" where
  "auth_snapshot a =
     andthen (svc_managed (act_agent_id a)) (\<lambda>m.
     ret \<lparr>snap_ref = rt_ref (ma_runtime m), snap_digest = ma_identity_digest m,
          snap_pid = ma_identity_pid m, snap_cgroup = ma_identity_cgroup m,
          snap_epoch = rt_epoch (ma_runtime m), snap_active = rt_can_execute (ma_runtime m)\<rparr>)"

text \<open>
  The chain of \<open>and\<close>s: the external predicate is called, with no lock held, only if every
  conjunct before it holds.
\<close>

definition auth_check ::
  "'w environment \<Rightarrow> identity_snapshot \<Rightarrow> string option \<Rightarrow> int option \<Rightarrow>
     (int \<Rightarrow> string \<Rightarrow> ('w, bool) prog) option \<Rightarrow> ('w service, bool) prog" where
  "auth_check env snap token peer membership =
     (case (token, snap_digest snap, snap_cgroup snap, peer, membership) of
        (Some t, Some digest, Some cgroup, Some pid, Some belongs) \<Rightarrow>
          if t \<noteq> [] \<and> token_matches env t digest \<and> (snap_pid snap = None \<or> snap_pid snap = Some pid)
          then on_world (belongs pid cgroup)
          else ret False
      | _ \<Rightarrow> ret False)"

definition deny :: "'w environment \<Rightarrow> action \<Rightarrow> string \<Rightarrow> ('w service, decision) prog" where
  "deny env a reason =
     andthen (read_time env) (\<lambda>now. ret (mk_decision now (act_action_id a) DENY reason))"

text \<open>\<open>current.policy.evaluate(action)\<close> on the registered agent.\<close>

definition evaluate_policy :: "'w environment \<Rightarrow> action \<Rightarrow> ('w service, decision) prog" where
  "evaluate_policy env a =
     andthen (read_time env) (\<lambda>now.
     andthen (svc_managed (act_agent_id a)) (\<lambda>m.
     andthen (update_managed (act_agent_id a)
                (\<lambda>m. m\<lparr>ma_policy := snd (evaluate now (ma_policy m) a)\<rparr>)) (\<lambda>_.
     ret (fst (evaluate now (ma_policy m) a)))))"

definition identity_unchanged :: "identity_snapshot \<Rightarrow> 'w managed_agent \<Rightarrow> bool" where
  "identity_unchanged snap m \<longleftrightarrow>
     ma_identity_digest m = snap_digest snap \<and> ma_identity_pid m = snap_pid snap
     \<and> ma_identity_cgroup m = snap_cgroup snap"

definition runtime_unchanged :: "identity_snapshot \<Rightarrow> 'w managed_agent \<Rightarrow> bool" where
  "runtime_unchanged snap m \<longleftrightarrow>
     rt_can_execute (ma_runtime m) \<and> rt_epoch (ma_runtime m) = snap_epoch snap"

text \<open>The decision; its last branch is the second locked section.\<close>

definition auth_decide ::
  "'w environment \<Rightarrow> action \<Rightarrow> identity_snapshot \<Rightarrow> bool \<Rightarrow> ('w service, decision) prog" where
  "auth_decide env a snap authenticated =
     (if \<not> authenticated then deny env a ''agent identity is not authenticated''
      else if \<not> snap_active snap then deny env a ''agent runtime is not executable''
      else andthen (svc_managed (act_agent_id a)) (\<lambda>m.
        if \<not> identity_unchanged snap m \<or> \<not> runtime_unchanged snap m then
          deny env a ''agent identity is no longer authorized''
        else evaluate_policy env a))"

text \<open>
  After the lock: \<open>managed.containment.halt()\<close> on a HALT, the audit record and the event.
  \<open>managed\<close> is the object of the first step; if another runtime is registered under the id
  since, the halt is not of the registered agent.
\<close>

definition halt_managed :: "string \<Rightarrow> obj \<Rightarrow> ('w service, unit) prog" where
  "halt_managed agent_id ref =
     andthen alloc (\<lambda>p.
     update_managed agent_id (\<lambda>m.
       if rt_ref (ma_runtime m) = ref then m\<lparr>ma_containment := ctl_halt p (ma_containment m)\<rparr> else m))"

definition auth_finish ::
  "'w environment \<Rightarrow> action \<Rightarrow> obj \<Rightarrow> decision \<Rightarrow> ('w service, decision) prog" where
  "auth_finish env a ref d =
     andthen (if dec_type d = HALT then halt_managed (act_agent_id a) ref else ret ()) (\<lambda>_.
     andthen (audit_record env ''authorization_decision'' (act_agent_id a)
                (\<lambda>e. e\<lparr>au_action_id := Some (act_action_id a), au_decision := Some (decision_value (dec_type d)),
                       au_reason := Some (dec_reason d)\<rparr>)) (\<lambda>_.
     andthen (emit_event env ''authorization_decision'' (act_agent_id a)
                (\<lambda>e. e\<lparr>ge_action_id := Some (act_action_id a),
                       ge_policy_decision_id := Some (act_action_id a), ge_reason := Some (dec_reason d),
                       ge_attributes := Some (JObj [(''decision'', JStr (decision_value (dec_type d)))])\<rparr>)) (\<lambda>_.
     ret d)))"

text \<open>\<open>authorize\<close> with nothing in between.\<close>

definition svc_authorize ::
  "'w environment \<Rightarrow> action \<Rightarrow> string option \<Rightarrow> int option \<Rightarrow>
     (int \<Rightarrow> string \<Rightarrow> ('w, bool) prog) option \<Rightarrow> ('w service, decision) prog" where
  "svc_authorize env a token peer membership =
     andthen (auth_snapshot a) (\<lambda>snap.
     andthen (auth_check env snap token peer membership) (\<lambda>authenticated.
     andthen (auth_decide env a snap authenticated) (\<lambda>d.
     auth_finish env a (snap_ref snap) d)))"

section \<open>Reviews\<close>

definition create_review :: "'w environment \<Rightarrow> action \<Rightarrow> ('w service, string) prog" where
  "create_review env a =
     andthen (sense (env_token_hex env)) (\<lambda>token.
     andthen (read_time env) (\<lambda>now.
     andthen (modifying (\<lambda>s. s\<lparr>svc_reviews :=
                dict_set (act_agent_id a @ '':review:'' @ token)
                  \<lparr>rv_id = act_agent_id a @ '':review:'' @ token, rv_agent_id = act_agent_id a,
                   rv_action_id = act_action_id a, rv_requested_at = now,
                   rv_deadline = now + env_review_timeout env, rv_state = REVIEW_PENDING\<rparr>
                  (svc_reviews s)\<rparr>)) (\<lambda>_.
     ret (act_agent_id a @ '':review:'' @ token))))"

definition svc_review :: "'w environment \<Rightarrow> string \<Rightarrow> ('w service, review_request) prog" where
  "svc_review env review_id =
     andthen (reading (\<lambda>s. dict_get (svc_reviews s) review_id)) (\<lambda>found.
     (case found of
        None \<Rightarrow> raise (Exn KeyError (''unknown review: '' @ review_id))
      | Some request \<Rightarrow>
          andthen (read_time env) (\<lambda>now.
          if rv_current_state now request = rv_state request then ret request
          else andthen (modifying (\<lambda>s. s\<lparr>svc_reviews :=
                   dict_set review_id (request\<lparr>rv_state := rv_current_state now request\<rparr>) (svc_reviews s)\<rparr>)) (\<lambda>_.
               ret (request\<lparr>rv_state := rv_current_state now request\<rparr>)))))"

definition review_event :: "review_request \<Rightarrow> string \<Rightarrow> governance_event \<Rightarrow> governance_event" where
  "review_event request reason e =
     e\<lparr>ge_action_id := Some (rv_action_id request), ge_policy_decision_id := Some (rv_action_id request),
       ge_reason := Some reason\<rparr>"

definition set_review :: "string \<Rightarrow> review_request \<Rightarrow> ('w service, unit) prog" where
  "set_review review_id request =
     modifying (\<lambda>s. s\<lparr>svc_reviews := dict_set review_id request (svc_reviews s)\<rparr>)"

definition svc_approve_review :: "'w environment \<Rightarrow> string \<Rightarrow> ('w service, decision) prog" where
  "svc_approve_review env review_id =
     andthen (svc_review env review_id) (\<lambda>request.
     andthen (guarding (rv_state request \<noteq> EXPIRED)
                (Exn RuntimeError ''review has expired; request a new review'')) (\<lambda>_.
     andthen (guarding (rv_state request = REVIEW_PENDING)
                (Exn RuntimeError (''review is not pending: '' @ review_state_value (rv_state request)))) (\<lambda>_.
     andthen (set_review review_id (request\<lparr>rv_state := APPROVED\<rparr>)) (\<lambda>_.
     andthen (emit_event env ''review_approved'' (rv_agent_id request)
                (\<lambda>e. (review_event request ''human review approved through controller'' e)
                   \<lparr>ge_attributes := Some (JObj [(''review_id'', JStr review_id)])\<rparr>)) (\<lambda>_.
     andthen (read_time env) (\<lambda>now.
     ret (mk_decision now (rv_action_id request) ALLOW ''human review approved'')))))))"

definition svc_escalate_review :: "'w environment \<Rightarrow> string \<Rightarrow> ('w service, decision) prog" where
  "svc_escalate_review env review_id =
     andthen (svc_review env review_id) (\<lambda>request.
     andthen (guarding (rv_state request \<noteq> APPROVED)
                (Exn RuntimeError ''approved review cannot be escalated'')) (\<lambda>_.
     andthen (set_review review_id (request\<lparr>rv_state := ESCALATED\<rparr>)) (\<lambda>_.
     andthen (emit_event env ''review_escalated'' (rv_agent_id request)
                (\<lambda>e. (review_event request ''review escalated to controller containment'' e)
                   \<lparr>ge_attributes := Some (JObj [(''review_id'', JStr review_id),
                      (''prior_state'', JStr (review_state_value (rv_state request)))])\<rparr>)) (\<lambda>_.
     andthen (svc_contain env (rv_agent_id request)) (\<lambda>_.
     andthen (read_time env) (\<lambda>now.
     ret (mk_decision now (rv_action_id request) HALT ''review escalated to containment'')))))))"

section \<open>Authorization with a verifier's signal\<close>

definition signal_attributes :: "verification_signal \<Rightarrow> (string \<times> json) list" where
  "signal_attributes signal =
     [(''disposition'', JStr (vs_disposition signal)),
      (''report_fingerprint'', JStr (vs_report_fingerprint signal)),
      (''policy_fingerprint'', JStr (vs_policy_fingerprint signal)),
      (''blocking_claim_ids'', json_strs (vs_blocking_claim_ids signal)),
      (''review_claim_ids'', json_strs (vs_review_claim_ids signal)),
      (''supported_claim_count'', JInt (vs_supported_count signal)),
      (''total_claim_count'', JInt (vs_total_count signal)),
      (''signal_version'', JInt (vs_version signal))]"

definition emit_verification ::
  "'w environment \<Rightarrow> action \<Rightarrow> verification_signal \<Rightarrow> decision \<Rightarrow> (string \<times> json) list \<Rightarrow>
     ('w service, unit) prog" where
  "emit_verification env a signal d extra =
     emit_event env ''verification_evaluated'' (act_agent_id a)
       (\<lambda>e. e\<lparr>ge_trace_id := vs_trace_id signal, ge_run_id := vs_run_id signal,
              ge_action_id := Some (act_action_id a), ge_policy_decision_id := Some (act_action_id a),
              ge_reason := Some (dec_reason d),
              ge_attributes := Some (JObj (signal_attributes signal @ extra))\<rparr>)"

definition verify_decision ::
  "'w environment \<Rightarrow> action \<Rightarrow> verification_signal \<Rightarrow> ('w service, decision) prog" where
  "verify_decision env a signal =
     andthen (read_time env) (\<lambda>now. ret (decision_from_verification now a signal))"

text \<open>\<open>_create_review\<close> and the event that announces it.\<close>

definition request_review :: "'w environment \<Rightarrow> action \<Rightarrow> ('w service, unit) prog" where
  "request_review env a =
     andthen (create_review env a) (\<lambda>review_id.
     andthen (reading (\<lambda>s. dict_get (svc_reviews s) review_id)) (\<lambda>request.
     emit_event env ''review_requested'' (act_agent_id a)
       (\<lambda>e. e\<lparr>ge_action_id := Some (act_action_id a), ge_policy_decision_id := Some (act_action_id a),
              ge_reason := Some ''claim verification requires human review'',
              ge_attributes := Some (JObj [(''review_id'', JStr review_id),
                (''deadline'', opt_json (\<lambda>r. JInt (rv_deadline r)) request)])\<rparr>)))"

text \<open>Everything after the base authorization.\<close>

definition verified_outcome ::
  "'w environment \<Rightarrow> action \<Rightarrow> verification_signal \<Rightarrow> decision \<Rightarrow> ('w service, decision) prog" where
  "verified_outcome env a signal base =
     andthen (if dec_type base \<noteq> ALLOW then ret base else verify_decision env a signal) (\<lambda>d.
     andthen (emit_verification env a signal d
                [(''base_decision'', JStr (decision_value (dec_type base)))]) (\<lambda>_.
     andthen (if dec_type base = ALLOW \<and> dec_type d = HALT then
                andthen (svc_contain env (act_agent_id a)) (\<lambda>_. ret ())
              else if dec_type base = ALLOW \<and> dec_type d = PAUSE then request_review env a
              else ret ()) (\<lambda>_.
     ret d)))"

definition svc_authorize_verified ::
  "'w environment \<Rightarrow> action \<Rightarrow> verification_signal \<Rightarrow> string option \<Rightarrow> int option \<Rightarrow>
     (int \<Rightarrow> string \<Rightarrow> ('w, bool) prog) option \<Rightarrow> ('w service, decision) prog" where
  "svc_authorize_verified env a signal token peer membership =
     (if \<not> signal_bound signal a then
        andthen (verify_decision env a signal) (\<lambda>d.
        andthen (emit_verification env a signal d []) (\<lambda>_. ret d))
      else
        andthen (svc_authorize env a token peer membership) (verified_outcome env a signal))"

end
