(* ===== verification/Control_Frames.thy ===== *)
theory Control_Frames
  imports Control_Register Control_Authorize
begin

text \<open>
  What the shared pieces of the service do to its state: facts about one run, and invariants
  that a piece keeps.
\<close>

section \<open>Runs of the pieces\<close>

lemma on_world_run: "on_world f s = (r, t) \<longleftrightarrow> (\<exists>w. f (svc_world s) = (r, w) \<and> t = s\<lparr>svc_world := w\<rparr>)"
  by (auto simp: on_world_def split: prod.splits)

lemma sense_run:
  "sense f s = (r, t) \<longleftrightarrow> (\<exists>v w. f (svc_world s) = (v, w) \<and> r = Inr v \<and> t = s\<lparr>svc_world := w\<rparr>)"
  by (auto simp: sense_def split: prod.splits)

lemma alloc_run: "alloc s = (r, t) \<longleftrightarrow> r = Inr (svc_next s) \<and> t = s\<lparr>svc_next := svc_next s + 1\<rparr>"
  by (auto simp: alloc_def)

lemma with_fences_run:
  "with_fences env f s = (r, t) \<longleftrightarrow>
     (\<exists>io w g. env_disk env (svc_world s) = (io, w) \<and> f io (svc_fences s) = (r, g)
        \<and> t = s\<lparr>svc_fences := g, svc_world := w\<rparr>)"
  by (auto simp: with_fences_def split: prod.splits)

lemma with_incidents_run:
  "with_incidents env f s = (r, t) \<longleftrightarrow>
     (\<exists>io w g. env_disk env (svc_world s) = (io, w) \<and> f io (svc_incidents s) = (r, g)
        \<and> t = s\<lparr>svc_incidents := g, svc_world := w\<rparr>)"
  by (auto simp: with_incidents_def split: prod.splits)

lemma svc_managed_run:
  "svc_managed a s = (r, t) \<longleftrightarrow>
     t = s \<and> r = (case dict_get (svc_agents s) a of None \<Rightarrow> Inl (unknown_agent a) | Some m \<Rightarrow> Inr m)"
  by (auto simp: svc_managed_def split: option.splits)

lemma update_managed_run:
  "update_managed a f s = (r, t) \<longleftrightarrow>
     r = Inr () \<and> t = (case dict_get (svc_agents s) a of None \<Rightarrow> s
       | Some m \<Rightarrow> s\<lparr>svc_agents := dict_set a (f m) (svc_agents s)\<rparr>)"
  by (auto simp: update_managed_def split: option.splits)

lemma on_controller_run:
  "on_controller a f s = (r, t) \<longleftrightarrow>
     (dict_get (svc_agents s) a = None \<and> r = Inl (unknown_agent a) \<and> t = s)
     \<or> (\<exists>m v c w. dict_get (svc_agents s) a = Some m
          \<and> f (ma_containment m) (svc_world s) = ((v, c), w) \<and> r = Inr v
          \<and> t = s\<lparr>svc_agents := dict_set a (m\<lparr>ma_containment := c\<rparr>) (svc_agents s), svc_world := w\<rparr>)"
  by (auto simp: on_controller_def split: option.splits prod.splits)

lemma latest_incident_run:
  "latest_incident a s = (r, t) \<longleftrightarrow> r = ig_latest_for_agent a (svc_incidents s) \<and> t = s"
  by (auto simp: latest_incident_def)

lemmas piece_runs = run_rules on_world_run sense_run alloc_run with_fences_run with_incidents_run
  svc_managed_run update_managed_run on_controller_run latest_incident_run

text \<open>The audit log and the event sink only see the world; an event is never a reason to raise.\<close>

lemma audit_record_run: "audit_record env ty a kw s = (r, t) \<Longrightarrow> \<exists>w. t = s\<lparr>svc_world := w\<rparr>"
  by (auto simp: audit_record_def piece_runs split: option.splits intro: exI [of _ "svc_world s"])

lemma emit_event_run:
  assumes "emit_event env ty a kw s = (r, t)"
  shows "(\<exists>w. t = s\<lparr>svc_world := w\<rparr>) \<and> (a \<noteq> [] \<and> ty \<noteq> [] \<longrightarrow> r = Inr ())"
proof (cases "env_sink env")
  case None
  with assms show ?thesis by (auto simp: emit_event_def ret_run intro: exI [of _ "svc_world s"])
next
  case (Some sink)
  have failure: "audit_sink_failure env s1 = (r1, t1) \<longleftrightarrow> t1 = s1 \<and> r1 = Inr ()" for s1 r1 t1
    by (auto simp: audit_sink_failure_def run_rules)
  show ?thesis
    using assms Some
    by (auto simp: emit_event_def piece_runs read_time_def failure create_event_def split: if_splits)
qed

section \<open>Invariants the pieces keep\<close>

text \<open>An invariant of the agents, the registries and the reviews, whatever the world is.\<close>

definition world_free :: "('w service \<Rightarrow> bool) \<Rightarrow> bool" where
  "world_free I \<longleftrightarrow> (\<forall>s w. I s \<longrightarrow> I (s\<lparr>svc_world := w\<rparr>))"

lemma preserves_on_world [preserving]: "world_free I \<Longrightarrow> preserves I (on_world f)"
  by (rule preservesI) (auto simp: on_world_run world_free_def)

lemma preserves_sense [preserving]: "world_free I \<Longrightarrow> preserves I (sense f)"
  by (rule preservesI) (auto simp: sense_run world_free_def)

lemma preserves_read_time [preserving]: "world_free I \<Longrightarrow> preserves I (read_time env)"
  by (simp add: read_time_def preserving)

lemma preserves_audit [preserving]: "world_free I \<Longrightarrow> preserves I (audit_record env ty a kw)"
  by (rule preservesI) (auto simp: world_free_def dest: audit_record_run)

lemma preserves_emit [preserving]: "world_free I \<Longrightarrow> preserves I (emit_event env ty a kw)"
  by (rule preservesI) (auto simp: world_free_def dest: emit_event_run)

lemma preserves_managed [preserving]: "preserves I (svc_managed a)"
  by (rule preservesI) (simp add: svc_managed_run)

lemma preserves_latest [preserving]: "preserves I (latest_incident a)"
  by (rule preservesI) (simp add: latest_incident_run)

end
