(* ===== verification/Control_Durable.thy ===== *)
theory Control_Durable
  imports Control_Frames
begin

text \<open>
  What the operations of the service do to the two durable registries: each operation keeps
  every property of the registries that the writes it makes keep.
\<close>

section \<open>Properties of the registries\<close>

definition of_registries :: "(fence_registry \<Rightarrow> incident_registry \<Rightarrow> bool) \<Rightarrow> 'w service \<Rightarrow> bool" where
  "of_registries J s \<longleftrightarrow> J (svc_fences s) (svc_incidents s)"

definition incident_closed :: "(fence_registry \<Rightarrow> incident_registry \<Rightarrow> bool) \<Rightarrow> bool" where
  "incident_closed J \<longleftrightarrow>
     (\<forall>fg ig op io r ig'. J fg ig \<longrightarrow> incident_write op io ig = (r, ig') \<longrightarrow> J fg ig')"

definition prepare_closed :: "(fence_registry \<Rightarrow> incident_registry \<Rightarrow> bool) \<Rightarrow> bool" where
  "prepare_closed J \<longleftrightarrow>
     (\<forall>fg ig io a e r fg'. J fg ig \<longrightarrow> fg_prepare io a e fg = (r, fg') \<longrightarrow> J fg' ig)"

definition clear_closed :: "string \<Rightarrow> (fence_registry \<Rightarrow> incident_registry \<Rightarrow> bool) \<Rightarrow> bool" where
  "clear_closed a J \<longleftrightarrow>
     (\<forall>fg ig io r fg'. J fg ig \<longrightarrow> fg_clear io a fg = (r, fg') \<longrightarrow> J fg' ig)"

lemma world_free_registries [preserving]: "world_free (of_registries J)"
  by (simp add: world_free_def of_registries_def)

lemma preserves_agents [preserving]:
  "preserves (of_registries J) alloc"
  "preserves (of_registries J) (update_managed a f)"
  "preserves (of_registries J) (on_controller a g)"
  by (auto simp: preserves_def of_registries_def alloc_def update_managed_def on_controller_def
      split: option.split prod.split)

lemma preserves_modifying_registries [preserving]:
  "(\<And>s. svc_fences (f s) = svc_fences s \<and> svc_incidents (f s) = svc_incidents s) \<Longrightarrow>
     preserves (of_registries J) (modifying f)"
  by (auto simp: preserves_def of_registries_def modifying_def)

lemma preserves_incident_write:
  assumes "incident_closed J"
  shows "preserves (of_registries J) (with_incidents env (\<lambda>io. incident_write op io))"
  using assms
  by (auto simp: preserves_def of_registries_def with_incidents_def incident_closed_def split: prod.split)

lemma incident_write_eta:
  "incident_write (RecordContainment now i a e reason) = (\<lambda>io. ig_record_containment now io i a e reason)"
  "incident_write (MarkProofDegraded i why) = (\<lambda>io. ig_mark_proof_degraded io i why)"
  "incident_write (RestoreContained i) = (\<lambda>io. ig_restore_contained io i)"
  "incident_write (MarkRecovered i) = (\<lambda>io. ig_mark_recovered io i)"
  by (simp_all add: fun_eq_iff)

lemma preserves_incident_op [preserving]:
  assumes "incident_closed J"
  shows "preserves (of_registries J) (with_incidents env (\<lambda>io. ig_record_containment now io i a e reason))"
    and "preserves (of_registries J) (with_incidents env (\<lambda>io. ig_mark_proof_degraded io i why))"
    and "preserves (of_registries J) (with_incidents env (\<lambda>io. ig_restore_contained io i))"
    and "preserves (of_registries J) (with_incidents env (\<lambda>io. ig_mark_recovered io i))"
  using preserves_incident_write [OF assms, of env "RecordContainment now i a e reason"]
    preserves_incident_write [OF assms, of env "MarkProofDegraded i why"]
    preserves_incident_write [OF assms, of env "RestoreContained i"]
    preserves_incident_write [OF assms, of env "MarkRecovered i"]
  by (simp_all add: incident_write_eta)

lemma preserves_prepare [preserving]:
  "prepare_closed J \<Longrightarrow> preserves (of_registries J) (with_fences env (\<lambda>io. fg_prepare io a e))"
  by (auto simp: preserves_def of_registries_def with_fences_def prepare_closed_def split: prod.split)

lemma preserves_clear [preserving]:
  "clear_closed a J \<Longrightarrow> preserves (of_registries J) (with_fences env (\<lambda>io. fg_clear io a))"
  by (auto simp: preserves_def of_registries_def with_fences_def clear_closed_def split: prod.split)

section \<open>Every operation keeps the closed properties\<close>

text \<open>An operation that writes neither registry.\<close>

lemma preserves_queries [preserving]:
  "preserves (of_registries J) (svc_configure_containment a c)"
  "preserves (of_registries J) (svc_create_workload env a)"
  "preserves (of_registries J) (svc_attach_workload env a pid)"
  "preserves (of_registries J) (svc_issue_identity_token env a peer)"
  "preserves (of_registries J) (svc_unregister a)"
  "preserves (of_registries J) (rotate_capability a)"
  "preserves (of_registries J) (revoke_identity a)"
  unfolding svc_configure_containment_def svc_create_workload_def svc_attach_workload_def
    svc_issue_identity_token_def svc_unregister_def rotate_capability_def revoke_identity_def
  by (intro preserving; simp)+

lemma preserves_auth [preserving]:
  "preserves (of_registries J) (auth_snapshot a)"
  "preserves (of_registries J) (auth_check env snap token peer membership)"
  "preserves (of_registries J) (auth_decide env a snap b)"
  "preserves (of_registries J) (auth_finish env a ref d)"
  unfolding auth_snapshot_def auth_check_def auth_decide_def auth_finish_def deny_def
    evaluate_policy_def halt_managed_def
  by (intro preserving; simp)+

lemma preserves_authorize [preserving]:
  "preserves (of_registries J) (svc_authorize env a token peer membership)"
  unfolding svc_authorize_def by (intro preserving)

lemma preserves_review [preserving]:
  "preserves (of_registries J) (create_review env a)"
  "preserves (of_registries J) (svc_review env i)"
  "preserves (of_registries J) (set_review i request)"
  "preserves (of_registries J) (request_review env a)"
  unfolding create_review_def svc_review_def set_review_def request_review_def
  by (intro preserving; simp)+

lemma preserves_approve [preserving]:
  "preserves (of_registries J) (svc_approve_review env i)"
  unfolding svc_approve_review_def by (intro preserving; simp)

lemma preserves_contain [preserving]:
  assumes "incident_closed J" and "prepare_closed J"
  shows "preserves (of_registries J) (svc_contain env a)"
  unfolding svc_contain_def contain_runtime_def audit_containment_def contain_finish_def
  by (intro preserving assms; simp)

lemma preserves_escalate [preserving]:
  assumes "incident_closed J" and "prepare_closed J"
  shows "preserves (of_registries J) (svc_escalate_review env i)"
  unfolding svc_escalate_review_def by (intro preserving assms; simp)

lemma preserves_verified [preserving]:
  assumes "incident_closed J" and "prepare_closed J"
  shows "preserves (of_registries J) (verified_outcome env a signal base)"
    and "preserves (of_registries J) (svc_authorize_verified env a signal token peer membership)"
  unfolding svc_authorize_verified_def verified_outcome_def verify_decision_def emit_verification_def
  by (intro preserving assms; simp)+

lemma preserves_reconcile [preserving]:
  "preserves (of_registries J) (svc_reconcile_containment a)"
  "preserves (of_registries J) (svc_issue_recovery_authorization env a)"
  unfolding svc_issue_recovery_authorization_def svc_reconcile_containment_def recontain_all_def
    need_contained_at_def need_recoverable_def
  by (intro preserving; simp)+

lemma preserves_register [preserving]:
  assumes "incident_closed J" and "prepare_closed J"
  shows "preserves (of_registries J) (svc_register env a c md pe)"
  unfolding svc_register_def admit_def register_runtime_def new_runtime_def admit_orphan_fence_def
    reconstruct_incident_def admit_fence_over_recovery_def admit_runtime_fenced_def restore_runtime_def
    admit_runtime_def admit_recovered_def admit_contained_def
  by (intro preserving assms; simp)

text \<open>Recovery after its checks; only here a fence is removed.\<close>

definition recover_after_checks ::
  "'w environment \<Rightarrow> string \<Rightarrow> incident_record \<Rightarrow> ('w service, int) prog" where
  "recover_after_checks env agent_id r =
     andthen (emit_event env ''recovery_authorized'' agent_id
                (incident_event (inc_id r) (inc_epoch r) ''controller recovery authorization accepted'')) (\<lambda>_.
     andthen (recover_clear_fence env agent_id) (\<lambda>_.
     andthen (recover_release env agent_id (inc_epoch r)) (\<lambda>_.
     andthen (recover_commit env agent_id r) (\<lambda>_.
     andthen (recover_activate env agent_id r) (\<lambda>epoch.
     recover_finish env agent_id r epoch)))))"

lemma svc_recover_split:
  "svc_recover env a auth = andthen (recover_checks a auth) (recover_after_checks env a)"
  by (simp add: svc_recover_def recover_after_checks_def [abs_def])

lemma preserves_recover_after [preserving]:
  assumes "incident_closed J" and "prepare_closed J" and "clear_closed a J"
  shows "preserves (of_registries J) (recover_after_checks env a r)"
  unfolding recover_after_checks_def recover_clear_fence_def recover_release_def recover_commit_def
    recover_activate_def recover_finish_def activate_runtime_def compensate_fence_def
    compensate_incident_def recontain_all_def release_all_def
  by (intro preserving assms; simp)

lemma recover_checks_same: "recover_checks a auth s = (res, t) \<Longrightarrow> t = s"
  by (cases auth)
     (auto simp: recover_checks_def need_recoverable_def need_contained_at_def piece_runs
       split: option.splits if_splits)

end
