(* ===== verification/Control_System.thy ===== *)
theory Control_System
  imports Control_Durable
begin

text \<open>
  The service as a transition system: any sequence of its operations, in any environment, and
  of restarts that lose the memory and load the two registries from their files.

  An environment may refuse any write, so a crash inside an operation is covered: the files it
  leaves are those of a run in which every later write of the operation fails.
\<close>

datatype 'w service_call =
    Register string "'w controller option" "string dict option" "policy_engine option"
  | ConfigureContainment string "'w controller"
  | CreateWorkload string | AttachWorkload string int | IssueIdentityToken string "int option"
  | AuthCheck identity_snapshot "string option" "int option" "(int \<Rightarrow> string \<Rightarrow> ('w, bool) prog) option"
  | AuthDecide action identity_snapshot bool | AuthFinish action obj decision
  | VerifiedOutcome action verification_signal decision
  | GetReview string | ApproveReview string | EscalateReview string | RequestReview action
  | Unregister string | Contain string | ReconcileContainment string
  | IssueRecoveryAuthorization string | Recover string "recovery_authorization option"

text \<open>The effect of a call; what it returns or raises is dropped.\<close>

definition effect :: "('w service, 'a) prog \<Rightarrow> 'w service \<Rightarrow> 'w service" where
  "effect m s = snd (m s)"

fun perform :: "'w environment \<Rightarrow> 'w service_call \<Rightarrow> 'w service \<Rightarrow> 'w service" where
  "perform env (Register a c md pe) = effect (svc_register env a c md pe)"
| "perform env (ConfigureContainment a c) = effect (svc_configure_containment a c)"
| "perform env (CreateWorkload a) = effect (svc_create_workload env a)"
| "perform env (AttachWorkload a pid) = effect (svc_attach_workload env a pid)"
| "perform env (IssueIdentityToken a peer) = effect (svc_issue_identity_token env a peer)"
| "perform env (AuthCheck snap token peer mem) = effect (auth_check env snap token peer mem)"
| "perform env (AuthDecide a snap b) = effect (auth_decide env a snap b)"
| "perform env (AuthFinish a ref d) = effect (auth_finish env a ref d)"
| "perform env (VerifiedOutcome a signal d) = effect (verified_outcome env a signal d)"
| "perform env (GetReview i) = effect (svc_review env i)"
| "perform env (ApproveReview i) = effect (svc_approve_review env i)"
| "perform env (EscalateReview i) = effect (svc_escalate_review env i)"
| "perform env (RequestReview a) = effect (request_review env a)"
| "perform env (Unregister a) = effect (svc_unregister a)"
| "perform env (Contain a) = effect (svc_contain env a)"
| "perform env (ReconcileContainment a) = effect (svc_reconcile_containment a)"
| "perform env (IssueRecoveryAuthorization a) = effect (svc_issue_recovery_authorization env a)"
| "perform env (Recover a auth) = effect (svc_recover env a auth)"

datatype 'w service_event = Call "'w environment" "'w service_call" | Restart "'w environment" | OutsideWorld

inductive service_step ::
  "(json \<Rightarrow> string) \<Rightarrow> 'w service \<Rightarrow> 'w service_event \<Rightarrow> 'w service \<Rightarrow> bool"
  for wording :: "json \<Rightarrow> string" where
  do_call: "service_step wording s (Call env c) (perform env c s)"
| restarted: "mk_incident_registry wording (ig_has_path (svc_incidents s)) (ig_file (svc_incidents s)) = Inr ig \<Longrightarrow>
    mk_fence_registry wording (fg_has_path (svc_fences s)) (fg_file (svc_fences s)) = Inr fg \<Longrightarrow>
    svc_next s \<le> n \<Longrightarrow> mk_service wording None env (Some ig) (Some fg) n w = Inr t \<Longrightarrow>
    service_step wording s (Restart env) t"
| outside: "service_step wording s OutsideWorld (s\<lparr>svc_world := w\<rparr>)"

inductive_cases service_stepE: "service_step wording s ev t"

lemma preserves_effect: "preserves I m \<Longrightarrow> I s \<Longrightarrow> I (effect m s)"
  by (simp add: preserves_def effect_def)

text \<open>Every call keeps a property of the registries, except that recovery may clear a fence.\<close>

lemma perform_keeps:
  assumes "incident_closed J" and "prepare_closed J" and "of_registries J s"
    and "\<And>a auth. c = Recover a auth \<Longrightarrow> of_registries J (effect (svc_recover env a auth) s)"
  shows "of_registries J (perform env c s)"
proof (cases c)
  case (Recover a auth)
  with assms(4) show ?thesis by simp
qed (use assms in \<open>simp_all add: preserves_effect preserving\<close>)

section \<open>The registries and their files\<close>

text \<open>Both registries have a path, are well formed and agree with what their files hold.\<close>

definition durable_registries :: "(json \<Rightarrow> string) \<Rightarrow> fence_registry \<Rightarrow> incident_registry \<Rightarrow> bool" where
  "durable_registries wording fg ig \<longleftrightarrow>
     fence_wf fg \<and> fg_load wording (fg_has_path fg) (fg_file fg) = Inr (fg_records fg)
     \<and> incident_wf ig \<and> ig_load wording (ig_has_path ig) (ig_file ig) = Inr (ig_records ig)
     \<and> incidents_ok ig"

lemma durable_incident_closed: "incident_closed (durable_registries wording)"
  unfolding incident_closed_def
proof (intro allI impI)
  fix fg ig op io r ig'
  assume dur: "durable_registries wording fg ig" and run: "incident_write op io ig = (r, ig')"
  from dur have "incident_wf ig'" and
    "ig_load wording (ig_has_path ig') (ig_file ig') = Inr (ig_records ig')"
    using incidents.wf_write [of ig op io] incidents.step_synced [of ig wording op io] run
    by (auto simp: durable_registries_def)
  with dur incident_write_ok [OF _ run] show "durable_registries wording fg ig'"
    by (auto simp: durable_registries_def)
qed

lemma durable_fence_write:
  assumes "durable_registries wording fg ig" and "fence_write op io fg = (r, fg')"
  shows "durable_registries wording fg' ig"
  using assms fences.wf_write [of fg op io] fences.step_synced [of fg wording op io]
  by (auto simp: durable_registries_def)

lemma durable_prepare_closed: "prepare_closed (durable_registries wording)"
  unfolding prepare_closed_def
proof (intro allI impI)
  fix fg ig io a e r fg'
  assume dur: "durable_registries wording fg ig" and run: "fg_prepare io a e fg = (r, fg')"
  obtain r' where "fence_write (FencePrepare a e) io fg = (r', fg')" using run by (cases r) auto
  with dur show "durable_registries wording fg' ig" by (rule durable_fence_write)
qed

lemma durable_clear_closed: "clear_closed a (durable_registries wording)"
  using durable_fence_write [of wording _ _ "FenceClear a"] by (auto simp: clear_closed_def)

definition durable :: "(json \<Rightarrow> string) \<Rightarrow> 'w service \<Rightarrow> bool" where
  "durable wording = of_registries (durable_registries wording)"

lemma snd_recover_checks [simp]: "snd (recover_checks a auth s) = s"
  by (cases "recover_checks a auth s") (auto dest: recover_checks_same)

lemma durable_recover: "durable wording s \<Longrightarrow> durable wording (effect (svc_recover env a auth) s)"
proof -
  have "preserves (durable wording) (svc_recover env a auth)"
    unfolding durable_def svc_recover_split
    by (intro preserving durable_incident_closed durable_prepare_closed durable_clear_closed)
       (simp add: preserves_def snd_recover_checks)
  then show "durable wording s \<Longrightarrow> durable wording (effect (svc_recover env a auth) s)"
    by (rule preserves_effect)
qed

lemma restart_reload:
  assumes "durable wording s"
    and "mk_incident_registry wording (ig_has_path (svc_incidents s)) (ig_file (svc_incidents s)) = Inr ig"
    and "mk_fence_registry wording (fg_has_path (svc_fences s)) (fg_file (svc_fences s)) = Inr fg"
  shows "ig = svc_incidents s \<and> fg = svc_fences s"
  using assms
  by (auto simp: durable_def of_registries_def durable_registries_def mk_incident_registry_def
      mk_fence_registry_def split: sum.splits)

lemma mk_service_fields:
  "mk_service wording x env (Some ig) (Some fg) n w = Inr t \<Longrightarrow>
     t = \<lparr>svc_agents = [], svc_incidents = ig, svc_fences = fg, svc_reviews = [], svc_next = n, svc_world = w\<rparr>"
  by (auto simp: mk_service_def Let_def split: if_splits)

text \<open>A property of the registries that recovery keeps is an invariant of the system.\<close>

lemma service_step_keeps:
  assumes step: "service_step wording s ev t" and dur: "durable wording s"
    and closed: "incident_closed J" "prepare_closed J" and J: "of_registries J s"
    and rec: "\<And>env a auth. of_registries J (effect (svc_recover env a auth) s)"
  shows "of_registries J t"
  using step
proof cases
  case (do_call env c)
  then show ?thesis using perform_keeps [OF closed J] rec by auto
next
  case (restarted ig fg n env w)
  with restart_reload [OF dur] mk_service_fields [of wording None env ig fg n w t] J
  show ?thesis by (auto simp: of_registries_def)
next
  case (outside w)
  with J show ?thesis by (simp add: of_registries_def)
qed

lemma durable_step: "service_step wording s ev t \<Longrightarrow> durable wording s \<Longrightarrow> durable wording t"
  unfolding durable_def
  by (rule service_step_keeps [OF _ _ durable_incident_closed durable_prepare_closed])
     (auto simp: durable_def intro: durable_recover [unfolded durable_def])

end
