(* ===== verification/Containment_Props.thy ===== *)
theory Containment_Props
  imports Containment
begin

text \<open>
  What the containment controller guarantees: the fence holds whatever the adapters do, the
  report is exact about which providers confirmed the boundary, and recovery is fail-closed.
\<close>

section \<open>The three loops satisfy the provider contract\<close>

text \<open>
  A provider is good when its call and the verification that follows both return the
  expected status; both are made, in this order, in the world the loop has reached.
\<close>

definition confirms_twice ::
  "enforcement_status \<Rightarrow> ('w, enforcement_result) prog \<Rightarrow> ('w \<Rightarrow> 'w) \<Rightarrow>
     ('w, enforcement_result) prog \<Rightarrow> 'w \<Rightarrow> bool" where
  "confirms_twice status call between verify w =
     (case call w of
        (Inr r1, w1) \<Rightarrow> er_status r1 = status
           \<and> (case verify (between w1) of (Inr r2, w2) \<Rightarrow> er_status r2 = status | _ \<Rightarrow> False)
      | _ \<Rightarrow> False)"

definition contain_confirmed :: "'w clock \<Rightarrow> string \<Rightarrow> 'w enforcer \<Rightarrow> contain_acc \<Rightarrow> 'w \<Rightarrow> bool" where
  "contain_confirmed clk a e acc =
     confirms_twice ENFORCED (enf_contain e a)
       (\<lambda>w. snd (first_applied clk (fst (snd (snd acc))) w)) (enf_verify_contained e a)"

definition release_confirmed :: "string \<Rightarrow> 'w enforcer \<Rightarrow> string list \<Rightarrow> 'w \<Rightarrow> bool" where
  "release_confirmed a e acc =
     confirms_twice RELEASED (enf_release e a) (\<lambda>w. w) (enf_verify_released e a)"

definition recontain_confirmed :: "string \<Rightarrow> 'w enforcer \<Rightarrow> string list \<Rightarrow> 'w \<Rightarrow> bool" where
  "recontain_confirmed a e acc =
     confirms_twice ENFORCED (enf_contain e a) (\<lambda>w. w) (enf_verify_contained e a)"

lemmas provider_step_defs =
  contain_provider_def release_provider_def recontain_provider_def
  contain_confirmed_def release_confirmed_def recontain_confirmed_def confirms_twice_def

interpretation contain_loop: provider_loop
  "contain_provider clk a" "\<lambda>acc. fst (snd acc)" "contain_confirmed clk a"
  by unfold_locales
    (auto simp: provider_step_defs Let_def split: prod.splits sum.splits if_splits)

interpretation release_loop: provider_loop
  "release_provider a" "\<lambda>acc. acc" "release_confirmed a"
  by unfold_locales
    (auto simp: provider_step_defs split: prod.splits sum.splits if_splits)

interpretation recontain_loop: provider_loop
  "recontain_provider a" "\<lambda>acc. acc" "recontain_confirmed a"
  by unfold_locales
    (auto simp: provider_step_defs split: prod.splits sum.splits if_splits)

text \<open>Every provider either adds a failure or is counted as verified.\<close>

lemma contain_provider_count:
  assumes "contain_provider clk a e (st, fl, pa, n) w = ((st', fl', pa', n'), w')"
  shows "length fl' + n' = length fl + n + 1"
  using assms
  by (auto simp: contain_provider_def Let_def split: prod.splits sum.splits if_splits)

lemma contain_loop_count:
  "each_provider (contain_provider clk a) es (st, fl, pa, n) w = ((st', fl', pa', n'), w') \<Longrightarrow>
     length fl' + n' = length fl + n + length es"
proof (induction es arbitrary: st fl pa n w)
  case (Cons e es)
  obtain st1 fl1 pa1 n1 w1 where step: "contain_provider clk a e (st, fl, pa, n) w = ((st1, fl1, pa1, n1), w1)"
    by (metis prod.exhaust)
  with Cons.prems have "length fl' + n' = length fl1 + n1 + length es"
    by (intro Cons.IH) simp
  with contain_provider_count [OF step] show ?case by simp
qed simp

lemma contain_loop_stages:
  "each_provider (contain_provider clk a) es (st, fl, pa, n) w = ((st', fl', pa', n'), w') \<Longrightarrow>
     \<exists>more. st' = st @ more"
proof (induction es arbitrary: st fl pa n w)
  case (Cons e es)
  obtain st1 fl1 pa1 n1 w1 where step: "contain_provider clk a e (st, fl, pa, n) w = ((st1, fl1, pa1, n1), w1)"
    by (metis prod.exhaust)
  with Cons.prems have "\<exists>more. st' = st1 @ more"
    by (intro Cons.IH) simp
  moreover have "\<exists>more. st1 = st @ more"
    using step by (auto simp: contain_provider_def Let_def split: prod.splits sum.splits if_splits)
  ultimately show ?case by auto
qed simp

section \<open>Containment\<close>

lemma optional_stage_grows:
  "optional_stage name m (st, fl) w = ((st', fl'), w') \<Longrightarrow>
     (\<exists>a. st' = st @ a) \<and> (\<exists>b. fl' = fl @ b)"
  by (auto simp: optional_stage_def enforce_stage_def split: option.splits prod.splits sum.splits)

lemma ctl_contain_frame [frame]:
  "rt_agent_id (ctl_runtime (snd (fst (ctl_contain clk p c w)))) = rt_agent_id (ctl_runtime c)"
  "ctl_runtime (snd (fst (ctl_contain clk p c w))) = rt_contain p (ctl_runtime c)"
  "ctl_capabilities (snd (fst (ctl_contain clk p c w))) = {}"
  "ctl_credentials (snd (fst (ctl_contain clk p c w))) = map_option cs_revoke_all (ctl_credentials c)"
  "ctl_enforcers (snd (fst (ctl_contain clk p c w))) = ctl_enforcers c"
  "ctl_process (snd (fst (ctl_contain clk p c w))) = ctl_process c"
  "ctl_kernel_egress (snd (fst (ctl_contain clk p c w))) = ctl_kernel_egress c"
  "ctl_last_report (snd (fst (ctl_contain clk p c w))) = Some (fst (fst (ctl_contain clk p c w)))"
  "rep_agent_id (fst (fst (ctl_contain clk p c w))) = rt_agent_id (ctl_runtime c)"
  "rep_epoch (fst (fst (ctl_contain clk p c w))) = rt_epoch (ctl_runtime c) + 1"
  "rep_persistence_failures (fst (fst (ctl_contain clk p c w))) = []"
  by (simp_all add: ctl_contain_def Let_def split: prod.split)

lemma contain_local_stages_grow:
  assumes "contain_local_stages c r w = ((st4, fl4), eg, w5)"
  shows "\<exists>more. st4 = [''runtime_fenced'', ''capabilities_revoked''] @ more"
proof -
  let ?acc1 = "case ctl_credentials c of
      None \<Rightarrow> ([''runtime_fenced'', ''capabilities_revoked''], [])
    | Some st \<Rightarrow> ([''runtime_fenced'', ''capabilities_revoked'', ''credentials_revoked''], [])"
  obtain st1 and fl1 :: "string list" where acc1: "?acc1 = (st1, fl1)" by fastforce
  obtain st2 fl2 w3 where acc2:
    "optional_stage ''kernel_egress_contained'' (ctl_kernel_egress c) (st1, fl1) w = ((st2, fl2), w3)"
    by (metis prod.exhaust)
  have "\<exists>m. st1 = [''runtime_fenced'', ''capabilities_revoked''] @ m"
    using acc1 by (auto split: option.splits)
  then obtain m where m: "st2 = [''runtime_fenced'', ''capabilities_revoked''] @ m"
    using optional_stage_grows [OF acc2] by auto
  then show ?thesis
    using assms acc1 acc2
    by (auto simp: contain_local_stages_def Let_def split: option.splits prod.splits
        dest!: optional_stage_grows)
qed

text \<open>The loop over the enforcers, and what the report says of it.\<close>

definition after_fence :: "'w clock \<Rightarrow> 'w \<Rightarrow> 'w" where
  "after_fence clk w = snd (clk_utcnow clk (snd (clk_monotonic clk w)))"

lemma ctl_contain_loop:
  obtains st4 fl4 eg w5 st fl pa n w6 where
    "contain_local_stages c (rt_contain p (ctl_runtime c)) (after_fence clk w) = ((st4, fl4), eg, w5)"
    "each_provider (contain_provider clk (rt_agent_id (ctl_runtime c))) (ctl_enforcers c)
       (st4, fl4, None, 0) w5 = ((st, fl, pa, n), w6)"
    "\<exists>more. st4 = [''runtime_fenced'', ''capabilities_revoked''] @ more"
    "rep_stages (fst (fst (ctl_contain clk p c w))) = st"
    "rep_failures (fst (fst (ctl_contain clk p c w))) = fl"
    "rep_external_verified (fst (fst (ctl_contain clk p c w)))
       \<longleftrightarrow> ctl_enforcers c \<noteq> [] \<and> n = length (ctl_enforcers c)"
    "rep_verified_at (fst (fst (ctl_contain clk p c w))) \<noteq> None
       \<longleftrightarrow> rep_external_verified (fst (fst (ctl_contain clk p c w)))"
    "rep_occurred_at (fst (fst (ctl_contain clk p c w))) \<noteq> None
       \<longleftrightarrow> rep_external_verified (fst (fst (ctl_contain clk p c w)))"
proof -
  obtain q w1 where q: "clk_monotonic clk w = (q, w1)" by fastforce
  obtain u w2 where u: "clk_utcnow clk w1 = (u, w2)" by fastforce
  obtain st4 fl4 eg w5 where local:
    "contain_local_stages c (rt_contain p (ctl_runtime c)) w2 = ((st4, fl4), eg, w5)"
    by (metis prod.exhaust)
  obtain st fl pa n w6 where loop:
    "each_provider (contain_provider clk (rt_agent_id (ctl_runtime c))) (ctl_enforcers c)
       (st4, fl4, None, 0) w5 = ((st, fl, pa, n), w6)"
    by (metis prod.exhaust)
  show ?thesis
    by (rule that [OF _ loop contain_local_stages_grow [OF local], of eg])
       (use q u local loop in \<open>auto simp: ctl_contain_def after_fence_def Let_def split: prod.split\<close>)
qed

text \<open>
  Containment always takes effect.  Whatever the configured adapters and providers do
  (raise, degrade, lie), the call returns a report; afterwards the runtime is CONTAINED one
  epoch later with a new proof, so it is not executable and every lease issued before is
  invalid; no capability is left and no credential of the store is valid; and the report
  carries the new epoch and starts with the fence.
\<close>

theorem containment_always_takes_effect:
  assumes "p \<noteq> rt_proof (ctl_runtime c)"
  shows "let ((report, c'), w') = ctl_contain clk p c w in
           ctl_contained c' \<and> \<not> rt_can_execute (ctl_runtime c')
           \<and> rep_epoch report = rt_epoch (ctl_runtime c) + 1
           \<and> rt_epoch (ctl_runtime c') = rep_epoch report
           \<and> (\<forall>lease. rt_lease_valid (ctl_runtime c) lease \<longrightarrow>
                 el_proof lease \<noteq> Some (rt_proof (ctl_runtime c')))
           \<and> ctl_capabilities c' = {}
           \<and> (\<forall>st rt lease. ctl_credentials c' = Some st \<longrightarrow> \<not> cs_valid rt st lease)
           \<and> take 2 (rep_stages report) = [''runtime_fenced'', ''capabilities_revoked'']
           \<and> ctl_last_report c' = Some report"
proof -
  obtain st4 fl4 eg w5 st fl pa n w6 where loop:
    "each_provider (contain_provider clk (rt_agent_id (ctl_runtime c))) (ctl_enforcers c)
       (st4, fl4, None, 0) w5 = ((st, fl, pa, n), w6)"
    and st4: "\<exists>more. st4 = [''runtime_fenced'', ''capabilities_revoked''] @ more"
    and st: "rep_stages (fst (fst (ctl_contain clk p c w))) = st"
    by (rule ctl_contain_loop)
  have stages: "take 2 (rep_stages (fst (fst (ctl_contain clk p c w))))
                  = [''runtime_fenced'', ''capabilities_revoked'']"
    using contain_loop_stages [OF loop] st4 st by auto
  have creds: "\<not> cs_valid rt st lease"
    if "ctl_credentials (snd (fst (ctl_contain clk p c w))) = Some st" for st rt lease
    using that by (auto simp: frame cs_revoke_all_def cs_valid_def cs_present_def split: option.splits)
  show ?thesis
    using assms stages creds
    by (auto simp: split_beta Let_def frame ctl_contained_def rt_can_execute_def rt_lease_valid_def)
qed

text \<open>A world for the witnesses: a counter every call advances; two kinds of providers.\<close>

definition tick_clock :: "nat clock" where
  "tick_clock = \<lparr>clk_time = (\<lambda>w. (int w, w + 1)), clk_monotonic = (\<lambda>w. (int w, w + 1)),
                clk_utcnow = (\<lambda>w. (''2025-01-01T00:00:00Z'', w + 1))\<rparr>"

definition steady_enforcer :: "string \<Rightarrow> nat enforcer" where
  "steady_enforcer name =
     \<lparr>enf_name = name,
      enf_contain = (\<lambda>a w. (Inr (mk_result name ENFORCED []), w + 1)),
      enf_release = (\<lambda>a w. (Inr (mk_result name RELEASED []), w + 1)),
      enf_verify_contained = (\<lambda>a w. (Inr (mk_result name ENFORCED []), w + 1)),
      enf_verify_released = (\<lambda>a w. (Inr (mk_result name RELEASED []), w + 1))\<rparr>"

definition broken_enforcer :: "string \<Rightarrow> nat enforcer" where
  "broken_enforcer name =
     \<lparr>enf_name = name,
      enf_contain = (\<lambda>a w. (Inl (Exn OSError ''down''), w + 1)),
      enf_release = (\<lambda>a w. (Inl (Exn OSError ''down''), w + 1)),
      enf_verify_contained = (\<lambda>a w. (Inl (Exn OSError ''down''), w + 1)),
      enf_verify_released = (\<lambda>a w. (Inl (Exn OSError ''down''), w + 1))\<rparr>"

definition demo_controller :: "nat enforcer list \<Rightarrow> nat controller" where
  "demo_controller es =
     mk_controller (mk_runtime 0 1 2 ''u'' ''agent'' None) {''shell''} None None
       (Some \<lparr>cs_credentials = {''key''}, cs_epochs = Map.empty\<rparr>) es"

lemmas demo_defs =
  tick_clock_def steady_enforcer_def broken_enforcer_def demo_controller_def
  mk_controller_def mk_runtime_def

theorem containment_always_takes_effect_witness:
  "let ((report, c'), w') = ctl_contain tick_clock 3 (demo_controller [broken_enforcer ''cni'']) 0 in
     ctl_contained c' \<and> rep_epoch report = 1 \<and> rep_failures report = [''cni: OSError: down'']"
proof -
  let ?c = "demo_controller [broken_enforcer ''cni'']"
  have fresh: "(3::nat) \<noteq> rt_proof (ctl_runtime ?c)" by (simp add: demo_defs)
  have "rep_failures (fst (fst (ctl_contain tick_clock 3 ?c 0))) = [''cni: OSError: down'']"
    by (simp add: ctl_contain_def contain_local_stages_def Let_def optional_stage_def contain_provider_def exn_text_def
        exn_name_def exn_str_def demo_defs)
  then show ?thesis
    using containment_always_takes_effect [OF fresh, of tick_clock 0]
    by (simp add: split_beta Let_def demo_defs)
qed

lemma contain_report_exact:
  "let ((report, c'), w') = ctl_contain clk p c w;
       (local, eg, w5) = contain_local_stages c (rt_contain p (ctl_runtime c)) (after_fence clk w);
       a = rt_agent_id (ctl_runtime c)
   in (rep_external_verified report \<longleftrightarrow>
         ctl_enforcers c \<noteq> []
         \<and> all_providers (contain_provider clk a) (contain_confirmed clk a) (ctl_enforcers c)
              (fst local, snd local, None, 0) w5)
      \<and> (rep_certified report \<longleftrightarrow> ctl_enforcers c \<noteq> [] \<and> rep_failures report = [])
      \<and> (rep_verified_at report \<noteq> None \<longleftrightarrow> rep_external_verified report)
      \<and> (rep_occurred_at report \<noteq> None \<longleftrightarrow> rep_external_verified report)"
proof -
  let ?a = "rt_agent_id (ctl_runtime c)"
  obtain st4 fl4 eg w5 st fl pa n w6 where loop:
    "each_provider (contain_provider clk ?a) (ctl_enforcers c) (st4, fl4, None, 0) w5
       = ((st, fl, pa, n), w6)"
    and local: "contain_local_stages c (rt_contain p (ctl_runtime c)) (after_fence clk w)
       = ((st4, fl4), eg, w5)"
    and fl: "rep_failures (fst (fst (ctl_contain clk p c w))) = fl"
    and ver: "rep_external_verified (fst (fst (ctl_contain clk p c w)))
       \<longleftrightarrow> ctl_enforcers c \<noteq> [] \<and> n = length (ctl_enforcers c)"
    and times: "rep_verified_at (fst (fst (ctl_contain clk p c w))) \<noteq> None
       \<longleftrightarrow> rep_external_verified (fst (fst (ctl_contain clk p c w)))"
      "rep_occurred_at (fst (fst (ctl_contain clk p c w))) \<noteq> None
       \<longleftrightarrow> rep_external_verified (fst (fst (ctl_contain clk p c w)))"
    by (rule ctl_contain_loop)
  have count: "length fl + n = length fl4 + length (ctl_enforcers c)"
    using contain_loop_count [OF loop] by simp
  obtain ms where ms: "fl = fl4 @ ms" and all:
    "ms = [] \<longleftrightarrow> all_providers (contain_provider clk ?a) (contain_confirmed clk ?a)
        (ctl_enforcers c) (st4, fl4, None, 0) w5"
    using contain_loop.failures_grow [of clk ?a "ctl_enforcers c" "(st4, fl4, None, 0)" w5] loop
    by auto
  have "rep_external_verified (fst (fst (ctl_contain clk p c w)))
      \<longleftrightarrow> ctl_enforcers c \<noteq> [] \<and> ms = []"
    using count ms ver by auto
  moreover have "rep_certified (fst (fst (ctl_contain clk p c w)))
      \<longleftrightarrow> ctl_enforcers c \<noteq> [] \<and> rep_failures (fst (fst (ctl_contain clk p c w))) = []"
    using count ms by (auto simp: rep_certified_def rep_complete_def fl ver)
  ultimately show ?thesis
    using times local all by (auto simp: split_beta Let_def)
qed

text \<open>
  C12: The report is exact about external enforcement.  It is externally verified precisely
  when providers are configured and every one of them, in the world the loop had reached,
  returned ENFORCED from \<open>contain\<close> and again from the independent verification made after
  it; it is certified precisely when providers are configured and nothing at all failed.  The
  verification and enforcement times are present exactly when it is externally verified.
\<close>

theorem certified_iff_no_failure:
  "let ((report, c'), w') = ctl_contain clk p c w;
       (local, eg, w5) = contain_local_stages c (rt_contain p (ctl_runtime c)) (after_fence clk w);
       a = rt_agent_id (ctl_runtime c)
   in (rep_external_verified report \<longleftrightarrow>
         ctl_enforcers c \<noteq> []
         \<and> all_providers (contain_provider clk a) (contain_confirmed clk a) (ctl_enforcers c)
              (fst local, snd local, None, 0) w5)
      \<and> (rep_certified report \<longleftrightarrow> ctl_enforcers c \<noteq> [] \<and> rep_failures report = [])
      \<and> (rep_verified_at report \<noteq> None \<longleftrightarrow> rep_external_verified report)
      \<and> (rep_occurred_at report \<noteq> None \<longleftrightarrow> rep_external_verified report)"
  by (rule contain_report_exact)

theorem certified_iff_no_failure_witness:
  "let ((report, c'), w') = ctl_contain tick_clock 3 (demo_controller [steady_enforcer ''cni'']) 0 in
     rep_certified report \<and> rep_verified_at report = Some 5"
proof -
  let ?c = "demo_controller [steady_enforcer ''cni'']"
  have run: "rep_failures (fst (fst (ctl_contain tick_clock 3 ?c 0))) = []"
     "rep_verified_at (fst (fst (ctl_contain tick_clock 3 ?c 0))) = Some 5"
    by (simp_all add: ctl_contain_def contain_local_stages_def Let_def optional_stage_def contain_provider_def first_applied_def
        demo_defs)
  moreover have "ctl_enforcers ?c \<noteq> []" by (simp add: demo_defs)
  ultimately show ?thesis
    using certified_iff_no_failure [of tick_clock 3 ?c 0] by (simp add: split_beta Let_def)
qed

section \<open>Recovery\<close>

lemma ctl_release_none_iff:
  "fst (ctl_release_enforcers c w) = [] \<longleftrightarrow>
     all_providers (release_provider (rt_agent_id (ctl_runtime c)))
       (release_confirmed (rt_agent_id (ctl_runtime c))) (rev (ctl_enforcers c)) [] w"
  by (simp add: ctl_release_enforcers_def release_loop.no_failures_iff)

lemma ctl_recontain_none_iff:
  "fst (ctl_recontain_enforcers c w) = [] \<longleftrightarrow>
     all_providers (recontain_provider (rt_agent_id (ctl_runtime c)))
       (recontain_confirmed (rt_agent_id (ctl_runtime c))) (ctl_enforcers c) [] w"
  by (simp add: ctl_recontain_enforcers_def recontain_loop.no_failures_iff)

text \<open>
  C11: The controller's recovery is a fail-closed transaction.  It returns only when every
  provider, in reverse order, confirmed its release twice, the capability was the current
  one and the runtime was contained at exactly the expected epoch; the runtime is then
  ACTIVE at the next epoch and the recovery report is verified.  When it raises, the runtime
  is exactly as before, every provider has been told to contain again, and the report is
  degraded, with \<open>recontainment_verified\<close> exactly if all of them confirmed that.
\<close>

theorem controller_recovery_fail_closed:
  "let ((result, c'), w') = ctl_recover p capability expected c w;
       a = rt_agent_id (ctl_runtime c);
       (fails, w1) = ctl_release_enforcers c w
   in (case result of
         Inr n \<Rightarrow>
           all_providers (release_provider a) (release_confirmed a) (rev (ctl_enforcers c)) [] w
           \<and> capability = Some (rt_capability (ctl_runtime c))
           \<and> ctl_contained c \<and> rt_epoch (ctl_runtime c) = expected
           \<and> rt_can_execute (ctl_runtime c') \<and> rt_epoch (ctl_runtime c') = expected + 1
           \<and> n = expected + 1
           \<and> map_option rr_proof_status (ctl_last_recovery c') = Some ''verified''
       | Inl exc \<Rightarrow>
           ctl_runtime c' = ctl_runtime c
           \<and> w' = snd (ctl_recontain_enforcers c w1)
           \<and> (\<exists>report. ctl_last_recovery c' = Some report \<and> rr_recovered_epoch report = None
                \<and> rr_proof_status report = ''degraded''
                \<and> (last (rr_events report) = ''recontainment_verified'' \<longleftrightarrow>
                     all_providers (recontain_provider a) (recontain_confirmed a)
                       (ctl_enforcers c) [] w1)))"
proof -
  obtain fails w1 where rel: "ctl_release_enforcers c w = (fails, w1)" by fastforce
  obtain rf w2 where rec: "ctl_recontain_enforcers c w1 = (rf, w2)" by fastforce
  have rel_iff: "fails = [] \<longleftrightarrow> all_providers (release_provider (rt_agent_id (ctl_runtime c)))
       (release_confirmed (rt_agent_id (ctl_runtime c))) (rev (ctl_enforcers c)) [] w"
    using ctl_release_none_iff [of c w] rel by simp
  have rec_iff: "rf = [] \<longleftrightarrow> all_providers (recontain_provider (rt_agent_id (ctl_runtime c)))
       (recontain_confirmed (rt_agent_id (ctl_runtime c))) (ctl_enforcers c) [] w1"
    using ctl_recontain_none_iff [of c w1] rec by simp
  have event: "recontainment_event rf = ''recontainment_verified'' \<longleftrightarrow> rf = []"
    by (simp add: recontainment_event_def)
  show ?thesis
  proof (cases "fails = []")
    case False
    then show ?thesis
      using rel rec rec_iff event
      by (simp add: ctl_recover_def Let_def rr_proof_status_def rr_successful_def)
  next
    case True
    show ?thesis
    proof (cases "rt_recover p capability expected (ctl_runtime c)")
      case (Inl exc)
      then show ?thesis
        using True rel rec rec_iff event
        by (simp add: ctl_recover_def Let_def rr_proof_status_def rr_successful_def)
    next
      case (Inr res)
      obtain n r' where "res = (n, r')" by fastforce
      with Inr have ok: "rt_recover p capability expected (ctl_runtime c) = Inr (n, r')" by simp
      have run: "fst (fst (ctl_recover p capability expected c w)) = Inr n"
          "ctl_runtime (snd (fst (ctl_recover p capability expected c w))) = r'"
          "map_option rr_proof_status (ctl_last_recovery (snd (fst (ctl_recover p capability expected c w))))
             = Some ''verified''"
        using True rel ok
        by (simp_all add: ctl_recover_def Let_def rr_proof_status_def rr_successful_def)
      have facts: "capability = Some (rt_capability (ctl_runtime c))" "ctl_contained c"
          "rt_epoch (ctl_runtime c) = expected" "n = expected + 1" "rt_can_execute r'"
          "rt_epoch r' = expected + 1"
        using ok by (auto simp: rt_recover_Inr ctl_contained_def rt_can_execute_def)
      show ?thesis
        using True rel rel_iff run facts by (simp add: split_beta Let_def)
    qed
  qed
qed

theorem controller_recovery_fail_closed_witness:
  "let c = (demo_controller [steady_enforcer ''cni'', broken_enforcer ''bpf''])
             \<lparr>ctl_runtime := rt_contain 3 (mk_runtime 0 1 2 ''u'' ''agent'' None)\<rparr>;
       ((result, c'), w') = ctl_recover 4 (Some 2) 1 c 0
   in result = Inl (Exn RuntimeError
        ''recovery aborted; runtime remains contained: bpf: OSError: down'')
      \<and> ctl_contained c'"
proof -
  let ?c = "(demo_controller [steady_enforcer ''cni'', broken_enforcer ''bpf''])
             \<lparr>ctl_runtime := rt_contain 3 (mk_runtime 0 1 2 ''u'' ''agent'' None)\<rparr>"
  have result: "fst (fst (ctl_recover 4 (Some 2) 1 ?c 0)) = Inl (Exn RuntimeError
        ''recovery aborted; runtime remains contained: bpf: OSError: down'')"
    by (simp add: ctl_recover_def ctl_release_enforcers_def ctl_recontain_enforcers_def Let_def
        release_provider_def recontain_provider_def exn_text_def exn_name_def exn_str_def demo_defs)
  then show ?thesis
    using controller_recovery_fail_closed [of 4 "Some 2" 1 ?c 0]
    by (auto simp: split_beta Let_def ctl_contained_def)
qed

end
