(* ===== verification/Control_Evidence.thy ===== *)
theory Control_Evidence
  imports Control_System Containment_Props
begin

text \<open>
  Containment as the service performs it, and the durable evidence of it: a fence or an incident
  of the agent, which no operation and no restart removes.
\<close>

section \<open>One containment\<close>

lemma contain_runtime_run:
  assumes "contain_runtime env a inc e s = (r, t)" and "a \<noteq> []" and "dict_get (svc_agents s) a = Some m"
  shows "\<exists>report w c w'. r = Inr report
     \<and> ctl_contain (env_clock env) (svc_next s) (ma_containment m) w = ((report, c), w')
     \<and> (\<forall>b. dict_get (svc_agents t) b =
           (if b = a then Some (m\<lparr>ma_containment := c, ma_identity_digest := None, ma_identity_pid := None\<rparr>)
            else dict_get (svc_agents s) b))
     \<and> svc_fences t = svc_fences s \<and> svc_incidents t = svc_incidents s
     \<and> svc_reviews t = svc_reviews s \<and> svc_next t = svc_next s + 1"
  using assms
  by (auto simp: contain_runtime_def revoke_identity_def piece_runs dest!: emit_event_run) blast

lemma audit_containment_run:
  assumes "audit_containment env a inc report s = (r, t)" and "incidents_ok (svc_incidents s)"
  shows "svc_agents t = svc_agents s \<and> svc_fences t = svc_fences s \<and> svc_next t = svc_next s
     \<and> (\<forall>i x. ig_get i (svc_incidents s) = Some x \<longrightarrow>
          (\<exists>y. ig_get i (svc_incidents t) = Some y \<and> incident_fact y = incident_fact x))
     \<and> (\<forall>e. r = Inl e \<longrightarrow> env_audit env \<noteq> None \<and> ig_get inc (svc_incidents s) \<noteq> None)"
proof -
  have mark: "\<exists>y. ig_get i g' = Some y \<and> incident_fact y = incident_fact x"
    if "ig_mark_proof_degraded io j why g = (res, g')" "ig_get i g = Some x" "incidents_ok g"
    for io j why g res g' i x
    using incident_write_ok [of g "MarkProofDegraded j why" io res g' i x] that by simp
  show ?thesis
    using assms
    by (auto simp: audit_containment_def piece_runs split: if_splits dest!: audit_record_run intro: mark)
qed

lemma contain_finish_run:
  assumes "contain_finish env a inc ff incf report0 s = (r, t)" and "a \<noteq> []"
    and "ff \<noteq> Some []" and "incf \<noteq> Some []"
  shows "(\<exists>w. t = s\<lparr>svc_world := w\<rparr>)
     \<and> r = Inr (report0\<lparr>rep_persistence_failures :=
           rep_persistence_failures report0 @ (case ff of None \<Rightarrow> [] | Some f \<Rightarrow> [f])
             @ (case incf of None \<Rightarrow> [] | Some f \<Rightarrow> [f])\<rparr>)"
  using assms
  by (auto simp: contain_finish_def piece_runs with_persistence_failure_def
      split: option.splits if_splits dest!: emit_event_run)

lemma persistence_failure_text: "persistence_failure what res \<noteq> Some []"
  by (cases res) auto

text \<open>The phases of \<open>contain\<close> on a registered agent.\<close>

lemma svc_contain_phases:
  assumes run: "svc_contain env a s = (r, t)" and a: "a \<noteq> []"
    and m: "dict_get (svc_agents s) a = Some m"
  obtains fo s1 report c w w' s2 io_res s4 ao s5 where
    "with_fences env (\<lambda>io. fg_prepare io a (rt_epoch (ma_runtime m) + 1)) s = (fo, s1)"
    "ctl_contain (env_clock env) (svc_next s) (ma_containment m) w = ((report, c), w')"
    "\<forall>b. dict_get (svc_agents s2) b =
        (if b = a then Some (m\<lparr>ma_containment := c, ma_identity_digest := None, ma_identity_pid := None\<rparr>)
         else dict_get (svc_agents s) b)"
    "svc_fences s2 = svc_fences s1" "svc_incidents s2 = svc_incidents s1" "svc_next s2 = svc_next s + 1"
    "\<exists>now w3. with_incidents env (\<lambda>io. ig_record_containment now io
        (incident_id a (rt_epoch (ma_runtime m) + 1)) a (rep_epoch report) (Some contain_reason))
        (s2\<lparr>svc_world := w3\<rparr>) = (io_res, s4)"
    "audit_containment env a (incident_id a (rt_epoch (ma_runtime m) + 1)) report s4 = (ao, s5)"
    "\<exists>w5. t = s5\<lparr>svc_world := w5\<rparr>"
    "case ao of Inl e \<Rightarrow> r = Inl e
     | Inr _ \<Rightarrow> r = Inr (report\<lparr>rep_persistence_failures :=
          (case persistence_failure ''durable fence'' fo of None \<Rightarrow> [] | Some f \<Rightarrow> [f])
          @ (case persistence_failure ''incident'' io_res of None \<Rightarrow> [] | Some f \<Rightarrow> [f])\<rparr>)"
proof -
  let ?inc = "incident_id a (rt_epoch (ma_runtime m) + 1)"
  obtain fo s1 where fence:
    "with_fences env (\<lambda>io. fg_prepare io a (rt_epoch (ma_runtime m) + 1)) s = (fo, s1)" by fastforce
  then have s1: "svc_agents s1 = svc_agents s" "svc_next s1 = svc_next s"
    by (auto simp: with_fences_run)
  obtain cr s2 where cont: "contain_runtime env a ?inc (rt_epoch (ma_runtime m) + 1) s1 = (cr, s2)"
    by fastforce
  from contain_runtime_run [OF cont a] m s1 obtain report w c w' where c: "cr = Inr report"
    "ctl_contain (env_clock env) (svc_next s) (ma_containment m) w = ((report, c), w')"
    "\<forall>b. dict_get (svc_agents s2) b =
        (if b = a then Some (m\<lparr>ma_containment := c, ma_identity_digest := None, ma_identity_pid := None\<rparr>)
         else dict_get (svc_agents s) b)"
    "svc_fences s2 = svc_fences s1" "svc_incidents s2 = svc_incidents s1" "svc_next s2 = svc_next s + 1"
    by auto
  obtain now w3 where time: "read_time env s2 = (Inr now, s2\<lparr>svc_world := w3\<rparr>)"
    by (cases "clk_time (env_clock env) (svc_world s2)") (auto simp: read_time_def sense_def)
  obtain io_res s4 where inc: "with_incidents env (\<lambda>io. ig_record_containment now io ?inc a
      (rep_epoch report) (Some contain_reason)) (s2\<lparr>svc_world := w3\<rparr>) = (io_res, s4)" by fastforce
  obtain ao s5 where audit: "audit_containment env a ?inc report s4 = (ao, s5)" by fastforce
  have body: "svc_contain env a s = (case ao of Inl e \<Rightarrow> (Inl e, s5)
      | Inr _ \<Rightarrow> contain_finish env a ?inc (persistence_failure ''durable fence'' fo)
                  (persistence_failure ''incident'' io_res) report s5)"
    using m fence cont c(1) time inc audit
    by (simp add: svc_contain_def andthen_def svc_managed_def attempt_def split: sum.split)
  have empty: "rep_persistence_failures report = []"
    using ctl_contain_frame(11) [of "env_clock env" "svc_next s" "ma_containment m" w] c(2) by simp
  have "(\<exists>w5. t = s5\<lparr>svc_world := w5\<rparr>) \<and> (case ao of Inl e \<Rightarrow> r = Inl e
     | Inr _ \<Rightarrow> r = Inr (report\<lparr>rep_persistence_failures :=
          (case persistence_failure ''durable fence'' fo of None \<Rightarrow> [] | Some f \<Rightarrow> [f])
          @ (case persistence_failure ''incident'' io_res of None \<Rightarrow> [] | Some f \<Rightarrow> [f])\<rparr>))"
  proof (cases ao)
    case (Inl e)
    with body run show ?thesis by (auto intro: exI [of _ "svc_world s5"])
  next
    case (Inr u)
    with body run have "contain_finish env a ?inc (persistence_failure ''durable fence'' fo)
        (persistence_failure ''incident'' io_res) report s5 = (r, t)" by simp
    from contain_finish_run [OF this a persistence_failure_text persistence_failure_text] Inr empty
    show ?thesis by simp
  qed
  then show ?thesis
    using that [OF fence c(2,3,4,5,6) _ audit] inc by blast
qed

lemma ig_record_containment_ok:
  "ig_record_containment now io i a e reason g = (Inr r, g') \<Longrightarrow>
     inc_id r = i \<and> inc_agent_id r = a \<and> inc_epoch r = e \<and> ig_get i g' = Some r"
  by (auto simp: ig_record_containment_def ig_get_def split: if_splits dest!: ig_store_ok)

text \<open>What one containment leaves in the state.\<close>

definition evidence_at :: "string \<Rightarrow> int \<Rightarrow> 'w service \<Rightarrow> bool \<times> bool" where
  "evidence_at a epoch s =
     (fg_get a (svc_fences s) = Some \<lparr>fr_agent_id = a, fr_epoch = epoch\<rparr>,
      (case ig_get (incident_id a epoch) (svc_incidents s) of
         None \<Rightarrow> False | Some r \<Rightarrow> inc_agent_id r = a \<and> inc_epoch r = epoch))"

lemma svc_contain_effect:
  assumes run: "svc_contain env a s = (r, t)" and a: "a \<noteq> []"
    and m: "dict_get (svc_agents s) a = Some m" and ok: "incidents_ok (svc_incidents s)"
  shows "(\<forall>b. b \<noteq> a \<longrightarrow> dict_get (svc_agents t) b = dict_get (svc_agents s) b)
     \<and> (\<exists>m'. dict_get (svc_agents t) a = Some m' \<and> ma_runtime m' = rt_contain (svc_next s) (ma_runtime m)
          \<and> ma_identity_digest m' = None \<and> ma_identity_pid m' = None
          \<and> ma_capability m' = ma_capability m \<and> ctl_capabilities (ma_containment m') = {})
     \<and> svc_next t = svc_next s + 1
     \<and> (case r of
          Inl e \<Rightarrow> env_audit env \<noteq> None
            \<and> ig_get (incident_id a (rt_epoch (ma_runtime m) + 1)) (svc_incidents t) \<noteq> None
        | Inr report \<Rightarrow>
            rep_epoch report = rt_epoch (ma_runtime m) + 1
            \<and> (rep_durable report \<longrightarrow> evidence_at a (rep_epoch report) t = (True, True))
            \<and> (length (rep_persistence_failures report) < 2 \<longrightarrow>
                evidence_at a (rep_epoch report) t \<noteq> (False, False)))"
proof -
  let ?e = "rt_epoch (ma_runtime m) + 1"
  obtain fo s1 report c w w' s2 io_res s4 ao s5 where phases:
    "with_fences env (\<lambda>io. fg_prepare io a ?e) s = (fo, s1)"
    "ctl_contain (env_clock env) (svc_next s) (ma_containment m) w = ((report, c), w')"
    "\<forall>b. dict_get (svc_agents s2) b =
        (if b = a then Some (m\<lparr>ma_containment := c, ma_identity_digest := None, ma_identity_pid := None\<rparr>)
         else dict_get (svc_agents s) b)"
    "svc_fences s2 = svc_fences s1" "svc_incidents s2 = svc_incidents s1" "svc_next s2 = svc_next s + 1"
    "\<exists>now w3. with_incidents env (\<lambda>io. ig_record_containment now io (incident_id a ?e) a
        (rep_epoch report) (Some contain_reason)) (s2\<lparr>svc_world := w3\<rparr>) = (io_res, s4)"
    "audit_containment env a (incident_id a ?e) report s4 = (ao, s5)"
    "\<exists>w5. t = s5\<lparr>svc_world := w5\<rparr>"
    "case ao of Inl e \<Rightarrow> r = Inl e
     | Inr _ \<Rightarrow> r = Inr (report\<lparr>rep_persistence_failures :=
          (case persistence_failure ''durable fence'' fo of None \<Rightarrow> [] | Some f \<Rightarrow> [f])
          @ (case persistence_failure ''incident'' io_res of None \<Rightarrow> [] | Some f \<Rightarrow> [f])\<rparr>)"
    by (rule svc_contain_phases [OF run a m])
  have c: "ctl_runtime c = rt_contain (svc_next s) (ma_runtime m)" "ctl_capabilities c = {}"
      "rep_epoch report = ?e"
    using ctl_contain_frame(2,3,10) [of "env_clock env" "svc_next s" "ma_containment m" w] phases(2)
    by (simp_all add: ma_runtime_def)
  have s4: "svc_agents s4 = svc_agents s2" "svc_fences s4 = svc_fences s2" "svc_next s4 = svc_next s2"
      "incidents_ok (svc_incidents s4)"
      "io_res = Inr x \<Longrightarrow> \<exists>y. ig_get (incident_id a ?e) (svc_incidents s4) = Some y
         \<and> inc_agent_id y = a \<and> inc_epoch y = ?e" for x
    using phases(1,5,7) ok c(3)
      incident_write_ok [of _ "RecordContainment _ (incident_id a ?e) a (rep_epoch report) (Some contain_reason)"]
    by (auto simp: with_incidents_run with_fences_run dest: ig_record_containment_ok)
  note audit = audit_containment_run [OF phases(8) s4(4)]
  have fence: "fo = Inr f \<Longrightarrow> fst (evidence_at a ?e t)" for f
    using phases(1,4,9) audit s4(2)
    by (auto simp: with_fences_run evidence_at_def dest!: fg_prepare_get [of _ _ _ _ _ _ a])
  have inc: "snd (evidence_at a ?e t)" if "io_res = Inr x" for x
    using s4(5) [OF that] audit phases(9) by (fastforce simp: evidence_at_def incident_fact_def)
  have raised: "env_audit env \<noteq> None \<and> ig_get (incident_id a ?e) (svc_incidents t) \<noteq> None"
    if "ao = Inl e" for e
    using that audit phases(9) by fastforce
  have agents: "dict_get (svc_agents t) b =
      (if b = a then Some (m\<lparr>ma_containment := c, ma_identity_digest := None, ma_identity_pid := None\<rparr>)
       else dict_get (svc_agents s) b)" for b
    using phases(3,9) audit s4(1) by auto
  have "svc_next t = svc_next s + 1" using phases(6,9) audit s4(3) by auto
  moreover have "case r of
          Inl e \<Rightarrow> env_audit env \<noteq> None \<and> ig_get (incident_id a ?e) (svc_incidents t) \<noteq> None
        | Inr report \<Rightarrow> rep_epoch report = ?e
            \<and> (rep_durable report \<longrightarrow> evidence_at a (rep_epoch report) t = (True, True))
            \<and> (length (rep_persistence_failures report) < 2 \<longrightarrow>
                evidence_at a (rep_epoch report) t \<noteq> (False, False))"
  proof (cases ao)
    case (Inl e)
    with phases(10) raised show ?thesis by auto
  next
    case (Inr u)
    with phases(10) fence inc c(3) show ?thesis
      by (cases fo; cases io_res) (auto simp: rep_durable_def prod_eq_iff)
  qed
  ultimately show ?thesis using agents c by (auto simp: ma_runtime_def)
qed

text \<open>The failures a report names when the fence write and the incident write ended so, an exception for each that failed.\<close>

definition reported_failures :: "exn option \<Rightarrow> exn option \<Rightarrow> string list" where
  "reported_failures fence incident =
     (case fence of None \<Rightarrow> [] | Some e \<Rightarrow> [''durable fence persistence unavailable: '' @ exn_text e])
     @ (case incident of None \<Rightarrow> [] | Some e \<Rightarrow> [''incident persistence unavailable: '' @ exn_text e])"

text \<open>
  The evidence against the two outcomes: a write that succeeded stored its record, one that failed stored nothing and
  added or removed no incident.
\<close>

definition evidence_matches ::
  "string \<Rightarrow> int \<Rightarrow> exn option \<Rightarrow> exn option \<Rightarrow> 'w service \<Rightarrow> 'w service \<Rightarrow> bool" where
  "evidence_matches a epoch fence incident s t \<longleftrightarrow>
     (case fence of None \<Rightarrow> fst (evidence_at a epoch t) | Some e \<Rightarrow> svc_fences t = svc_fences s)
     \<and> (case incident of None \<Rightarrow> snd (evidence_at a epoch t)
        | Some e \<Rightarrow> \<forall>i. (ig_get i (svc_incidents t) = None) = (ig_get i (svc_incidents s) = None))"

lemma incident_write_keys:
  assumes "incidents_ok g" and "ig_mark_proof_degraded io j why g = (res, g')"
  shows "(ig_get i g' = None) = (ig_get i g = None)"
proof (cases res)
  case (Inl e)
  then show ?thesis using incident_write_fails [of "MarkProofDegraded j why" io g e g'] assms(2) by simp
next
  case (Inr r)
  have run: "incident_write (MarkProofDegraded j why) io g = (Inr r, g')" using assms(2) Inr by simp
  obtain x where "ig_get j g = Some x" "inc_id r = inc_id x" 
    using assms(2) Inr by (auto simp: ig_op_defs ig_get_def split: if_splits option.splits sum.splits dest!: ig_store_ok)
  moreover from this(1) assms(1) have "inc_id x = j"
    by (auto simp: incidents_ok_def keyed_def ig_get_def dict_get_def dest!: map_of_SomeD)
  ultimately show ?thesis using incident_write_get [OF run, of i] by auto
qed

lemma audit_containment_keys:
  assumes "audit_containment env a inc report s = (r, t)" and "incidents_ok (svc_incidents s)"
  shows "(ig_get i (svc_incidents t) = None) = (ig_get i (svc_incidents s) = None)"
  using assms
  by (auto simp: audit_containment_def piece_runs split: if_splits dest!: audit_record_run dest: incident_write_keys)

lemma svc_contain_exact:
  assumes run: "svc_contain env a s = (r, t)" and returned: "r = Inr report" and a: "a \<noteq> []"
    and m: "dict_get (svc_agents s) a = Some m" and ok: "incidents_ok (svc_incidents s)"
  shows "\<exists>fence incident. rep_persistence_failures report = reported_failures fence incident
     \<and> evidence_matches a (rt_epoch (ma_runtime m) + 1) fence incident s t"
proof -
  let ?e = "rt_epoch (ma_runtime m) + 1"
  obtain fo s1 rep c w w' s2 io_res s4 ao s5 where phases:
    "with_fences env (\<lambda>io. fg_prepare io a ?e) s = (fo, s1)"
    "ctl_contain (env_clock env) (svc_next s) (ma_containment m) w = ((rep, c), w')"
    "\<forall>b. dict_get (svc_agents s2) b =
        (if b = a then Some (m\<lparr>ma_containment := c, ma_identity_digest := None, ma_identity_pid := None\<rparr>)
         else dict_get (svc_agents s) b)"
    "svc_fences s2 = svc_fences s1" "svc_incidents s2 = svc_incidents s1" "svc_next s2 = svc_next s + 1"
    "\<exists>now w3. with_incidents env (\<lambda>io. ig_record_containment now io (incident_id a ?e) a
        (rep_epoch rep) (Some contain_reason)) (s2\<lparr>svc_world := w3\<rparr>) = (io_res, s4)"
    "audit_containment env a (incident_id a ?e) rep s4 = (ao, s5)"
    "\<exists>w5. t = s5\<lparr>svc_world := w5\<rparr>"
    "case ao of Inl e \<Rightarrow> r = Inl e
     | Inr _ \<Rightarrow> r = Inr (rep\<lparr>rep_persistence_failures :=
          (case persistence_failure ''durable fence'' fo of None \<Rightarrow> [] | Some f \<Rightarrow> [f])
          @ (case persistence_failure ''incident'' io_res of None \<Rightarrow> [] | Some f \<Rightarrow> [f])\<rparr>)"
    by (rule svc_contain_phases [OF run a m])
  have epoch: "rep_epoch rep = ?e"
    using ctl_contain_frame(10) [of "env_clock env" "svc_next s" "ma_containment m" w] phases(2)
    by (simp add: ma_runtime_def)
  have failures: "rep_persistence_failures report
      = reported_failures (case fo of Inl e \<Rightarrow> Some e | Inr _ \<Rightarrow> None) (case io_res of Inl e \<Rightarrow> Some e | Inr _ \<Rightarrow> None)"
    using phases(10) returned by (cases fo; cases io_res) (auto simp: reported_failures_def split: sum.splits)
  have ok4: "incidents_ok (svc_incidents s4)"
    using phases(1,5,7) ok
      incident_write_ok [of _ "RecordContainment _ (incident_id a ?e) a (rep_epoch rep) (Some contain_reason)"]
    by (auto simp: with_incidents_run with_fences_run)
  note audit = audit_containment_run [OF phases(8) ok4]
  note keys = audit_containment_keys [OF phases(8) ok4]
  have fences: "svc_fences t = svc_fences s1"
    using phases(4,7,9) audit by (auto simp: with_incidents_run)
  have fence: "case fo of Inl e \<Rightarrow> svc_fences t = svc_fences s | Inr f \<Rightarrow> fst (evidence_at a ?e t)"
    using phases(1) fences
    by (auto simp: with_fences_run evidence_at_def split: sum.split
        dest: fg_prepare_fails dest!: fg_prepare_get [of _ _ _ _ _ _ a])
  have stored: "\<exists>y. ig_get (incident_id a ?e) (svc_incidents s4) = Some y \<and> inc_agent_id y = a \<and> inc_epoch y = ?e"
    if "io_res = Inr x" for x
    using phases(7) that epoch by (auto simp: with_incidents_run dest: ig_record_containment_ok)
  have incident: "case io_res of Inl e \<Rightarrow> \<forall>i. (ig_get i (svc_incidents t) = None) = (ig_get i (svc_incidents s) = None)
      | Inr x \<Rightarrow> snd (evidence_at a ?e t)"
  proof (cases io_res)
    case (Inl e)
    with phases(1,5,7) incident_write_fails [of "RecordContainment _ (incident_id a ?e) a (rep_epoch rep) (Some contain_reason)"]
    have "svc_incidents s4 = svc_incidents s" by (auto simp: with_incidents_run with_fences_run)
    with Inl keys phases(9) show ?thesis by auto
  next
    case (Inr x)
    from stored [OF this] audit phases(9) show ?thesis
      by (fastforce simp: Inr evidence_at_def incident_fact_def)
  qed
  show ?thesis
    by (rule exI [of _ "case fo of Inl e \<Rightarrow> Some e | Inr _ \<Rightarrow> None"],
        rule exI [of _ "case io_res of Inl e \<Rightarrow> Some e | Inr _ \<Rightarrow> None"])
       (use failures fence incident in \<open>auto simp: evidence_matches_def split: sum.splits\<close>)
qed

end
