(* ===== verification/Control_Demo.thy ===== *)
theory Control_Demo
  imports Control_Evidence
begin

text \<open>
  A concrete environment and a concrete service, on which the properties of the service are
  instantiated, and the simplification rules that evaluate an operation on them.
\<close>

definition demo_env :: "nat environment" where
  "demo_env =
     \<lparr>env_clock = tick_clock, env_disk = (\<lambda>w. (None, w + 1)), env_audit = None, env_sink = None,
      env_supervisor = None, env_resolve = ret, env_uuid = (\<lambda>w. (''uuid'', w + 1)),
      env_token_urlsafe = (\<lambda>w. (''token'', w + 1)), env_token_hex = (\<lambda>w. (''00ff'', w + 1)),
      env_sha256 = rev, env_review_timeout = 900\<rparr>"

definition empty_service :: "nat service" where
  "empty_service =
     \<lparr>svc_agents = [], svc_incidents = \<lparr>ig_has_path = True, ig_records = [], ig_file = None\<rparr>,
      svc_fences = \<lparr>fg_has_path = True, fg_records = [], fg_file = None\<rparr>, svc_reviews = [],
      svc_next = 10, svc_world = 0\<rparr>"

text \<open>The agent \<open>a\<close> with given providers, an identity token \<open>token\<close> and a cgroup.\<close>

definition demo_agent :: "nat enforcer list \<Rightarrow> nat managed_agent" where
  "demo_agent es =
     \<lparr>ma_containment = mk_controller (mk_runtime 0 1 2 ''uuid'' ''a'' None) {''shell''} None None None es,
      ma_metadata = [], ma_policy = default_policy_engine, ma_identity_digest = Some ''nekot'',
      ma_identity_pid = None, ma_identity_cgroup = Some ''/cg/a'', ma_capability = Some 2\<rparr>"

definition demo_service :: "nat enforcer list \<Rightarrow> nat service" where
  "demo_service es = empty_service\<lparr>svc_agents := [(''a'', demo_agent es)]\<rparr>"

definition demo_action :: action where
  "demo_action = \<lparr>act_agent_id = ''a'', act_action_id = ''act-1'', act_operation = ''read'',
     act_resource = ''r'', act_risk = 0, act_metadata = []\<rparr>"

lemma incident_id_nonempty [simp]: "incident_id a e \<noteq> []"
  by (simp add: incident_id_def)

lemmas piece_defs = svc_managed_def update_managed_def with_fences_def with_incidents_def on_world_def
  sense_def alloc_def read_time_def emit_event_def audit_record_def on_controller_def
  revoke_identity_def latest_incident_def rotate_capability_def rt_rotate_capability_def

lemmas contain_defs = svc_contain_def contain_runtime_def audit_containment_def contain_finish_def
  ctl_contain_def contain_local_stages_def optional_stage_def rep_certified_def rep_complete_def

lemmas registry_defs = fg_prepare_def fg_commit_def fg_clear_def fg_get_def ig_op_defs ig_store_def
  ig_get_def persist_def

lemmas demo_state_defs = demo_env_def demo_service_def empty_service_def demo_agent_def demo_defs
  mk_managed_def ma_runtime_def

lemmas demo_run_defs = prog_defs piece_defs contain_defs registry_defs demo_state_defs

lemma demo_agent_get: "dict_get (svc_agents (demo_service es)) ''a'' = Some (demo_agent es)"
  by (simp add: demo_service_def dict_get_def)

lemma demo_incidents_ok: "incidents_ok (svc_incidents (demo_service es))"
  by (simp add: demo_service_def empty_service_def incidents_ok_def ig_get_def)

lemma demo_durable: "durable wording (demo_service es)"
  by (simp add: durable_def of_registries_def durable_registries_def demo_service_def empty_service_def
      fence_wf_def incident_wf_def fg_load_def ig_load_def load_registry_def incidents_ok_def ig_get_def)

lemma demo_contain_report:
  "rep_persistence_failures report = [] \<and> rep_failures report = []"
  if "svc_contain demo_env ''a'' (demo_service []) = (Inr report, s1)"
  using that by (auto simp: demo_run_defs Let_def dict_get_def dict_set_def)

lemma demo_contain_returns: "\<exists>report s1. svc_contain demo_env ''a'' (demo_service []) = (Inr report, s1)"
  by (simp add: demo_run_defs Let_def dict_get_def dict_set_def)

end
