(* ===== verification/Control_Admission.thy ===== *)
theory Control_Admission
  imports Control_Demo
begin

text \<open>
  Containment is durable: what \<open>register\<close> admits given the evidence in the registries, and
  that the evidence outlives every operation and every restart.
\<close>

section \<open>The evidence is kept\<close>

definition has_incident :: "string \<Rightarrow> incident_registry \<Rightarrow> bool" where
  "has_incident a ig \<longleftrightarrow> (\<exists>i r. ig_get i ig = Some r \<and> inc_agent_id r = a)"

definition contained_before :: "string \<Rightarrow> fence_registry \<Rightarrow> incident_registry \<Rightarrow> bool" where
  "contained_before a fg ig \<longleftrightarrow> incidents_ok ig \<and> (fg_get a fg \<noteq> None \<or> has_incident a ig)"

definition incident_before :: "string \<Rightarrow> fence_registry \<Rightarrow> incident_registry \<Rightarrow> bool" where
  "incident_before a fg ig \<longleftrightarrow> incidents_ok ig \<and> has_incident a ig"

lemma has_incident_write:
  "incidents_ok ig \<Longrightarrow> incident_write op io ig = (r, ig') \<Longrightarrow> has_incident a ig \<Longrightarrow>
     has_incident a ig' \<and> incidents_ok ig'"
  using incident_write_ok [of ig op io r ig'] unfolding has_incident_def
  by (metis (no_types, lifting) fst_conv incident_fact_def snd_conv)

lemma incident_before_closed:
  "incident_closed (incident_before a)" "prepare_closed (incident_before a)"
  "clear_closed b (incident_before a)"
  by (auto simp: incident_closed_def prepare_closed_def clear_closed_def incident_before_def
      dest: has_incident_write)

lemma contained_before_closed:
  "incident_closed (contained_before a)" "prepare_closed (contained_before a)"
  "b \<noteq> a \<Longrightarrow> clear_closed b (contained_before a)"
proof -
  show "incident_closed (contained_before a)"
    unfolding incident_closed_def contained_before_def
    using has_incident_write incident_write_ok by blast
  have "fg_get a fg' \<noteq> None" if "fg_prepare io b e fg = (r, fg')" "fg_get a fg \<noteq> None" for io b e fg r fg'
    using that fg_prepare_get [of io b e fg _ fg' a] fg_prepare_fails [of io b e fg _ fg']
    by (cases r) auto
  then show "prepare_closed (contained_before a)"
    unfolding prepare_closed_def contained_before_def by blast
  assume "b \<noteq> a"
  then have "fg_get a fg' = fg_get a fg" if "fg_clear io b fg = (r, fg')" for io fg r fg'
    using that fg_clear_get_other [of a b io fg] by simp
  then show "clear_closed b (contained_before a)"
    unfolding clear_closed_def contained_before_def by metis
qed

lemma recover_checks_ok:
  "recover_checks a auth s = (Inr r, t) \<Longrightarrow>
     t = s \<and> (\<exists>m x. dict_get (svc_agents s) a = Some m \<and> auth = Some x \<and> ra_agent_id x = a
       \<and> ra_capability x = ma_capability m \<and> ra_epoch x = inc_epoch r
       \<and> ig_latest_for_agent a (svc_incidents s) = Inr (Some r)
       \<and> inc_state r \<in> {INC_CONTAINED, PROOF_DEGRADED}
       \<and> rt_state (ma_runtime m) = CONTAINED \<and> rt_epoch (ma_runtime m) = inc_epoch r)"
  by (cases auth)
     (auto simp: recover_checks_def need_recoverable_def recoverable_incident_def need_contained_at_def
       piece_runs split: option.splits if_splits)

lemma latest_has_incident:
  assumes "incidents_ok ig" and "ig_latest_for_agent a ig = Inr (Some r)"
  shows "ig_get (inc_id r) ig = Some r \<and> inc_agent_id r = a"
proof -
  from ig_latest_sound [OF assms(2)] have "r \<in> set (dict_values (ig_records ig))" "inc_agent_id r = a"
    by (auto simp: ig_all_def)
  moreover obtain k where "dict_get (ig_records ig) k = Some r"
    using calculation(1) assms(1) by (auto simp: incidents_ok_def keyed_def dest: dict_values_get)
  ultimately show ?thesis
    using assms(1) by (auto simp: incidents_ok_def ig_get_def dest: keyed_get)
qed

text \<open>Recovery removes a fence only of an agent whose incident stays.\<close>

lemma recover_keeps_evidence:
  assumes ev: "of_registries (contained_before a) s"
  shows "of_registries (contained_before a) (effect (svc_recover env b auth) s)"
proof (cases "recover_checks b auth s")
  case (Pair res s1)
  show ?thesis
  proof (cases res)
    case (Inl e)
    with Pair have "effect (svc_recover env b auth) s = s"
      using recover_checks_same [OF Pair] by (simp add: effect_def svc_recover_split andthen_def)
    with ev show ?thesis by simp
  next
    case (Inr r)
    with Pair recover_checks_ok have s1: "s1 = s"
      and latest: "ig_latest_for_agent b (svc_incidents s) = Inr (Some r)" by blast+
    have eff: "effect (svc_recover env b auth) s = effect (recover_after_checks env b r) s"
      using Pair Inr s1 by (simp add: effect_def svc_recover_split andthen_def)
    show ?thesis
    proof (cases "b = a")
      case False
      have "preserves (of_registries (contained_before a)) (recover_after_checks env b r)"
        by (rule preserves_recover_after [OF contained_before_closed(1,2)])
           (rule contained_before_closed(3) [OF False])
      with ev eff show ?thesis by (simp add: preserves_effect)
    next
      case True
      with ev latest have "of_registries (incident_before a) s"
        by (auto simp: of_registries_def contained_before_def incident_before_def has_incident_def
            dest: latest_has_incident)
      moreover have "preserves (of_registries (incident_before a)) (recover_after_checks env b r)"
        by (rule preserves_recover_after [OF incident_before_closed])
      ultimately have "of_registries (incident_before a) (effect (svc_recover env b auth) s)"
        using eff by (simp add: preserves_effect)
      then show ?thesis by (auto simp: of_registries_def contained_before_def incident_before_def)
    qed
  qed
qed

lemma evidence_run:
  assumes "runs (service_step wording) s es t" and "durable wording s"
    and "of_registries (contained_before a) s"
  shows "of_registries (contained_before a) t \<and> durable wording t"
  using assms
proof (induction rule: runs.induct)
  case (runs_cons s e u es t)
  then have "of_registries (contained_before a) u"
    by (intro service_step_keeps [OF runs_cons.hyps(1) runs_cons.prems(1) contained_before_closed(1,2)])
       (auto intro: recover_keeps_evidence)
  with runs_cons durable_step show ?case by blast
qed simp

section \<open>Admission\<close>

lemma restore_runtime_run:
  "restore_runtime e rt s = (Inr rt', t) \<Longrightarrow> rt_state rt' = CONTAINED \<and> svc_fences t = svc_fences s
     \<and> svc_incidents t = svc_incidents s"
  by (auto simp: restore_runtime_def piece_runs rt_restore_contained_def split: if_splits)

text \<open>With evidence of containment, a runtime built by \<open>register\<close> itself is admitted only contained.\<close>

lemma admit_unsupplied_contained:
  assumes run: "admit env a None s = (Inr rt, t)" and ev: "of_registries (contained_before a) s"
    and a: "a \<noteq> []"
  shows "rt_state rt = CONTAINED"
proof (cases "fg_get a (svc_fences s)")
  case (Some f)
  with run obtain rt0 rt1 prior s2 s3 s4 where
    "admit_runtime_fenced False (Some f) rt0 s2 = (Inr rt1, s3)"
    and adm: "admit_runtime env a False (Some f) prior rt1 s3 = (Inr rt, s4)"
    by (auto simp: admit_def register_runtime_def new_runtime_def piece_runs split: option.splits)
  then have "rt_state rt1 = CONTAINED"
    by (auto simp: admit_runtime_fenced_def dest: restore_runtime_run)
  with adm show ?thesis
    by (auto simp: admit_runtime_def admit_contained_def ret_run andthen_run split: option.splits if_splits
        dest: restore_runtime_run)
next
  case None
  with ev have ok: "incidents_ok (svc_incidents s)" and inc: "has_incident a (svc_incidents s)"
    by (auto simp: of_registries_def contained_before_def)
  have "\<exists>r \<in> set (ig_all (svc_incidents s)). inc_agent_id r = a"
    using inc by (auto simp: has_incident_def ig_all_def ig_get_def dest: dict_get_in_values)
  then obtain r where latest: "ig_latest_for_agent a (svc_incidents s) = Inr (Some r)"
    using ig_latest_none [OF a, of "svc_incidents s"] a
    by (cases "ig_latest_for_agent a (svc_incidents s)") (auto simp: ig_latest_for_agent_def split: list.splits)
  have state: "inc_state r \<noteq> OPEN"
    using latest_has_incident [OF ok latest] ok by (auto simp: incidents_ok_def incident_ok_def)
  from run None latest obtain rt1 s2 s3 where
    "admit_runtime env a False None (Some r) rt1 s2 = (Inr rt, s3)"
    by (auto simp: admit_def register_runtime_def new_runtime_def piece_runs admit_orphan_fence_def
        admit_fence_over_recovery_def admit_runtime_fenced_def split: option.splits)
  with state show ?thesis
    by (cases "inc_state r")
       (auto simp: admit_runtime_def admit_recovered_def admit_contained_def run_rules
         split: option.splits if_splits dest: restore_runtime_run)
qed

lemma admit_nonempty: "admit env a c s = (Inr rt, t) \<Longrightarrow> a \<noteq> []"
  by (auto simp: admit_def register_runtime_def new_runtime_def piece_runs ig_latest_for_agent_def
      split: option.splits)

lemma svc_register_admit:
  assumes "svc_register env a c md pe s = (Inr r, t)"
  shows "\<exists>rt s1. admit env a c s = (Inr rt, s1) \<and> rt_state r = rt_state rt \<and> rt_epoch r = rt_epoch rt
     \<and> svc_fences t = svc_fences s1 \<and> svc_incidents t = svc_incidents s1
     \<and> (\<exists>m. dict_get (svc_agents t) a = Some m \<and> ma_runtime m = r)"
proof -
  from assms obtain rt s1 where adm: "admit env a c s = (Inr rt, s1)"
    and rest: "andthen (modifying (\<lambda>s. s\<lparr>svc_agents := dict_set a (mk_managed rt c md pe) (svc_agents s)\<rparr>)) (\<lambda>_.
       andthen (rotate_capability a) (\<lambda>_. andthen (audit_record env ''agent_registered'' a (\<lambda>e. e)) (\<lambda>_.
       andthen (emit_event env ''agent_registered'' a (\<lambda>e. e)) (\<lambda>_.
       andthen (svc_managed a) (\<lambda>m. ret (ma_runtime m)))))) s1 = (Inr r, t)"
    by (auto simp: svc_register_def andthen_run)
  have "ma_runtime (mk_managed rt c md pe) = rt"
    by (auto simp: mk_managed_def ma_runtime_def mk_controller_def split: option.split)
  with adm rest show ?thesis
    by (auto simp: rotate_capability_def rt_rotate_capability_def piece_runs ma_runtime_def Let_def
        dest!: audit_record_run emit_event_run)
qed

lemma register_unsupplied_contained:
  assumes "svc_register env a None md pe s = (Inr r, t)" and "of_registries (contained_before a) s"
  shows "rt_state r = CONTAINED"
  using svc_register_admit [OF assms(1)] admit_unsupplied_contained [OF _ assms(2)] admit_nonempty
  by metis

text \<open>With a supplied controller: what an executable runtime that is admitted went through.\<close>

lemma admit_executable:
  assumes run: "admit env a c s = (Inr rt, t)" and ex: "rt_can_execute rt"
    and ok: "incidents_ok (svc_incidents s)"
  shows "fg_get a (svc_fences s) = None
     \<and> (case ig_latest_for_agent a (svc_incidents s) of
          Inr None \<Rightarrow> True
        | Inr (Some r) \<Rightarrow> inc_state r = RECOVERED \<and> inc_recovery_epoch r = Some (rt_epoch rt)
            \<and> (\<exists>ctl. c = Some ctl \<and> ctl_runtime ctl = rt)
        | Inl e \<Rightarrow> False)"
proof (cases "fg_get a (svc_fences s)")
  case (Some f)
  with run obtain rt0 rt1 prior s2 s3 s4 where
    fenced: "admit_runtime_fenced (c \<noteq> None) (Some f) rt0 s2 = (Inr rt1, s3)"
    and adm: "admit_runtime env a (c \<noteq> None) (Some f) prior rt1 s3 = (Inr rt, s4)"
    by (cases c) (auto simp: admit_def register_runtime_def new_runtime_def piece_runs split: option.splits)
  from fenced have "\<not> rt_can_execute rt1"
    by (auto simp: admit_runtime_fenced_def run_rules rt_can_execute_def split: if_splits
        dest!: restore_runtime_run)
  with adm have "\<not> rt_can_execute rt"
    by (auto simp: admit_runtime_def admit_contained_def run_rules rt_can_execute_def
        split: option.splits if_splits dest!: restore_runtime_run)
  with ex show ?thesis by simp
next
  case None
  show ?thesis
  proof (cases "ig_latest_for_agent a (svc_incidents s)")
    case (Inl e)
    with run show ?thesis
      by (cases c) (auto simp: admit_def register_runtime_def new_runtime_def piece_runs split: option.splits)
  next
    case (Inr prior)
    show ?thesis
    proof (cases prior)
      case None
      with Inr \<open>fg_get a (svc_fences s) = None\<close> show ?thesis by simp
    next
      case (Some r)
      have state: "inc_state r \<noteq> OPEN"
        using latest_has_incident [OF ok] Inr Some ok by (auto simp: incidents_ok_def incident_ok_def)
      from run None Inr Some obtain rt1 s2 s3 where
        adm: "admit_runtime env a (c \<noteq> None) None (Some r) rt1 s2 = (Inr rt, s3)"
        and rt1: "\<forall>ctl. c = Some ctl \<longrightarrow> rt1 = ctl_runtime ctl"
        by (cases c) (auto simp: admit_def register_runtime_def new_runtime_def piece_runs
            admit_orphan_fence_def admit_fence_over_recovery_def admit_runtime_fenced_def
            split: option.splits)
      from adm ex state have "inc_state r = RECOVERED \<and> inc_recovery_epoch r = Some (rt_epoch rt)
          \<and> c \<noteq> None \<and> rt1 = rt"
        by (cases "inc_state r")
           (auto simp: admit_runtime_def admit_recovered_def admit_contained_def run_rules rt_can_execute_def
             split: option.splits if_splits dest!: restore_runtime_run)
      with Inr Some None rt1 show ?thesis by auto
    qed
  qed
qed

section \<open>Properties\<close>

text \<open>
  C2: Containment through the service always takes effect.  On a registered agent, whatever
  the disk, the audit log, the event sink, the adapters and the providers do, the agent's runtime
  is contained one epoch later with a new proof, its identity token and capabilities are revoked,
  and no other agent is touched.  A returned report names the new epoch, and its persistence
  failures are exactly the writes that failed, each with its exception: the fence or incident that
  is not reported is stored for that epoch, and a write that is reported stored nothing.  So a
  durable report means that both are stored, and at most one failure that one of them is.  The call
  raises only when an audit log is configured and the incident was stored.
\<close>

theorem service_containment_takes_effect:
  assumes "a \<noteq> []" and "dict_get (svc_agents s) a = Some m" and "incidents_ok (svc_incidents s)"
  shows "let (result, t) = svc_contain env a s in
     (\<exists>m'. dict_get (svc_agents t) a = Some m' \<and> ma_runtime m' = rt_contain (svc_next s) (ma_runtime m)
        \<and> ma_identity_digest m' = None \<and> ma_identity_pid m' = None
        \<and> ctl_capabilities (ma_containment m') = {})
     \<and> (\<forall>b. b \<noteq> a \<longrightarrow> dict_get (svc_agents t) b = dict_get (svc_agents s) b)
     \<and> (case result of
          Inl e \<Rightarrow> env_audit env \<noteq> None
            \<and> ig_get (incident_id a (rt_epoch (ma_runtime m) + 1)) (svc_incidents t) \<noteq> None
        | Inr report \<Rightarrow>
            rep_epoch report = rt_epoch (ma_runtime m) + 1
            \<and> (rep_durable report \<longrightarrow> evidence_at a (rep_epoch report) t = (True, True))
            \<and> (length (rep_persistence_failures report) < 2 \<longrightarrow>
                 evidence_at a (rep_epoch report) t \<noteq> (False, False))
            \<and> (\<exists>fence incident. rep_persistence_failures report = reported_failures fence incident
                 \<and> evidence_matches a (rep_epoch report) fence incident s t))"
proof -
  obtain r t where run: "svc_contain env a s = (r, t)" by fastforce
  note effect = svc_contain_effect [OF run assms]
  show ?thesis
  proof (cases r)
    case (Inl e)
    then show ?thesis using effect run by auto
  next
    case (Inr report)
    have "\<exists>fence incident. rep_persistence_failures report = reported_failures fence incident
        \<and> evidence_matches a (rt_epoch (ma_runtime m) + 1) fence incident s t"
      by (rule svc_contain_exact [OF run Inr assms])
    then show ?thesis using effect run Inr by auto
  qed
qed

theorem service_containment_takes_effect_witness:
  "let (result, t) = svc_contain demo_env ''a'' (demo_service []) in
     (\<exists>report. result = Inr report \<and> evidence_at ''a'' 1 t = (True, True))
     \<and> (\<exists>m'. dict_get (svc_agents t) ''a'' = Some m' \<and> rt_state (ma_runtime m') = CONTAINED
            \<and> ma_identity_digest m' = None)"
proof -
  obtain report t where run: "svc_contain demo_env ''a'' (demo_service []) = (Inr report, t)"
    using demo_contain_returns by blast
  have epoch: "rt_epoch (ma_runtime (demo_agent [])) = 0"
    by (simp add: demo_state_defs)
  show ?thesis
    using service_containment_takes_effect [of "''a''", OF _ demo_agent_get [of "[]"] demo_incidents_ok, of demo_env]
      run demo_contain_report [OF run] epoch
    by (auto simp: rep_durable_def)
qed

text \<open>
  C1: A contained agent stays contained across everything.  After a containment that stored
  the fence or the incident, whatever sequence of service operations (recoveries and
  unregistrations included), environments and restarts follows, a registration that builds the
  runtime itself admits it only CONTAINED.
\<close>

theorem containment_survives_restart:
  assumes "a \<noteq> []" and "dict_get (svc_agents s) a = Some m" and "durable wording s"
    and "svc_contain env a s = (Inr report, s1)" and "length (rep_persistence_failures report) < 2"
    and "runs (service_step wording) s1 es s2"
    and "svc_register env' a None metadata policy s2 = (Inr runtime, t)"
  shows "rt_state runtime = CONTAINED"
proof -
  have "incidents_ok (svc_incidents s)"
    using assms(3) by (simp add: durable_def of_registries_def durable_registries_def)
  then have ev: "evidence_at a (rt_epoch (ma_runtime m) + 1) s1 \<noteq> (False, False)"
    using svc_contain_effect [OF assms(4,1,2)] assms(5) by auto
  have dur: "durable wording s1"
    using durable_step [OF do_call [of wording s env "Contain a"]] assms(3,4) by (simp add: effect_def)
  then have ok: "incidents_ok (svc_incidents s1)"
    by (simp add: durable_def of_registries_def durable_registries_def)
  have "of_registries (contained_before a) s1"
    using ev ok by (auto simp: of_registries_def contained_before_def has_incident_def evidence_at_def
        split: option.splits)
  from evidence_run [OF assms(6) dur this] register_unsupplied_contained [OF assms(7)]
  show ?thesis by simp
qed

theorem containment_survives_restart_witness:
  "\<exists>report s1 s2 runtime t.
     svc_contain demo_env ''a'' (demo_service []) = (Inr report, s1)
     \<and> runs (service_step (\<lambda>_. [])) s1 [Restart demo_env] s2
     \<and> svc_register demo_env ''a'' None None None s2 = (Inr runtime, t)
     \<and> rt_state runtime = CONTAINED"
proof -
  obtain report s1 where run: "svc_contain demo_env ''a'' (demo_service []) = (Inr report, s1)"
    using demo_contain_returns by blast
  define s2 where "s2 = \<lparr>svc_agents = [], svc_incidents = svc_incidents s1, svc_fences = svc_fences s1,
     svc_reviews = [], svc_next = svc_next s1, svc_world = (0::nat)\<rparr>"
  have "durable (\<lambda>_. []) s1"
    using durable_step [OF do_call [of "\<lambda>_. []" "demo_service []" demo_env "Contain ''a''"] demo_durable] run
    by (simp add: effect_def)
  then have "service_step (\<lambda>_. []) s1 (Restart demo_env) s2"
    by (intro restarted [of _ s1 "svc_incidents s1" "svc_fences s1" "svc_next s1" demo_env 0])
       (auto simp: durable_def of_registries_def durable_registries_def mk_incident_registry_def
         mk_fence_registry_def mk_service_def s2_def demo_env_def)
  then have runs: "runs (service_step (\<lambda>_. [])) s1 [Restart demo_env] s2"
    by (simp add: runs_Cons_iff)
  have "\<exists>runtime t. svc_register demo_env ''a'' None None None s2 = (Inr runtime, t)"
    using run
    by (auto simp: s2_def svc_register_def admit_def register_runtime_def new_runtime_def
        admit_orphan_fence_def admit_fence_over_recovery_def admit_runtime_fenced_def restore_runtime_def
        admit_runtime_def admit_contained_def ig_latest_for_agent_def rt_restore_contained_def
        dict_values_def demo_run_defs Let_def dict_get_def dict_set_def)
  then obtain runtime t where reg: "svc_register demo_env ''a'' None None None s2 = (Inr runtime, t)"
    by blast
  have "rt_state runtime = CONTAINED"
    by (rule containment_survives_restart [OF _ demo_agent_get demo_durable run _ runs reg])
       (use demo_contain_report [OF run] in simp_all)
  with run runs reg show ?thesis by blast
qed

text \<open>
  C5: The admission decision.  When \<open>register\<close> returns an executable runtime, the agent had
  no durable fence, and either no incident of it is recorded, or its latest incident is
  RECOVERED and the caller supplied a controller whose runtime was already executing at
  exactly the recovery epoch of that incident.
\<close>

theorem executable_admission:
  assumes "svc_register env a c metadata policy s = (Inr r, t)" and "rt_can_execute r"
    and "incidents_ok (svc_incidents s)"
  shows "fg_get a (svc_fences s) = None
     \<and> (case ig_latest_for_agent a (svc_incidents s) of
          Inr None \<Rightarrow> \<not> has_incident a (svc_incidents s)
        | Inr (Some i) \<Rightarrow> inc_state i = RECOVERED \<and> inc_recovery_epoch i = Some (inc_epoch i + 1)
            \<and> (\<exists>ctl. c = Some ctl \<and> rt_can_execute (ctl_runtime ctl)
                 \<and> rt_epoch (ctl_runtime ctl) = inc_epoch i + 1)
        | Inl e \<Rightarrow> False)"
proof -
  from svc_register_admit [OF assms(1)] obtain rt s1 where adm: "admit env a c s = (Inr rt, s1)"
    and same: "rt_state r = rt_state rt" "rt_epoch r = rt_epoch rt" by blast
  have ex: "rt_can_execute rt" using assms(2) same by (simp add: rt_can_execute_def)
  note base = admit_executable [OF adm ex assms(3)]
  show ?thesis
  proof (cases "ig_latest_for_agent a (svc_incidents s)")
    case (Inl e)
    with base show ?thesis by simp
  next
    case (Inr latest)
    show ?thesis
    proof (cases latest)
      case None
      have "\<not> has_incident a (svc_incidents s)"
        using ig_latest_none [OF admit_nonempty [OF adm], of "svc_incidents s"] Inr None
        by (auto simp: has_incident_def ig_all_def ig_get_def dest: dict_get_in_values)
      with base Inr None show ?thesis by simp
    next
      case (Some i)
      have "incident_ok i"
        using latest_has_incident [OF assms(3)] Inr Some assms(3) by (auto simp: incidents_ok_def)
      with base Inr Some ex show ?thesis by (auto simp: incident_ok_def)
    qed
  qed
qed

theorem executable_admission_witness:
  "let (result, t) = svc_register demo_env ''b'' None None None (demo_service []) in
     (\<exists>r. result = Inr r \<and> rt_can_execute r) \<and> fg_get ''b'' (svc_fences (demo_service [])) = None"
proof -
  let ?s = "demo_service [] :: nat service"
  have "\<exists>r t. svc_register demo_env ''b'' None None None ?s = (Inr r, t) \<and> rt_can_execute r"
    by (simp add: svc_register_def admit_def register_runtime_def new_runtime_def
        admit_orphan_fence_def admit_fence_over_recovery_def admit_runtime_fenced_def
        admit_runtime_def ig_latest_for_agent_def dict_values_def demo_run_defs Let_def dict_get_def
        dict_set_def rt_can_execute_def default_policy_engine_def)
  then obtain r t where reg: "svc_register demo_env ''b'' None None None ?s = (Inr r, t)"
    and ex: "rt_can_execute r" by blast
  from executable_admission [OF reg ex demo_incidents_ok] reg ex show ?thesis by simp
qed

text \<open>
  An incident id names its agent and epoch: no two containments of any agents, whatever
  characters their ids hold, share one, so recording an incident never collides with another.
\<close>

theorem incident_id_unique: "incident_id a e = incident_id b f \<longleftrightarrow> a = b \<and> e = f"
proof
  assume "incident_id a e = incident_id b f"
  then have "(a @ '':containment'') @ CHR '':'' # str_int e = (b @ '':containment'') @ CHR '':'' # str_int f"
    by (simp add: incident_id_def)
  then have "a @ '':containment'' = b @ '':containment'' \<and> str_int e = str_int f"
    by (rule append_last_sep) (auto dest: str_int_chars)
  then show "a = b \<and> e = f" by (simp add: str_int_inj)
qed simp

end
