(* ===== verification/Control_Recovery.thy ===== *)
theory Control_Recovery
  imports Control_Admission
begin

text \<open>
  Recovery through the service: when it succeeds, what it needs, and that a recovery that
  raises leaves the runtime contained.
\<close>

section \<open>The agent during a recovery\<close>

definition agent_is :: "string \<Rightarrow> 'w managed_agent \<Rightarrow> 'w service \<Rightarrow> bool" where
  "agent_is a m s \<longleftrightarrow> dict_get (svc_agents s) a = Some m"

lemma world_free_agent [preserving]: "world_free (agent_is a m)"
  by (simp add: world_free_def agent_is_def)

lemma provider_loop_run:
  "release_all a s = (r, t) \<Longrightarrow> (t = s \<and> r = Inl (unknown_agent a)) \<or> (\<exists>m fs w.
     dict_get (svc_agents s) a = Some m \<and> ctl_release_enforcers (ma_containment m) (svc_world s) = (fs, w)
     \<and> r = Inr fs \<and> t = s\<lparr>svc_agents := dict_set a m (svc_agents s), svc_world := w\<rparr>)"
  "recontain_all a s = (r, t) \<Longrightarrow> (t = s \<and> r = Inl (unknown_agent a)) \<or> (\<exists>m fs w.
     dict_get (svc_agents s) a = Some m \<and> ctl_recontain_enforcers (ma_containment m) (svc_world s) = (fs, w)
     \<and> r = Inr fs \<and> t = s\<lparr>svc_agents := dict_set a m (svc_agents s), svc_world := w\<rparr>)"
  by (auto simp: release_all_def recontain_all_def on_controller_def split: option.splits prod.splits)

lemma agent_frame [preserving]:
  "preserves (agent_is a m) (with_fences env f)"
  "preserves (agent_is a m) (with_incidents env g)"
  "preserves (agent_is a m) alloc"
  "preserves (agent_is a m) (release_all b)"
  "preserves (agent_is a m) (recontain_all b)"
  by (rule preservesI; auto simp: agent_is_def with_fences_run with_incidents_run alloc_run
      dest!: provider_loop_run)+

lemma agent_recover_parts [preserving]:
  "preserves (agent_is a m) (recover_clear_fence env b)"
  "preserves (agent_is a m) (recover_release env b e)"
  "preserves (agent_is a m) (compensate_fence env b e)"
  "preserves (agent_is a m) (compensate_incident env i)"
  unfolding recover_clear_fence_def recover_release_def compensate_fence_def compensate_incident_def
  by (intro preserving)+

lemma agent_recover_commit [preserving]: "preserves (agent_is a m) (recover_commit env b r)"
  unfolding recover_commit_def by (intro preserving)

lemma agent_kept:
  "recover_clear_fence env b s = (r1, t) \<Longrightarrow> agent_is a m s \<Longrightarrow> agent_is a m t"
  "recover_release env b e s = (r2, t) \<Longrightarrow> agent_is a m s \<Longrightarrow> agent_is a m t"
  "recover_commit env b i s = (r3, t) \<Longrightarrow> agent_is a m s \<Longrightarrow> agent_is a m t"
  by (rule preservesD; (rule agent_recover_parts agent_recover_commit | assumption))+

lemma activate_runtime_run:
  assumes "activate_runtime a e s = (res, t)" and "agent_is a m s"
  shows "svc_fences t = svc_fences s \<and> svc_incidents t = svc_incidents s \<and> svc_next t = svc_next s + 1
     \<and> (case res of
          Inl x \<Rightarrow> agent_is a m t
        | Inr n \<Rightarrow> n = e + 1 \<and> rt_state (ma_runtime m) = CONTAINED \<and> rt_epoch (ma_runtime m) = e
            \<and> ma_capability m = Some (rt_capability (ma_runtime m))
            \<and> (\<exists>m'. agent_is a m' t \<and> rt_can_execute (ma_runtime m') \<and> rt_epoch (ma_runtime m') = n))"
  using assms
  by (auto simp: activate_runtime_def agent_is_def piece_runs ma_runtime_def rt_can_execute_def
      split: option.splits sum.splits dest!: rt_recover_Inr [THEN iffD1, OF sym])

lemma recover_activate_run:
  assumes "recover_activate env a r s = (res, t)" and "agent_is a m s"
  shows "case res of Inl x \<Rightarrow> agent_is a m t | Inr n \<Rightarrow> activate_runtime a (inc_epoch r) s = (Inr n, t)"
proof (cases "activate_runtime a (inc_epoch r) s")
  case (Pair ares s1)
  show ?thesis
  proof (cases ares)
    case (Inr n)
    with Pair assms(1) show ?thesis by (auto simp: recover_activate_def catch_run)
  next
    case (Inl x)
    with activate_runtime_run [OF Pair assms(2)] have s1: "agent_is a m s1" by simp
    have handler: "preserves (agent_is a m) (andthen (compensate_fence env a (inc_epoch r)) (\<lambda>f1.
         andthen (compensate_incident env (inc_id r)) (\<lambda>f2. andthen (recontain_all a) (\<lambda>f3.
           if f1 @ f2 @ f3 \<noteq> [] then
             raise (Exn RuntimeError (''runtime activation failed; runtime remains contained; ''
                @ ''compensation failures: '' @ join_with ''; '' (f1 @ f2 @ f3)))
           else raise x))))"
      by (intro preserving)
    have "\<exists>e. res = Inl e"
      using assms(1) Pair Inl by (auto simp: recover_activate_def catch_run andthen_run raise_run split: if_splits)
    moreover have "agent_is a m t"
      using assms(1) Pair Inl s1 preservesD [OF handler] by (auto simp: recover_activate_def catch_run)
    ultimately show ?thesis by auto
  qed
qed

lemma recover_finish_run:
  assumes "recover_finish env a r n s = (res, t)" and "a \<noteq> []" and "agent_is a m s"
  shows "res = Inr n \<and> svc_fences t = svc_fences s \<and> svc_incidents t = svc_incidents s
     \<and> (\<exists>m'. agent_is a m' t \<and> rt_state (ma_runtime m') = rt_state (ma_runtime m)
          \<and> rt_epoch (ma_runtime m') = rt_epoch (ma_runtime m) \<and> ma_capability m' = Some (svc_next s))"
  using assms
  by (auto simp: recover_finish_def rotate_capability_def rt_rotate_capability_def agent_is_def piece_runs
      ma_runtime_def Let_def dest!: emit_event_run audit_record_run)

lemma recover_clear_run:
  "recover_clear_fence env a s = (Inr u, t) \<Longrightarrow>
     fg_get a (svc_fences t) = None \<and> svc_incidents t = svc_incidents s \<and> svc_next t = svc_next s"
  by (auto simp: recover_clear_fence_def piece_runs fg_clear_get)

lemma recover_release_run:
  "recover_release env a e s = (Inr u, t) \<Longrightarrow> agent_is a m s \<Longrightarrow>
     svc_fences t = svc_fences s \<and> svc_incidents t = svc_incidents s \<and> svc_next t = svc_next s
     \<and> (\<exists>w. fst (ctl_release_enforcers (ma_containment m) w) = [])"
  by (auto simp: recover_release_def agent_is_def run_rules split: if_splits dest!: provider_loop_run)
     (metis fst_conv)

lemma ig_mark_recovered_ok:
  "ig_mark_recovered io i g = (Inr r', g') \<Longrightarrow> ig_get i g = Some r \<Longrightarrow> incidents_ok g \<Longrightarrow>
     ig_get i g' = Some (r\<lparr>inc_state := RECOVERED, inc_recovery_epoch := Some (inc_epoch r + 1)\<rparr>)"
  by (auto simp: ig_mark_recovered_def ig_require_def ig_get_def incidents_ok_def split: if_splits
      dest!: ig_store_ok dest: keyed_get)

lemma recover_commit_run:
  "recover_commit env a r s = (Inr u, t) \<Longrightarrow> ig_get (inc_id r) (svc_incidents s) = Some r \<Longrightarrow>
     incidents_ok (svc_incidents s) \<Longrightarrow>
     svc_fences t = svc_fences s \<and> svc_next t = svc_next s
     \<and> ig_get (inc_id r) (svc_incidents t)
         = Some (r\<lparr>inc_state := RECOVERED, inc_recovery_epoch := Some (inc_epoch r + 1)\<rparr>)"
  by (auto simp: recover_commit_def piece_runs split: if_splits dest: ig_mark_recovered_ok)

section \<open>The whole operation\<close>

lemma recover_after_failure:
  assumes run: "recover_after_checks env a r s = (Inl e, t)" and m: "agent_is a m s" and a: "a \<noteq> []"
  shows "agent_is a m t"
proof -
  let ?emit = "emit_event env ''recovery_authorized'' a
      (incident_event (inc_id r) (inc_epoch r) ''controller recovery authorization accepted'')"
  obtain er s1 where emit: "?emit s = (er, s1)" by fastforce
  with emit_event_run [OF emit] a have emit: "?emit s = (Inr (), s1)" by simp
  have s1: "agent_is a m s1"
    using preservesD [OF preserves_emit [OF world_free_agent] emit m] .
  from run have rest: "andthen (recover_clear_fence env a) (\<lambda>_. andthen (recover_release env a (inc_epoch r)) (\<lambda>_.
       andthen (recover_commit env a r) (\<lambda>_. andthen (recover_activate env a r) (\<lambda>epoch.
       recover_finish env a r epoch)))) s1 = (Inl e, t)"
    by (simp add: recover_after_checks_def andthen_step [where m = ?emit, OF emit])
  from rest show ?thesis
    unfolding andthen_run
  proof (elim disjE exE conjE)
    fix u1 s2 u2 s3 u3 s4 n s5
    assume "recover_clear_fence env a s1 = (Inr u1, s2)" "recover_release env a (inc_epoch r) s2 = (Inr u2, s3)"
      "recover_commit env a r s3 = (Inr u3, s4)" and act: "recover_activate env a r s4 = (Inr n, s5)"
      and fin: "recover_finish env a r n s5 = (Inl e, t)"
    then have s4: "agent_is a m s4" using s1 by (meson agent_kept)
    have "\<exists>m'. agent_is a m' s5"
      using recover_activate_run [OF act s4] activate_runtime_run [OF _ s4] by fastforce
    then obtain m' where "agent_is a m' s5" by blast
    with recover_finish_run [OF fin a] have False by blast
    then show ?thesis ..
  next
    fix u1 s2 u2 s3 u3 s4 e'
    assume "recover_clear_fence env a s1 = (Inr u1, s2)" "recover_release env a (inc_epoch r) s2 = (Inr u2, s3)"
      "recover_commit env a r s3 = (Inr u3, s4)" and act: "recover_activate env a r s4 = (Inl e', t)"
    then have "agent_is a m s4" using s1 by (meson agent_kept)
    from recover_activate_run [OF act this] show ?thesis by simp
  qed (use s1 in \<open>meson agent_kept\<close>)+
qed

lemma svc_recover_failure:
  assumes run: "svc_recover env a auth s = (Inl e, t)" and m: "agent_is a m s" and a: "a \<noteq> []"
  shows "agent_is a m t"
  using run m a recover_after_failure [of env a _ _ e t m]
  by (auto simp: svc_recover_split andthen_run dest: recover_checks_same)

lemma svc_recover_success:
  assumes run: "svc_recover env a auth s = (Inr n, t)" and m: "agent_is a m s" and a: "a \<noteq> []"
    and ok: "incidents_ok (svc_incidents s)"
  obtains r x m' where "recover_checks a auth s = (Inr r, s)" "auth = Some x"
    "ra_agent_id x = a" "ra_capability x = ma_capability m" "ra_epoch x = inc_epoch r"
    "ig_latest_for_agent a (svc_incidents s) = Inr (Some r)" "inc_state r \<in> {INC_CONTAINED, PROOF_DEGRADED}"
    "rt_state (ma_runtime m) = CONTAINED" "rt_epoch (ma_runtime m) = inc_epoch r" "n = inc_epoch r + 1"
    "\<exists>w. fst (ctl_release_enforcers (ma_containment m) w) = []"
    "fg_get a (svc_fences t) = None"
    "ig_get (inc_id r) (svc_incidents t)
       = Some (r\<lparr>inc_state := RECOVERED, inc_recovery_epoch := Some (inc_epoch r + 1)\<rparr>)"
    "agent_is a m' t" "rt_can_execute (ma_runtime m')" "rt_epoch (ma_runtime m') = n"
    "ma_capability m' = Some (svc_next s + 1)"
proof -
  from run obtain r where chk: "recover_checks a auth s = (Inr r, s)"
    and after: "recover_after_checks env a r s = (Inr n, t)"
    by (auto simp: svc_recover_split andthen_run dest: recover_checks_same)
  from recover_checks_ok [OF chk] m obtain x where checks: "auth = Some x"
    "ra_agent_id x = a" "ra_capability x = ma_capability m" "ra_epoch x = inc_epoch r"
    "ig_latest_for_agent a (svc_incidents s) = Inr (Some r)" "inc_state r \<in> {INC_CONTAINED, PROOF_DEGRADED}"
    "rt_state (ma_runtime m) = CONTAINED" "rt_epoch (ma_runtime m) = inc_epoch r"
    by (auto simp: agent_is_def)
  from after obtain s1 s2 s3 s4 s5 where
    emit: "emit_event env ''recovery_authorized'' a
      (incident_event (inc_id r) (inc_epoch r) ''controller recovery authorization accepted'') s = (Inr (), s1)"
    and clear: "recover_clear_fence env a s1 = (Inr (), s2)"
    and rel: "recover_release env a (inc_epoch r) s2 = (Inr (), s3)"
    and com: "recover_commit env a r s3 = (Inr (), s4)"
    and act': "\<exists>k. recover_activate env a r s4 = (Inr k, s5) \<and> recover_finish env a r k s5 = (Inr n, t)"
    by (auto simp: recover_after_checks_def andthen_run)
  from emit emit_event_run [OF emit] obtain w where s1: "s1 = s\<lparr>svc_world := w\<rparr>" by blast
  have m1: "agent_is a m s1" using m s1 by (simp add: agent_is_def)
  have m2: "agent_is a m s2" using preservesD [OF agent_recover_parts(1) clear m1] .
  have m3: "agent_is a m s3" using preservesD [OF agent_recover_parts(2) rel m2] .
  have m4: "agent_is a m s4" using preservesD [OF agent_recover_commit com m3] .
  note f2 = recover_clear_run [OF clear]
  note f3 = recover_release_run [OF rel m2]
  have inc3: "svc_incidents s3 = svc_incidents s" using f2 f3 s1 by simp
  then have get3: "ig_get (inc_id r) (svc_incidents s3) = Some r"
    using latest_has_incident [OF ok checks(5)] by simp
  note f4 = recover_commit_run [OF com get3] inc3 ok
  from act' obtain k where act: "recover_activate env a r s4 = (Inr k, s5)"
    and fin: "recover_finish env a r k s5 = (Inr n, t)" by blast
  from recover_activate_run [OF act m4] have act: "activate_runtime a (inc_epoch r) s4 = (Inr k, s5)" by simp
  from activate_runtime_run [OF act m4] obtain m5 where f5: "k = inc_epoch r + 1" "agent_is a m5 s5"
      "rt_can_execute (ma_runtime m5)" "rt_epoch (ma_runtime m5) = k"
      "svc_fences s5 = svc_fences s4" "svc_incidents s5 = svc_incidents s4" "svc_next s5 = svc_next s4 + 1"
    by auto
  from recover_finish_run [OF fin a f5(2)] obtain m' where f6: "agent_is a m' t"
      "rt_state (ma_runtime m') = rt_state (ma_runtime m5)" "rt_epoch (ma_runtime m') = k" "n = k"
      "ma_capability m' = Some (svc_next s5)" "svc_fences t = svc_fences s5" "svc_incidents t = svc_incidents s5"
    using f5(4) by auto
  show ?thesis
    by (rule that [OF chk checks, of m'])
       (use f2 f3 f4 f5 f6 s1 in \<open>auto simp: rt_can_execute_def\<close>)
qed

text \<open>The part of it the other theories use.\<close>

lemma svc_recover_reactivates:
  assumes run: "svc_recover env a auth s = (Inr n, t)" and m: "agent_is a m s" and a: "a \<noteq> []"
    and ok: "incidents_ok (svc_incidents s)"
  shows "\<exists>x m'. auth = Some x \<and> ra_agent_id x = a \<and> ra_capability x = ma_capability m
     \<and> ra_epoch x = rt_epoch (ma_runtime m) \<and> rt_state (ma_runtime m) = CONTAINED
     \<and> n = rt_epoch (ma_runtime m) + 1 \<and> dict_get (svc_agents t) a = Some m'
     \<and> rt_can_execute (ma_runtime m') \<and> rt_epoch (ma_runtime m') = n
     \<and> ma_capability m' = Some (svc_next s + 1)"
  by (rule svc_recover_success [OF run m a ok]) (simp add: agent_is_def)

end
