(* ===== verification/Control_Agents.thy ===== *)
theory Control_Agents
  imports Control_Recovery
begin

text \<open>
  Invariants of the runtime of one registered agent: which operations can change its state and
  epoch, and how.
\<close>

definition runtime_inv :: "string \<Rightarrow> (runtime_state \<Rightarrow> int \<Rightarrow> bool) \<Rightarrow> 'w service \<Rightarrow> bool" where
  "runtime_inv a Q s \<longleftrightarrow>
     (\<exists>m. dict_get (svc_agents s) a = Some m \<and> Q (rt_state (ma_runtime m)) (rt_epoch (ma_runtime m)))"

text \<open>Fencing keeps the invariant; reactivation keeps it.\<close>

definition fence_closed :: "(runtime_state \<Rightarrow> int \<Rightarrow> bool) \<Rightarrow> bool" where
  "fence_closed Q \<longleftrightarrow> (\<forall>st n. Q st n \<longrightarrow> Q CONTAINED (n + 1) \<and> Q HALTED (n + 1))"

definition recover_closed :: "(runtime_state \<Rightarrow> int \<Rightarrow> bool) \<Rightarrow> bool" where
  "recover_closed Q \<longleftrightarrow> (\<forall>n. Q CONTAINED n \<longrightarrow> Q ACTIVE (n + 1))"

lemma runtime_inv_world_free [preserving]: "world_free (runtime_inv a Q)"
  by (simp add: world_free_def runtime_inv_def)

lemma runtime_inv_pieces [preserving]:
  "preserves (runtime_inv a Q) (with_fences env f)"
  "preserves (runtime_inv a Q) (with_incidents env g)"
  "preserves (runtime_inv a Q) alloc"
  "preserves (runtime_inv a Q) (release_all b)"
  "preserves (runtime_inv a Q) (recontain_all b)"
  by (rule preservesI; auto simp: runtime_inv_def with_fences_run with_incidents_run alloc_run
      dest!: provider_loop_run)+

lemma runtime_inv_update [preserving]:
  "(\<And>m. rt_state (ma_runtime (f m)) = rt_state (ma_runtime m) \<and> rt_epoch (ma_runtime (f m)) = rt_epoch (ma_runtime m)) \<Longrightarrow>
     preserves (runtime_inv a Q) (update_managed b f)"
  by (rule preservesI) (auto simp: runtime_inv_def update_managed_run split: option.splits)

lemma runtime_inv_modifying [preserving]:
  "(\<And>s. svc_agents (f s) = svc_agents s) \<Longrightarrow> preserves (runtime_inv a Q) (modifying f)"
  by (rule preservesI) (simp add: runtime_inv_def modifying_run)

lemma runtime_inv_contain [preserving]:
  "fence_closed Q \<Longrightarrow> preserves (runtime_inv a Q) (on_controller b (ctl_contain clk p))"
proof (rule preservesI)
  fix s :: "'a service" and r t
  assume Q: "fence_closed Q" and inv: "runtime_inv a Q s" and run: "on_controller b (ctl_contain clk p) s = (r, t)"
  have fenced: "ctl_runtime c' = rt_contain p (ctl_runtime c)" if "ctl_contain clk p c w = ((v, c'), w')" for c w v c' w'
    using ctl_contain_frame(2) [of clk p c w] that by simp
  show "runtime_inv a Q t"
    using run inv Q
    by (auto simp: on_controller_run runtime_inv_def ma_runtime_def fence_closed_def dest!: fenced)
qed

lemma runtime_inv_halt [preserving]:
  "fence_closed Q \<Longrightarrow> preserves (runtime_inv a Q) (halt_managed b ref)"
  by (rule preservesI)
     (auto simp: runtime_inv_def halt_managed_def piece_runs ma_runtime_def ctl_halt_def fence_closed_def
       split: option.splits if_splits)

section \<open>The operations\<close>

lemma runtime_inv_queries [preserving]:
  "preserves (runtime_inv a Q) (svc_configure_containment b c)"
  "preserves (runtime_inv a Q) (svc_create_workload env b)"
  "preserves (runtime_inv a Q) (svc_attach_workload env b pid)"
  "preserves (runtime_inv a Q) (svc_issue_identity_token env b peer)"
  "preserves (runtime_inv a Q) (rotate_capability b)"
  "preserves (runtime_inv a Q) (revoke_identity b)"
  unfolding svc_configure_containment_def svc_create_workload_def svc_attach_workload_def
    svc_issue_identity_token_def rotate_capability_def revoke_identity_def
  by (intro preserving; simp add: ma_runtime_def rt_rotate_capability_def Let_def)+

lemma runtime_inv_unregister: "b \<noteq> a \<Longrightarrow> preserves (runtime_inv a Q) (svc_unregister b)"
  by (rule preservesI) (auto simp: runtime_inv_def svc_unregister_def modifying_run)

lemma runtime_inv_reviews [preserving]:
  "preserves (runtime_inv a Q) (create_review env act)"
  "preserves (runtime_inv a Q) (svc_review env i)"
  "preserves (runtime_inv a Q) (set_review i request)"
  "preserves (runtime_inv a Q) (request_review env act)"
  "preserves (runtime_inv a Q) (svc_approve_review env i)"
  unfolding create_review_def svc_review_def set_review_def request_review_def svc_approve_review_def
  by (intro preserving; simp)+

lemma runtime_inv_auth [preserving]:
  "preserves (runtime_inv a Q) (auth_check env snap token peer membership)"
  "preserves (runtime_inv a Q) (auth_decide env act snap b)"
  unfolding auth_check_def auth_decide_def deny_def evaluate_policy_def
  by (intro preserving; simp add: ma_runtime_def)+

lemma runtime_inv_finish [preserving]:
  "fence_closed Q \<Longrightarrow> preserves (runtime_inv a Q) (auth_finish env act ref d)"
  unfolding auth_finish_def by (intro preserving; simp)

lemma runtime_inv_svc_contain [preserving]:
  assumes "fence_closed Q"
  shows "preserves (runtime_inv a Q) (svc_contain env b)"
  unfolding svc_contain_def contain_runtime_def audit_containment_def contain_finish_def
  by (intro preserving assms; simp)

lemma runtime_inv_verified [preserving]:
  assumes "fence_closed Q"
  shows "preserves (runtime_inv a Q) (verified_outcome env act signal base)"
    and "preserves (runtime_inv a Q) (svc_escalate_review env i)"
  unfolding verified_outcome_def verify_decision_def emit_verification_def svc_escalate_review_def
  by (intro preserving assms; simp)+

lemma runtime_inv_reconcile [preserving]:
  "preserves (runtime_inv a Q) (svc_reconcile_containment b)"
  "preserves (runtime_inv a Q) (svc_issue_recovery_authorization env b)"
  unfolding svc_issue_recovery_authorization_def svc_reconcile_containment_def
    need_contained_at_def need_recoverable_def
  by (intro preserving; simp)+

lemma runtime_inv_admit [preserving]: "preserves (runtime_inv a Q) (admit env b c)"
  unfolding admit_def register_runtime_def new_runtime_def admit_orphan_fence_def
    reconstruct_incident_def admit_fence_over_recovery_def admit_runtime_fenced_def restore_runtime_def
    admit_runtime_def admit_recovered_def admit_contained_def
  by (intro preserving; simp)

text \<open>An agent that is registered cannot be registered again.\<close>

lemma register_known:
  "dict_get (svc_agents s) a = Some m \<Longrightarrow> svc_register env a c md pe s
     = (Inl (Exn ValueError (''agent already registered: '' @ a)), s)"
  by (simp add: svc_register_def admit_def prog_defs)

lemma runtime_inv_register [preserving]: "preserves (runtime_inv a Q) (svc_register env b c md pe)"
proof (cases "b = a")
  case True
  then show ?thesis by (auto simp: preserves_def runtime_inv_def register_known)
next
  case False
  then have install: "preserves (runtime_inv a Q)
      (modifying (\<lambda>s. s\<lparr>svc_agents := dict_set b (mk_managed rt c md pe) (svc_agents s)\<rparr>))" for rt
    by (auto simp: preserves_def runtime_inv_def modifying_def)
  show ?thesis unfolding svc_register_def by (intro preserving install)
qed

lemma runtime_inv_activate [preserving]:
  assumes "recover_closed Q \<or> b \<noteq> a"
  shows "preserves (runtime_inv a Q) (activate_runtime b e)"
  by (rule preservesI)
     (use assms in \<open>auto simp: activate_runtime_def runtime_inv_def piece_runs ma_runtime_def recover_closed_def
       split: option.splits sum.splits dest!: rt_recover_Inr [THEN iffD1, OF sym]\<close>)

lemma runtime_inv_recover [preserving]:
  assumes "recover_closed Q \<or> b \<noteq> a"
  shows "preserves (runtime_inv a Q) (svc_recover env b auth)"
  unfolding svc_recover_split recover_after_checks_def recover_clear_fence_def recover_release_def
    recover_commit_def recover_activate_def recover_finish_def compensate_fence_def compensate_incident_def
  by (intro preserving runtime_inv_activate [OF assms]) (simp add: preserves_def)

lemma runtime_inv_perform:
  assumes "fence_closed Q" and "recover_closed Q \<or> (\<forall>auth. c \<noteq> Recover a auth)"
    and "c \<noteq> Unregister a" and "runtime_inv a Q s"
  shows "runtime_inv a Q (perform env c s)"
proof (cases c)
  case (Unregister b)
  with assms show ?thesis by (auto intro: preserves_effect runtime_inv_unregister)
next
  case (Recover b auth)
  with assms show ?thesis by (auto intro!: preserves_effect runtime_inv_recover)
qed (use assms in \<open>simp_all add: preserves_effect preserving\<close>)

end
