(* ===== verification/Control_Props.thy ===== *)
theory Control_Props
  imports Control_Agents
begin

text \<open>
  What the service guarantees about recovery.
\<close>

section \<open>Recovery\<close>

text \<open>
  C3: Recovery through the service is all or nothing for the runtime.  It returns only for
  the authorization that carries the agent's current capability and names its latest incident,
  which is contained, when the runtime is contained at that epoch and all external providers
  confirmed their release in reverse order; then the fence is gone, the incident is stored as recovered,
  the runtime executes at the next epoch and the capability is a new one.  If anything fails,
  the disk, a provider, the audit log or a check, the call raises and the agent is exactly as
  it was, still contained.
\<close>

theorem service_recovery_atomic:
  assumes "dict_get (svc_agents s) a = Some m" and "a \<noteq> []" and "incidents_ok (svc_incidents s)"
  shows "let (result, t) = svc_recover env a auth s in
     (case result of
        Inl e \<Rightarrow> dict_get (svc_agents t) a = Some m
      | Inr n \<Rightarrow>
          (\<exists>r x m' w.
             auth = Some x \<and> ra_agent_id x = a \<and> ra_capability x = ma_capability m
             \<and> ra_epoch x = inc_epoch r
             \<and> ig_latest_for_agent a (svc_incidents s) = Inr (Some r)
             \<and> inc_state r \<in> {INC_CONTAINED, PROOF_DEGRADED}
             \<and> rt_state (ma_runtime m) = CONTAINED \<and> rt_epoch (ma_runtime m) = inc_epoch r
             \<and> all_providers (release_provider (rt_agent_id (ma_runtime m)))
                 (release_confirmed (rt_agent_id (ma_runtime m)))
                 (rev (ctl_enforcers (ma_containment m))) [] w
             \<and> fg_get a (svc_fences t) = None
             \<and> ig_get (inc_id r) (svc_incidents t)
                 = Some (r\<lparr>inc_state := RECOVERED, inc_recovery_epoch := Some n\<rparr>)
             \<and> dict_get (svc_agents t) a = Some m' \<and> rt_can_execute (ma_runtime m')
             \<and> rt_epoch (ma_runtime m') = n \<and> n = inc_epoch r + 1
             \<and> ma_capability m' = Some (svc_next s + 1)))"
proof -
  obtain res t where run: "svc_recover env a auth s = (res, t)" by fastforce
  have m: "agent_is a m s" using assms(1) by (simp add: agent_is_def)
  show ?thesis
  proof (cases res)
    case (Inl e)
    with run svc_recover_failure [OF _ m assms(2)] show ?thesis by (auto simp: agent_is_def)
  next
    case (Inr n)
    with run have "svc_recover env a auth s = (Inr n, t)" by simp
    from svc_recover_success [OF this m assms(2,3)] obtain r x m' w where facts: "auth = Some x"
      "ra_agent_id x = a" "ra_capability x = ma_capability m" "ra_epoch x = inc_epoch r"
      "ig_latest_for_agent a (svc_incidents s) = Inr (Some r)" "inc_state r \<in> {INC_CONTAINED, PROOF_DEGRADED}"
      "rt_state (ma_runtime m) = CONTAINED" "rt_epoch (ma_runtime m) = inc_epoch r" "n = inc_epoch r + 1"
      and rel: "fst (ctl_release_enforcers (ma_containment m) w) = []"
      and after: "fg_get a (svc_fences t) = None"
      "ig_get (inc_id r) (svc_incidents t)
         = Some (r\<lparr>inc_state := RECOVERED, inc_recovery_epoch := Some (inc_epoch r + 1)\<rparr>)"
      "agent_is a m' t" "rt_can_execute (ma_runtime m')" "rt_epoch (ma_runtime m') = n"
      "ma_capability m' = Some (svc_next s + 1)" by metis
    have "all_providers (release_provider (rt_agent_id (ma_runtime m)))
        (release_confirmed (rt_agent_id (ma_runtime m))) (rev (ctl_enforcers (ma_containment m))) [] w"
      using rel ctl_release_none_iff [of "ma_containment m" w] by (simp add: ma_runtime_def)
    then have "(\<exists>r x m' w.
             auth = Some x \<and> ra_agent_id x = a \<and> ra_capability x = ma_capability m
             \<and> ra_epoch x = inc_epoch r
             \<and> ig_latest_for_agent a (svc_incidents s) = Inr (Some r)
             \<and> inc_state r \<in> {INC_CONTAINED, PROOF_DEGRADED}
             \<and> rt_state (ma_runtime m) = CONTAINED \<and> rt_epoch (ma_runtime m) = inc_epoch r
             \<and> all_providers (release_provider (rt_agent_id (ma_runtime m)))
                 (release_confirmed (rt_agent_id (ma_runtime m)))
                 (rev (ctl_enforcers (ma_containment m))) [] w
             \<and> fg_get a (svc_fences t) = None
             \<and> ig_get (inc_id r) (svc_incidents t)
                 = Some (r\<lparr>inc_state := RECOVERED, inc_recovery_epoch := Some n\<rparr>)
             \<and> dict_get (svc_agents t) a = Some m' \<and> rt_can_execute (ma_runtime m')
             \<and> rt_epoch (ma_runtime m') = n \<and> n = inc_epoch r + 1
             \<and> ma_capability m' = Some (svc_next s + 1))"
      using facts after by (intro exI [of _ r] exI [of _ x] exI [of _ m'] exI [of _ w]) (simp add: agent_is_def)
    with run Inr show ?thesis by simp
  qed
qed

text \<open>For the witnesses: an agent contained and authorized to recover.\<close>

definition demo_authorized :: "nat enforcer list \<Rightarrow> (exn + recovery_authorization) \<times> nat service" where
  "demo_authorized es =
     andthen (svc_contain demo_env ''a'') (\<lambda>_. svc_issue_recovery_authorization demo_env ''a'')
       (demo_service es)"

lemmas recover_defs = svc_issue_recovery_authorization_def svc_reconcile_containment_def
  need_recoverable_def recoverable_incident_def need_contained_at_def recontain_all_def release_all_def
  ctl_recontain_enforcers_def ctl_release_enforcers_def svc_recover_def recover_checks_def
  recover_clear_fence_def recover_release_def recover_commit_def recover_activate_def recover_finish_def
  activate_runtime_def ig_latest_for_agent_def dict_values_def rt_recover_def rt_contain_def
  compensate_fence_def compensate_incident_def

lemmas demo_dict_defs = Let_def dict_get_def dict_set_def dict_del_def

lemmas demo_provider_defs = contain_provider_def release_provider_def recontain_provider_def
  first_applied_def exn_text_def exn_name_def exn_str_def

lemma demo_authorized_state:
  assumes "demo_authorized es = (res, s)"
  shows "incidents_ok (svc_incidents s) \<and> (\<exists>m. dict_get (svc_agents s) ''a'' = Some m)"
proof -
  let ?m = "andthen (svc_contain demo_env ''a'') (\<lambda>_. svc_issue_recovery_authorization demo_env ''a'')"
  have "preserves (of_registries (durable_registries (\<lambda>_. []))) ?m"
    by (intro preserving durable_incident_closed durable_prepare_closed)
  moreover have "preserves (runtime_inv ''a'' (\<lambda>_ _. True)) ?m"
    by (intro preserving) (simp add: fence_closed_def)
  moreover have "of_registries (durable_registries (\<lambda>_. [])) (demo_service es)"
    using demo_durable [of "\<lambda>_. []" es] by (simp add: durable_def)
  moreover have "runtime_inv ''a'' (\<lambda>_ _. True) (demo_service es)"
    by (simp add: runtime_inv_def demo_agent_get)
  ultimately have "of_registries (durable_registries (\<lambda>_. [])) s" "runtime_inv ''a'' (\<lambda>_ _. True) s"
    using assms by (auto simp: demo_authorized_def dest: preservesD)
  then show ?thesis
    by (auto simp: of_registries_def durable_registries_def runtime_inv_def)
qed

lemma demo_recovery_returns:
  "\<exists>auth s t. demo_authorized [steady_enforcer ''cni''] = (Inr auth, s)
     \<and> svc_recover demo_env ''a'' (Some auth) s = (Inr 2, t)"
  by (simp add: demo_authorized_def recover_defs demo_run_defs demo_dict_defs demo_provider_defs)

theorem service_recovery_atomic_witness:
  "\<exists>auth s t. demo_authorized [steady_enforcer ''cni''] = (Inr auth, s)
     \<and> svc_recover demo_env ''a'' (Some auth) s = (Inr 2, t)
     \<and> fg_get ''a'' (svc_fences t) = None
     \<and> (\<exists>m'. dict_get (svc_agents t) ''a'' = Some m' \<and> rt_can_execute (ma_runtime m'))"
proof -
  obtain auth s t where start: "demo_authorized [steady_enforcer ''cni''] = (Inr auth, s)"
    and run: "svc_recover demo_env ''a'' (Some auth) s = (Inr 2, t)"
    using demo_recovery_returns by blast
  from demo_authorized_state [OF start] obtain m where
    m: "dict_get (svc_agents s) ''a'' = Some m" and ok: "incidents_ok (svc_incidents s)" by blast
  from service_recovery_atomic [OF m _ ok, of demo_env "Some auth"] start run show ?thesis by auto
qed

text \<open>
  C9: A recovery authorization is single use.  Once it has recovered its agent, presenting it
  again is refused as stale and changes nothing, in any environment.
\<close>

theorem recovery_authorization_single_use:
  assumes "svc_recover env a (Some auth) s = (Inr n, t)" and "a \<noteq> []"
    and "dict_get (svc_agents s) a = Some m" and "incidents_ok (svc_incidents s)"
    and "\<forall>c. ma_capability m = Some c \<longrightarrow> c < svc_next s"
  shows "svc_recover env' a (Some auth) t
     = (Inl (Exn PermissionError ''recovery authorization is stale''), t)"
proof -
  have "agent_is a m s" using assms(3) by (simp add: agent_is_def)
  from svc_recover_reactivates [OF assms(1) this assms(2,4)] obtain m' where
    "ra_agent_id auth = a" "ra_capability auth = ma_capability m" "dict_get (svc_agents t) a = Some m'"
    "ma_capability m' = Some (svc_next s + 1)" by auto
  with assms(5) show ?thesis
    by (auto simp: svc_recover_def recover_checks_def prog_defs svc_managed_def)
qed

lemma demo_authorized_capability:
  "demo_authorized [steady_enforcer ''cni''] = (Inr auth, s) \<Longrightarrow> dict_get (svc_agents s) ''a'' = Some m \<Longrightarrow>
     ma_capability m = Some 2 \<and> svc_next s = 11"
  by (auto simp: demo_authorized_def recover_defs demo_run_defs demo_dict_defs demo_provider_defs)

theorem recovery_authorization_single_use_witness:
  "\<exists>auth s t. demo_authorized [steady_enforcer ''cni''] = (Inr auth, s)
     \<and> svc_recover demo_env ''a'' (Some auth) s = (Inr 2, t)
     \<and> svc_recover demo_env ''a'' (Some auth) t
         = (Inl (Exn PermissionError ''recovery authorization is stale''), t)"
proof -
  obtain auth s t where start: "demo_authorized [steady_enforcer ''cni''] = (Inr auth, s)"
    and run: "svc_recover demo_env ''a'' (Some auth) s = (Inr 2, t)"
    using demo_recovery_returns by blast
  from demo_authorized_state [OF start] obtain m where
    m: "dict_get (svc_agents s) ''a'' = Some m" and ok: "incidents_ok (svc_incidents s)" by blast
  have "svc_recover demo_env ''a'' (Some auth) t
      = (Inl (Exn PermissionError ''recovery authorization is stale''), t)"
    by (rule recovery_authorization_single_use [OF run _ m ok])
       (use demo_authorized_capability [OF start m] in simp_all)
  with start run show ?thesis by blast
qed

text \<open>
  C4: Only recovery reactivates.  If a registered agent whose runtime does not execute
  executes after one step of the system (any operation, restart or outside change), that step was
  the recovery of this agent with an authorization that carries its current capability and
  its contained epoch, and the runtime had been contained, not halted.
\<close>

theorem only_recovery_reactivates:
  assumes "service_step wording s ev t" and "a \<noteq> []" and "incidents_ok (svc_incidents s)"
    and "dict_get (svc_agents s) a = Some m" and "\<not> rt_can_execute (ma_runtime m)"
    and "dict_get (svc_agents t) a = Some m'" and "rt_can_execute (ma_runtime m')"
  shows "\<exists>env x. ev = Call env (Recover a (Some x)) \<and> ra_agent_id x = a
     \<and> ra_capability x = ma_capability m \<and> ra_epoch x = rt_epoch (ma_runtime m)
     \<and> rt_state (ma_runtime m) = CONTAINED \<and> rt_epoch (ma_runtime m') = rt_epoch (ma_runtime m) + 1"
  using assms(1)
proof cases
  case (do_call env c)
  let ?Q = "\<lambda>st (n::int). st \<noteq> ACTIVE"
  have quiet: "runtime_inv a ?Q s" "\<not> runtime_inv a ?Q t"
    using assms(4-7) by (auto simp: runtime_inv_def rt_can_execute_def)
  have "\<exists>auth. c = Recover a auth"
  proof (rule ccontr)
    assume other: "\<nexists>auth. c = Recover a auth"
    have "c \<noteq> Unregister a"
      using assms(6) do_call by (auto simp: effect_def svc_unregister_def modifying_def)
    with other quiet do_call show False
      using runtime_inv_perform [of ?Q c a s env] by (simp add: fence_closed_def)
  qed
  then obtain auth where c: "c = Recover a auth" ..
  obtain res where run: "svc_recover env a auth s = (res, t)"
    using do_call c by (cases "svc_recover env a auth s") (simp add: effect_def)
  have ag: "agent_is a m s" using assms(4) by (simp add: agent_is_def)
  show ?thesis
  proof (cases res)
    case (Inl e)
    with run svc_recover_failure [OF _ ag assms(2)] assms(5-7) show ?thesis by (auto simp: agent_is_def)
  next
    case (Inr n)
    with run have "svc_recover env a auth s = (Inr n, t)" by simp
    from svc_recover_reactivates [OF this ag assms(2,3)] do_call c assms(6) show ?thesis by auto
  qed
next
  case (restarted ig fg n env w)
  with assms(6) mk_service_fields [of wording None env ig fg n w t] show ?thesis by simp
next
  case (outside w)
  with assms show ?thesis by simp
qed

theorem only_recovery_reactivates_witness:
  "\<exists>auth s t m m'. demo_authorized [steady_enforcer ''cni''] = (Inr auth, s)
     \<and> t = perform demo_env (Recover ''a'' (Some auth)) s
     \<and> dict_get (svc_agents s) ''a'' = Some m \<and> dict_get (svc_agents t) ''a'' = Some m'
     \<and> rt_state (ma_runtime m) = CONTAINED \<and> rt_epoch (ma_runtime m') = rt_epoch (ma_runtime m) + 1"
proof -
  obtain auth s t where start: "demo_authorized [steady_enforcer ''cni''] = (Inr auth, s)"
    and run: "svc_recover demo_env ''a'' (Some auth) s = (Inr 2, t)"
    using demo_recovery_returns by blast
  from demo_authorized_state [OF start] obtain m where
    m: "dict_get (svc_agents s) ''a'' = Some m" and ok: "incidents_ok (svc_incidents s)" by blast
  then have "agent_is ''a'' m s" by (simp add: agent_is_def)
  from svc_recover_reactivates [OF run this _ ok] obtain m' where
    m': "dict_get (svc_agents t) ''a'' = Some m'" "rt_can_execute (ma_runtime m')"
    and off: "\<not> rt_can_execute (ma_runtime m)"
    by (auto simp: rt_can_execute_def)
  have "service_step (\<lambda>_. []) s (Call demo_env (Recover ''a'' (Some auth))) t"
    using do_call [of "\<lambda>_. []" s demo_env "Recover ''a'' (Some auth)"] run by (simp add: effect_def)
  from only_recovery_reactivates [OF this _ ok m off m'] start run m m' show ?thesis
    by (auto simp: effect_def)
qed

section \<open>Authorization\<close>

lemma contain_advances:
  assumes "dict_get (svc_agents s) a = Some m" and "a \<noteq> []"
  shows "runtime_inv a (\<lambda>st n. rt_epoch (ma_runtime m) + 1 \<le> n) (effect (svc_contain env a) s)"
proof -
  let ?Q = "\<lambda>st n. rt_epoch (ma_runtime m) + 1 \<le> n"
  obtain r t where run: "svc_contain env a s = (r, t)" by fastforce
  obtain fo s1 report c w w' s2 io_res s4 ao s5 where phases:
    "ctl_contain (env_clock env) (svc_next s) (ma_containment m) w = ((report, c), w')"
    "\<forall>b. dict_get (svc_agents s2) b =
        (if b = a then Some (m\<lparr>ma_containment := c, ma_identity_digest := None, ma_identity_pid := None\<rparr>)
         else dict_get (svc_agents s) b)"
    "\<exists>now w3. with_incidents env (\<lambda>io. ig_record_containment now io
        (incident_id a (rt_epoch (ma_runtime m) + 1)) a (rep_epoch report) (Some contain_reason))
        (s2\<lparr>svc_world := w3\<rparr>) = (io_res, s4)"
    "audit_containment env a (incident_id a (rt_epoch (ma_runtime m) + 1)) report s4 = (ao, s5)"
    "\<exists>w5. t = s5\<lparr>svc_world := w5\<rparr>"
    by (rule svc_contain_phases [OF run assms(2,1)])
  have "runtime_inv a ?Q s2"
    using phases(1,2) ctl_contain_frame(2) [of "env_clock env" "svc_next s" "ma_containment m" w]
    by (simp add: runtime_inv_def ma_runtime_def)
  then have "runtime_inv a ?Q s4"
    using phases(3) preservesD [OF runtime_inv_pieces(2) [of a ?Q env]]
    by (auto simp: with_incidents_run runtime_inv_def)
  moreover have "preserves (runtime_inv a ?Q)
      (audit_containment env a (incident_id a (rt_epoch (ma_runtime m) + 1)) report)"
    unfolding audit_containment_def by (intro preserving)
  ultimately have "runtime_inv a ?Q s5" using phases(4) by (blast dest: preservesD)
  with phases(5) run show ?thesis by (auto simp: runtime_inv_def effect_def)
qed

text \<open>Events after which agent \<open>a\<close> is still the agent that was registered.\<close>

fun stays_registered :: "string \<Rightarrow> 'w service_event \<Rightarrow> bool" where
  "stays_registered a (Call env c) \<longleftrightarrow> c \<noteq> Unregister a"
| "stays_registered a (Restart env) \<longleftrightarrow> False"
| "stays_registered a OutsideWorld \<longleftrightarrow> True"

lemma epoch_run:
  assumes "runs (service_step wording) s es t" and "\<forall>ev \<in> set es. stays_registered a ev"
    and "runtime_inv a (\<lambda>st n. e \<le> n) s"
  shows "runtime_inv a (\<lambda>st n. e \<le> n) t"
  using assms
proof (induction rule: runs.induct)
  case (runs_cons s ev u es t)
  have "runtime_inv a (\<lambda>st n. e \<le> n) u"
    using runs_cons.hyps(1)
  proof cases
    case (do_call env c)
    with runs_cons.prems show ?thesis
      by (auto intro!: runtime_inv_perform simp: fence_closed_def recover_closed_def)
  next
    case (outside w)
    with runs_cons.prems show ?thesis by (simp add: runtime_inv_def)
  qed (use runs_cons.prems in simp)
  with runs_cons show ?case by simp
qed simp

text \<open>
  C6: No stale ALLOW.  If, between the snapshot that begins an authorization and the decision
  that ends it, the agent is contained, then whatever else happens in between (recovery,
  new identity tokens, other authorizations) and whatever the membership check answered, the
  decision is DENY and the policy history is not advanced.
\<close>

theorem authorization_never_stale:
  assumes "auth_snapshot act s = (Inr snap, s)" and "act_agent_id act \<noteq> []"
    and "runs (service_step wording) s (before @ [Call env (Contain (act_agent_id act))] @ after) t"
    and "\<forall>ev \<in> set (before @ after). stays_registered (act_agent_id act) ev"
  shows "let (result, u) = auth_decide env' act snap authenticated t in
     (\<exists>d. result = Inr d \<and> dec_type d = DENY) \<and> svc_agents u = svc_agents t"
proof -
  let ?a = "act_agent_id act"
  let ?inv = "\<lambda>e. runtime_inv ?a (\<lambda>st n. e \<le> n) :: 'a service \<Rightarrow> bool"
  from assms(3) obtain s1 s2 where runs: "runs (service_step wording) s before s1"
      "service_step wording s1 (Call env (Contain ?a)) s2" "runs (service_step wording) s2 after t"
    by (auto simp: runs_append runs_Cons_iff)
  from assms(1) have "?inv (snap_epoch snap) s"
    by (auto simp: auth_snapshot_def piece_runs runtime_inv_def split: option.splits)
  with runs(1) assms(4) have "?inv (snap_epoch snap) s1" by (auto intro: epoch_run)
  then obtain m where m: "dict_get (svc_agents s1) ?a = Some m" "snap_epoch snap \<le> rt_epoch (ma_runtime m)"
    by (auto simp: runtime_inv_def)
  from runs(2) have "s2 = effect (svc_contain env ?a) s1"
    by (auto elim: service_stepE)
  with contain_advances [OF m(1) assms(2), of env] m(2) have "?inv (snap_epoch snap + 1) s2"
    by (auto simp: runtime_inv_def)
  with runs(3) assms(4) have "?inv (snap_epoch snap + 1) t" by (auto intro: epoch_run)
  then obtain m' where m': "dict_get (svc_agents t) ?a = Some m'" "\<not> runtime_unchanged snap m'"
    by (auto simp: runtime_inv_def runtime_unchanged_def)
  show ?thesis
    using m' by (cases "clk_time (env_clock env') (svc_world t)")
      (auto simp: auth_decide_def deny_def prog_defs svc_managed_def read_time_def sense_def)
qed

theorem authorization_never_stale_witness:
  "let s = demo_service []; t = perform demo_env (Contain ''a'') s;
       (snap, _) = auth_snapshot demo_action s;
       (result, u) = auth_decide demo_env demo_action (projr snap) True t
   in (\<exists>d. result = Inr d \<and> dec_type d = DENY) \<and> svc_agents u = svc_agents t"
proof -
  let ?s = "demo_service [] :: nat service"
  let ?t = "perform demo_env (Contain ''a'') ?s"
  obtain snap where snap: "auth_snapshot demo_action ?s = (Inr snap, ?s)"
    by (simp add: auth_snapshot_def prog_defs svc_managed_def demo_action_def demo_agent_get)
  have agent: "act_agent_id demo_action = ''a''" by (simp add: demo_action_def)
  have runs: "runs (service_step (\<lambda>_. [])) ?s
      ([] @ [Call demo_env (Contain (act_agent_id demo_action))] @ []) ?t"
    using do_call [of "\<lambda>_. []" ?s demo_env "Contain ''a''"] by (simp add: runs_Cons_iff agent)
  from authorization_never_stale [OF snap _ runs, of demo_env True] snap agent show ?thesis
    by (simp add: Let_def)
qed

end
