(* ===== verification/Control_Auth_Props.thy ===== *)
theory Control_Auth_Props
  imports Control_Props
begin

text \<open>
  What the service guarantees about authorization, the verifier's signals and the reviews.
\<close>

section \<open>Authorization\<close>

lemma auth_finish_run:
  assumes "auth_finish env act ref d s = (Inr d', t)"
  shows "d' = d \<and> svc_reviews t = svc_reviews s
     \<and> (if dec_type d = HALT
        then \<forall>m. dict_get (svc_agents s) (act_agent_id act) = Some m \<and> rt_ref (ma_runtime m) = ref \<longrightarrow>
          dict_get (svc_agents t) (act_agent_id act)
            = Some (m\<lparr>ma_containment := ctl_halt (svc_next s) (ma_containment m)\<rparr>)
        else svc_agents t = svc_agents s)"
  using assms
  by (auto simp: auth_finish_def run_rules halt_managed_def alloc_run update_managed_run
      split: if_splits option.splits dest!: audit_record_run emit_event_run)

lemma auth_check_run:
  "auth_check env snap token peer membership s = (Inr b, t) \<Longrightarrow>
     (\<exists>w. t = s\<lparr>svc_world := w\<rparr>)
     \<and> (b \<longrightarrow> (\<exists>tk digest pid cgroup belongs.
          token = Some tk \<and> tk \<noteq> [] \<and> snap_digest snap = Some digest \<and> env_sha256 env tk = digest
          \<and> peer = Some pid \<and> snap_pid snap \<in> {None, Some pid} \<and> snap_cgroup snap = Some cgroup
          \<and> membership = Some belongs \<and> fst (belongs pid cgroup (svc_world s)) = Inr True))"
  by (auto simp: auth_check_def token_matches_def on_world_run ret_run split: option.splits if_splits
      intro: exI [of _ "svc_world s"])

lemma auth_decide_run:
  assumes "auth_decide env act snap b s = (Inr d, t)"
    and "dict_get (svc_agents s) (act_agent_id act) = Some m"
  shows "svc_reviews t = svc_reviews s
     \<and> (\<exists>pe. dict_get (svc_agents t) (act_agent_id act) = Some (m\<lparr>ma_policy := pe\<rparr>))
     \<and> (dec_type d \<noteq> DENY \<longrightarrow> b \<and> snap_active snap \<and> identity_unchanged snap m
          \<and> runtime_unchanged snap m \<and> (\<exists>now. d = fst (evaluate now (ma_policy m) act)))"
proof -
  have same: "m\<lparr>ma_policy := ma_policy m\<rparr> = m" by simp
  show ?thesis
    using assms
    by (auto simp: auth_decide_def deny_def evaluate_policy_def read_time_def piece_runs split: if_splits
        intro: exI [of _ "ma_policy m"])
qed

text \<open>
  C7: What an ALLOW or a HALT of \<open>authorize\<close> means.  ALLOW: the caller presented a
  non-empty token whose digest is the one issued to the agent, from the bound process if one is
  bound, the membership check confirmed that process in the agent's cgroup, the runtime executes
  and the policy allows the action.  HALT: the runtime is halted one epoch later when the call returns.
\<close>

theorem authorize_allow_halt:
  assumes "dict_get (svc_agents s) (act_agent_id act) = Some m"
    and "svc_authorize env act token peer membership s = (Inr d, t)"
  shows "(dec_type d = ALLOW \<longrightarrow>
        (\<exists>tk digest pid cgroup belongs now.
           token = Some tk \<and> tk \<noteq> [] \<and> ma_identity_digest m = Some digest \<and> env_sha256 env tk = digest
           \<and> peer = Some pid \<and> ma_identity_pid m \<in> {None, Some pid}
           \<and> ma_identity_cgroup m = Some cgroup \<and> membership = Some belongs
           \<and> fst (belongs pid cgroup (svc_world s)) = Inr True
           \<and> rt_can_execute (ma_runtime m) \<and> dec_type (fst (evaluate now (ma_policy m) act)) = ALLOW))
     \<and> (dec_type d = HALT \<longrightarrow>
          runtime_inv (act_agent_id act) (\<lambda>st n. st = HALTED \<and> n = rt_epoch (ma_runtime m) + 1) t)"
proof -
  from assms obtain snap b s1 s2 d0 where
    snap: "snap = \<lparr>snap_ref = rt_ref (ma_runtime m), snap_digest = ma_identity_digest m,
          snap_pid = ma_identity_pid m, snap_cgroup = ma_identity_cgroup m,
          snap_epoch = rt_epoch (ma_runtime m), snap_active = rt_can_execute (ma_runtime m)\<rparr>"
    and check: "auth_check env snap token peer membership s = (Inr b, s1)"
    and dec: "auth_decide env act snap b s1 = (Inr d0, s2)"
    and fin: "auth_finish env act (snap_ref snap) d0 s2 = (Inr d, t)"
    by (auto simp: svc_authorize_def auth_snapshot_def andthen_run svc_managed_run ret_run)
  have [simp]: "d0 = d" using auth_finish_run [OF fin] by simp
  note c = auth_check_run [OF check]
  have m1: "dict_get (svc_agents s1) (act_agent_id act) = Some m" using c assms(1) by auto
  note d = auth_decide_run [OF dec m1, simplified] and f = auth_finish_run [OF fin, simplified]
  have halt: "runtime_inv (act_agent_id act) (\<lambda>st n. st = HALTED \<and> n = rt_epoch (ma_runtime m) + 1) t"
    if "dec_type d = HALT"
  proof -
    from d obtain pe where "dict_get (svc_agents s2) (act_agent_id act) = Some (m\<lparr>ma_policy := pe\<rparr>)" by blast
    with that f snap show ?thesis
      by (auto simp: runtime_inv_def ma_runtime_def ctl_halt_def)
  qed
  have "\<exists>tk digest pid cgroup belongs now.
           token = Some tk \<and> tk \<noteq> [] \<and> ma_identity_digest m = Some digest \<and> env_sha256 env tk = digest
           \<and> peer = Some pid \<and> ma_identity_pid m \<in> {None, Some pid}
           \<and> ma_identity_cgroup m = Some cgroup \<and> membership = Some belongs
           \<and> fst (belongs pid cgroup (svc_world s)) = Inr True
           \<and> rt_can_execute (ma_runtime m) \<and> dec_type (fst (evaluate now (ma_policy m) act)) = ALLOW"
    if allow: "dec_type d = ALLOW"
  proof -
    from d allow have b: "b" "rt_can_execute (ma_runtime m)"
      and pol: "\<exists>now. d = fst (evaluate now (ma_policy m) act)" using snap by auto
    with c snap allow show ?thesis by fastforce
  qed
  with halt show ?thesis by blast
qed

lemma demo_authorize:
  "\<exists>d t. svc_authorize demo_env demo_action (Some ''token'') (Some 7) (Some (\<lambda>pid cg. ret True)) (demo_service [])
       = (Inr d, t) \<and> dec_type d = ALLOW"
  by (simp add: svc_authorize_def auth_snapshot_def auth_check_def auth_decide_def auth_finish_def
      identity_unchanged_def runtime_unchanged_def evaluate_policy_def token_matches_def prog_defs
      piece_defs demo_state_defs demo_action_def demo_dict_defs rt_can_execute_def evaluate_def
      effective_risk_def default_policy_engine_def)

theorem authorize_allow_halt_witness:
  "\<exists>d t. svc_authorize demo_env demo_action (Some ''token'') (Some 7) (Some (\<lambda>pid cg. ret True)) (demo_service [])
       = (Inr d, t) \<and> dec_type d = ALLOW
     \<and> ma_identity_digest (demo_agent []) = Some (env_sha256 demo_env ''token'')"
proof -
  obtain d t where run: "svc_authorize demo_env demo_action (Some ''token'') (Some 7)
      (Some (\<lambda>pid cg. ret True)) (demo_service []) = (Inr d, t)" and allow: "dec_type d = ALLOW"
    using demo_authorize by blast
  have agent: "act_agent_id demo_action = ''a''" by (simp add: demo_action_def)
  have m: "dict_get (svc_agents (demo_service [])) (act_agent_id demo_action) = Some (demo_agent [])"
    by (simp add: agent demo_agent_get)
  from authorize_allow_halt [OF m run] allow run show ?thesis by auto
qed

section \<open>Authorization with a verifier's signal\<close>

lemma request_review_run:
  "request_review env act s = (r, t) \<Longrightarrow>
     svc_agents t = svc_agents s
     \<and> (\<exists>i request. dict_get (svc_reviews t) i = Some request \<and> rv_state request = REVIEW_PENDING
          \<and> rv_agent_id request = act_agent_id act \<and> rv_action_id request = act_action_id act)"
  by (auto simp: request_review_def create_review_def read_time_def piece_runs dest!: emit_event_run)

definition signal_decision :: "verification_signal \<Rightarrow> decision_type" where
  "signal_decision signal =
     (if vs_disposition signal = ''block'' then HALT
      else if vs_disposition signal = ''requireReview'' then PAUSE else ALLOW)"

lemma verify_decision_run:
  "\<exists>now w. verify_decision env act signal s
     = (Inr (decision_from_verification now act signal), s\<lparr>svc_world := w\<rparr>)"
  by (cases "clk_time (env_clock env) (svc_world s)")
     (auto simp: verify_decision_def read_time_def sense_def prog_defs)

lemma emit_verification_run:
  "act_agent_id act \<noteq> [] \<Longrightarrow> \<exists>w. emit_verification env act signal d x s = (Inr (), s\<lparr>svc_world := w\<rparr>)"
proof -
  assume a: "act_agent_id act \<noteq> []"
  obtain r t where run: "emit_verification env act signal d x s = (r, t)" by fastforce
  from emit_event_run [OF run [unfolded emit_verification_def]] a run show ?thesis by auto
qed

lemma verified_outcome_run:
  assumes run: "verified_outcome env act signal base s = (Inr d, t)" and bound: "signal_bound signal act"
    and m: "dict_get (svc_agents s) (act_agent_id act) = Some m" and a: "act_agent_id act \<noteq> []"
    and ok: "incidents_ok (svc_incidents s)"
  shows "(dec_type base \<noteq> ALLOW \<longrightarrow> d = base \<and> svc_agents t = svc_agents s)
     \<and> (dec_type base = ALLOW \<longrightarrow> dec_type d = signal_decision signal
          \<and> (signal_decision signal = HALT \<longrightarrow>
               runtime_inv (act_agent_id act) (\<lambda>st n. st = CONTAINED \<and> n = rt_epoch (ma_runtime m) + 1) t)
          \<and> (signal_decision signal = PAUSE \<longrightarrow>
               (\<exists>i request. dict_get (svc_reviews t) i = Some request \<and> rv_state request = REVIEW_PENDING
                  \<and> rv_agent_id request = act_agent_id act \<and> rv_action_id request = act_action_id act)))"
proof (cases "dec_type base = ALLOW")
  case False
  with run show ?thesis
    by (auto simp: verified_outcome_def emit_verification_def run_rules dest!: emit_event_run)
next
  case True
  obtain now w0 where v: "verify_decision env act signal s
      = (Inr (decision_from_verification now act signal), s\<lparr>svc_world := w0\<rparr>)"
    using verify_decision_run [of env act signal s] by blast
  let ?d = "decision_from_verification now act signal"
  obtain w where e: "emit_verification env act signal ?d
      [(''base_decision'', JStr ''allow'')] (s\<lparr>svc_world := w0\<rparr>)
        = (Inr (), s\<lparr>svc_world := w\<rparr>)"
    using emit_verification_run [OF a, of env signal ?d _ "s\<lparr>svc_world := w0\<rparr>"] by auto
  define s1 where "s1 = s\<lparr>svc_world := w\<rparr>"
  have "andthen (if dec_type base = ALLOW \<and> dec_type ?d = HALT then andthen (svc_contain env (act_agent_id act)) (\<lambda>_. ret ())
              else if dec_type base = ALLOW \<and> dec_type ?d = PAUSE then request_review env act
              else ret ()) (\<lambda>_. ret ?d) s1 = (Inr d, t)"
    using run True by (simp add: verified_outcome_def andthen_step [where m = "verify_decision env act signal", OF v]
        andthen_step [where m = "emit_verification env act signal ?d [(''base_decision'', JStr ''allow'')]", OF e] s1_def)
  then have d: "d = ?d" and rest: "(if dec_type d = HALT then andthen (svc_contain env (act_agent_id act)) (\<lambda>_. ret ())
              else if dec_type d = PAUSE then request_review env act else ret ()) s1 = (Inr (), t)"
    using True by (auto simp: andthen_run [where k = "\<lambda>_. ret x" for x] ret_run)
  have type: "dec_type d = signal_decision signal"
    using d bound by (auto simp: decision_from_verification_def signal_bound_def signal_decision_def)
  have halt: "runtime_inv (act_agent_id act) (\<lambda>st n. st = CONTAINED \<and> n = rt_epoch (ma_runtime m) + 1) t"
    if "dec_type d = HALT"
  proof -
    from rest that obtain report where "svc_contain env (act_agent_id act) s1 = (Inr report, t)"
      by (auto simp: run_rules)
    from svc_contain_effect [OF this a] m ok show ?thesis by (auto simp: runtime_inv_def s1_def)
  qed
  show ?thesis using rest True type halt by (auto dest: request_review_run)
qed

text \<open>
  C8: The verifier cannot elevate.  A signal bound to another action denies and changes no
  agent.  Otherwise the controller's own authorization comes first: a decision of it that is
  not ALLOW is returned unchanged; only an ALLOW is refined by the signal, a block to HALT with
  the agent contained when the call returns, a required review to PAUSE with a pending review of
  exactly this action, and everything else to ALLOW.
\<close>

theorem verifier_cannot_elevate:
  assumes "dict_get (svc_agents s) (act_agent_id act) = Some m" and "act_agent_id act \<noteq> []"
    and "incidents_ok (svc_incidents s)"
    and "svc_authorize_verified env act signal token peer membership s = (Inr d, t)"
  shows "if \<not> signal_bound signal act then dec_type d = DENY \<and> svc_agents t = svc_agents s
     else (\<exists>base s1. svc_authorize env act token peer membership s = (Inr base, s1)
        \<and> (if dec_type base \<noteq> ALLOW then d = base \<and> svc_agents t = svc_agents s1
           else dec_type d = signal_decision signal
             \<and> (signal_decision signal = HALT \<longrightarrow>
                  runtime_inv (act_agent_id act) (\<lambda>st n. st = CONTAINED) t)
             \<and> (signal_decision signal = PAUSE \<longrightarrow>
                  (\<exists>i request. dict_get (svc_reviews t) i = Some request
                     \<and> rv_state request = REVIEW_PENDING \<and> rv_agent_id request = act_agent_id act
                     \<and> rv_action_id request = act_action_id act))))"
proof (cases "signal_bound signal act")
  case False
  with assms(4) show ?thesis
    by (auto simp: svc_authorize_verified_def verify_decision_def emit_verification_def read_time_def run_rules
        sense_run decision_from_verification_def signal_bound_def dest!: emit_event_run)
next
  case True
  with assms(4) obtain base s1 where base: "svc_authorize env act token peer membership s = (Inr base, s1)"
    and out: "verified_outcome env act signal base s1 = (Inr d, t)"
    by (auto simp: svc_authorize_verified_def andthen_run)
  have "preserves (of_registries (\<lambda>fg ig. incidents_ok ig)) (svc_authorize env act token peer membership)"
    by (intro preserving)
  with base assms(3) have ok: "incidents_ok (svc_incidents s1)"
    by (auto simp: of_registries_def dest: preservesD)
  have "preserves (runtime_inv (act_agent_id act) (\<lambda>_ _. True)) (svc_authorize env act token peer membership)"
    unfolding svc_authorize_def auth_snapshot_def by (intro preserving) (simp add: fence_closed_def)
  moreover have "runtime_inv (act_agent_id act) (\<lambda>_ _. True) s"
    using assms(1) by (simp add: runtime_inv_def)
  ultimately have "runtime_inv (act_agent_id act) (\<lambda>_ _. True) s1"
    using base by (auto simp: preserves_def dest!: spec [of _ s])
  then obtain m1 where m1: "dict_get (svc_agents s1) (act_agent_id act) = Some m1"
    by (auto simp: runtime_inv_def)
  from verified_outcome_run [OF out True m1 assms(2) ok] base True show ?thesis
    by (auto simp: runtime_inv_def)
qed

definition demo_signal :: "string \<Rightarrow> verification_signal" where
  "demo_signal disposition =
     \<lparr>vs_disposition = disposition, vs_report_fingerprint = ''r'', vs_policy_fingerprint = ''p'',
      vs_blocking_claim_ids = [], vs_review_claim_ids = [], vs_supported_count = 0,
      vs_total_count = 0, vs_trace_id = None, vs_run_id = None, vs_action_id = None, vs_version = 1\<rparr>"

lemma demo_verified:
  "\<exists>d t. svc_authorize_verified demo_env demo_action (demo_signal ''block'') (Some ''token'') (Some 7)
           (Some (\<lambda>pid cg. ret True)) (demo_service []) = (Inr d, t) \<and> dec_type d = HALT"
  by (simp add: svc_authorize_verified_def verified_outcome_def verify_decision_def emit_verification_def
      decision_from_verification_def demo_signal_def signal_bound_def
      svc_authorize_def auth_snapshot_def auth_check_def auth_decide_def auth_finish_def
      identity_unchanged_def runtime_unchanged_def evaluate_policy_def token_matches_def demo_run_defs
      demo_action_def demo_dict_defs rt_can_execute_def evaluate_def effective_risk_def
      default_policy_engine_def)

theorem verifier_cannot_elevate_witness:
  "\<exists>d t. svc_authorize_verified demo_env demo_action (demo_signal ''block'') (Some ''token'') (Some 7)
           (Some (\<lambda>pid cg. ret True)) (demo_service []) = (Inr d, t)
     \<and> dec_type d = HALT
     \<and> (\<exists>base s1. svc_authorize demo_env demo_action (Some ''token'') (Some 7)
           (Some (\<lambda>pid cg. ret True)) (demo_service []) = (Inr base, s1)
          \<and> (dec_type base = ALLOW \<longrightarrow> runtime_inv ''a'' (\<lambda>st n. st = CONTAINED) t))"
proof -
  obtain d t where run: "svc_authorize_verified demo_env demo_action (demo_signal ''block'') (Some ''token'')
      (Some 7) (Some (\<lambda>pid cg. ret True)) (demo_service []) = (Inr d, t)" and halt: "dec_type d = HALT"
    using demo_verified by blast
  have agent: "act_agent_id demo_action = ''a''" by (simp add: demo_action_def)
  have m: "dict_get (svc_agents (demo_service [])) (act_agent_id demo_action) = Some (demo_agent [])"
    by (simp add: agent demo_agent_get)
  have bound: "signal_bound (demo_signal ''block'') demo_action" "signal_decision (demo_signal ''block'') = HALT"
    by (simp_all add: demo_signal_def signal_bound_def signal_decision_def)
  from verifier_cannot_elevate [OF m _ demo_incidents_ok run] bound agent run halt show ?thesis by auto
qed

section \<open>Reviews\<close>

lemma svc_review_run:
  "svc_review env i s = (Inr request, t) \<Longrightarrow>
     svc_agents t = svc_agents s \<and> svc_incidents t = svc_incidents s \<and> svc_fences t = svc_fences s
     \<and> dict_get (svc_reviews t) i = Some request
     \<and> (\<exists>request0. dict_get (svc_reviews s) i = Some request0
          \<and> request = request0\<lparr>rv_state := rv_current_state (fst (clk_time (env_clock env) (svc_world s))) request0\<rparr>)"
  by (auto simp: svc_review_def read_time_def piece_runs split: option.splits if_splits)

text \<open>A decided review stays as it is.\<close>

lemma svc_review_final:
  assumes "dict_get (svc_reviews s) i = Some request" and "rv_state request \<noteq> REVIEW_PENDING"
  shows "\<exists>w. svc_review env i s = (Inr request, s\<lparr>svc_world := w\<rparr>)"
  using assms
  by (cases "clk_time (env_clock env) (svc_world s)")
     (auto simp: svc_review_def prog_defs read_time_def sense_def rv_current_state_def)

text \<open>Containment leaves the reviews alone.\<close>

definition review_is :: "string \<Rightarrow> review_request \<Rightarrow> 'w service \<Rightarrow> bool" where
  "review_is i request s \<longleftrightarrow> dict_get (svc_reviews s) i = Some request"

lemma review_pieces [preserving]:
  "world_free (review_is i request)"
  "preserves (review_is i request) (with_fences env f)"
  "preserves (review_is i request) (with_incidents env g)"
  "preserves (review_is i request) alloc"
  "preserves (review_is i request) (update_managed a h)"
  "preserves (review_is i request) (on_controller a k)"
  by (auto simp: world_free_def preserves_def review_is_def with_fences_def with_incidents_def alloc_def
      update_managed_def on_controller_def split: prod.split option.split)

lemma review_contain: "preserves (review_is i request) (svc_contain env a)"
  unfolding svc_contain_def contain_runtime_def audit_containment_def contain_finish_def revoke_identity_def
  by (intro preserving)

text \<open>
  C16: An approval is one-shot and in time.  \<open>approve_review\<close> returns only for a review that is
  pending and whose deadline the clock has not reached; it returns ALLOW for exactly the action
  of the review, touches no agent, and afterwards the review can be neither approved nor
  escalated again, in any environment.
\<close>

theorem review_approval_once:
  assumes "svc_approve_review env i s = (Inr d, t)"
  shows "\<exists>request. dict_get (svc_reviews s) i = Some request \<and> rv_state request = REVIEW_PENDING
     \<and> \<not> rv_expired (fst (clk_time (env_clock env) (svc_world s))) request
     \<and> dec_type d = ALLOW \<and> dec_action_id d = rv_action_id request \<and> svc_agents t = svc_agents s
     \<and> (\<exists>e. fst (svc_approve_review env' i t) = Inl e) \<and> (\<exists>e. fst (svc_escalate_review env' i t) = Inl e)"
proof -
  let ?now = "fst (clk_time (env_clock env) (svc_world s))"
  from assms obtain request s1 where rev: "svc_review env i s = (Inr request, s1)"
    and pending: "rv_state request = REVIEW_PENDING"
    and d: "dec_type d = ALLOW" "dec_action_id d = rv_action_id request" and agents: "svc_agents t = svc_agents s1"
    and reviews: "svc_reviews t = dict_set i (request\<lparr>rv_state := APPROVED\<rparr>) (svc_reviews s1)"
    by (auto simp: svc_approve_review_def set_review_def read_time_def run_rules sense_run
        split: if_splits dest!: emit_event_run)
  from svc_review_run [OF rev] obtain request0 where r0: "dict_get (svc_reviews s) i = Some request0"
    "request = request0\<lparr>rv_state := rv_current_state ?now request0\<rparr>" "svc_agents s1 = svc_agents s" by blast
  with pending have open_rev: "rv_state request0 = REVIEW_PENDING" "\<not> rv_expired ?now request0"
    by (simp_all add: rv_current_pending)
  have get: "dict_get (svc_reviews t) i = Some (request\<lparr>rv_state := APPROVED\<rparr>)" by (simp add: reviews)
  obtain w where again: "svc_review env' i t = (Inr (request\<lparr>rv_state := APPROVED\<rparr>), t\<lparr>svc_world := w\<rparr>)"
    using svc_review_final [OF get, of env'] by auto
  have "\<exists>e. fst (svc_approve_review env' i t) = Inl e" "\<exists>e. fst (svc_escalate_review env' i t) = Inl e"
    using again by (simp_all add: svc_approve_review_def svc_escalate_review_def prog_defs)
  with r0 open_rev d agents show ?thesis by simp
qed

definition demo_review_service :: "nat service" where
  "demo_review_service = (demo_service [])\<lparr>svc_reviews :=
     [(''a:review:1'', \<lparr>rv_id = ''a:review:1'', rv_agent_id = ''a'', rv_action_id = ''act-1'',
                        rv_requested_at = 0, rv_deadline = 900, rv_state = REVIEW_PENDING\<rparr>)]\<rparr>"

lemmas review_defs = svc_approve_review_def svc_escalate_review_def svc_review_def set_review_def
  demo_review_service_def rv_current_state_def

theorem review_approval_once_witness:
  "\<exists>d t. svc_approve_review demo_env ''a:review:1'' demo_review_service = (Inr d, t)
     \<and> dec_type d = ALLOW \<and> dec_action_id d = ''act-1''
     \<and> (\<exists>e. fst (svc_approve_review demo_env ''a:review:1'' t) = Inl e)"
proof -
  have "\<exists>d t. svc_approve_review demo_env ''a:review:1'' demo_review_service = (Inr d, t)"
    by (simp add: review_defs prog_defs piece_defs demo_state_defs demo_dict_defs)
  then obtain d t where run: "svc_approve_review demo_env ''a:review:1'' demo_review_service = (Inr d, t)"
    by blast
  have "dict_get (svc_reviews demo_review_service) ''a:review:1'' = Some
      \<lparr>rv_id = ''a:review:1'', rv_agent_id = ''a'', rv_action_id = ''act-1'',
       rv_requested_at = 0, rv_deadline = 900, rv_state = REVIEW_PENDING\<rparr>"
    by (simp add: demo_review_service_def dict_get_def)
  with review_approval_once [OF run, of demo_env] run show ?thesis by auto
qed

text \<open>
  Escalation is fail-closed.  When \<open>escalate_review\<close> returns, the decision is HALT, the agent
  of the review is contained, and the review is ESCALATED, so it can no longer be approved; the
  review was not an approved one.
\<close>

theorem review_escalation_contains:
  assumes "svc_escalate_review env i s = (Inr d, t)" and "incidents_ok (svc_incidents s)"
    and "dict_get (svc_reviews s) i = Some request0" and "rv_agent_id request0 \<noteq> []"
  shows "dec_type d = HALT \<and> rv_state request0 \<noteq> APPROVED
     \<and> runtime_inv (rv_agent_id request0) (\<lambda>st n. st = CONTAINED) t
     \<and> map_option rv_state (dict_get (svc_reviews t) i) = Some ESCALATED
     \<and> (\<exists>e. fst (svc_approve_review env' i t) = Inl e)"
proof -
  from assms(1) obtain request s1 where rev: "svc_review env i s = (Inr request, s1)"
    by (auto simp: svc_escalate_review_def run_rules)
  from svc_review_run [OF rev] assms(3) have request:
    "request = request0\<lparr>rv_state := rv_current_state (fst (clk_time (env_clock env) (svc_world s))) request0\<rparr>"
    and s1: "svc_incidents s1 = svc_incidents s" by auto
  then have agent: "rv_agent_id request = rv_agent_id request0" by simp
  with assms(4) have nonempty: "rv_agent_id request \<noteq> []" by simp
  from assms(1) nonempty obtain s3 report w where
    state: "rv_state request \<noteq> APPROVED" and d: "dec_type d = HALT"
    and contain: "svc_contain env (rv_agent_id request)
       (s1\<lparr>svc_reviews := dict_set i (request\<lparr>rv_state := ESCALATED\<rparr>) (svc_reviews s1), svc_world := w\<rparr>)
         = (Inr report, s3)"
    and t: "svc_agents t = svc_agents s3" "svc_reviews t = svc_reviews s3"
    by (auto simp: svc_escalate_review_def andthen_step [where m = "svc_review env i", OF rev]
        set_review_def read_time_def run_rules sense_run split: if_splits dest!: emit_event_run)
  let ?s2 = "s1\<lparr>svc_reviews := dict_set i (request\<lparr>rv_state := ESCALATED\<rparr>) (svc_reviews s1), svc_world := w\<rparr>"
  have "rv_state request0 \<noteq> APPROVED"
    using state request by (auto simp: rv_current_state_def split: if_splits)
  moreover obtain m where m: "dict_get (svc_agents ?s2) (rv_agent_id request) = Some m"
    using contain by (auto simp: svc_contain_def andthen_run svc_managed_run split: option.splits)
  then have "runtime_inv (rv_agent_id request0) (\<lambda>st n. st = CONTAINED) t"
    using svc_contain_effect [OF contain] assms(2,4) agent s1 t by (auto simp: runtime_inv_def)
  moreover have get: "dict_get (svc_reviews t) i = Some (request\<lparr>rv_state := ESCALATED\<rparr>)"
    using preservesD [OF review_contain contain, of i "request\<lparr>rv_state := ESCALATED\<rparr>"] t
    by (simp add: review_is_def)
  moreover obtain w2 where again: "svc_review env' i t = (Inr (request\<lparr>rv_state := ESCALATED\<rparr>), t\<lparr>svc_world := w2\<rparr>)"
    using svc_review_final [OF get, of env'] by auto
  then have "\<exists>e. fst (svc_approve_review env' i t) = Inl e"
    by (simp add: svc_approve_review_def prog_defs)
  ultimately show ?thesis using d by simp
qed

theorem review_escalation_contains_witness:
  "\<exists>d t. svc_escalate_review demo_env ''a:review:1'' demo_review_service = (Inr d, t)
     \<and> dec_type d = HALT \<and> runtime_inv ''a'' (\<lambda>st n. st = CONTAINED) t"
proof -
  have "\<exists>d t. svc_escalate_review demo_env ''a:review:1'' demo_review_service = (Inr d, t)"
    by (simp add: review_defs demo_run_defs demo_dict_defs)
  then obtain d t where run: "svc_escalate_review demo_env ''a:review:1'' demo_review_service = (Inr d, t)"
    by blast
  have ok: "incidents_ok (svc_incidents demo_review_service)"
    using demo_incidents_ok [of "[]"] by (simp add: demo_review_service_def)
  have get: "dict_get (svc_reviews demo_review_service) ''a:review:1'' = Some
      \<lparr>rv_id = ''a:review:1'', rv_agent_id = ''a'', rv_action_id = ''act-1'',
       rv_requested_at = 0, rv_deadline = 900, rv_state = REVIEW_PENDING\<rparr>"
    by (simp add: demo_review_service_def dict_get_def)
  from review_escalation_contains [OF run ok get, of demo_env] run show ?thesis by auto
qed

end
