(* ===== verification/Control_Findings.thy ===== *)
theory Control_Findings
  imports Control_Auth_Props
begin

text \<open>
  Behaviours of the service that differ from what its comments and documentation say, each as
  a theorem about the model.
\<close>

section \<open>Containment that raises\<close>

text \<open>
  \<open>contain\<close> promises never to turn a successful fence into an apparent failure.  The write of
  \<open>mark_proof_degraded\<close> inside the handler of an audit failure is not protected: with an audit log that
  raises and a disk that becomes full after the incident was stored, the call raises although
  the runtime is contained.
\<close>

definition failing_env :: "nat environment" where
  "failing_env = demo_env
     \<lparr>env_audit := Some (\<lambda>entry. raise (Exn OSError ''audit down'')),
      env_disk := (\<lambda>w. (if 5 \<le> w then Some (Exn OSError ''disk full'') else None, w + 1))\<rparr>"

theorem contain_raises_after_fencing:
  "\<exists>t. svc_contain failing_env ''a'' (demo_service []) = (Inl (Exn OSError ''disk full''), t)
     \<and> runtime_inv ''a'' (\<lambda>st n. st = CONTAINED \<and> n = 1) t"
proof -
  obtain r t where run: "svc_contain failing_env ''a'' (demo_service []) = (r, t)" by fastforce
  have "fst (svc_contain failing_env ''a'' (demo_service [])) = Inl (Exn OSError ''disk full'')"
    by (simp add: failing_env_def demo_run_defs demo_dict_defs demo_provider_defs decision_value.simps)
  with run svc_contain_effect [OF run _ demo_agent_get demo_incidents_ok]
  show ?thesis by (auto simp: runtime_inv_def demo_agent_def ma_runtime_def mk_controller_def mk_runtime_def)
qed

section \<open>A failed release is not undone\<close>

text \<open>
  \<open>ContainmentController.recover\<close> contains all providers again when one cannot be released;
  \<open>ContainmentService.recover\<close> only puts the fence back.  Two providers on a world that says
  whether the network boundary is closed: the first to be released opens it, the other fails.
\<close>

definition network_enforcer :: "bool enforcer" where
  "network_enforcer =
     \<lparr>enf_name = ''cni'',
      enf_contain = (\<lambda>a w. (Inr (mk_result ''cni'' ENFORCED []), True)),
      enf_release = (\<lambda>a w. (Inr (mk_result ''cni'' RELEASED []), False)),
      enf_verify_contained = (\<lambda>a w. (Inr (mk_result ''cni'' (if w then ENFORCED else RELEASED) []), w)),
      enf_verify_released = (\<lambda>a w. (Inr (mk_result ''cni'' (if w then ENFORCED else RELEASED) []), w))\<rparr>"

definition stuck_enforcer :: "bool enforcer" where
  "stuck_enforcer =
     \<lparr>enf_name = ''bpf'',
      enf_contain = (\<lambda>a w. (Inr (mk_result ''bpf'' ENFORCED []), w)),
      enf_release = (\<lambda>a w. (Inl (Exn OSError ''busy''), w)),
      enf_verify_contained = (\<lambda>a w. (Inr (mk_result ''bpf'' ENFORCED []), w)),
      enf_verify_released = (\<lambda>a w. (Inr (mk_result ''bpf'' ENFORCED []), w))\<rparr>"

definition network_env :: "bool environment" where
  "network_env =
     \<lparr>env_clock = \<lparr>clk_time = (\<lambda>w. (5, w)), clk_monotonic = (\<lambda>w. (5, w)), clk_utcnow = (\<lambda>w. (''now'', w))\<rparr>,
      env_disk = (\<lambda>w. (None, w)), env_audit = None, env_sink = None,
      env_supervisor = None, env_resolve = ret, env_uuid = (\<lambda>w. (''uuid'', w)),
      env_token_urlsafe = (\<lambda>w. (''token'', w)), env_token_hex = (\<lambda>w. (''00ff'', w)),
      env_sha256 = rev, env_review_timeout = 900\<rparr>"

definition network_service :: "bool service" where
  "network_service =
     \<lparr>svc_agents = [(''a'',
        \<lparr>ma_containment = mk_controller (mk_runtime 0 1 2 ''uuid'' ''a'' None) {} None None None
                            [stuck_enforcer, network_enforcer],
         ma_metadata = [], ma_policy = default_policy_engine, ma_identity_digest = None,
         ma_identity_pid = None, ma_identity_cgroup = None, ma_capability = Some 2\<rparr>)],
      svc_incidents = \<lparr>ig_has_path = True, ig_records = [], ig_file = None\<rparr>,
      svc_fences = \<lparr>fg_has_path = True, fg_records = [], fg_file = None\<rparr>, svc_reviews = [],
      svc_next = 10, svc_world = False\<rparr>"

definition network_recovery :: "(exn + int) \<times> bool service" where
  "network_recovery =
     andthen (svc_contain network_env ''a'') (\<lambda>_.
     andthen (svc_issue_recovery_authorization network_env ''a'') (\<lambda>auth.
     svc_recover network_env ''a'' (Some auth))) network_service"

lemmas network_defs = network_recovery_def network_env_def network_service_def network_enforcer_def
  stuck_enforcer_def

theorem failed_release_leaves_boundary_open:
  "fst network_recovery = Inl (Exn RuntimeError
       (''external enforcement could not be released; runtime remains contained: bpf: OSError: busy''))
     \<and> svc_world (snd network_recovery) = False
     \<and> snd (ctl_recover 3 (Some 2) 1 (mk_controller (rt_contain 1 (mk_runtime 0 1 2 ''uuid'' ''a'' None)) {}
              None None None [stuck_enforcer, network_enforcer]) True) = True"
proof -
  have "fst network_recovery = Inl (Exn RuntimeError
       (''external enforcement could not be released; runtime remains contained: bpf: OSError: busy''))
     \<and> svc_world (snd network_recovery) = False"
    by (simp add: network_defs recover_defs demo_run_defs demo_dict_defs demo_provider_defs)
  moreover have "snd (ctl_recover 3 (Some 2) 1 (mk_controller (rt_contain 1 (mk_runtime 0 1 2 ''uuid'' ''a'' None)) {}
              None None None [stuck_enforcer, network_enforcer]) True) = True"
    by (simp add: ctl_recover_def ctl_release_enforcers_def ctl_recontain_enforcers_def network_defs
        mk_controller_def mk_runtime_def rt_contain_def demo_provider_defs Let_def)
  ultimately show ?thesis by blast
qed

section \<open>A halt after a containment\<close>

text \<open>
  \<open>authorize\<close> halts outside the service lock.  If the agent is contained between the decision
  and the halt, the contained runtime becomes HALTED one epoch later, and from then on no
  recovery of it can succeed and no recovery authorization is issued.
\<close>

theorem halt_after_containment_blocks_recovery:
  assumes "dict_get (svc_agents s) (act_agent_id act) = Some m" and "rt_state (ma_runtime m) = CONTAINED"
    and "dec_type d = HALT" and "auth_finish env act (rt_ref (ma_runtime m)) d s = (Inr d', t)"
  shows "runtime_inv (act_agent_id act) (\<lambda>st n. st = HALTED \<and> n = rt_epoch (ma_runtime m) + 1) t
     \<and> (\<forall>auth env'. \<exists>e. fst (svc_recover env' (act_agent_id act) auth t) = Inl e)
     \<and> (\<forall>env'. \<exists>e. fst (svc_issue_recovery_authorization env' (act_agent_id act) t) = Inl e)"
proof -
  let ?m = "m\<lparr>ma_containment := ctl_halt (svc_next s) (ma_containment m)\<rparr>"
  from auth_finish_run [OF assms(4)] assms have m: "dict_get (svc_agents t) (act_agent_id act) = Some ?m"
    by auto
  have halted: "rt_state (ma_runtime ?m) = HALTED" "rt_epoch (ma_runtime ?m) = rt_epoch (ma_runtime m) + 1"
    by (simp_all add: ma_runtime_def ctl_halt_def)
  have "\<exists>e. fst (svc_recover env' (act_agent_id act) auth t) = Inl e" for auth env'
  proof (cases "recover_checks (act_agent_id act) auth t")
    case (Pair res t')
    with recover_checks_ok [of "act_agent_id act" auth t _ t'] m halted have "\<exists>e. res = Inl e"
      by (cases res) auto
    with Pair show ?thesis by (auto simp: svc_recover_split andthen_def)
  qed
  moreover have "\<exists>e. fst (svc_issue_recovery_authorization env' (act_agent_id act) t) = Inl e" for env'
    using m halted
    by (auto simp: svc_issue_recovery_authorization_def need_recoverable_def need_contained_at_def prog_defs
        svc_managed_def latest_incident_def split: sum.split option.split prod.split)
  ultimately show ?thesis using m halted by (auto simp: runtime_inv_def)
qed

section \<open>The latest incident is the latest by the wall clock\<close>

text \<open>
  A later containment recorded after the clock was set back is not the latest incident: the
  older, recovered one is.
\<close>

theorem latest_incident_follows_clock:
  "let g = write_all incident_write
             [(RecordContainment 9 ''a:1'' ''a'' 1 None, None), (MarkRecovered ''a:1'', None),
              (RecordContainment 5 ''a:3'' ''a'' 3 None, None)]
             \<lparr>ig_has_path = True, ig_records = [], ig_file = None\<rparr>
   in map_option inc_epoch (ig_get ''a:3'' g) = Some 3
      \<and> (\<exists>r. ig_latest_for_agent ''a'' g = Inr (Some r) \<and> inc_epoch r = 1 \<and> inc_state r = RECOVERED)"
  by (simp add: ig_op_defs ig_get_def ig_store_def persist_def Let_def ig_latest_for_agent_def
      dict_values_def dict_set_def dict_get_def)

section \<open>Sink failures are not audited\<close>

text \<open>
  When the event sink raises, the service means to leave an audit record.  The call passes
  \<open>event_type\<close> twice and fails before the log is reached, so the audit log makes no difference.
\<close>

theorem sink_failure_never_audited: "emit_event env = emit_event (env\<lparr>env_audit := x\<rparr>)"
proof -
  have "audit_sink_failure e = ret ()" for e :: "'a environment"
    by (rule ext) (simp add: audit_sink_failure_def prog_defs)
  then show ?thesis by (intro ext) (simp add: emit_event_def read_time_def split: option.split)
qed

end
