(* ===== verification/Gateway.thy ===== *)
theory Gateway
  imports Policy Containment
begin

text \<open>
  \<open>gateway.py\<close> and \<open>attack_harness.py\<close>: the enforcement point between an agent and its tools.

  The gateway owns a policy engine, the containment controller (which owns the runtime and,
  from the gateway's construction on, its egress registry) and the history of decisions.
  A tool is a callback on the outside world \<open>'w\<close> that may raise.  An operation of the
  gateway holds no lock of its own; what makes it safe is that the tool is called by
  \<open>execute_if_active\<close>, under the runtime's lock and only for a valid lease.  So \<open>gw_commit\<close>,
  the last step of every execution, is a definition of its own: anything may happen to the
  runtime between the step that acquires the lease and that one.
\<close>

record 'w gateway =
  gw_policy :: policy_engine
  gw_containment :: "'w controller"
  gw_limit :: "nat option"
  gw_history :: "decision list"
  gw_next :: obj
  gw_world :: 'w

definition gw_runtime :: "'w gateway \<Rightarrow> runtime" where
  "gw_runtime g = ctl_runtime (gw_containment g)"

text \<open>\<open>ActionGateway(policy, containment, history_limit)\<close>.\<close>

definition mk_gateway ::
  "policy_engine \<Rightarrow> 'w controller \<Rightarrow> int option \<Rightarrow> obj \<Rightarrow> 'w \<Rightarrow> exn + 'w gateway" where
  "mk_gateway policy containment history_limit next_obj w =
     (if (case history_limit of None \<Rightarrow> False | Some n \<Rightarrow> n < 1) then
        Inl (Exn ValueError ''history_limit must be positive or None'')
      else Inr \<lparr>gw_policy = policy,
                gw_containment = ctl_attach_egress \<lparr>eg_connections = []\<rparr> containment,
                gw_limit = map_option nat history_limit, gw_history = [],
                gw_next = next_obj, gw_world = w\<rparr>)"

section \<open>Decisions\<close>

definition gw_time :: "'w clock \<Rightarrow> ('w gateway, int) prog" where
  "gw_time clk g = (case clk_time clk (gw_world g) of (t, w) \<Rightarrow> (Inr t, g\<lparr>gw_world := w\<rparr>))"

text \<open>\<open>self.history.append(decision)\<close>: a list, or a deque of bounded length.\<close>

definition gw_record :: "decision \<Rightarrow> ('w gateway, unit) prog" where
  "gw_record d = modifying (\<lambda>g. g\<lparr>gw_history :=
     (case gw_limit g of None \<Rightarrow> gw_history g @ [d] | Some n \<Rightarrow> deque_append n (gw_history g) d)\<rparr>)"

definition gw_deny :: "'w clock \<Rightarrow> action \<Rightarrow> string \<Rightarrow> ('w gateway, decision) prog" where
  "gw_deny clk a reason = andthen (gw_time clk) (\<lambda>now. ret (mk_decision now (act_action_id a) DENY reason))"

definition gw_deny_recorded :: "'w clock \<Rightarrow> action \<Rightarrow> string \<Rightarrow> ('w gateway, decision) prog" where
  "gw_deny_recorded clk a reason =
     andthen (gw_deny clk a reason) (\<lambda>d. andthen (gw_record d) (\<lambda>_. ret d))"

definition wrong_agent :: "'w gateway \<Rightarrow> action \<Rightarrow> bool" where
  "wrong_agent g a \<longleftrightarrow> act_agent_id a \<noteq> rt_agent_id (gw_runtime g)"

definition gw_evaluate :: "'w clock \<Rightarrow> action \<Rightarrow> ('w gateway, decision) prog" where
  "gw_evaluate clk a =
     andthen (gw_time clk) (\<lambda>now g.
       case evaluate now (gw_policy g) a of (d, pe) \<Rightarrow> (Inr d, g\<lparr>gw_policy := pe\<rparr>))"

definition gw_halt :: "('w gateway, unit) prog" where
  "gw_halt = modifying (\<lambda>g. g\<lparr>gw_containment := ctl_halt (gw_next g) (gw_containment g),
                              gw_next := gw_next g + 1\<rparr>)"

definition gw_authorize :: "'w clock \<Rightarrow> action \<Rightarrow> ('w gateway, decision) prog" where
  "gw_authorize clk a =
     andthen (\<lambda>g. (if wrong_agent g a then gw_deny clk a ''action agent_id does not match runtime''
                   else if \<not> rt_can_execute (gw_runtime g) then
                     gw_deny clk a ''agent runtime is not executable''
                   else gw_evaluate clk a) g) (\<lambda>d.
     andthen (gw_record d) (\<lambda>_.
     andthen (if dec_type d = HALT then gw_halt else ret ()) (\<lambda>_. ret d)))"

section \<open>Execution\<close>

text \<open>What an execution returns: the decision that refused it, or the tool's result.\<close>

datatype 'v outcome = Refused decision | Performed 'v

definition refuse :: "('w gateway, decision) prog \<Rightarrow> ('w gateway, 'v outcome) prog" where
  "refuse m = andthen m (\<lambda>d. ret (Refused d))"

definition gw_acquire_lease :: "'w gateway \<Rightarrow> execution_lease option" where
  "gw_acquire_lease g = rt_acquire_lease (gw_runtime g)"

text \<open>
  \<open>execute_if_active(lease, ...)\<close> and what follows it.  The tool runs inside; when it raises,
  the exception passes.  \<open>late\<close> is the decision made when the lease is no longer valid.
\<close>

definition gw_commit ::
  "execution_lease \<Rightarrow> (action \<Rightarrow> ('w, 'v) prog) \<Rightarrow> action \<Rightarrow> ('w gateway, decision) prog \<Rightarrow>
     ('w gateway, 'v outcome) prog" where
  "gw_commit lease executor a late g =
     (case rt_execute_if_active (gw_runtime g) lease (executor a) (gw_world g) of
        (None, w) \<Rightarrow> refuse late (g\<lparr>gw_world := w\<rparr>)
      | (Some (Inl e), w) \<Rightarrow> (Inl e, g\<lparr>gw_world := w\<rparr>)
      | (Some (Inr v), w) \<Rightarrow> (Inr (Performed v), g\<lparr>gw_world := w\<rparr>))"

text \<open>The common tail: authorize, return the decision unless it is ALLOW, then commit.\<close>

definition gw_authorize_commit ::
  "'w clock \<Rightarrow> execution_lease \<Rightarrow> (action \<Rightarrow> ('w, 'v) prog) \<Rightarrow> action \<Rightarrow>
     ('w gateway, decision) prog \<Rightarrow> ('w gateway, 'v outcome) prog" where
  "gw_authorize_commit clk lease executor a late =
     andthen (gw_authorize clk a) (\<lambda>d.
       if dec_type d \<noteq> ALLOW then ret (Refused d) else gw_commit lease executor a late)"

definition gw_execute_with_lease ::
  "'w clock \<Rightarrow> action \<Rightarrow> execution_lease \<Rightarrow> (action \<Rightarrow> ('w, 'v) prog) \<Rightarrow> ('w gateway, 'v outcome) prog" where
  "gw_execute_with_lease clk a lease executor g =
     (if wrong_agent g a then
        refuse (gw_deny_recorded clk a ''action agent_id does not match runtime'') g
      else if \<not> rt_lease_valid (gw_runtime g) lease then
        refuse (gw_deny_recorded clk a ''execution lease invalidated by runtime state change'') g
      else gw_authorize_commit clk lease executor a
             (gw_deny_recorded clk a ''execution lease invalidated before side effect'') g)"

definition gw_acquire_egress_lease :: "'w gateway \<Rightarrow> egress_lease option" where
  "gw_acquire_egress_lease g = eg_acquire_lease (gw_runtime g)"

text \<open>The egress variant does not record its own refusals in the history.\<close>

definition gw_execute_egress ::
  "'w clock \<Rightarrow> action \<Rightarrow> egress_lease \<Rightarrow> (action \<Rightarrow> ('w, 'v) prog) \<Rightarrow> ('w gateway, 'v outcome) prog" where
  "gw_execute_egress clk a lease executor g =
     (if wrong_agent g a then refuse (gw_deny clk a ''action agent_id does not match runtime'') g
      else if \<not> eg_authorize (gw_runtime g) lease then
        refuse (gw_deny clk a ''egress lease invalidated by runtime state change'') g
      else gw_authorize_commit clk (execution_lease_of lease) executor a
             (gw_deny clk a ''egress lease invalidated before network side effect'') g)"

definition gw_execute ::
  "'w clock \<Rightarrow> action \<Rightarrow> (action \<Rightarrow> ('w, 'v) prog) \<Rightarrow> ('w gateway, 'v outcome) prog" where
  "gw_execute clk a executor g =
     (if wrong_agent g a then
        refuse (gw_deny_recorded clk a ''action agent_id does not match runtime'') g
      else (case gw_acquire_lease g of
          None \<Rightarrow> refuse (gw_authorize clk a) g
        | Some lease \<Rightarrow> gw_authorize_commit clk lease executor a
             (gw_deny_recorded clk a ''execution lease invalidated before side effect'') g))"

lemmas gw_defs = gw_authorize_def gw_deny_def gw_deny_recorded_def gw_evaluate_def gw_halt_def
  gw_record_def gw_time_def refuse_def

section \<open>The attack harness\<close>

record attack_result =
  at_name :: string
  at_decision :: decision_type
  at_blocked :: bool
  at_reason :: string

definition attack_attempt ::
  "'w clock \<Rightarrow> string \<Rightarrow> action \<Rightarrow> (attack_result list \<times> 'w gateway, attack_result) prog" where
  "attack_attempt clk name a s =
     (case gw_authorize clk a (snd s) of
        (Inl e, g) \<Rightarrow> (Inl e, (fst s, g))
      | (Inr d, g) \<Rightarrow>
          (let r = \<lparr>at_name = name, at_decision = dec_type d, at_blocked = (dec_type d \<noteq> ALLOW),
                    at_reason = dec_reason d\<rparr>
           in (Inr r, (fst s @ [r], g))))"

definition assert_contained :: "attack_result list \<Rightarrow> exn + unit" where
  "assert_contained results =
     (let failures = filter (\<lambda>r. \<not> at_blocked r) results in
      if failures \<noteq> [] then
        Inl (Exn AssertionError (''containment bypasses detected: '' @ join_with '', '' (map at_name failures)))
      else Inr ())"

section \<open>What an authorization does\<close>

lemma gw_authorize_run:
  assumes "gw_authorize clk a g = (r, t)"
  shows "\<exists>d now w. r = Inr d \<and> clk_time clk (gw_world g) = (now, w) \<and> gw_world t = w
    \<and> dec_action_id d = act_action_id a \<and> gw_limit t = gw_limit g
    \<and> gw_history t = (case gw_limit g of None \<Rightarrow> gw_history g @ [d] | Some n \<Rightarrow> deque_append n (gw_history g) d)
    \<and> (dec_type d = HALT \<longrightarrow> \<not> rt_can_execute (gw_runtime t))
    \<and> (dec_type d \<noteq> HALT \<longrightarrow> gw_runtime t = gw_runtime g \<and> gw_next t = gw_next g)
    \<and> (dec_type d = ALLOW \<longrightarrow>
          \<not> wrong_agent g a \<and> rt_can_execute (gw_runtime g) \<and> fst (evaluate now (gw_policy g) a) = d)"
proof -
  obtain now w where clock: "clk_time clk (gw_world g) = (now, w)" by fastforce
  have id: "dec_action_id (fst (evaluate now (gw_policy g) a)) = act_action_id a"
    by (simp add: evaluate_def split: option.split)
  consider "wrong_agent g a" | "\<not> wrong_agent g a" "\<not> rt_can_execute (gw_runtime g)"
    | "\<not> wrong_agent g a" "rt_can_execute (gw_runtime g)" by blast
  then show ?thesis
  proof cases
    case 3
    obtain d pe where ev: "evaluate now (gw_policy g) a = (d, pe)" by fastforce
    with assms 3 clock ev id show ?thesis
      by (auto simp: gw_defs run_rules gw_runtime_def rt_can_execute_def ctl_halt_def
          split: if_splits option.splits)
  qed (use assms clock in \<open>auto simp: gw_defs run_rules gw_runtime_def split: option.splits\<close>)
qed

section \<open>Side effects are guarded\<close>

text \<open>The three entry points, as one type of call.\<close>

datatype gateway_call = Execute | WithLease execution_lease | Egress egress_lease

fun gw_perform ::
  "'w clock \<Rightarrow> gateway_call \<Rightarrow> action \<Rightarrow> (action \<Rightarrow> ('w, 'v) prog) \<Rightarrow> ('w gateway, 'v outcome) prog" where
  "gw_perform clk Execute a executor = gw_execute clk a executor"
| "gw_perform clk (WithLease lease) a executor = gw_execute_with_lease clk a lease executor"
| "gw_perform clk (Egress lease) a executor = gw_execute_egress clk a lease executor"

fun call_lease :: "gateway_call \<Rightarrow> runtime \<Rightarrow> execution_lease option" where
  "call_lease Execute r = rt_acquire_lease r"
| "call_lease (WithLease lease) r = Some lease"
| "call_lease (Egress lease) r = Some (execution_lease_of lease)"

definition denied :: "action \<Rightarrow> exn + 'v outcome \<Rightarrow> bool" where
  "denied a r \<longleftrightarrow> (\<exists>d. r = Inr (Refused d) \<and> dec_type d \<noteq> ALLOW \<and> dec_action_id d = act_action_id a)"

lemma refuse_deny:
  "refuse (gw_deny clk a reason) g = (r, t) \<Longrightarrow> denied a r"
  "refuse (gw_deny_recorded clk a reason) g = (r, t) \<Longrightarrow> denied a r"
  by (auto simp: gw_defs run_rules denied_def split: prod.splits)

text \<open>A refusal that is only recorded reads the clock once and changes nothing else outside.\<close>

lemma refuse_deny_world:
  "refuse (gw_deny clk a reason) g = (r, t) \<Longrightarrow> gw_world t = snd (clk_time clk (gw_world g))"
  "refuse (gw_deny_recorded clk a reason) g = (r, t) \<Longrightarrow> gw_world t = snd (clk_time clk (gw_world g))"
  by (auto simp: gw_defs run_rules split: prod.splits option.splits)

lemma gw_commit_run:
  assumes "gw_commit lease executor a late g = (r, t)"
  shows "(\<not> rt_lease_valid (gw_runtime g) lease \<and> refuse late g = (r, t))
         \<or> (\<exists>res. rt_lease_valid (gw_runtime g) lease \<and> executor a (gw_world g) = (res, gw_world t)
             \<and> r = map_sum id Performed res \<and> t = g\<lparr>gw_world := gw_world t\<rparr>)"
  using assms
  by (auto simp: gw_commit_def rt_execute_if_active_eq split: prod.splits sum.splits if_splits)

lemma gw_authorize_commit_run:
  fixes executor :: "action \<Rightarrow> ('w, 'v) prog"
  assumes "gw_authorize_commit clk lease executor a late g = (r, t)"
    and "rt_lease_valid (gw_runtime g) lease"
  shows "(denied a r \<and> gw_world t = snd (clk_time clk (gw_world g))
            \<and> (\<forall>executor'. gw_authorize_commit clk lease executor' a late g = (r, t)))
         \<or> (\<not> wrong_agent g a \<and> rt_can_execute (gw_runtime g)
            \<and> (\<exists>now w res. clk_time clk (gw_world g) = (now, w)
                 \<and> dec_type (fst (evaluate now (gw_policy g) a)) = ALLOW
                 \<and> executor a w = (res, gw_world t) \<and> r = map_sum id Performed res))"
proof -
  obtain r1 u where auth: "gw_authorize clk a g = (r1, u)" by fastforce
  from gw_authorize_run [OF auth] obtain d now w where d: "r1 = Inr d"
    "clk_time clk (gw_world g) = (now, w)" "gw_world u = w" "dec_action_id d = act_action_id a"
    "dec_type d \<noteq> HALT \<Longrightarrow> gw_runtime u = gw_runtime g"
    "dec_type d = ALLOW \<Longrightarrow>
       \<not> wrong_agent g a \<and> rt_can_execute (gw_runtime g) \<and> fst (evaluate now (gw_policy g) a) = d"
    by metis
  have step: "gw_authorize_commit clk lease ex a late g
      = (if dec_type d \<noteq> ALLOW then ret (Refused d) u else gw_commit lease ex a late u)"
    for ex :: "action \<Rightarrow> ('w, 'v) prog"
    using auth d(1) by (simp add: gw_authorize_commit_def andthen_def)
  show ?thesis
  proof (cases "dec_type d = ALLOW")
    case True
    with step assms(1) have commit: "gw_commit lease executor a late u = (r, t)" by simp
    have "rt_lease_valid (gw_runtime u) lease" using True d assms(2) by simp
    with gw_commit_run [OF commit] True d show ?thesis by metis
  next
    case False
    with step assms(1) d(2,3,4) show ?thesis by (auto simp: ret_def denied_def)
  qed
qed

text \<open>
  C18: A tool runs only for an allowed action of this agent.  Whichever entry point is used,
  either the call returns a decision that is not ALLOW, and then it would have ended the same
  way with any other tool, so the tool was not called, and all the call did outside was to read
  the clock once; or the action is of the runtime's
  agent, the runtime is ACTIVE, the lease presented (or taken) is valid, the policy engine
  allows the action, and the tool has run exactly once on the world as it was, its result or
  exception being the call's.
\<close>

theorem gateway_side_effect_guarded:
  fixes executor :: "action \<Rightarrow> ('w, 'v) prog"
  assumes "gw_perform clk call a executor g = (r, t)"
  shows "(denied a r \<and> gw_world t = snd (clk_time clk (gw_world g))
            \<and> (\<forall>executor'. gw_perform clk call a executor' g = (r, t)))
         \<or> (act_agent_id a = rt_agent_id (gw_runtime g) \<and> rt_can_execute (gw_runtime g)
            \<and> (\<exists>lease. call_lease call (gw_runtime g) = Some lease \<and> rt_lease_valid (gw_runtime g) lease)
            \<and> (\<exists>now w res. clk_time clk (gw_world g) = (now, w)
                 \<and> dec_type (fst (evaluate now (gw_policy g) a)) = ALLOW
                 \<and> executor a w = (res, gw_world t) \<and> r = map_sum id Performed res))"
proof (cases "wrong_agent g a")
  case True
  with assms show ?thesis
    by (cases call) (auto simp: gw_execute_def gw_execute_with_lease_def gw_execute_egress_def
        intro: refuse_deny refuse_deny_world)
next
  case False
  have agent: "act_agent_id a = rt_agent_id (gw_runtime g)" using False by (simp add: wrong_agent_def)
  show ?thesis
  proof (cases "\<exists>lease. call_lease call (gw_runtime g) = Some lease \<and> rt_lease_valid (gw_runtime g) lease")
    case True
    then obtain lease where lease: "call_lease call (gw_runtime g) = Some lease"
      "rt_lease_valid (gw_runtime g) lease" by blast
    obtain late where late: "gw_perform clk call a ex g = gw_authorize_commit clk lease ex a late g"
      for ex :: "action \<Rightarrow> ('w, 'v) prog"
      using False lease
      by (cases call) (auto simp: gw_execute_def gw_execute_with_lease_def gw_execute_egress_def
          gw_acquire_lease_def eg_authorize_def eg_lease_valid_def)
    from gw_authorize_commit_run [of clk lease executor a late g r t] late assms lease agent
    show ?thesis by metis
  next
    case no_lease: False
    show ?thesis
    proof (cases call)
      case Execute
      with no_lease have none: "rt_acquire_lease (gw_runtime g) = None"
        by (cases "rt_acquire_lease (gw_runtime g)") (auto dest: rt_acquired_lease_valid)
      then have "\<not> rt_can_execute (gw_runtime g)"
        by (auto simp: rt_acquire_lease_def rt_can_execute_def split: if_splits)
      moreover have "refuse (gw_authorize clk a) g = (r, t)"
        using assms Execute False none by (simp add: gw_execute_def gw_acquire_lease_def)
      ultimately have "denied a r \<and> gw_world t = snd (clk_time clk (gw_world g))"
        using gw_authorize_run [of clk a g] by (fastforce simp: refuse_def run_rules denied_def)
      with assms Execute False none show ?thesis
        by (simp add: gw_execute_def gw_acquire_lease_def)
    qed (use assms no_lease False in \<open>auto simp: gw_execute_with_lease_def gw_execute_egress_def
          eg_authorize_def eg_lease_valid_def intro: refuse_deny refuse_deny_world\<close>)
  qed
qed

definition demo_gateway :: "nat gateway" where
  "demo_gateway = \<lparr>gw_policy = default_policy_engine,
     gw_containment = ctl_attach_egress \<lparr>eg_connections = []\<rparr>
       (mk_controller (mk_runtime 0 1 2 ''u'' ''agent'' None) {} None None None []),
     gw_limit = Some 2, gw_history = [], gw_next = 3, gw_world = 0\<rparr>"

definition demo_clock :: "nat clock" where
  "demo_clock = \<lparr>clk_time = (\<lambda>w. (5, w)), clk_monotonic = (\<lambda>w. (5, w)), clk_utcnow = (\<lambda>w. (''now'', w))\<rparr>"

definition demo_tool :: "action \<Rightarrow> (nat, nat) prog" where
  "demo_tool a w = (Inr (length (act_operation a)), w + 1)"

definition gateway_action :: "string \<Rightarrow> action" where
  "gateway_action agent = \<lparr>act_agent_id = agent, act_action_id = ''1'', act_operation = ''read'',
     act_resource = ''r'', act_risk = 0, act_metadata = []\<rparr>"

theorem gateway_side_effect_guarded_witness:
  "gw_world (snd (gw_perform demo_clock Execute (gateway_action ''agent'') demo_tool demo_gateway)) = 1
   \<and> denied (gateway_action ''b'')
       (fst (gw_perform demo_clock Execute (gateway_action ''b'') demo_tool demo_gateway))"
proof -
  let ?a = "gateway_action ''agent''" and ?b = "gateway_action ''b''"
  have "\<not> denied ?a (fst (gw_perform demo_clock Execute ?a demo_tool demo_gateway))"
    by (simp add: gw_execute_def gw_authorize_commit_def gw_defs gw_commit_def gw_runtime_def
        gw_acquire_lease_def demo_gateway_def demo_clock_def demo_tool_def gateway_action_def
        wrong_agent_def mk_controller_def mk_runtime_def ctl_attach_egress_def rt_acquire_lease_def rt_can_execute_def
        rt_execute_if_active_def evaluate_def default_policy_engine_def effective_risk_def
        andthen_def ret_def modifying_def denied_def)
  then have "gw_world (snd (gw_perform demo_clock Execute ?a demo_tool demo_gateway)) = 1"
    using gateway_side_effect_guarded [of demo_clock Execute ?a demo_tool demo_gateway]
    by (auto simp: demo_gateway_def demo_clock_def demo_tool_def prod_eq_iff)
  moreover have "denied ?b (fst (gw_perform demo_clock Execute ?b demo_tool demo_gateway))"
    using gateway_side_effect_guarded [of demo_clock Execute ?b demo_tool demo_gateway]
    by (auto simp: demo_gateway_def gateway_action_def gw_runtime_def mk_controller_def mk_runtime_def
        ctl_attach_egress_def prod_eq_iff)
  ultimately show ?thesis by blast
qed

lemma refuse_authorize: "refuse (gw_authorize clk a) g = (r, t) \<Longrightarrow> \<exists>d. r = Inr (Refused d)"
  using gw_authorize_run [of clk a g] by (fastforce simp: refuse_def run_rules)

section \<open>Interference between the lease and the side effect\<close>

text \<open>
  \<open>execute\<close> with whatever other threads do between its steps: \<open>f1\<close> after the lease is taken,
  \<open>f2\<close> after the decision.  Without interference it is \<open>execute\<close>.
\<close>

definition gw_execute_interleaved ::
  "('w gateway \<Rightarrow> 'w gateway) \<Rightarrow> ('w gateway \<Rightarrow> 'w gateway) \<Rightarrow> 'w clock \<Rightarrow> action \<Rightarrow>
     (action \<Rightarrow> ('w, 'v) prog) \<Rightarrow> ('w gateway, 'v outcome) prog" where
  "gw_execute_interleaved f1 f2 clk a executor g =
     (if wrong_agent g a then
        refuse (gw_deny_recorded clk a ''action agent_id does not match runtime'') g
      else (case gw_acquire_lease g of
          None \<Rightarrow> refuse (gw_authorize clk a) (f1 g)
        | Some lease \<Rightarrow>
            andthen (gw_authorize clk a) (\<lambda>d u.
              if dec_type d \<noteq> ALLOW then (Inr (Refused d), u)
              else gw_commit lease executor a
                (gw_deny_recorded clk a ''execution lease invalidated before side effect'') (f2 u)) (f1 g)))"

lemma gw_execute_interleaved_id: "gw_execute_interleaved id id clk a executor = gw_execute clk a executor"
  by (rule ext) (simp add: gw_execute_interleaved_def gw_execute_def gw_authorize_commit_def ret_def
      andthen_def split: option.split prod.split sum.split)

text \<open>Another thread acts on the runtime by operations of \<open>Runtime\<close>, one after the other.\<close>

definition gw_system :: "'w gateway \<Rightarrow> runtime_system" where
  "gw_system g = \<lparr>sys_runtime = gw_runtime g, sys_next = gw_next g, sys_issued = []\<rparr>"

definition interferes :: "runtime_event list \<Rightarrow> 'w gateway \<Rightarrow> 'w gateway \<Rightarrow> bool" where
  "interferes es g h \<longleftrightarrow> (\<exists>issued. runs runtime_step (gw_system g) es (gw_system h\<lparr>sys_issued := issued\<rparr>))"

lemma interferes_proof:
  assumes "interferes es g h" and "rt_proof (gw_runtime g) < gw_next g"
  shows "rt_proof (gw_runtime g) \<le> rt_proof (gw_runtime h)"
    and "rt_proof (gw_runtime h) < gw_next h"
    and "\<exists>ev \<in> set es. fencing_event ev \<Longrightarrow> rt_proof (gw_runtime g) < rt_proof (gw_runtime h)"
proof -
  from assms(1) obtain issued where run: "runs runtime_step (gw_system g) es (gw_system h\<lparr>sys_issued := issued\<rparr>)"
    by (auto simp: interferes_def)
  have inv: "proofs_allocated (gw_system g)" using assms(2) by (simp add: proofs_allocated_def gw_system_def)
  show "rt_proof (gw_runtime g) \<le> rt_proof (gw_runtime h)"
    using execution_fence.run_mono [OF run inv] by (simp add: gw_system_def)
  show "rt_proof (gw_runtime h) < gw_next h"
    using runs_invariant [of runtime_step, OF run, where I = proofs_allocated] inv runtime_step_allocated
    by (simp add: proofs_allocated_def gw_system_def)
  show "rt_proof (gw_runtime g) < rt_proof (gw_runtime h)" if "\<exists>ev \<in> set es. fencing_event ev"
    using execution_fence.run_fence [OF run inv that] by (simp add: gw_system_def)
qed

text \<open>
  No side effect after a fence.  If, while an execution is under way, any other thread
  halts or contains the runtime after the lease was taken and before the tool is called, the
  tool is not called: the execution returns a decision, the same whatever the tool is.  This
  holds for every sequence of runtime operations in between, a recovery to ACTIVE included.
\<close>

theorem gateway_fence_stops_side_effect:
  fixes executor :: "action \<Rightarrow> ('w, 'v) prog"
  assumes "gw_execute_interleaved f1 f2 clk a executor g = (r, t)"
    and "rt_proof (gw_runtime g) < gw_next g"
    and "interferes es1 g (f1 g)" and "\<And>u. interferes es2 u (f2 u)"
    and "EvHalt \<in> set (es1 @ es2) \<or> EvContain \<in> set (es1 @ es2)"
  shows "(\<exists>d. r = Inr (Refused d))
         \<and> (\<forall>executor'. gw_execute_interleaved f1 f2 clk a executor' g = (r, t))"
proof (cases "wrong_agent g a \<or> gw_acquire_lease g = None")
  case True
  with assms(1) show ?thesis
    by (auto simp: gw_execute_interleaved_def denied_def split: option.splits if_splits
        dest!: refuse_deny refuse_authorize)
next
  case False
  then obtain lease where lease: "gw_acquire_lease g = Some lease" by auto
  obtain r1 u where auth: "gw_authorize clk a (f1 g) = (r1, u)" by fastforce
  from gw_authorize_run [OF auth] obtain d where d: "r1 = Inr d" "dec_type d \<noteq> HALT \<Longrightarrow> gw_runtime u = gw_runtime (f1 g) \<and> gw_next u = gw_next (f1 g)"
    by metis
  show ?thesis
  proof (cases "dec_type d = ALLOW")
    case True
    have "rt_proof (gw_runtime g) < rt_proof (gw_runtime (f2 u))"
      using interferes_proof [OF assms(3,2)] interferes_proof [OF assms(4), of u] d(2) True assms(5)
      by (force simp: fencing_event_def)
    then have stale: "\<not> rt_lease_valid (gw_runtime (f2 u)) lease"
      using lease by (auto simp: gw_acquire_lease_def rt_acquire_lease_def rt_lease_valid_def split: if_splits)
    have "gw_execute_interleaved f1 f2 clk a ex g
        = refuse (gw_deny_recorded clk a ''execution lease invalidated before side effect'') (f2 u)"
      for ex :: "action \<Rightarrow> ('w, 'v) prog"
      using False lease auth d True stale
      by (simp add: gw_execute_interleaved_def andthen_def gw_commit_def rt_execute_if_active_eq)
    with assms(1) show ?thesis by (auto simp: denied_def dest!: refuse_deny)
  next
    case no: False
    have "gw_execute_interleaved f1 f2 clk a ex g = (Inr (Refused d), u)" for ex :: "action \<Rightarrow> ('w, 'v) prog"
      using False lease auth d no by (simp add: gw_execute_interleaved_def andthen_def)
    with assms(1) show ?thesis by auto
  qed
qed

definition contain_and_recover :: "'w gateway \<Rightarrow> 'w gateway" where
  "contain_and_recover g =
     (let r = rt_contain (gw_next g) (gw_runtime g)
      in g\<lparr>gw_containment := (gw_containment g)\<lparr>ctl_runtime :=
             runtime_apply (EvRecover (Some (rt_capability r)) (rt_epoch r)) (gw_next g + 1) r\<rparr>,
           gw_next := gw_next g + 2\<rparr>)"

theorem gateway_fence_stops_side_effect_witness:
  "rt_can_execute (gw_runtime (contain_and_recover demo_gateway))
   \<and> (\<exists>d. fst (gw_execute_interleaved contain_and_recover id demo_clock (gateway_action ''agent'')
                demo_tool demo_gateway) = Inr (Refused d))"
proof -
  let ?es = "[EvContain, EvRecover (Some 2) 1]"
  have es: "interferes ?es demo_gateway (contain_and_recover demo_gateway)"
    by (auto simp: interferes_def runs_Cons_iff runtime_step_iff runtime_exec_def gw_system_def
        contain_and_recover_def demo_gateway_def gw_runtime_def mk_controller_def mk_runtime_def
        ctl_attach_egress_def rt_recover_def rt_contain_def Let_def)
  have "interferes [] u (id u)" for u :: "nat gateway"
    by (auto simp: interferes_def gw_system_def)
  moreover have "rt_proof (gw_runtime demo_gateway) < gw_next demo_gateway"
    by (simp add: demo_gateway_def gw_runtime_def mk_controller_def mk_runtime_def ctl_attach_egress_def)
  ultimately have "\<exists>d. fst (gw_execute_interleaved contain_and_recover id demo_clock
      (gateway_action ''agent'') demo_tool demo_gateway) = Inr (Refused d)"
    using gateway_fence_stops_side_effect [where g = demo_gateway and ?f1.0 = contain_and_recover
        and ?f2.0 = id and ?es1.0 = ?es and ?es2.0 = "[]" and executor = demo_tool
        and clk = demo_clock and a = "gateway_action ''agent''"] es
    by (metis (no_types, lifting) append_Nil2 insertI1 list.simps(15) prod.collapse fst_conv)
  then show ?thesis
    by (simp add: contain_and_recover_def demo_gateway_def gw_runtime_def mk_controller_def
        mk_runtime_def ctl_attach_egress_def rt_recover_def rt_contain_def rt_can_execute_def Let_def)
qed

section \<open>The decision trail\<close>

text \<open>
  The history of a sequence of authorizations: complete without a limit, otherwise the last
  decisions, at most the limit.
\<close>

fun authorize_all :: "'w clock \<Rightarrow> action list \<Rightarrow> 'w gateway \<Rightarrow> decision list \<times> 'w gateway" where
  "authorize_all clk [] g = ([], g)"
| "authorize_all clk (a # acts) g =
     (case gw_authorize clk a g of
        (Inl e, g') \<Rightarrow> authorize_all clk acts g'
      | (Inr d, g') \<Rightarrow> (case authorize_all clk acts g' of (ds, g'') \<Rightarrow> (d # ds, g'')))"

definition history_window :: "nat option \<Rightarrow> 'a list \<Rightarrow> 'a list" where
  "history_window limit ds = (case limit of None \<Rightarrow> ds | Some n \<Rightarrow> drop (length ds - n) ds)"

lemma deque_append_window:
  "deque_append n (drop (length xs - n) xs) d = drop (length (xs @ [d]) - n) (xs @ [d])"
  by (cases "n \<le> length xs") (auto simp: deque_append_def drop_Cons' Suc_diff_le)

lemma gw_history_window:
  assumes "gw_history g = history_window (gw_limit g) ds"
  shows "(case authorize_all clk acts g of (ds', g') \<Rightarrow>
            gw_history g' = history_window (gw_limit g) (ds @ ds') \<and> length ds' = length acts)"
  using assms
proof (induction acts arbitrary: g ds)
  case Nil
  then show ?case by simp
next
  case (Cons a acts)
  obtain r u where auth: "gw_authorize clk a g = (r, u)" by fastforce
  from gw_authorize_run [OF auth] obtain d where d: "r = Inr d" "gw_limit u = gw_limit g"
    "gw_history u = (case gw_limit g of None \<Rightarrow> gw_history g @ [d] | Some n \<Rightarrow> deque_append n (gw_history g) d)"
    by metis
  have "gw_history u = history_window (gw_limit u) (ds @ [d])"
    using d Cons.prems by (simp add: history_window_def deque_append_window split: option.split)
  from Cons.IH [OF this] auth d show ?case by (auto split: prod.splits)
qed

text \<open>
  The decision trail.  A gateway whose limit the constructor accepts keeps, after any
  number of authorizations, exactly the decisions returned (no limit) or the last ones, acts
  many as the limit, and never more; nothing else enters the history.
\<close>

theorem gateway_history_bounded:
  assumes "mk_gateway policy containment limit n w = Inr g" and "authorize_all clk acts g = (ds, g')"
  shows "length ds = length acts
     \<and> gw_history g' = (case limit of None \<Rightarrow> ds | Some k \<Rightarrow> drop (length ds - nat k) ds)
     \<and> (\<forall>k. limit = Some k \<longrightarrow> 1 \<le> k \<and> int (length (gw_history g')) = min k (int (length acts)))"
proof -
  from assms(1) have g: "gw_history g = history_window (gw_limit g) []" "gw_limit g = map_option nat limit"
    and "\<forall>k. limit = Some k \<longrightarrow> 1 \<le> k"
    by (auto simp: mk_gateway_def history_window_def split: if_splits option.splits)
  with gw_history_window [OF g(1), where clk = clk and acts = acts] assms(2) show ?thesis
    by (auto simp: history_window_def split: option.splits)
qed

theorem gateway_history_bounded_witness:
  "length (gw_history (snd (authorize_all demo_clock
      [gateway_action ''agent'', gateway_action ''b'', gateway_action ''agent''] demo_gateway))) = 2"
proof -
  let ?acts = "[gateway_action ''agent'', gateway_action ''b'', gateway_action ''agent'']"
  have mk: "mk_gateway default_policy_engine
      (mk_controller (mk_runtime 0 1 2 ''u'' ''agent'' None) {} None None None []) (Some 2) 3 0
      = Inr demo_gateway"
    by (simp add: mk_gateway_def demo_gateway_def)
  from gateway_history_bounded [OF mk prod.collapse [symmetric], of demo_clock ?acts] show ?thesis
    by simp
qed

end
