(* ===== verification/Agent_Tree.thy ===== *)
theory Agent_Tree
  imports Containment_Props "HOL-Library.List_Lexorder" "HOL-Library.Char_ord"
begin

text \<open>
  \<open>agent_tree.py\<close>: the registry of parents and children, spawning with attenuated
  capabilities, and the containment of an agent with all its descendants.

  Every operation holds the tree's lock.  The two traversals are \<open>while\<close> loops over a stack
  whose end is not evident from the loop: they are partial functions to an option, \<open>None\<close>
  being a loop that never ends, and that they end is a theorem.  The head of the list is the
  top of the stack.  Strings are ordered as Python orders them, by their characters' codes.
\<close>

record 'w agent_node =
  nd_agent_id :: string
  nd_parent_id :: "string option"
  nd_containment :: "'w controller"
  nd_children :: "string set"

definition nd_runtime :: "'w agent_node \<Rightarrow> runtime" where
  "nd_runtime n = ctl_runtime (nd_containment n)"

record 'w agent_tree =
  tr_nodes :: "'w agent_node dict"
  tr_next :: obj
  tr_world :: 'w

text \<open>\<open>_require(agent_id)\<close>.\<close>

definition tr_require :: "string \<Rightarrow> ('w agent_tree, 'w agent_node) prog" where
  "tr_require agent_id t =
     (case dict_get (tr_nodes t) agent_id of
        None \<Rightarrow> (Inl (Exn KeyError (''unknown agent: '' @ agent_id)), t)
      | Some n \<Rightarrow> (Inr n, t))"

text \<open>
  A node around \<open>Runtime(agent_id)\<close> and \<open>ContainmentController(runtime, CapabilitySet(...))\<close>,
  stored in the tree; \<open>uuid\<close> yields the text of \<open>uuid.uuid4()\<close>.
\<close>

definition add_node ::
  "('w \<Rightarrow> string \<times> 'w) \<Rightarrow> string \<Rightarrow> string option \<Rightarrow> string set \<Rightarrow> ('w agent_tree, 'w agent_node) prog" where
  "add_node uuid agent_id parent_id capabilities t =
     (case uuid (tr_world t) of (u, w) \<Rightarrow>
        (let p = tr_next t;
             n = \<lparr>nd_agent_id = agent_id, nd_parent_id = parent_id,
                  nd_containment = mk_controller (mk_runtime p (p + 1) (p + 2) u agent_id None)
                                     capabilities None None None [],
                  nd_children = {}\<rparr>
         in (Inr n, t\<lparr>tr_nodes := dict_set agent_id n (tr_nodes t), tr_next := p + 3, tr_world := w\<rparr>)))"

definition tr_absent :: "string \<Rightarrow> ('w agent_tree, unit) prog" where
  "tr_absent agent_id t =
     guarding (dict_get (tr_nodes t) agent_id = None)
       (Exn ValueError (''agent already registered: '' @ agent_id)) t"

definition tr_register_root ::
  "('w \<Rightarrow> string \<times> 'w) \<Rightarrow> string \<Rightarrow> string set option \<Rightarrow> ('w agent_tree, 'w agent_node) prog" where
  "tr_register_root uuid agent_id capabilities =
     andthen (tr_absent agent_id) (\<lambda>_.
     add_node uuid agent_id None (case capabilities of None \<Rightarrow> {} | Some c \<Rightarrow> c))"

text \<open>\<open>inherited &= set(capabilities)\<close> when capabilities are given.\<close>

definition inherited_capabilities :: "'w agent_node \<Rightarrow> string set option \<Rightarrow> string set" where
  "inherited_capabilities parent capabilities =
     (case capabilities of
        None \<Rightarrow> ctl_capabilities (nd_containment parent)
      | Some c \<Rightarrow> ctl_capabilities (nd_containment parent) \<inter> c)"

definition tr_update :: "string \<Rightarrow> ('w agent_node \<Rightarrow> 'w agent_node) \<Rightarrow> 'w agent_tree \<Rightarrow> 'w agent_tree" where
  "tr_update agent_id f t =
     (case dict_get (tr_nodes t) agent_id of
        None \<Rightarrow> t
      | Some n \<Rightarrow> t\<lparr>tr_nodes := dict_set agent_id (f n) (tr_nodes t)\<rparr>)"

definition tr_spawn ::
  "('w \<Rightarrow> string \<times> 'w) \<Rightarrow> string \<Rightarrow> string \<Rightarrow> string set option \<Rightarrow> ('w agent_tree, 'w agent_node) prog" where
  "tr_spawn uuid parent_id child_id capabilities =
     andthen (tr_absent child_id) (\<lambda>_.
     andthen (tr_require parent_id) (\<lambda>parent.
     andthen (guarding (rt_can_execute (nd_runtime parent) \<and> \<not> ctl_contained (nd_containment parent))
                (Exn RuntimeError (''parent agent cannot spawn children: '' @ parent_id))) (\<lambda>_.
     andthen (add_node uuid child_id (Some parent_id) (inherited_capabilities parent capabilities)) (\<lambda>child.
     andthen (modifying (tr_update parent_id (\<lambda>n. n\<lparr>nd_children := insert child_id (nd_children n)\<rparr>))) (\<lambda>_.
     ret child)))))"

text \<open>\<open>current.containment.contain()\<close>.\<close>

definition contain_node :: "'w clock \<Rightarrow> string \<Rightarrow> 'w agent_node \<Rightarrow> 'w agent_tree \<Rightarrow> 'w agent_tree" where
  "contain_node clk agent_id n t =
     (case ctl_contain clk (tr_next t) (nd_containment n) (tr_world t) of
        ((report, c), w) \<Rightarrow>
          t\<lparr>tr_nodes := dict_set agent_id (n\<lparr>nd_containment := c\<rparr>) (tr_nodes t),
            tr_next := tr_next t + 1, tr_world := w\<rparr>)"

text \<open>\<open>sorted(children, reverse=True)\<close>; the stack is extended at its end, so the last is the top.\<close>

definition sorted_descending :: "string set \<Rightarrow> string list" where
  "sorted_descending s = rev (sorted_list_of_set s)"

definition push_all :: "string list \<Rightarrow> string list \<Rightarrow> string list" where
  "push_all xs stack = rev xs @ stack"

partial_function (option) contain_loop ::
  "'w clock \<Rightarrow> string list \<Rightarrow> string list \<Rightarrow> 'w agent_tree \<Rightarrow> ((exn + string list) \<times> 'w agent_tree) option" where
  "contain_loop clk stack visited t =
     (case stack of
        [] \<Rightarrow> Some (Inr visited, t)
      | current_id # rest \<Rightarrow>
          (case tr_require current_id t of
             (Inl e, t') \<Rightarrow> Some (Inl e, t')
           | (Inr n, t') \<Rightarrow>
               contain_loop clk (push_all (sorted_descending (nd_children n)) rest)
                 (visited @ [current_id]) (contain_node clk current_id n t')))"

definition tr_contain ::
  "'w clock \<Rightarrow> string \<Rightarrow> 'w agent_tree \<Rightarrow> ((exn + string list) \<times> 'w agent_tree) option" where
  "tr_contain clk agent_id t =
     (case tr_require agent_id t of
        (Inl e, t') \<Rightarrow> Some (Inl e, t')
      | (Inr root, t') \<Rightarrow> contain_loop clk [nd_agent_id root] [] t')"

text \<open>
  \<open>descendants\<close>: \<open>list(children)\<close> and \<open>extend(children)\<close> take the elements of a set in the
  order \<open>enum\<close> gives, which the language leaves open.
\<close>

partial_function (option) descend_loop ::
  "(string set \<Rightarrow> string list) \<Rightarrow> 'w agent_node dict \<Rightarrow> string list \<Rightarrow> string list \<Rightarrow> (exn + string list) option" where
  "descend_loop enum nodes stack acc =
     (case stack of
        [] \<Rightarrow> Some (Inr acc)
      | child_id # rest \<Rightarrow>
          (case dict_get nodes child_id of
             None \<Rightarrow> Some (Inl (Exn KeyError child_id))
           | Some n \<Rightarrow>
               descend_loop enum nodes (push_all (enum (nd_children n)) rest) (acc @ [child_id])))"

definition tr_descendants ::
  "(string set \<Rightarrow> string list) \<Rightarrow> string \<Rightarrow> 'w agent_tree \<Rightarrow> (exn + string list) option" where
  "tr_descendants enum agent_id t =
     (case tr_require agent_id t of
        (Inl e, t') \<Rightarrow> Some (Inl e)
      | (Inr n, t') \<Rightarrow> descend_loop enum (tr_nodes t') (push_all (enum (nd_children n)) []) [])"

section \<open>The shape of the tree\<close>

definition child_rel :: "'w agent_tree \<Rightarrow> (string \<times> string) set" where
  "child_rel t = {(p, c). \<exists>n. dict_get (tr_nodes t) p = Some n \<and> c \<in> nd_children n}"

text \<open>
  Nodes are stored under their id, have finitely many children, all known, each naming the
  node as its parent; and the parent relation has no cycle.
\<close>

definition tree_ok :: "'w agent_tree \<Rightarrow> bool" where
  "tree_ok t \<longleftrightarrow>
     (\<forall>a n. dict_get (tr_nodes t) a = Some n \<longrightarrow> nd_agent_id n = a \<and> finite (nd_children n)
        \<and> (\<forall>p. nd_parent_id n = Some p \<longrightarrow> (p, a) \<in> child_rel t)
        \<and> (\<forall>c \<in> nd_children n. \<exists>m. dict_get (tr_nodes t) c = Some m \<and> nd_parent_id m = Some a))
     \<and> acyclic (child_rel t)"

lemma child_rel_known: "tree_ok t \<Longrightarrow> (p, c) \<in> child_rel t \<Longrightarrow> \<exists>m. dict_get (tr_nodes t) c = Some m \<and> nd_parent_id m = Some p"
  unfolding tree_ok_def child_rel_def by blast

lemma child_rel_unique: "tree_ok t \<Longrightarrow> (p, c) \<in> child_rel t \<Longrightarrow> (q, c) \<in> child_rel t \<Longrightarrow> p = q"
  using child_rel_known [of t p c] child_rel_known [of t q c] by auto

text \<open>The agent and all its descendants.\<close>

definition subtree :: "'w agent_tree \<Rightarrow> string \<Rightarrow> string set" where
  "subtree t a = (child_rel t)\<^sup>* `` {a}"

lemma known_finite: "finite {a. dict_get d a \<noteq> None}"
  using finite_dom_map_of [of d] by (simp add: dict_get_def dom_def)

lemma subtree_known:
  assumes "tree_ok t" and "dict_get (tr_nodes t) a \<noteq> None" and "b \<in> subtree t a"
  shows "dict_get (tr_nodes t) b \<noteq> None"
proof -
  from assms(3) have "(a, b) \<in> (child_rel t)\<^sup>*" by (simp add: subtree_def)
  then show ?thesis
    by (cases rule: rtranclE) (use assms(1,2) child_rel_known in \<open>fastforce+\<close>)
qed

section \<open>The traversal\<close>

text \<open>Every agent of the order but \<open>a\<close> comes after its parent.\<close>

definition parents_first :: "'w agent_tree \<Rightarrow> string \<Rightarrow> string list \<Rightarrow> bool" where
  "parents_first t a order \<longleftrightarrow>
     (\<forall>before c after. order = before @ c # after \<longrightarrow> c = a \<or> (\<exists>p \<in> set before. (p, c) \<in> child_rel t))"

lemma parents_first_snoc:
  assumes "parents_first t a order" and "x = a \<or> (\<exists>p \<in> set order. (p, x) \<in> child_rel t)"
  shows "parents_first t a (order @ [x])"
  unfolding parents_first_def
proof (intro allI impI)
  fix before c after
  assume "order @ [x] = before @ c # after"
  then show "c = a \<or> (\<exists>p \<in> set before. (p, c) \<in> child_rel t)"
    using assms by (cases after rule: rev_cases) (auto simp: parents_first_def)
qed

text \<open>
  The state of both loops over the subtree of \<open>a\<close>: what is visited or waiting is distinct
  and of the subtree, everything of it is below something waiting or visited, and everything
  but \<open>a\<close> itself was pushed by its parent.
\<close>

definition walking :: "'w agent_tree \<Rightarrow> string \<Rightarrow> string list \<Rightarrow> string list \<Rightarrow> bool" where
  "walking t a stack visited \<longleftrightarrow>
     distinct (visited @ stack) \<and> parents_first t a visited \<and> a \<in> set visited \<union> set stack
     \<and> set visited \<union> set stack \<subseteq> subtree t a
     \<and> (\<forall>x \<in> set visited \<union> set stack. x \<noteq> a \<longrightarrow> (\<exists>p \<in> set visited. (p, x) \<in> child_rel t))
     \<and> (\<forall>p \<in> set visited. \<forall>c. (p, c) \<in> child_rel t \<longrightarrow> c \<in> set visited \<union> set stack)"

lemma walking_start: "walking t a [a] []"
  by (simp add: walking_def subtree_def parents_first_def)

lemma walking_end:
  assumes "walking t a [] visited"
  shows "distinct visited \<and> parents_first t a visited \<and> set visited = subtree t a"
proof -
  have "b \<in> set visited" if "(a, b) \<in> (child_rel t)\<^sup>*" for b
    using that assms by (induction) (auto simp: walking_def)
  with assms show ?thesis by (auto simp: walking_def subtree_def)
qed

lemma walking_step:
  assumes ok: "tree_ok t" and w: "walking t a (x # rest) visited"
    and kids: "distinct kids" "set kids = {c. (x, c) \<in> child_rel t}"
  shows "walking t a (kids @ rest) (visited @ [x])"
proof -
  have sub: "(a, x) \<in> (child_rel t)\<^sup>*" using w by (auto simp: walking_def subtree_def)
  have fresh: "c \<notin> set visited \<union> set (x # rest)" if c: "(x, c) \<in> child_rel t" for c
  proof
    assume "c \<in> set visited \<union> set (x # rest)"
    then consider "c = a" | p where "p \<in> set visited" "(p, c) \<in> child_rel t"
      using w unfolding walking_def by blast
    then show False
    proof cases
      case 1
      with sub c have "(a, a) \<in> (child_rel t)\<^sup>+" by auto
      with ok show False by (auto simp: tree_ok_def acyclic_def)
    next
      case (2 p)
      with child_rel_unique [OF ok c] have "x \<in> set visited" by auto
      with w show False by (auto simp: walking_def)
    qed
  qed
  have "set kids \<subseteq> subtree t a"
    using kids sub by (auto simp: subtree_def intro: rtrancl_into_rtrancl)
  moreover have "parents_first t a (visited @ [x])"
    using w by (intro parents_first_snoc) (auto simp: walking_def)
  ultimately show ?thesis using w kids fresh unfolding walking_def by auto
qed

lemma subtree_finite:
  assumes "tree_ok t" and "dict_get (tr_nodes t) a \<noteq> None"
  shows "finite (subtree t a)"
proof (rule finite_subset [OF _ known_finite])
  show "subtree t a \<subseteq> {b. dict_get (tr_nodes t) b \<noteq> None}"
    using subtree_known [OF assms] by blast
qed

text \<open>Waiting nodes leave room: the number of nodes still to visit decreases.\<close>

lemma walking_room:
  assumes "tree_ok t" and "dict_get (tr_nodes t) a \<noteq> None" and "walking t a (x # rest) visited"
  shows "length visited < card (subtree t a)"
proof -
  have len: "card (set (visited @ x # rest)) = length (visited @ x # rest)"
    using assms(3) by (intro distinct_card) (simp add: walking_def)
  have "set (visited @ x # rest) \<subseteq> subtree t a"
    using assms(3) by (simp add: walking_def)
  from card_mono [OF subtree_finite [OF assms(1,2)] this] show ?thesis
    unfolding len by simp
qed

lemma kids_of_node:
  "dict_get (tr_nodes t) x = Some n \<Longrightarrow> nd_children n = {c. (x, c) \<in> child_rel t}"
  by (auto simp: child_rel_def)

section \<open>Containing a subtree\<close>

definition contained_from :: "'w agent_node \<Rightarrow> 'w agent_node \<Rightarrow> bool" where
  "contained_from n n' \<longleftrightarrow>
     rt_state (nd_runtime n') = CONTAINED \<and> rt_epoch (nd_runtime n') = rt_epoch (nd_runtime n) + 1
     \<and> ctl_capabilities (nd_containment n') = {} \<and> nd_agent_id n' = nd_agent_id n
     \<and> rt_agent_id (nd_runtime n') = rt_agent_id (nd_runtime n)
     \<and> nd_parent_id n' = nd_parent_id n \<and> nd_children n' = nd_children n"

lemma contain_node_get:
  assumes "dict_get (tr_nodes t) x = Some n"
  shows "\<exists>n'. contained_from n n'
     \<and> (\<forall>b. dict_get (tr_nodes (contain_node clk x n t)) b = (if b = x then Some n' else dict_get (tr_nodes t) b))"
proof -
  let ?r = "ctl_contain clk (tr_next t) (nd_containment n) (tr_world t)"
  have "contained_from n (n\<lparr>nd_containment := snd (fst ?r)\<rparr>)"
    by (simp add: contained_from_def nd_runtime_def frame)
  moreover have "dict_get (tr_nodes (contain_node clk x n t)) b
      = (if b = x then Some (n\<lparr>nd_containment := snd (fst ?r)\<rparr>) else dict_get (tr_nodes t) b)" for b
    by (simp add: contain_node_def split: prod.split)
  ultimately show ?thesis by blast
qed

text \<open>The shape depends only on ids, parents and children.\<close>

lemma tree_ok_similar:
  assumes "\<And>b. rel_option (\<lambda>n m. nd_agent_id m = nd_agent_id n \<and> nd_parent_id m = nd_parent_id n
             \<and> nd_children m = nd_children n) (dict_get (tr_nodes t) b) (dict_get (tr_nodes u) b)"
    and rel: "child_rel u = child_rel t"
  shows "tree_ok u \<longleftrightarrow> tree_ok t"
proof -
  have get: "(\<exists>m. dict_get (tr_nodes u) b = Some m \<and> P (nd_agent_id m) (nd_parent_id m) (nd_children m))
      \<longleftrightarrow> (\<exists>m. dict_get (tr_nodes t) b = Some m \<and> P (nd_agent_id m) (nd_parent_id m) (nd_children m))" for b P
    using assms(1) [of b] by (auto elim: option.rel_cases)
  have all: "(\<forall>m. dict_get (tr_nodes u) b = Some m \<longrightarrow> P (nd_agent_id m) (nd_parent_id m) (nd_children m))
      \<longleftrightarrow> (\<forall>m. dict_get (tr_nodes t) b = Some m \<longrightarrow> P (nd_agent_id m) (nd_parent_id m) (nd_children m))" for b P
    using assms(1) [of b] by (auto elim: option.rel_cases)
  have kids: "(\<exists>m. dict_get (tr_nodes u) c = Some m \<and> nd_parent_id m = Some a)
      \<longleftrightarrow> (\<exists>m. dict_get (tr_nodes t) c = Some m \<and> nd_parent_id m = Some a)" for a c
    using get [of c "\<lambda>_ p _. p = Some a"] by simp
  show ?thesis
    unfolding tree_ok_def rel kids
    using all [of _ "\<lambda>i p cs. i = _ \<and> finite cs \<and> (\<forall>q. p = Some q \<longrightarrow> (q, _) \<in> child_rel t)
        \<and> (\<forall>c \<in> cs. \<exists>m. dict_get (tr_nodes t) c = Some m \<and> nd_parent_id m = Some _)"]
    by simp
qed

lemma contain_node_shape:
  assumes "dict_get (tr_nodes t) x = Some n"
  shows "child_rel (contain_node clk x n t) = child_rel t"
    and "tree_ok (contain_node clk x n t) \<longleftrightarrow> tree_ok t"
proof -
  from contain_node_get [OF assms] obtain n' where n': "contained_from n n'"
    "\<And>b. dict_get (tr_nodes (contain_node clk x n t)) b = (if b = x then Some n' else dict_get (tr_nodes t) b)"
    by blast
  show rel: "child_rel (contain_node clk x n t) = child_rel t"
    using n' assms by (auto simp: child_rel_def contained_from_def split: if_splits)
  show "tree_ok (contain_node clk x n t) \<longleftrightarrow> tree_ok t"
    by (rule tree_ok_similar [OF _ rel])
       (use n' assms in \<open>auto simp: contained_from_def intro: option.rel_refl\<close>)
qed

lemma contain_loop_ends:
  assumes "tree_ok t" and "dict_get (tr_nodes t) a \<noteq> None" and "walking t a stack visited"
  shows "\<exists>order t'. contain_loop clk stack visited t = Some (Inr (visited @ order), t')
    \<and> walking t a [] (visited @ order)
    \<and> (\<forall>b. rel_option (if b \<in> set order then contained_from else (=))
             (dict_get (tr_nodes t) b) (dict_get (tr_nodes t') b))"
  using assms
proof (induction "card (subtree t a) - length visited" arbitrary: t stack visited rule: less_induct)
  case less
  show ?case
  proof (cases stack)
    case Nil
    with less.prems show ?thesis
      by (intro exI [of _ "[]"]) (auto simp: contain_loop.simps option.rel_refl)
  next
    case (Cons x rest)
    have "x \<in> subtree t a" using less.prems(3) Cons by (simp add: walking_def)
    then obtain n where n: "dict_get (tr_nodes t) x = Some n"
      using subtree_known [OF less.prems(1,2)] by auto
    let ?t = "contain_node clk x n t"
    let ?kids = "push_all (sorted_descending (nd_children n)) []"
    note shape = contain_node_shape [OF n, of clk]
    have "finite (nd_children n)" using less.prems(1) n by (auto simp: tree_ok_def)
    then have kids: "distinct ?kids" "set ?kids = {c. (x, c) \<in> child_rel t}"
      using kids_of_node [OF n] by (simp_all add: push_all_def sorted_descending_def)
    have same: "walking ?t a = walking t a" "subtree ?t a = subtree t a"
      by (intro ext) (simp_all add: walking_def subtree_def parents_first_def shape)
    have "walking t a (?kids @ rest) (visited @ [x])"
      using less.prems(1,3) kids Cons by (intro walking_step) auto
    then have walk: "walking ?t a (push_all (sorted_descending (nd_children n)) rest) (visited @ [x])"
      by (simp add: same push_all_def)
    from contain_node_get [OF n, of clk] obtain n' where n': "contained_from n n'"
      "\<And>b. dict_get (tr_nodes ?t) b = (if b = x then Some n' else dict_get (tr_nodes t) b)" by blast
    have "card (subtree ?t a) - length (visited @ [x]) < card (subtree t a) - length visited"
      using walking_room [OF less.prems(1,2)] less.prems(3) Cons same by fastforce
    moreover have "dict_get (tr_nodes ?t) a \<noteq> None" using less.prems(2) n' by simp
    ultimately obtain order t' where
      ih: "contain_loop clk (push_all (sorted_descending (nd_children n)) rest) (visited @ [x]) ?t
             = Some (Inr ((visited @ [x]) @ order), t')"
        "walking ?t a [] ((visited @ [x]) @ order)"
        "\<And>b. rel_option (if b \<in> set order then contained_from else (=))
             (dict_get (tr_nodes ?t) b) (dict_get (tr_nodes t') b)"
      using less.hyps [OF _ _ _ walk] less.prems(1) shape(2) by metis
    have "x \<notin> set order" using ih(2) by (simp add: walking_def)
    then have "rel_option (if b \<in> set (x # order) then contained_from else (=))
             (dict_get (tr_nodes t) b) (dict_get (tr_nodes t') b)" for b
      using ih(3) [of b] n' n by (auto simp: option_rel_Some1 split: if_splits)
    moreover have "contain_loop clk stack visited t = Some (Inr (visited @ (x # order)), t')"
      using ih(1) n Cons by (simp add: contain_loop.simps [of clk "x # rest"] tr_require_def)
    ultimately show ?thesis using ih(2) same by (intro exI [of _ "x # order"] exI [of _ t']) simp
  qed
qed

text \<open>
  C19: Containment of a tree ends and covers exactly the subtree.  On a well-formed tree the
  loop stops.  For a known agent it returns each agent of the subtree exactly once, a parent before
  its children; each of their runtimes is CONTAINED one epoch later and without capabilities, and no other node
  changes.  For an unknown agent it raises and changes nothing.
\<close>

theorem contain_covers_subtree:
  assumes "tree_ok t"
  shows "\<exists>r t'. tr_contain clk a t = Some (r, t')
     \<and> (case dict_get (tr_nodes t) a of
          None \<Rightarrow> r = Inl (Exn KeyError (''unknown agent: '' @ a)) \<and> t' = t
        | Some root \<Rightarrow> (\<exists>order. r = Inr order \<and> distinct order \<and> set order = subtree t a
            \<and> parents_first t a order
            \<and> (\<forall>b. rel_option (if b \<in> subtree t a then contained_from else (=))
                     (dict_get (tr_nodes t) b) (dict_get (tr_nodes t') b))))"
proof (cases "dict_get (tr_nodes t) a")
  case None
  then show ?thesis by (simp add: tr_contain_def tr_require_def)
next
  case (Some root)
  then have "nd_agent_id root = a" using assms by (simp add: tree_ok_def)
  moreover from contain_loop_ends [OF assms _ walking_start, of a clk] Some obtain order t' where
    "contain_loop clk [a] [] t = Some (Inr order, t')" "walking t a [] order"
    "\<forall>b. rel_option (if b \<in> set order then contained_from else (=))
             (dict_get (tr_nodes t) b) (dict_get (tr_nodes t') b)" by auto
  ultimately show ?thesis
    using walking_end [of t a order] Some by (auto simp: tr_contain_def tr_require_def)
qed

text \<open>\<open>descendants\<close> visits the same nodes without the agent itself, in whatever order sets enumerate.\<close>

lemma descend_loop_ends:
  assumes ok: "tree_ok t" and known: "dict_get (tr_nodes t) a \<noteq> None"
    and enum: "\<And>s. finite s \<Longrightarrow> distinct (enum s) \<and> set (enum s) = s"
    and "walking t a stack (a # acc)"
  shows "\<exists>order. descend_loop enum (tr_nodes t) stack acc = Some (Inr order) \<and> walking t a [] (a # order)"
  using assms(4)
proof (induction "card (subtree t a) - length acc" arbitrary: stack acc rule: less_induct)
  case less
  show ?case
  proof (cases stack)
    case Nil
    with less.prems show ?thesis by (simp add: descend_loop.simps)
  next
    case (Cons x rest)
    have "x \<in> subtree t a" using less.prems Cons by (simp add: walking_def)
    then obtain n where n: "dict_get (tr_nodes t) x = Some n" using subtree_known [OF ok known] by auto
    then have "finite (nd_children n)" using ok by (auto simp: tree_ok_def)
    with enum kids_of_node [OF n] have kids: "distinct (push_all (enum (nd_children n)) [])"
      "set (push_all (enum (nd_children n)) []) = {c. (x, c) \<in> child_rel t}" by (simp_all add: push_all_def)
    have walk: "walking t a (push_all (enum (nd_children n)) rest) (a # acc @ [x])"
      using walking_step [OF ok _ kids, of a rest "a # acc"] less.prems Cons by (simp add: push_all_def)
    have "card (subtree t a) - length (acc @ [x]) < card (subtree t a) - length acc"
      using walking_room [OF ok known] less.prems Cons by fastforce
    from less.hyps [OF this walk] n Cons show ?thesis by (simp add: descend_loop.simps [of _ _ "x # rest"])
  qed
qed

lemma descendants_exact:
  assumes "tree_ok t" and "dict_get (tr_nodes t) a = Some n"
    and enum: "\<And>s. finite s \<Longrightarrow> distinct (enum s) \<and> set (enum s) = s"
  shows "\<exists>order. tr_descendants enum a t = Some (Inr order) \<and> distinct order \<and> set order = subtree t a - {a}"
proof -
  have "finite (nd_children n)" using assms(1,2) by (auto simp: tree_ok_def)
  with enum kids_of_node [OF assms(2)] have kids: "distinct (push_all (enum (nd_children n)) [])"
    "set (push_all (enum (nd_children n)) []) = {c. (a, c) \<in> child_rel t}" by (simp_all add: push_all_def)
  from walking_step [OF assms(1) walking_start kids]
  have "walking t a (push_all (enum (nd_children n)) []) [a]" by simp
  with descend_loop_ends [OF assms(1) _ enum] assms(2) obtain order where
    "descend_loop enum (tr_nodes t) (push_all (enum (nd_children n)) []) [] = Some (Inr order)"
    "walking t a [] (a # order)" by fastforce
  moreover have "distinct (a # order)" "set (a # order) = subtree t a"
    using walking_end [OF calculation(2)] by simp_all
  ultimately show ?thesis using assms(2) by (auto simp: tr_descendants_def tr_require_def)
qed

section \<open>Every tree the operations build\<close>

datatype tree_event =
    RegisterRoot string "string set option" | Spawn string string "string set option" | ContainAgent string

text \<open>One call; one that raises may have read the world.\<close>

inductive tree_step ::
  "'w clock \<Rightarrow> ('w \<Rightarrow> string \<times> 'w) \<Rightarrow> 'w agent_tree \<Rightarrow> tree_event \<Rightarrow> 'w agent_tree \<Rightarrow> bool"
  for clk :: "'w clock" and uuid :: "'w \<Rightarrow> string \<times> 'w" where
  step_root: "tr_register_root uuid a caps t = (r, t') \<Longrightarrow> tree_step clk uuid t (RegisterRoot a caps) t'"
| step_spawn: "tr_spawn uuid p c caps t = (r, t') \<Longrightarrow> tree_step clk uuid t (Spawn p c caps) t'"
| step_contain: "tr_contain clk a t = Some (r, t') \<Longrightarrow> tree_step clk uuid t (ContainAgent a) t'"

inductive_cases tree_step_rootE: "tree_step clk uuid t (RegisterRoot a caps) t'"
inductive_cases tree_step_spawnE: "tree_step clk uuid t (Spawn p c caps) t'"
inductive_cases tree_step_containE: "tree_step clk uuid t (ContainAgent a) t'"

text \<open>
  The invariant: the shape; a child has no capability its parent lacks; and no child of a
  contained agent is anything but contained.
\<close>

definition attenuated :: "'w agent_tree \<Rightarrow> bool" where
  "attenuated t \<longleftrightarrow>
     (\<forall>p c n m. (p, c) \<in> child_rel t \<longrightarrow> dict_get (tr_nodes t) p = Some n \<longrightarrow> dict_get (tr_nodes t) c = Some m \<longrightarrow>
        ctl_capabilities (nd_containment m) \<subseteq> ctl_capabilities (nd_containment n)
        \<and> (ctl_contained (nd_containment n) \<longrightarrow> ctl_contained (nd_containment m)))"

definition empty_tree :: "'w \<Rightarrow> 'w agent_tree" where
  "empty_tree w = \<lparr>tr_nodes = [], tr_next = 0, tr_world = w\<rparr>"

lemma empty_tree_ok: "tree_ok (empty_tree w) \<and> attenuated (empty_tree w)"
  by (simp add: tree_ok_def attenuated_def empty_tree_def child_rel_def acyclic_def)

lemma add_node_run:
  assumes "add_node uuid a parent caps t = (r, t')"
  shows "\<exists>n. r = Inr n \<and> nd_agent_id n = a \<and> nd_parent_id n = parent \<and> nd_children n = {}
     \<and> ctl_capabilities (nd_containment n) = caps \<and> \<not> ctl_contained (nd_containment n)
     \<and> tr_nodes t' = dict_set a n (tr_nodes t)"
  using assms
  by (auto simp: add_node_def Let_def mk_controller_def mk_runtime_def ctl_contained_def split: prod.splits)

lemma register_root_keeps:
  assumes "tr_register_root uuid a caps t = (r, t')" and "tree_ok t" and "attenuated t"
  shows "tree_ok t' \<and> attenuated t'"
proof (cases "dict_get (tr_nodes t) a")
  case (Some n)
  with assms show ?thesis
    by (auto simp: tr_register_root_def tr_absent_def run_rules)
next
  case None
  with assms(1) have "add_node uuid a None (case caps of None \<Rightarrow> {} | Some c \<Rightarrow> c) t = (r, t')"
    by (auto simp: tr_register_root_def tr_absent_def run_rules)
  from add_node_run [OF this] obtain n where n: "nd_agent_id n = a" "nd_parent_id n = None"
    "nd_children n = {}" "tr_nodes t' = dict_set a n (tr_nodes t)" by blast
  have rel: "child_rel t' = child_rel t" using n None by (auto simp: child_rel_def split: if_splits)
  have absent: "(p, a) \<notin> child_rel t" "(a, p) \<notin> child_rel t" for p
    using child_rel_known [OF assms(2), of p a] None by (auto simp: child_rel_def)
  have childless: "a \<notin> nd_children m" if "dict_get (tr_nodes t) p = Some m" for p m
    using absent(1) [of p] that by (auto simp: child_rel_def)
  have "tree_ok t'"
    using assms(2) n None absent childless unfolding tree_ok_def rel by (auto split: if_splits)
  moreover have "attenuated t'"
    using assms(3) n absent unfolding attenuated_def rel by (auto split: if_splits)
  ultimately show ?thesis by blast
qed

lemma spawn_run:
  assumes "tr_spawn uuid p c caps t = (r, t')"
  shows "tr_nodes t' = tr_nodes t
     \<or> (\<exists>n m. dict_get (tr_nodes t) c = None \<and> dict_get (tr_nodes t) p = Some n \<and> p \<noteq> c
          \<and> rt_can_execute (nd_runtime n) \<and> \<not> ctl_contained (nd_containment n)
          \<and> nd_agent_id m = c \<and> nd_parent_id m = Some p \<and> nd_children m = {}
          \<and> ctl_capabilities (nd_containment m) = inherited_capabilities n caps
          \<and> (\<forall>b. dict_get (tr_nodes t') b = (if b = p then Some (n\<lparr>nd_children := insert c (nd_children n)\<rparr>)
                else if b = c then Some m else dict_get (tr_nodes t) b)))"
proof -
  show ?thesis
  proof (cases "\<exists>n. dict_get (tr_nodes t) c = None \<and> dict_get (tr_nodes t) p = Some n
      \<and> rt_can_execute (nd_runtime n) \<and> \<not> ctl_contained (nd_containment n)")
    case True
    then obtain n where n: "dict_get (tr_nodes t) c = None" "dict_get (tr_nodes t) p = Some n"
      "rt_can_execute (nd_runtime n)" "\<not> ctl_contained (nd_containment n)" by blast
    obtain v u where add: "add_node uuid c (Some p) (inherited_capabilities n caps) t = (v, u)" by fastforce
    from add_node_run [OF this] obtain m where m: "v = Inr m" "nd_agent_id m = c" "nd_parent_id m = Some p"
      "nd_children m = {}" "ctl_capabilities (nd_containment m) = inherited_capabilities n caps"
      "tr_nodes u = dict_set c m (tr_nodes t)" by blast
    have "t' = tr_update p (\<lambda>n. n\<lparr>nd_children := insert c (nd_children n)\<rparr>) u"
      using assms n add m(1) by (auto simp: tr_spawn_def tr_absent_def tr_require_def run_rules)
    with n m show ?thesis by (intro disjI2 exI [of _ n] exI [of _ m]) (auto simp: tr_update_def)
  next
    case False
    with assms have "tr_nodes t' = tr_nodes t"
      by (auto simp: tr_spawn_def tr_absent_def tr_require_def run_rules split: option.splits if_splits)
    then show ?thesis ..
  qed
qed

lemma spawn_keeps:
  assumes "tr_spawn uuid p c caps t = (r, t')" and "tree_ok t" and "attenuated t"
  shows "tree_ok t' \<and> attenuated t'"
proof (cases "tr_nodes t' = tr_nodes t")
  case True
  with assms(2,3) show ?thesis by (simp add: tree_ok_def attenuated_def child_rel_def)
next
  case False
  with spawn_run [OF assms(1)] obtain n m where none: "dict_get (tr_nodes t) c = None" "dict_get (tr_nodes t) p = Some n"
    "p \<noteq> c" "\<not> ctl_contained (nd_containment n)" "nd_agent_id m = c" "nd_parent_id m = Some p" "nd_children m = {}"
    "ctl_capabilities (nd_containment m) = inherited_capabilities n caps"
    and get: "\<And>b. dict_get (tr_nodes t') b = (if b = p then Some (n\<lparr>nd_children := insert c (nd_children n)\<rparr>)
                else if b = c then Some m else dict_get (tr_nodes t) b)" by blast
  have rel: "child_rel t' = insert (p, c) (child_rel t)"
    using get none by (auto simp: child_rel_def split: if_splits)
  have absent: "(q, c) \<notin> child_rel t" "(c, q) \<notin> child_rel t" for q
    using child_rel_known [OF assms(2), of q c] none(1) by (auto simp: child_rel_def)
  have childless: "c \<notin> nd_children k" if "dict_get (tr_nodes t) q = Some k" for q k
    using absent(1) [of q] that by (auto simp: child_rel_def)
  have "(c, p) \<notin> (child_rel t)\<^sup>*"
    using absent(2) none(3) by (auto elim: converse_rtranclE)
  then have "acyclic (child_rel t')" using assms(2) by (simp add: rel acyclic_insert tree_ok_def)
  moreover have "nd_agent_id k = b \<and> finite (nd_children k)
        \<and> (\<forall>q. nd_parent_id k = Some q \<longrightarrow> (q, b) \<in> child_rel t')
        \<and> (\<forall>x \<in> nd_children k. \<exists>y. dict_get (tr_nodes t') x = Some y \<and> nd_parent_id y = Some b)"
    if "dict_get (tr_nodes t') b = Some k" for b k
  proof -
    consider "b = p" | "b = c" | "b \<noteq> p" "b \<noteq> c" by blast
    then show ?thesis
    proof cases
      case 1
      have old: "nd_agent_id n = p" "finite (nd_children n)"
        "\<And>q. nd_parent_id n = Some q \<Longrightarrow> (q, p) \<in> child_rel t"
        "\<And>x. x \<in> nd_children n \<Longrightarrow> \<exists>y. dict_get (tr_nodes t) x = Some y \<and> nd_parent_id y = Some p"
        using assms(2) none(2) by (auto simp: tree_ok_def)
      have "\<exists>y. dict_get (tr_nodes t') x = Some y \<and> nd_parent_id y = Some p" if "x \<in> nd_children n" for x
        using old(4) [OF that] none get by (cases "x = p") auto
      moreover have "k = n\<lparr>nd_children := insert c (nd_children n)\<rparr>" using that get 1 by simp
      ultimately show ?thesis using old none get 1 by (auto simp: rel)
    next
      case 2
      with that none get show ?thesis by (auto simp: rel)
    next
      case 3
      with that get have old: "dict_get (tr_nodes t) b = Some k" by simp
      with childless have "c \<notin> nd_children k" by blast
      with assms(2) old 3 get none(2) show ?thesis unfolding tree_ok_def rel by (fastforce split: if_splits)
    qed
  qed
  ultimately have "tree_ok t'" unfolding tree_ok_def by blast
  moreover have "attenuated t'"
    unfolding attenuated_def
  proof (intro allI impI)
    fix q x k l
    assume edge: "(q, x) \<in> child_rel t'" and k: "dict_get (tr_nodes t') q = Some k" and l: "dict_get (tr_nodes t') x = Some l"
    show "ctl_capabilities (nd_containment l) \<subseteq> ctl_capabilities (nd_containment k)
        \<and> (ctl_contained (nd_containment k) \<longrightarrow> ctl_contained (nd_containment l))"
    proof (cases "(q, x) \<in> child_rel t")
      case True
      with absent have "x \<noteq> c" "q \<noteq> c" by auto
      with k l get none(2) obtain k' l' where "dict_get (tr_nodes t) q = Some k'" "dict_get (tr_nodes t) x = Some l'"
        "nd_containment k = nd_containment k'" "nd_containment l = nd_containment l'"
        by (auto split: if_splits)
      with True assms(3) show ?thesis unfolding attenuated_def by metis
    next
      case False
      with edge rel have "q = p" "x = c" by auto
      with k l get none show ?thesis
        by (auto simp: inherited_capabilities_def split: option.splits if_splits)
    qed
  qed
  ultimately show ?thesis by blast
qed

lemma contain_keeps:
  assumes "tr_contain clk a t = Some (r, t')" and "tree_ok t" and "attenuated t"
  shows "tree_ok t' \<and> attenuated t'"
proof (cases "dict_get (tr_nodes t) a")
  case None
  with assms show ?thesis by (auto simp: tr_contain_def tr_require_def)
next
  case (Some root)
  then have "nd_agent_id root = a" using assms(2) by (simp add: tree_ok_def)
  with contain_loop_ends [OF assms(2) _ walking_start, of a clk] Some assms(1) obtain order where
    walk: "walking t a [] order"
    and get: "\<And>b. rel_option (if b \<in> set order then contained_from else (=))
             (dict_get (tr_nodes t) b) (dict_get (tr_nodes t') b)"
    by (auto simp: tr_contain_def tr_require_def)
  have order: "set order = subtree t a" using walking_end [OF walk] by simp
  have kin: "rel_option (\<lambda>n m. nd_agent_id m = nd_agent_id n \<and> nd_parent_id m = nd_parent_id n
      \<and> nd_children m = nd_children n) (dict_get (tr_nodes t) b) (dict_get (tr_nodes t') b)" for b
    by (rule option.rel_mono_strong [OF get]) (auto simp: contained_from_def split: if_splits)
  have rel: "child_rel t' = child_rel t"
  proof -
    have "(p, c) \<in> child_rel t' \<longleftrightarrow> (p, c) \<in> child_rel t" for p c
      using kin [of p] by (auto simp: child_rel_def option_rel_Some1 option_rel_Some2)
    then show ?thesis by auto
  qed
  have "attenuated t'"
    unfolding attenuated_def rel
  proof (intro allI impI)
    fix p c n' m'
    assume edge: "(p, c) \<in> child_rel t" and n': "dict_get (tr_nodes t') p = Some n'" and m': "dict_get (tr_nodes t') c = Some m'"
    from get [of p] get [of c] n' m' obtain n m where n: "dict_get (tr_nodes t) p = Some n" "dict_get (tr_nodes t) c = Some m"
      "(if p \<in> set order then contained_from else (=)) n n'" "(if c \<in> set order then contained_from else (=)) m m'"
      by (auto simp: option_rel_Some2)
    have "p \<in> set order \<Longrightarrow> c \<in> set order"
      using edge by (auto simp: order subtree_def intro: rtrancl_into_rtrancl)
    moreover have "ctl_capabilities (nd_containment m) \<subseteq> ctl_capabilities (nd_containment n)
        \<and> (ctl_contained (nd_containment n) \<longrightarrow> ctl_contained (nd_containment m))"
      using assms(3) edge n(1,2) unfolding attenuated_def by blast
    ultimately show "ctl_capabilities (nd_containment m') \<subseteq> ctl_capabilities (nd_containment n')
        \<and> (ctl_contained (nd_containment n') \<longrightarrow> ctl_contained (nd_containment m'))"
      using n(3,4) by (auto simp: contained_from_def ctl_contained_def nd_runtime_def split: if_splits)
  qed
  with tree_ok_similar [OF kin rel] assms(2) show ?thesis by simp
qed

lemma tree_step_keeps: "tree_step clk uuid t e t' \<Longrightarrow> tree_ok t \<and> attenuated t \<Longrightarrow> tree_ok t' \<and> attenuated t'"
  by (induction rule: tree_step.induct) (blast dest: register_root_keeps spawn_keeps contain_keeps)+

lemma reachable_tree_ok:
  assumes "runs (tree_step clk uuid) (empty_tree w) es t"
  shows "tree_ok t \<and> attenuated t"
  using assms empty_tree_ok tree_step_keeps by (rule runs_invariant)

text \<open>
  C20: Capabilities only shrink down the tree, and containment reaches every descendant.  In
  every tree the operations build from the empty one, whatever they are called with, the agents
  form a forest: no agent is below itself and none is the child of two; an agent
  has no capability that an ancestor of it lacks, and a descendant of a contained agent is
  contained.
\<close>

theorem tree_attenuates:
  assumes "runs (tree_step clk uuid) (empty_tree w) es t"
    and "(a, b) \<in> (child_rel t)\<^sup>*"
    and "dict_get (tr_nodes t) a = Some n" and "dict_get (tr_nodes t) b = Some m"
  shows "ctl_capabilities (nd_containment m) \<subseteq> ctl_capabilities (nd_containment n)
     \<and> (ctl_contained (nd_containment n) \<longrightarrow> ctl_contained (nd_containment m) \<and> \<not> rt_can_execute (nd_runtime m))
     \<and> acyclic (child_rel t) \<and> (\<forall>p q c. (p, c) \<in> child_rel t \<longrightarrow> (q, c) \<in> child_rel t \<longrightarrow> p = q)"
proof -
  have inv: "tree_ok t \<and> attenuated t"
    using assms(1) by (rule reachable_tree_ok)
  have "ctl_capabilities (nd_containment m) \<subseteq> ctl_capabilities (nd_containment n)
     \<and> (ctl_contained (nd_containment n) \<longrightarrow> ctl_contained (nd_containment m))"
    using assms(2,4)
  proof (induction arbitrary: m)
    case base
    with assms(3) show ?case by simp
  next
    case (step b c)
    from step.hyps(2) obtain k where "dict_get (tr_nodes t) b = Some k" by (auto simp: child_rel_def)
    with step inv show ?case unfolding attenuated_def by blast
  qed
  moreover have "acyclic (child_rel t)" using inv by (simp add: tree_ok_def)
  ultimately show ?thesis
    using child_rel_unique [of t] inv by (auto simp: ctl_contained_def rt_can_execute_def nd_runtime_def)
qed

section \<open>A concrete tree\<close>

definition tree_clock :: "nat clock" where
  "tree_clock = \<lparr>clk_time = (\<lambda>w. (5, w)), clk_monotonic = (\<lambda>w. (5, w)), clk_utcnow = (\<lambda>w. (''now'', w))\<rparr>"

definition tree_uuid :: "nat \<Rightarrow> string \<times> nat" where
  "tree_uuid w = (''u'', w + 1)"

definition demo_tree :: "nat agent_tree" where
  "demo_tree = snd (andthen (tr_register_root tree_uuid ''root'' (Some {''read'', ''send''})) (\<lambda>_.
     tr_spawn tree_uuid ''root'' ''kid'' (Some {''read'', ''pay''})) (empty_tree 0))"

lemma demo_tree_run:
  "runs (tree_step tree_clock tree_uuid) (empty_tree 0)
     [RegisterRoot ''root'' (Some {''read'', ''send''}), Spawn ''root'' ''kid'' (Some {''read'', ''pay''})] demo_tree"
proof -
  obtain r t where root: "tr_register_root tree_uuid ''root'' (Some {''read'', ''send''}) (empty_tree 0) = (Inr r, t)"
    by (auto simp: tr_register_root_def tr_absent_def add_node_def tree_uuid_def empty_tree_def
        andthen_def guarding_def ret_def Let_def)
  obtain r' t' where kid: "tr_spawn tree_uuid ''root'' ''kid'' (Some {''read'', ''pay''}) t = (r', t')" by fastforce
  have "demo_tree = t'" using root kid by (simp add: demo_tree_def andthen_def)
  with root kid show ?thesis by (auto simp: runs_Cons_iff intro: step_root step_spawn)
qed

lemmas demo_tree_defs = demo_tree_def tr_register_root_def tr_spawn_def tr_absent_def tr_require_def
  add_node_def tree_uuid_def empty_tree_def tr_update_def prog_defs mk_controller_def mk_runtime_def
  nd_runtime_def rt_can_execute_def ctl_contained_def inherited_capabilities_def

definition demo_root :: "nat agent_node" where
  "demo_root = the (dict_get (tr_nodes demo_tree) ''root'')"

definition demo_kid :: "nat agent_node" where
  "demo_kid = the (dict_get (tr_nodes demo_tree) ''kid'')"

lemma demo_tree_nodes:
  "dict_get (tr_nodes demo_tree) ''root'' = Some demo_root" "dict_get (tr_nodes demo_tree) ''kid'' = Some demo_kid"
  "nd_children demo_root = {''kid''}" "nd_children demo_kid = {}"
  "ctl_capabilities (nd_containment demo_root) = {''read'', ''send''}"
  by (simp_all add: demo_root_def demo_kid_def demo_tree_defs Let_def)

lemma demo_tree_edges:
  "(''root'', c) \<in> child_rel demo_tree \<longleftrightarrow> c = ''kid''" "(''kid'', c) \<notin> child_rel demo_tree"
  by (simp_all add: child_rel_def demo_tree_nodes)

lemma demo_tree_subtree: "subtree demo_tree ''root'' = {''root'', ''kid''}"
proof -
  have "b = ''root'' \<or> b = ''kid''" if "(''root'', b) \<in> (child_rel demo_tree)\<^sup>*" for b
    using that by (induction) (auto simp only: demo_tree_edges)
  then show ?thesis using demo_tree_edges(1) [of "''kid''"] by (auto simp: subtree_def)
qed

theorem contain_covers_subtree_witness:
  "\<exists>order t' m. tr_contain tree_clock ''root'' demo_tree = Some (Inr order, t')
     \<and> distinct order \<and> set order = {''root'', ''kid''} \<and> hd order = ''root''
     \<and> dict_get (tr_nodes t') ''kid'' = Some m \<and> ctl_contained (nd_containment m)"
proof -
  have "tree_ok demo_tree"
    using reachable_tree_ok [OF demo_tree_run] by simp
  from contain_covers_subtree [OF this, of tree_clock "''root''"] obtain r t' where
    run: "tr_contain tree_clock ''root'' demo_tree = Some (r, t')
       \<and> (\<exists>order. r = Inr order \<and> distinct order \<and> set order = {''root'', ''kid''}
       \<and> parents_first demo_tree ''root'' order
       \<and> (\<forall>b. rel_option (if b \<in> {''root'', ''kid''} then contained_from else (=))
             (dict_get (tr_nodes demo_tree) b) (dict_get (tr_nodes t') b)))"
    unfolding demo_tree_nodes(1) demo_tree_subtree option.case by (elim exE) (rule that)
  then obtain order where r: "tr_contain tree_clock ''root'' demo_tree = Some (Inr order, t')" "distinct order"
    "set order = {''root'', ''kid''}" and first: "parents_first demo_tree ''root'' order"
    and all: "\<And>b. rel_option (if b \<in> {''root'', ''kid''} then contained_from else (=))
             (dict_get (tr_nodes demo_tree) b) (dict_get (tr_nodes t') b)"
    by (elim conjE exE) (rule that, simp_all)
  have kid: "rel_option contained_from (Some demo_kid) (dict_get (tr_nodes t') ''kid'')"
    using all [of "''kid''"] by (simp add: demo_tree_nodes(2))
  from kid obtain m where "dict_get (tr_nodes t') ''kid'' = Some m" "ctl_contained (nd_containment m)"
    by (auto simp: option_rel_Some1 contained_from_def ctl_contained_def nd_runtime_def)
  moreover have "hd order = ''root''"
  proof (cases order)
    case (Cons c after)
    then have "c = ''root'' \<or> (\<exists>p \<in> set []. (p, c) \<in> child_rel demo_tree)"
      using first unfolding parents_first_def by (metis append_Nil)
    with Cons show ?thesis by simp
  qed (use r(3) in simp)
  ultimately show ?thesis using r by blast
qed

theorem tree_attenuates_witness: "ctl_capabilities (nd_containment demo_kid) \<subseteq> {''read'', ''send''}"
proof -
  have "(''root'', ''kid'') \<in> (child_rel demo_tree)\<^sup>*" using demo_tree_edges(1) [of "''kid''"] by simp
  from tree_attenuates [OF demo_tree_run this demo_tree_nodes(1,2)] show ?thesis
    unfolding demo_tree_nodes(5) by (rule conjunct1)
qed

end
