(* ===== verification/Py_Text.thy ===== *)
theory Py_Text
  imports Prelude
begin

text \<open>
  The methods of \<open>str\<close> the code uses: character codes, white space, lines, splitting, searching.
\<close>

definition code :: "char \<Rightarrow> nat" where "code c = of_char c"

definition is_digit :: "char \<Rightarrow> bool" where
  "is_digit c \<longleftrightarrow> 48 \<le> code c \<and> code c \<le> 57"

section \<open>Lines\<close>

text \<open>\<open>str.splitlines()\<close>.\<close>

definition line_feed :: char where "line_feed = CHR 0x0A"

definition boundary :: "char \<Rightarrow> bool" where
  "boundary c \<longleftrightarrow> code c \<in> {10, 11, 12, 13, 28, 29, 30, 133}"

definition put_first :: "char \<Rightarrow> string list \<Rightarrow> string list" where
  "put_first c ls = (case ls of [] \<Rightarrow> [[c]] | l # rest \<Rightarrow> (c # l) # rest)"

fun splitlines :: "string \<Rightarrow> string list" where
  "splitlines [] = []"
| "splitlines [c] = (if boundary c then [[]] else [[c]])"
| "splitlines (c # d # cs) =
     (if boundary c then [] # (if code c = 13 \<and> d = line_feed then splitlines cs else splitlines (d # cs))
      else put_first c (splitlines (d # cs)))"

section \<open>White space\<close>

definition py_space :: "char \<Rightarrow> bool" where
  "py_space c \<longleftrightarrow> code c \<in> {9, 10, 11, 12, 13, 28, 29, 30, 31, 32, 133, 160}"

text \<open>\<open>not line.strip()\<close>, and \<open>text.strip()\<close>.\<close>

definition blank :: "string \<Rightarrow> bool" where
  "blank l \<longleftrightarrow> list_all py_space l"

definition strip :: "string \<Rightarrow> string" where
  "strip s = rev (dropWhile py_space (rev (dropWhile py_space s)))"

text \<open>\<open>text.lstrip(c)\<close> for one character.\<close>

definition lstrip :: "char \<Rightarrow> string \<Rightarrow> string" where
  "lstrip c s = dropWhile (\<lambda>d. d = c) s"

section \<open>Splitting and searching\<close>

text \<open>\<open>text.partition(sep)\<close> for one character: \<open>None\<close> when it does not occur.\<close>

definition partition_at :: "char \<Rightarrow> string \<Rightarrow> (string \<times> string) option" where
  "partition_at c s =
     (if c \<in> set s then Some (takeWhile (\<lambda>d. d \<noteq> c) s, drop 1 (dropWhile (\<lambda>d. d \<noteq> c) s)) else None)"

text \<open>\<open>text.split(sep, n)\<close> for one character.\<close>

fun split_at_most :: "nat \<Rightarrow> char \<Rightarrow> string \<Rightarrow> string list" where
  "split_at_most 0 c s = [s]"
| "split_at_most (Suc n) c s =
     (case partition_at c s of None \<Rightarrow> [s] | Some (l, r) \<Rightarrow> l # split_at_most n c r)"

text \<open>\<open>needle in text\<close>.\<close>

fun occurs :: "string \<Rightarrow> string \<Rightarrow> bool" where
  "occurs w [] \<longleftrightarrow> w = []"
| "occurs w (c # cs) \<longleftrightarrow> take (length w) (c # cs) = w \<or> occurs w cs"

text \<open>
  \<open>text.lower()\<close>: the capital letters of ASCII and Latin-1 are moved by 32, other characters
  stay.
\<close>

definition lower_char :: "char \<Rightarrow> char" where
  "lower_char c =
     (let n = code c in
      if 65 \<le> n \<and> n \<le> 90 \<or> 192 \<le> n \<and> n \<le> 222 \<and> n \<noteq> 215 then char_of (n + 32) else c)"

definition lower :: "string \<Rightarrow> string" where
  "lower s = map lower_char s"

text \<open>\<open>a or b\<close> of two texts.\<close>

definition either_text :: "string \<Rightarrow> string \<Rightarrow> string" where
  "either_text a b = (if a = [] then b else a)"

section \<open>Laws\<close>

lemma partition_at_text: "partition_at c s = Some (l, r) \<Longrightarrow> s = l @ c # r \<and> c \<notin> set l"
proof -
  assume "partition_at c s = Some (l, r)"
  then have c: "c \<in> set s" "l = takeWhile (\<lambda>d. d \<noteq> c) s" "r = drop 1 (dropWhile (\<lambda>d. d \<noteq> c) s)"
    by (auto simp: partition_at_def split: if_splits)
  from c(1) have "dropWhile (\<lambda>d. d \<noteq> c) s \<noteq> []" by (auto simp: dropWhile_eq_Nil_conv)
  then have "dropWhile (\<lambda>d. d \<noteq> c) s = c # r"
    using hd_dropWhile [of "\<lambda>d. d \<noteq> c" s] c(3) by (cases "dropWhile (\<lambda>d. d \<noteq> c) s") auto
  then have "s = l @ c # r" using takeWhile_dropWhile_id [of "\<lambda>d. d \<noteq> c" s] c(2) by simp
  moreover have "c \<notin> set l" using c(2) set_takeWhileD by fastforce
  ultimately show ?thesis by blast
qed

lemma occurs_iff: "occurs w s \<longleftrightarrow> (\<exists>xs ys. s = xs @ w @ ys)"
proof (induction s)
  case (Cons c cs)
  show ?case
  proof
    assume "occurs w (c # cs)"
    then consider "take (length w) (c # cs) = w" | "occurs w cs" by auto
    then show "\<exists>xs ys. c # cs = xs @ w @ ys"
    proof cases
      case 1
      then have "c # cs = [] @ w @ drop (length w) (c # cs)" by (metis append_Nil append_take_drop_id)
      then show ?thesis by blast
    next
      case 2
      with Cons.IH show ?thesis by (metis append_Cons)
    qed
  next
    assume "\<exists>xs ys. c # cs = xs @ w @ ys"
    then obtain xs ys where e: "c # cs = xs @ w @ ys" by blast
    show "occurs w (c # cs)"
    proof (cases xs)
      case Nil
      with e show ?thesis by (metis append_Nil append_eq_conv_conj occurs.simps(2))
    next
      case (Cons x xs')
      with e Cons.IH show ?thesis by auto
    qed
  qed
qed auto

end
