(* ===== verification/Json_Text.thy ===== *)
theory Json_Text
  imports Py_Text "HOL-Library.List_Lexorder" "HOL-Library.Char_ord"
begin

text \<open>
  The text of \<open>json.dumps\<close> and the parser \<open>json.loads\<close>, for the options the code uses.  The
  audit chain, the evidence chain, the receipts and the control protocol write and read this
  text and hash it, so what they promise rests on the round trip proved here.

  Not modelled: numbers that are not integers beyond their literal, escapes above \<open>\u00ff\<close>
  (text is 8-bit characters), the limits Python puts on the nesting depth and on the digits of
  an integer, and the wording of a decoding error.
\<close>

section \<open>Printing\<close>

text \<open>\<open>ensure_ascii\<close> and the two separators.\<close>

record json_style =
  sty_ascii :: bool
  sty_item :: string
  sty_key :: string

text \<open>
  \<open>canonical\<close>: \<open>separators=(",", ":"), ensure_ascii=False\<close>; \<open>compact\<close>: the separators only;
  \<open>plain\<close>: no option.
\<close>

definition canonical_style :: json_style where
  "canonical_style = \<lparr>sty_ascii = False, sty_item = '','', sty_key = '':''\<rparr>"

definition compact_style :: json_style where
  "compact_style = \<lparr>sty_ascii = True, sty_item = '','', sty_key = '':''\<rparr>"

definition plain_style :: json_style where
  "plain_style = \<lparr>sty_ascii = True, sty_item = '', '', sty_key = '': ''\<rparr>"

definition dquote :: char where "dquote = CHR 0x22"

definition backslash :: char where "backslash = CHR 0x5C"

definition escape_char :: "bool \<Rightarrow> char \<Rightarrow> string" where
  "escape_char ascii c =
     (if c = dquote \<or> c = backslash then [backslash, c]
      else if code c = 10 then [backslash, CHR ''n'']
      else if code c = 13 then [backslash, CHR ''r'']
      else if code c = 9 then [backslash, CHR ''t'']
      else if code c = 12 then [backslash, CHR ''f'']
      else if code c = 8 then [backslash, CHR ''b'']
      else if code c < 32 \<or> (ascii \<and> 126 < code c) then
        [backslash, CHR ''u'', CHR ''0'', CHR ''0'', hex_digit (code c div 16), hex_digit (code c mod 16)]
      else [c])"

definition json_string :: "bool \<Rightarrow> string \<Rightarrow> string" where
  "json_string ascii s = [dquote] @ concat (map (escape_char ascii) s) @ [dquote]"

fun print_json :: "json_style \<Rightarrow> json \<Rightarrow> string" where
  "print_json st JNull = ''null''"
| "print_json st (JBool b) = (if b then ''true'' else ''false'')"
| "print_json st (JInt i) = str_int i"
| "print_json st (JReal l) = l"
| "print_json st (JStr s) = json_string (sty_ascii st) s"
| "print_json st (JList xs) = ''['' @ join_with (sty_item st) (map (print_json st) xs) @ '']''"
| "print_json st (JObj kvs) =
     CHR ''{'' # join_with (sty_item st)
       (map (\<lambda>(k, v). json_string (sty_ascii st) k @ sty_key st @ print_json st v) kvs) @ ''}''"

text \<open>\<open>sort_keys=True\<close>: the keys of every object in the order of their code points.\<close>

fun sort_json :: "json \<Rightarrow> json" where
  "sort_json (JList xs) = JList (map sort_json xs)"
| "sort_json (JObj kvs) = JObj (sort_key fst (map (\<lambda>(k, v). (k, sort_json v)) kvs))"
| "sort_json v = v"

definition dumps :: "json_style \<Rightarrow> json \<Rightarrow> string" where
  "dumps st v = print_json st (sort_json v)"

section \<open>Parsing\<close>

definition is_space :: "char \<Rightarrow> bool" where
  "is_space c \<longleftrightarrow> code c \<in> {32, 9, 10, 13}"

definition skip :: "string \<Rightarrow> string" where
  "skip s = dropWhile is_space s"

definition hex_value :: "char \<Rightarrow> nat option" where
  "hex_value c =
     (let n = code c in
      if 48 \<le> n \<and> n \<le> 57 then Some (n - 48)
      else if 97 \<le> n \<and> n \<le> 102 then Some (n - 87)
      else if 65 \<le> n \<and> n \<le> 70 then Some (n - 55)
      else None)"

text \<open>Four hexadecimal digits that denote an 8-bit character.\<close>

definition hex_char :: "char \<Rightarrow> char \<Rightarrow> char \<Rightarrow> char \<Rightarrow> char option" where
  "hex_char a b c d =
     (case (hex_value a, hex_value b, hex_value c, hex_value d) of
        (Some 0, Some 0, Some m, Some n) \<Rightarrow> Some (char_of (16 * m + n))
      | _ \<Rightarrow> None)"

definition escape_meaning :: "char \<Rightarrow> char option" where
  "escape_meaning e =
     (if e = dquote \<or> e = backslash \<or> e = CHR ''/'' then Some e
      else if e = CHR ''n'' then Some (char_of (10::nat))
      else if e = CHR ''r'' then Some (char_of (13::nat))
      else if e = CHR ''t'' then Some (char_of (9::nat))
      else if e = CHR ''f'' then Some (char_of (12::nat))
      else if e = CHR ''b'' then Some (char_of (8::nat))
      else None)"

definition prepend :: "char \<Rightarrow> (string \<times> 'r) option \<Rightarrow> (string \<times> 'r) option" where
  "prepend c r = map_option (apfst ((#) c)) r"

text \<open>The rest of a string literal, after its opening quote.\<close>

fun parse_chars :: "string \<Rightarrow> (string \<times> string) option" where
  "parse_chars [] = None"
| "parse_chars (c # cs) =
     (if c = dquote then Some ([], cs)
      else if c = backslash then
        (case cs of
           [] \<Rightarrow> None
         | e # es \<Rightarrow>
             if e = CHR ''u'' then
               (case es of
                  h1 # h2 # h3 # h4 # rest \<Rightarrow>
                    (case hex_char h1 h2 h3 h4 of None \<Rightarrow> None | Some x \<Rightarrow> prepend x (parse_chars rest))
                | _ \<Rightarrow> None)
             else (case escape_meaning e of None \<Rightarrow> None | Some x \<Rightarrow> prepend x (parse_chars es)))
      else if code c < 32 then None
      else prepend c (parse_chars cs))"

definition parse_string :: "string \<Rightarrow> (string \<times> string) option" where
  "parse_string s = (case s of [] \<Rightarrow> None | c # cs \<Rightarrow> if c = dquote then parse_chars cs else None)"

text \<open>\<open>-?(0|[1-9][0-9]*)\<close>, then an optional fraction and an optional exponent.\<close>

definition split_digits :: "string \<Rightarrow> string \<times> string" where
  "split_digits s = (takeWhile is_digit s, dropWhile is_digit s)"

definition split_integer :: "string \<Rightarrow> string \<times> string" where
  "split_integer s =
     (case s of [] \<Rightarrow> ([], []) | c # cs \<Rightarrow> if c = CHR ''0'' then ([c], cs) else split_digits s)"

definition split_fraction :: "string \<Rightarrow> string \<times> string" where
  "split_fraction s =
     (case s of
        [] \<Rightarrow> ([], s)
      | c # cs \<Rightarrow>
          if c = CHR ''.'' \<and> fst (split_digits cs) \<noteq> [] then (c # fst (split_digits cs), snd (split_digits cs))
          else ([], s))"

definition split_sign :: "string \<Rightarrow> string \<times> string" where
  "split_sign s = (case s of [] \<Rightarrow> ([], []) | c # cs \<Rightarrow> if c \<in> {CHR ''+'', CHR ''-''} then ([c], cs) else ([], s))"

definition split_exponent :: "string \<Rightarrow> string \<times> string" where
  "split_exponent s =
     (case s of
        [] \<Rightarrow> ([], s)
      | c # cs \<Rightarrow>
          (let (sign, ds) = split_sign cs; (digits, rest) = split_digits ds in
           if c \<in> {CHR ''e'', CHR ''E''} \<and> digits \<noteq> [] then (c # sign @ digits, rest) else ([], s)))"

definition parse_unsigned :: "bool \<Rightarrow> string \<Rightarrow> (json \<times> string) option" where
  "parse_unsigned neg s =
     (let (digits, s1) = split_integer s; (fraction, s2) = split_fraction s1;
          (exponent, s3) = split_exponent s2;
          n = int (digits_value 0 digits); sign = (if neg then ''-'' else [])
      in if digits = [] then None
         else if fraction = [] \<and> exponent = [] then Some (JInt (if neg then - n else n), s3)
         else Some (JReal (sign @ digits @ fraction @ exponent), s3))"

text \<open>A literal word at the head of the text, and the value it stands for.\<close>

definition starts :: "string \<Rightarrow> string \<Rightarrow> bool" where
  "starts w s \<longleftrightarrow> take (length w) s = w"

definition parse_scalar :: "string \<Rightarrow> (json \<times> string) option" where
  "parse_scalar s =
     (if starts ''null'' s then Some (JNull, drop 4 s)
      else if starts ''true'' s then Some (JBool True, drop 4 s)
      else if starts ''false'' s then Some (JBool False, drop 5 s)
      else if starts ''NaN'' s then Some (JReal ''NaN'', drop 3 s)
      else if starts ''Infinity'' s then Some (JReal ''Infinity'', drop 8 s)
      else if starts ''-Infinity'' s then Some (JReal ''-Infinity'', drop 9 s)
      else if starts ''-'' s then parse_unsigned True (drop 1 s)
      else parse_unsigned False s)"

text \<open>\<open>dict(pairs)\<close>: a repeated key keeps its place and takes the last value.\<close>

definition dict_of_pairs :: "(string \<times> 'v) list \<Rightarrow> 'v dict" where
  "dict_of_pairs kvs = foldl (\<lambda>d (k, v). dict_set k v d) [] kvs"

text \<open>
  Values, the items of a list and the members of an object, with fuel for the nesting;
  \<open>json_loads_fuel\<close> below shows that the fuel given is enough for any text.
\<close>

fun parse_value :: "nat \<Rightarrow> string \<Rightarrow> (json \<times> string) option"
and parse_items :: "nat \<Rightarrow> string \<Rightarrow> (json list \<times> string) option"
and parse_members :: "nat \<Rightarrow> string \<Rightarrow> ((string \<times> json) list \<times> string) option" where
  "parse_value 0 s = None"
| "parse_value (Suc f) s =
     (case s of
        [] \<Rightarrow> None
      | c # cs \<Rightarrow>
          if c = dquote then map_option (apfst JStr) (parse_chars cs)
          else if c = CHR ''['' then
            (if starts '']'' (skip cs) then Some (JList [], drop 1 (skip cs))
             else map_option (apfst JList) (parse_items f (skip cs)))
          else if c = CHR ''{'' then
            (if starts ''}'' (skip cs) then Some (JObj [], drop 1 (skip cs))
             else map_option (apfst (\<lambda>kvs. JObj (dict_of_pairs kvs))) (parse_members f (skip cs)))
          else parse_scalar s)"
| "parse_items 0 s = None"
| "parse_items (Suc f) s =
     (case parse_value f s of
        None \<Rightarrow> None
      | Some (v, rest) \<Rightarrow>
          (case skip rest of
             [] \<Rightarrow> None
           | c # cs \<Rightarrow>
               if c = CHR '','' then map_option (apfst ((#) v)) (parse_items f (skip cs))
               else if c = CHR '']'' then Some ([v], cs)
               else None))"
| "parse_members 0 s = None"
| "parse_members (Suc f) s =
     (case parse_string s of
        None \<Rightarrow> None
      | Some (k, r1) \<Rightarrow>
          (case skip r1 of
             [] \<Rightarrow> None
           | c # r2 \<Rightarrow>
               if c \<noteq> CHR '':'' then None
               else (case parse_value f (skip r2) of
                   None \<Rightarrow> None
                 | Some (v, r3) \<Rightarrow>
                     (case skip r3 of
                        [] \<Rightarrow> None
                      | c # cs \<Rightarrow>
                          if c = CHR '','' then map_option (apfst ((#) (k, v))) (parse_members f (skip cs))
                          else if c = CHR ''}'' then Some ([(k, v)], cs)
                          else None))))"

text \<open>
  The functions of the standard library that are parameters of the model: \<open>lib_float l\<close> is the
  text \<open>json.dumps\<close> gives the float that the literal \<open>l\<close> denotes, \<open>lib_wording\<close> the message of
  the decoder for a text it refuses, and \<open>lib_sha256\<close> the hexadecimal SHA-256 digest of a text.
\<close>

record library =
  lib_float :: "string \<Rightarrow> string"
  lib_wording :: "string \<Rightarrow> string"
  lib_sha256 :: "string \<Rightarrow> string"

text \<open>Each float keeps the text it prints as, so \<open>1.50\<close> and \<open>1.5\<close> are one value.\<close>

fun read_floats :: "(string \<Rightarrow> string) \<Rightarrow> json \<Rightarrow> json" where
  "read_floats h (JReal l) = JReal (h l)"
| "read_floats h (JList xs) = JList (map (read_floats h) xs)"
| "read_floats h (JObj kvs) = JObj (map (\<lambda>(k, v). (k, read_floats h v)) kvs)"
| "read_floats h v = v"

definition json_loads :: "'a library_scheme \<Rightarrow> string \<Rightarrow> exn + json" where
  "json_loads lib s =
     (case parse_value (2 * length s + 1) (skip s) of
        Some (v, rest) \<Rightarrow>
          if skip rest = [] then Inr (read_floats (lib_float lib) v)
          else Inl (Exn JSONDecodeError (lib_wording lib s))
      | None \<Rightarrow> Inl (Exn JSONDecodeError (lib_wording lib s)))"

lemma join_with_chars: "c \<in> set (join_with sep xs) \<Longrightarrow> c \<in> set sep \<or> (\<exists>x \<in> set xs. c \<in> set x)"
  by (induction sep xs rule: join_with.induct) auto

section \<open>The fuel is enough\<close>

lemma skip_length: "length (skip s) \<le> length s"
  by (simp add: skip_def length_dropWhile_le)

lemma prepend_Some: "prepend c r = Some (x, rest) \<longleftrightarrow> (\<exists>y. r = Some (y, rest) \<and> x = c # y)"
  by (auto simp: prepend_def apfst_def map_prod_def split: prod.splits)

lemma parse_chars_shorter: "parse_chars s = Some (x, rest) \<Longrightarrow> length rest < length s"
proof (induction s arbitrary: x rest rule: length_induct)
  case (1 s)
  then have IH: "length rest < length s" if "parse_chars t = Some (y, rest)" "length t < length s" for t y rest
    using that less_trans by blast
  show ?case
  proof (cases s)
    case (Cons c cs)
    have run: "parse_chars (c # cs) = Some (x, rest)" using 1(2) Cons by simp
    show ?thesis
    proof (cases "c = dquote \<or> c \<noteq> backslash")
      case True
      with run have "rest = cs \<or> (\<exists>y. parse_chars cs = Some (y, rest))"
        by (simp add: prepend_Some split: if_splits) blast+
      with IH [of cs] Cons show ?thesis by auto
    next
      case False
      with run obtain e es where cs: "cs = e # es" by (cases cs) (simp_all add: dquote_def backslash_def)
      show ?thesis
      proof (cases "e = CHR ''u''")
        case True
        with run False cs obtain h1 h2 h3 h4 r z y where "es = h1 # h2 # h3 # h4 # r"
          "hex_char h1 h2 h3 h4 = Some z" "parse_chars r = Some (y, rest)"
          by (auto simp: prepend_Some split: list.splits option.splits)
        with IH [of r] Cons cs show ?thesis by auto
      next
        case no_u: False
        with run False cs obtain y where "parse_chars es = Some (y, rest)"
          by (auto simp: prepend_Some split: option.splits)
        with IH [of es] Cons cs show ?thesis by auto
      qed
    qed
  qed (use 1 in simp)
qed

lemma parse_string_shorter: "parse_string s = Some (x, rest) \<Longrightarrow> length rest < length s"
  by (auto simp: parse_string_def less_SucI split: list.splits if_splits dest!: parse_chars_shorter)

lemma split_digits_length: "length (fst (split_digits s)) + length (snd (split_digits s)) = length s"
  unfolding split_digits_def by (metis fst_conv snd_conv length_append takeWhile_dropWhile_id)

lemma split_integer_length: "length (fst (split_integer s)) + length (snd (split_integer s)) = length s"
  using split_digits_length [of s] by (auto simp: split_integer_def split: list.split)

lemma split_fraction_length: "length (snd (split_fraction s)) \<le> length s"
proof (cases s)
  case (Cons c cs)
  with split_digits_length [of cs] show ?thesis by (auto simp: split_fraction_def)
qed (simp add: split_fraction_def)

lemma split_sign_length: "length (snd (split_sign s)) \<le> length s"
  by (auto simp: split_sign_def split: list.split)

lemma split_exponent_length: "length (snd (split_exponent s)) \<le> length s"
proof (cases s)
  case (Cons c cs)
  with split_digits_length [of "snd (split_sign cs)"] split_sign_length [of cs] show ?thesis
    by (auto simp: split_exponent_def split: prod.splits)
qed (simp add: split_exponent_def)

lemma parse_unsigned_shorter: "parse_unsigned neg s = Some (v, rest) \<Longrightarrow> length rest < length s"
  using split_integer_length [of s] split_fraction_length [of "snd (split_integer s)"]
    split_exponent_length [of "snd (split_fraction (snd (split_integer s)))"]
  by (cases "fst (split_integer s)") (auto simp: parse_unsigned_def Let_def split: prod.splits if_splits)

lemma starts_length: "starts w s \<Longrightarrow> length w \<le> length s"
  by (metis starts_def length_take min.cobounded1)

lemma parse_scalar_shorter: "parse_scalar s = Some (v, rest) \<Longrightarrow> length rest < length s"
  by (auto simp: parse_scalar_def less_diff_conv split: if_splits
      dest: starts_length parse_unsigned_shorter)

lemma parse_shorter:
  "parse_value f s = Some (v, rest) \<Longrightarrow> length rest < length s"
  "parse_items f s = Some (vs, rest) \<Longrightarrow> length rest < length s"
  "parse_members f s = Some (kvs, rest) \<Longrightarrow> length rest < length s"
proof (induction f s and f s and f s arbitrary: v rest and vs rest and kvs rest
    rule: parse_value_parse_items_parse_members.induct)
  case (2 f s)
  show ?case
  proof (cases s)
    case (Cons c cs)
    with "2.prems" 2(1) [of c cs] 2(2) [of c cs] skip_length [of cs] show ?thesis
      by (fastforce split: if_splits dest: parse_chars_shorter parse_scalar_shorter starts_length)
  qed (use "2.prems" in simp)
next
  case (4 f s)
  then obtain v r c cs where v: "parse_value f s = Some (v, r)" "skip r = c # cs"
    by (auto split: option.splits list.splits prod.splits)
  then have r: "length r < length s" "length cs < length r"
    using "4.IH"(1) skip_length [of r] by auto
  consider ws where "parse_items f (skip cs) = Some (ws, rest)" "c = CHR '',''" | "rest = cs"
    using "4.prems" v by (auto split: if_splits)
  then show ?case
  proof cases
    case (1 ws)
    then have "length rest < length (skip cs)"
      using "4.IH"(2) [OF v(1) refl v(2)] "4.prems" v by (auto split: if_splits)
    with r skip_length [of cs] show ?thesis by simp
  qed (use r in simp)
next
  case (6 f s)
  then obtain k r1 r2 v r3 c cs where k: "parse_string s = Some (k, r1)" "skip r1 = CHR '':'' # r2"
    "parse_value f (skip r2) = Some (v, r3)" "skip r3 = c # cs"
    by (auto split: option.splits list.splits prod.splits if_splits)
  then have "length r3 < length (skip r2)" using "6.IH"(1) by fastforce
  then have r: "length cs < length s"
    using parse_string_shorter [OF k(1)] k(2,4) skip_length [of r1] skip_length [of r2] skip_length [of r3]
    by simp
  consider ws where "parse_members f (skip cs) = Some (ws, rest)" "c = CHR '',''" | "rest = cs"
    using "6.prems" k by (auto split: if_splits)
  then show ?case
  proof cases
    case (1 ws)
    then have "length rest < length (skip cs)" using "6.IH"(2) k by fastforce
    with r skip_length [of cs] show ?thesis by simp
  qed (use r in simp)
qed simp_all

lemma parse_value_empty: "parse_value f [] = None"
  by (cases f) simp_all

lemma parse_fuel_step:
  "length s \<le> n \<Longrightarrow> 2 * n + 1 \<le> f \<Longrightarrow> 2 * n + 1 \<le> g \<Longrightarrow> parse_value f s = parse_value g s"
  "length s \<le> n \<Longrightarrow> 2 * n + 2 \<le> f \<Longrightarrow> 2 * n + 2 \<le> g \<Longrightarrow> parse_items f s = parse_items g s"
  "length s \<le> n \<Longrightarrow> 2 * n + 2 \<le> f \<Longrightarrow> 2 * n + 2 \<le> g \<Longrightarrow> parse_members f s = parse_members g s"
proof (induction n arbitrary: f g s rule: less_induct)
  case (less n)
  have vals: "parse_value f s = parse_value g s" if b: "length s \<le> n" "2 * n + 1 \<le> f" "2 * n + 1 \<le> g" for f g s
  proof (cases s)
    case Nil
    then show ?thesis by (simp add: parse_value_empty)
  next
    case (Cons c cs)
    obtain f' g' where fg: "f = Suc f'" "g = Suc g'" using b by (cases f; cases g) auto
    have "length (skip cs) < n" "length (skip cs) \<le> n - 1" using b Cons skip_length [of cs] by auto
    then have "parse_items f' (skip cs) = parse_items g' (skip cs)"
      "parse_members f' (skip cs) = parse_members g' (skip cs)"
      using less.IH(2,3) [of "n - 1" "skip cs" f' g'] b fg by auto
    with Cons fg show ?thesis by simp
  qed
  have items: "parse_items f s = parse_items g s" if b: "length s \<le> n" "2 * n + 2 \<le> f" "2 * n + 2 \<le> g" for f g s
  proof -
    obtain f' g' where fg: "f = Suc f'" "g = Suc g'" using b by (cases f; cases g) auto
    have v: "parse_value f' s = parse_value g' s" using vals [of s f' g'] b fg by simp
    have "parse_items f' (skip cs) = parse_items g' (skip cs)"
      if "parse_value g' s = Some (v, r)" "skip r = c # cs" for v r c cs
    proof -
      have "length (skip cs) < n"
        using parse_shorter(1) [OF that(1)] that(2) b skip_length [of r] skip_length [of cs] by simp
      then show ?thesis using less.IH(2) [of "n - 1" "skip cs" f' g'] b fg by auto
    qed
    with fg v show ?thesis by (auto split: option.split list.split prod.split)
  qed
  have members: "parse_members f s = parse_members g s" if b: "length s \<le> n" "2 * n + 2 \<le> f" "2 * n + 2 \<le> g" for f g s
  proof -
    obtain f' g' where fg: "f = Suc f'" "g = Suc g'" using b by (cases f; cases g) auto
    have v: "parse_value f' (skip r2) = parse_value g' (skip r2)" and len: "length (skip r2) < n"
      if k: "parse_string s = Some (k, r1)" "skip r1 = c # r2" for k r1 c r2
    proof -
      show len: "length (skip r2) < n"
        using parse_string_shorter [OF k(1)] k(2) b skip_length [of r1] skip_length [of r2] by simp
      then show "parse_value f' (skip r2) = parse_value g' (skip r2)" using vals [of "skip r2" f' g'] b fg by simp
    qed
    have m: "parse_members f' (skip cs) = parse_members g' (skip cs)"
      if k: "parse_string s = Some (k, r1)" "skip r1 = c # r2" "parse_value g' (skip r2) = Some (v, r3)" "skip r3 = d # cs"
      for k r1 c r2 v r3 d cs
    proof -
      have "length (skip cs) < n"
        using parse_shorter(1) [OF k(3)] len [OF k(1,2)] k(4) skip_length [of r3] skip_length [of cs] by simp
      then show ?thesis using less.IH(3) [of "n - 1" "skip cs" f' g'] b fg by auto
    qed
    from fg v m show ?thesis by (auto split: option.split list.split prod.split)
  qed
  { case 1 then show ?case by (rule vals)
  next case 2 then show ?case by (rule items)
  next case 3 then show ?case by (rule members) }
qed

lemma json_loads_fuel: "2 * length s + 1 \<le> f \<Longrightarrow> parse_value f (skip s) = parse_value (2 * length s + 1) (skip s)"
  using skip_length [of s] by (intro parse_fuel_step(1) [of _ "length s"]) auto

section \<open>Reading back what was written\<close>

lemma code_less: "code c < 256"
  by (simp add: code_def)

lemma char_of_code: "char_of (code c) = c"
  by (simp add: code_def)

lemma code_eq: "code c = code d \<longleftrightarrow> c = d"
  by (simp add: code_def)

lemma code_named:
  "code dquote = 34" "code backslash = 92" "c = dquote \<longleftrightarrow> code c = 34" "c = backslash \<longleftrightarrow> code c = 92"
proof -
  show q: "code dquote = 34" and b: "code backslash = 92"
    by (simp_all add: code_def dquote_def backslash_def)
  show "c = dquote \<longleftrightarrow> code c = 34" "c = backslash \<longleftrightarrow> code c = 92"
    using code_eq [of c dquote] code_eq [of c backslash] by (simp_all add: q b)
qed

lemma hex_value_digit: "m < 16 \<Longrightarrow> hex_value (hex_digit m) = Some m"
proof -
  assume "m < 16"
  then have "m = 0 \<or> m = 1 \<or> m = 2 \<or> m = 3 \<or> m = 4 \<or> m = 5 \<or> m = 6 \<or> m = 7 \<or> m = 8 \<or> m = 9
    \<or> m = 10 \<or> m = 11 \<or> m = 12 \<or> m = 13 \<or> m = 14 \<or> m = 15" by presburger
  then show ?thesis by (auto simp: hex_value_def hex_digit_def code_def)
qed

lemma hex_char_code: "hex_char (CHR ''0'') (CHR ''0'') (hex_digit (code c div 16)) (hex_digit (code c mod 16)) = Some c"
proof -
  have "hex_value (CHR ''0'') = Some 0" by (simp add: hex_value_def code_def)
  moreover have "code c div 16 < 16" using code_less [of c] by linarith
  ultimately show ?thesis by (simp add: hex_char_def hex_value_digit char_of_code)
qed

lemma parse_escaped: "parse_chars (escape_char ascii c @ t) = prepend c (parse_chars t)"
proof -
  have names: "CHR ''u'' \<noteq> dquote" "CHR ''n'' \<noteq> dquote" "backslash \<noteq> dquote"
    "escape_meaning (CHR ''n'') = Some (char_of (10::nat))" "escape_meaning (CHR ''r'') = Some (char_of (13::nat))"
    "escape_meaning (CHR ''t'') = Some (char_of (9::nat))" "escape_meaning (CHR ''f'') = Some (char_of (12::nat))"
    "escape_meaning (CHR ''b'') = Some (char_of (8::nat))" "escape_meaning dquote = Some dquote"
    "escape_meaning backslash = Some backslash" "dquote \<noteq> CHR ''u''" "backslash \<noteq> CHR ''u''"
    by (simp_all add: escape_meaning_def dquote_def backslash_def)
  have char: "char_of n = c" if "code c = n" for n
    using that char_of_code by blast
  consider "c = dquote \<or> c = backslash" | "code c \<in> {10, 13, 9, 12, 8}"
    | "c \<noteq> dquote" "c \<noteq> backslash" "code c \<notin> {10, 13, 9, 12, 8}" "code c < 32 \<or> ascii \<and> 126 < code c"
    | "c \<noteq> dquote" "c \<noteq> backslash" "code c \<notin> {10, 13, 9, 12, 8}" "\<not> (code c < 32 \<or> ascii \<and> 126 < code c)" by blast
  then show ?thesis
  proof cases
    case 1
    then show ?thesis by (auto simp: escape_char_def names)
  next
    case 2
    then have "c \<noteq> dquote" "c \<noteq> backslash" by (auto simp: code_named)
    with 2 show ?thesis by (auto simp: escape_char_def names char)
  next
    case 3
    then show ?thesis by (auto simp: escape_char_def names hex_char_code)
  next
    case 4
    then show ?thesis by (auto simp: escape_char_def)
  qed
qed

lemma parse_chars_text: "parse_chars (concat (map (escape_char ascii) s) @ dquote # rest) = Some (s, rest)"
  by (induction s) (simp_all add: parse_escaped prepend_def)

lemma parse_string_text: "parse_string (json_string ascii s @ rest) = Some (s, rest)"
  by (simp add: parse_string_def json_string_def parse_chars_text)

text \<open>What may follow a number without being read as a part of it.\<close>

definition stops :: "string \<Rightarrow> bool" where
  "stops s \<longleftrightarrow> (case s of [] \<Rightarrow> True | c # _ \<Rightarrow> \<not> is_digit c \<and> c \<notin> {CHR ''.'', CHR ''e'', CHR ''E'', CHR ''+'', CHR ''-''})"

lemma stops_rest: "stops rest \<Longrightarrow> takeWhile is_digit rest = [] \<and> dropWhile is_digit rest = rest
    \<and> split_fraction rest = ([], rest) \<and> split_exponent rest = ([], rest)"
  by (cases rest) (auto simp: stops_def split_fraction_def split_exponent_def Let_def split: prod.split)

lemma digits_are: "c \<in> set (digits_of n) \<Longrightarrow> is_digit c"
  using digits_of_chars [of c n] by (simp add: is_digit_def code_def)

lemma digits_of_zero: "digits_of 0 = ''0''"
  by (simp add: digits_of.simps [of 0] digit_char_def)

lemma digit_char_not_zero: "0 < n \<Longrightarrow> n < 10 \<Longrightarrow> digit_char n \<noteq> CHR ''0''"
  using digit_char_code [of n] by auto

lemma digits_of_head: "0 < n \<Longrightarrow> \<exists>c cs. digits_of n = c # cs \<and> c \<noteq> CHR ''0''"
proof (induction n rule: digits_of.induct)
  case (1 n)
  show ?case
  proof (cases "n < 10")
    case True
    with 1(2) digit_char_not_zero show ?thesis by (auto simp: digits_of.simps [of n])
  next
    case False
    with 1 obtain c cs where "digits_of (n div 10) = c # cs" "c \<noteq> CHR ''0''" by fastforce
    with False show ?thesis by (auto simp: digits_of.simps [of n])
  qed
qed

lemma split_integer_digits:
  assumes "stops rest"
  shows "split_integer (digits_of n @ rest) = (digits_of n, rest)"
proof (cases "n = 0")
  case True
  then show ?thesis by (simp add: digits_of_zero split_integer_def)
next
  case False
  then obtain c cs where c: "digits_of n = c # cs" "c \<noteq> CHR ''0''" using digits_of_head [of n] by blast
  have "takeWhile is_digit (digits_of n @ rest) = digits_of n" "dropWhile is_digit (digits_of n @ rest) = rest"
    using stops_rest [OF assms] digits_are [of _ n] by (simp_all add: takeWhile_append2 dropWhile_append2)
  with c show ?thesis by (simp add: split_integer_def split_digits_def)
qed

lemma parse_unsigned_digits:
  "stops rest \<Longrightarrow> parse_unsigned neg (digits_of n @ rest) = Some (JInt (if neg then - int n else int n), rest)"
  using digits_of_nonempty [of n]
  by (simp add: parse_unsigned_def split_integer_digits stops_rest digits_value_of Let_def)

text \<open>A value's text begins with a character that selects its case in the parser.\<close>

lemma starts_Cons: "starts (c # w) (d # s) \<longleftrightarrow> c = d \<and> starts w s" "starts [] s" "\<not> starts (c # w) []"
  by (auto simp: starts_def)

lemma digit_head:
  assumes "is_digit c"
  shows "c \<noteq> dquote" "c \<noteq> CHR ''[''" "c \<noteq> CHR ''{''" "CHR ''n'' \<noteq> c" "CHR ''t'' \<noteq> c" "CHR ''f'' \<noteq> c"
    "CHR ''N'' \<noteq> c" "CHR ''I'' \<noteq> c" "CHR ''-'' \<noteq> c"
  using assms by (auto simp: is_digit_def code_def dquote_def)

lemma parse_int:
  assumes "stops rest"
  shows "parse_value (Suc f) (str_int i @ rest) = Some (JInt i, rest)"
proof (cases "i < 0")
  case True
  obtain c cs where c: "digits_of (nat (- i)) = c # cs" "is_digit c"
    using digits_of_nonempty [of "nat (- i)"] digits_are [of _ "nat (- i)"]
    by (cases "digits_of (nat (- i))") auto
  have "parse_unsigned True ((c # cs) @ rest) = Some (JInt i, rest)"
    using parse_unsigned_digits [OF assms, of True "nat (- i)"] True c by simp
  with True c digit_head [OF c(2)] show ?thesis
    by (simp add: str_int_def parse_scalar_def starts_Cons dquote_def)
next
  case False
  obtain c cs where c: "digits_of (nat i) = c # cs" "is_digit c"
    using digits_of_nonempty [of "nat i"] digits_are [of _ "nat i"] by (cases "digits_of (nat i)") auto
  have "parse_unsigned False ((c # cs) @ rest) = Some (JInt i, rest)"
    using parse_unsigned_digits [OF assms, of False "nat i"] False c by simp
  with False c digit_head [OF c(2)] show ?thesis
    by (simp add: str_int_def parse_scalar_def starts_Cons)
qed

lemma split_digits_append: "stops rest \<Longrightarrow> split_digits (s @ rest) = (fst (split_digits s), snd (split_digits s) @ rest)"
proof (induction s)
  case Nil
  with stops_rest [of rest] show ?case by (simp add: split_digits_def)
qed (simp add: split_digits_def)

lemma split_integer_append:
  "stops rest \<Longrightarrow> fst (split_integer s) \<noteq> [] \<Longrightarrow>
     split_integer (s @ rest) = (fst (split_integer s), snd (split_integer s) @ rest)"
  using split_digits_append [of rest s] by (cases s) (auto simp: split_integer_def)

lemma split_fraction_append:
  "stops rest \<Longrightarrow> split_fraction (s @ rest) = (fst (split_fraction s), snd (split_fraction s) @ rest)"
proof (cases s)
  case Nil
  assume "stops rest"
  with Nil show ?thesis by (simp add: stops_rest) (simp add: split_fraction_def)
next
  case (Cons c cs)
  assume "stops rest"
  with Cons split_digits_append [of rest cs] show ?thesis by (auto simp: split_fraction_def)
qed

lemma split_sign_append: "stops rest \<Longrightarrow> split_sign (s @ rest) = (fst (split_sign s), snd (split_sign s) @ rest)"
  by (cases s; cases rest) (auto simp: split_sign_def stops_def)

lemma split_exponent_append:
  "stops rest \<Longrightarrow> split_exponent (s @ rest) = (fst (split_exponent s), snd (split_exponent s) @ rest)"
proof (cases s)
  case Nil
  assume "stops rest"
  with Nil show ?thesis by (simp add: stops_rest) (simp add: split_exponent_def)
next
  case (Cons c cs)
  assume st: "stops rest"
  with Cons split_sign_append [OF st, of cs] split_digits_append [OF st, of "snd (split_sign cs)"]
  show ?thesis by (auto simp: split_exponent_def Let_def split: prod.splits)
qed

lemma parse_unsigned_append:
  assumes "parse_unsigned neg s = Some (v, [])" and "stops rest"
  shows "parse_unsigned neg (s @ rest) = Some (v, rest)"
proof -
  have "fst (split_integer s) \<noteq> []" using assms(1) by (auto simp: parse_unsigned_def Let_def split: prod.splits)
  with assms split_integer_append [OF assms(2)] split_fraction_append [OF assms(2)] split_exponent_append [OF assms(2)]
  show ?thesis by (auto simp: parse_unsigned_def Let_def split: prod.splits if_splits)
qed

text \<open>
  The documents the round trip is about: numbers that are not integers have a literal that is
  read as one, and the keys of every object are distinct (a Python dictionary has no others).
\<close>

definition real_literal :: "string \<Rightarrow> bool" where
  "real_literal l \<longleftrightarrow> l \<in> {''NaN'', ''Infinity'', ''-Infinity''} \<or> parse_scalar l = Some (JReal l, []) \<and>
     (case l of [] \<Rightarrow> False
      | c # cs \<Rightarrow> is_digit c \<or> c = CHR ''-'' \<and> (case cs of [] \<Rightarrow> False | d # _ \<Rightarrow> is_digit d))"

fun json_ok :: "json \<Rightarrow> bool" where
  "json_ok (JReal l) = real_literal l"
| "json_ok (JList xs) = list_all json_ok xs"
| "json_ok (JObj kvs) = (distinct (map fst kvs) \<and> list_all (\<lambda>(k, v). json_ok v) kvs)"
| "json_ok _ = True"

definition style_ok :: "json_style \<Rightarrow> bool" where
  "style_ok st \<longleftrightarrow> sty_item st \<in> {'','', '', ''} \<and> sty_key st \<in> {'':'', '': ''}"

lemma parse_real:
  assumes "real_literal l" and st: "stops rest"
  shows "parse_value (Suc f) (l @ rest) = Some (JReal l, rest)"
proof (cases "l \<in> {''NaN'', ''Infinity'', ''-Infinity''}")
  case True
  then show ?thesis by (auto simp: parse_scalar_def starts_Cons dquote_def)
next
  case number: False
  with assms(1) obtain c cs where l: "l = c # cs" by (auto simp: real_literal_def split: list.splits)
  show ?thesis
  proof (cases "is_digit c")
    case True
    with assms(1) number l digit_head [OF True] have "parse_unsigned False (c # cs) = Some (JReal l, [])"
      by (simp add: real_literal_def parse_scalar_def starts_Cons)
    from parse_unsigned_append [OF this st] l digit_head [OF True] show ?thesis
      by (simp add: parse_scalar_def starts_Cons)
  next
    case False
    with assms(1) number l obtain d ds where d: "c = CHR ''-''" "cs = d # ds" "is_digit d"
      by (auto simp: real_literal_def split: list.splits)
    with assms(1) number l digit_head [OF d(3)] have "parse_unsigned True (d # ds) = Some (JReal l, [])"
      by (simp add: real_literal_def parse_scalar_def starts_Cons)
    from parse_unsigned_append [OF this st] l d digit_head [OF d(3)] show ?thesis
      by (simp add: parse_scalar_def starts_Cons dquote_def)
  qed
qed

lemma dict_of_pairs_distinct: "distinct (map fst kvs) \<Longrightarrow> dict_of_pairs kvs = kvs"
proof -
  have "foldl (\<lambda>d (k, v). dict_set k v d) acc kvs = acc @ kvs" if "distinct (map fst (acc @ kvs))" for acc
    using that
  proof (induction kvs arbitrary: acc)
    case (Cons p kvs)
    obtain k v where p: "p = (k, v)" by fastforce
    with Cons.prems have "dict_get acc k = None" by (auto simp: dict_get_def map_of_eq_None_iff)
    then have "dict_set k v acc = acc @ [p]" by (simp add: dict_set_new p)
    with Cons.IH [of "acc @ [p]"] Cons.prems p show ?case by simp
  qed simp
  then show "distinct (map fst kvs) \<Longrightarrow> dict_of_pairs kvs = kvs" by (simp add: dict_of_pairs_def)
qed

text \<open>The text of a value begins with no space and is not empty.\<close>

lemma print_head: "json_ok v \<Longrightarrow> \<exists>c cs. print_json st v = c # cs \<and> \<not> is_space c \<and> c \<notin> {CHR '']'', CHR ''}''}"
proof -
  assume ok: "json_ok v"
  have digits: "\<exists>c cs. digits_of n = c # cs \<and> is_digit c" for n
    using digits_of_nonempty [of n] digits_are [of _ n] by (cases "digits_of n") auto
  have digit: "is_digit c \<Longrightarrow> \<not> is_space c \<and> c \<notin> {CHR '']'', CHR ''}''}" for c
    by (auto simp: is_digit_def is_space_def code_def)
  show ?thesis
  proof (cases v)
    case (JReal l)
    with ok obtain c cs where "l = c # cs" "is_digit c \<or> c \<in> {CHR ''-'', CHR ''N'', CHR ''I''}"
      by (auto simp: real_literal_def split: list.splits)
    with JReal digit show ?thesis by (auto simp: is_space_def code_def)
  next
    case (JInt i)
    with digits [of "nat (- i)"] digits [of "nat i"] digit show ?thesis
      by (fastforce simp: str_int_def is_space_def code_def)
  qed (auto simp: json_string_def dquote_def is_space_def code_def)
qed

lemma skip_print: "json_ok v \<Longrightarrow> skip (print_json st v @ rest) = print_json st v @ rest"
  using print_head [of v st] by (auto simp: skip_def)

definition reads_back :: "json_style \<Rightarrow> json \<Rightarrow> bool" where
  "reads_back st v \<longleftrightarrow>
     (\<forall>f rest. stops rest \<longrightarrow> 2 * length (print_json st v) \<le> f \<longrightarrow>
        parse_value f (print_json st v @ rest) = Some (v, rest))"

lemma punctuation:
  "stops (CHR '','' # s)" "stops (CHR '']'' # s)" "stops (CHR ''}'' # s)"
  "skip (CHR '','' # s) = CHR '','' # s" "skip (CHR '']'' # s) = CHR '']'' # s"
  "skip (CHR ''}'' # s) = CHR ''}'' # s" "skip (CHR '':'' # s) = CHR '':'' # s" "skip (CHR '' '' # s) = skip s"
  by (simp_all add: stops_def skip_def is_digit_def is_space_def code_def)

lemma item_separator:
  assumes "style_ok st"
  shows "\<exists>ws. sty_item st @ s = CHR '','' # ws \<and> skip ws = skip s"
    and "\<exists>ws. sty_key st @ s = CHR '':'' # ws \<and> skip ws = skip s" and "stops (sty_item st @ s)"
  using assms by (auto simp: style_ok_def punctuation stops_def is_digit_def code_def)

lemma join_Cons: "ys \<noteq> [] \<Longrightarrow> join_with sep (x # ys) = x @ sep @ join_with sep ys"
  by (cases ys) simp_all

lemma skip_join:
  assumes "xs \<noteq> []" and "\<forall>x \<in> set xs. json_ok x"
  shows "skip (join_with sep (map (print_json st) xs) @ rest) = join_with sep (map (print_json st) xs) @ rest"
proof (cases xs)
  case (Cons x ys)
  with assms print_head [of x st] show ?thesis
    by (cases ys) (auto simp: skip_def)
qed (use assms in simp)

lemma parse_items_text:
  assumes st: "style_ok st"
  shows "xs \<noteq> [] \<Longrightarrow> \<forall>x \<in> set xs. json_ok x \<and> reads_back st x \<Longrightarrow>
     2 * length (join_with (sty_item st) (map (print_json st) xs)) + 1 \<le> f \<Longrightarrow>
     parse_items f (join_with (sty_item st) (map (print_json st) xs) @ CHR '']'' # rest) = Some (xs, rest)"
proof (induction xs arbitrary: f)
  case (Cons x xs)
  from Cons.prems(3) obtain f' where f: "f = Suc f'" by (cases f) auto
  show ?case
  proof (cases "xs = []")
    case True
    with Cons.prems f have "parse_value f' (print_json st x @ CHR '']'' # rest) = Some (x, CHR '']'' # rest)"
      by (simp add: reads_back_def punctuation)
    with True f show ?thesis by (simp add: punctuation)
  next
    case False
    let ?body = "join_with (sty_item st) (map (print_json st) xs) @ CHR '']'' # rest"
    from item_separator(1) [OF st, of ?body] obtain ws where ws: "sty_item st @ ?body = CHR '','' # ws" "skip ws = skip ?body"
      by blast
    have sep: "1 \<le> length (sty_item st)" using st by (auto simp: style_ok_def)
    have "parse_value f' (print_json st x @ sty_item st @ ?body) = Some (x, sty_item st @ ?body)"
      using Cons.prems f False item_separator(3) [OF st] by (simp add: reads_back_def join_Cons)
    moreover have "skip (sty_item st @ ?body) = CHR '','' # ws" by (simp add: ws(1) punctuation)
    moreover have "skip ws = ?body" using ws(2) skip_join [OF False] Cons.prems by simp
    moreover have "parse_items f' ?body = Some (xs, rest)"
      using Cons.prems Cons.IH [of f'] False f sep by (simp add: join_Cons)
    ultimately show ?thesis using False f by (simp add: join_Cons)
  qed
qed simp

definition member_text :: "json_style \<Rightarrow> string \<times> json \<Rightarrow> string" where
  "member_text st p = json_string (sty_ascii st) (fst p) @ sty_key st @ print_json st (snd p)"

lemma skip_member: "skip (member_text st p @ rest) = member_text st p @ rest"
  by (simp add: member_text_def json_string_def skip_def is_space_def code_named)

lemma skip_members:
  "kvs \<noteq> [] \<Longrightarrow> skip (join_with sep (map (member_text st) kvs) @ rest) = join_with sep (map (member_text st) kvs) @ rest"
  using skip_member [of st "hd kvs"] by (cases kvs; cases "tl kvs") (simp_all add: skip_member)

lemma parse_members_text:
  assumes st: "style_ok st"
  shows "kvs \<noteq> [] \<Longrightarrow> \<forall>(k, v) \<in> set kvs. json_ok v \<and> reads_back st v \<Longrightarrow>
     2 * length (join_with (sty_item st) (map (member_text st) kvs)) + 1 \<le> f \<Longrightarrow>
     parse_members f (join_with (sty_item st) (map (member_text st) kvs) @ CHR ''}'' # rest) = Some (kvs, rest)"
proof (induction kvs arbitrary: f)
  case (Cons p kvs)
  obtain k v where p: "p = (k, v)" by fastforce
  from Cons.prems(3) obtain f' where f: "f = Suc f'" by (cases f) auto
  have v: "json_ok v" "reads_back st v" using Cons.prems(2) p by auto
  define tail where "tail = (if kvs = [] then CHR ''}'' # rest
     else sty_item st @ join_with (sty_item st) (map (member_text st) kvs) @ CHR ''}'' # rest)"
  have whole: "join_with (sty_item st) (map (member_text st) (p # kvs)) @ CHR ''}'' # rest = member_text st p @ tail"
    by (cases "kvs = []") (simp_all add: join_Cons tail_def)
  have "length (member_text st p) \<le> length (join_with (sty_item st) (map (member_text st) (p # kvs)))"
    by (cases "kvs = []") (simp_all add: join_Cons)
  moreover have "length (print_json st v) \<le> length (member_text st p)" by (simp add: member_text_def p)
  ultimately have fuel: "2 * length (print_json st v) \<le> f'" using Cons.prems(3) f by linarith
  have "stops tail" using item_separator(3) [OF st] by (simp add: tail_def punctuation)
  then have val: "parse_value f' (print_json st v @ tail) = Some (v, tail)"
    using v(2) fuel by (simp add: reads_back_def)
  from item_separator(2) [OF st, of "print_json st v @ tail"] obtain ks where
    ks: "sty_key st @ print_json st v @ tail = CHR '':'' # ks" "skip ks = print_json st v @ tail"
    using skip_print [OF v(1)] by auto
  have head: "parse_string (member_text st p @ tail) = Some (k, CHR '':'' # ks)"
    using ks(1) by (simp add: member_text_def p parse_string_text)
  show ?case
  proof (cases "kvs = []")
    case True
    then have "tail = CHR ''}'' # rest" by (simp add: tail_def)
    with val ks(2) head show ?thesis unfolding whole f by (simp add: punctuation True p)
  next
    case False
    let ?body = "join_with (sty_item st) (map (member_text st) kvs) @ CHR ''}'' # rest"
    from item_separator(1) [OF st, of ?body] obtain ws where ws: "tail = CHR '','' # ws" "skip ws = skip ?body"
      using False by (auto simp: tail_def)
    have sep: "1 \<le> length (sty_item st)" using st by (auto simp: style_ok_def)
    have "parse_members f' ?body = Some (kvs, rest)"
      using Cons.prems Cons.IH [of f'] False f sep by (simp add: join_Cons)
    with val ks(2) head ws skip_members [OF False] show ?thesis
      unfolding whole f by (simp add: punctuation p)
  qed
qed simp

lemma print_members: "map (\<lambda>(k, v). json_string (sty_ascii st) k @ sty_key st @ print_json st v) kvs = map (member_text st) kvs"
  by (simp add: member_text_def case_prod_beta)

lemma reads_backI:
  assumes "json_ok v"
    and "\<And>f rest. stops rest \<Longrightarrow> 2 * length (print_json st v) \<le> Suc f \<Longrightarrow>
           parse_value (Suc f) (print_json st v @ rest) = Some (v, rest)"
  shows "reads_back st v"
  unfolding reads_back_def
proof (intro allI impI)
  fix f rest
  assume "stops rest" and fuel: "2 * length (print_json st v) \<le> f"
  moreover have "print_json st v \<noteq> []" using print_head [OF assms(1), of st] by auto
  ultimately obtain f' where "f = Suc f'" by (cases f) auto
  with assms(2) [OF \<open>stops rest\<close>, of f'] fuel show "parse_value f (print_json st v @ rest) = Some (v, rest)" by simp
qed

lemma list_reads_back:
  assumes "style_ok st" and "\<forall>x \<in> set xs. json_ok x \<and> reads_back st x"
    and "2 * length (print_json st (JList xs)) \<le> Suc f"
  shows "parse_value (Suc f) (print_json st (JList xs) @ rest) = Some (JList xs, rest)"
proof (cases "xs = []")
  case True
  then show ?thesis by (simp add: punctuation starts_Cons dquote_def)
next
  case False
  let ?body = "join_with (sty_item st) (map (print_json st) xs) @ CHR '']'' # rest"
  have sk: "skip ?body = ?body" using skip_join [OF False] assms(2) by blast
  have "\<not> starts '']'' ?body"
    using False assms(2) print_head [of "hd xs" st] by (cases xs; cases "tl xs") (auto simp: starts_Cons)
  moreover have "parse_items f ?body = Some (xs, rest)"
    using assms(3) by (intro parse_items_text [OF assms(1) False assms(2)]) simp
  ultimately show ?thesis using sk by (simp add: dquote_def)
qed

lemma object_reads_back:
  assumes "style_ok st" and "\<forall>(k, v) \<in> set kvs. json_ok v \<and> reads_back st v" and "distinct (map fst kvs)"
    and "2 * length (print_json st (JObj kvs)) \<le> Suc f"
  shows "parse_value (Suc f) (print_json st (JObj kvs) @ rest) = Some (JObj kvs, rest)"
proof (cases "kvs = []")
  case True
  then show ?thesis by (simp add: punctuation starts_Cons dquote_def)
next
  case False
  let ?body = "join_with (sty_item st) (map (member_text st) kvs) @ CHR ''}'' # rest"
  have "\<not> starts ''}'' ?body"
    using False by (cases kvs; cases "tl kvs") (auto simp: starts_Cons member_text_def json_string_def dquote_def)
  moreover have "parse_members f ?body = Some (kvs, rest)"
    using assms(4) by (intro parse_members_text [OF assms(1) False assms(2)]) (simp add: print_members)
  ultimately show ?thesis
    using skip_members [OF False] by (simp add: dquote_def print_members dict_of_pairs_distinct assms(3))
qed

lemma print_reads_back: "style_ok st \<Longrightarrow> json_ok v \<Longrightarrow> reads_back st v"
proof (induction v)
  case (JList xs)
  then have "\<forall>x \<in> set xs. json_ok x \<and> reads_back st x" by (simp add: list_all_iff)
  with JList.prems show ?case by (intro reads_backI list_reads_back) auto
next
  case (JObj kvs)
  then have "\<forall>(k, v) \<in> set kvs. json_ok v \<and> reads_back st v" by (fastforce simp: list_all_iff)
  with JObj.prems show ?case by (intro reads_backI object_reads_back) auto
next
  case (JStr s)
  then show ?case by (intro reads_backI) (auto simp: json_string_def parse_chars_text)
next
  case (JInt i)
  then show ?case by (intro reads_backI) (simp_all only: print_json.simps parse_int json_ok.simps)
next
  case (JReal l)
  then show ?case by (intro reads_backI) (simp_all only: print_json.simps parse_real json_ok.simps)
next
  case JNull
  then show ?case by (intro reads_backI) (simp_all add: parse_scalar_def starts_Cons dquote_def)
next
  case (JBool b)
  then show ?case by (intro reads_backI) (simp_all add: parse_scalar_def starts_Cons dquote_def)
qed

section \<open>Sorted keys\<close>

lemma distinct_keys_sort: "distinct (map fst (sort_key fst kvs)) = distinct (map fst kvs)"
  by (simp add: distinct_map)

lemma json_ok_sort: "json_ok v \<Longrightarrow> json_ok (sort_json v)"
proof (induction v)
  case (JObj kvs)
  have "distinct (map fst (map (\<lambda>(k, v). (k, sort_json v)) kvs))"
    using JObj.prems by (simp add: case_prod_beta comp_def)
  moreover have "json_ok (sort_json v)" if "(k, v) \<in> set kvs" for k v
    using that JObj by (fastforce simp: list_all_iff)
  ultimately show ?case by (auto simp: distinct_keys_sort list_all_iff simp del: map_map)
qed (simp_all add: list_all_iff)

text \<open>Sorting changes no lookup, so no reader of a document sees a difference.\<close>

lemma map_of_sort_key: "distinct (map fst kvs) \<Longrightarrow> map_of (sort_key fst kvs) = map_of kvs"
  by (rule map_of_eqI) (auto simp: distinct_map map_of_eq_Some_iff)

lemma sort_json_get: "json_ok v \<Longrightarrow> json_get (sort_json v) k = map_option sort_json (json_get v k)"
proof (cases v)
  case (JObj kvs)
  assume "json_ok v"
  with JObj have "distinct (map fst (map (\<lambda>(k, v). (k, sort_json v)) kvs))" by (simp add: case_prod_beta comp_def)
  from map_of_sort_key [OF this] JObj show ?thesis by (simp add: map_of_map)
qed simp_all

section \<open>The round trip\<close>

lemma styles_ok [simp]: "style_ok canonical_style" "style_ok compact_style" "style_ok plain_style"
  by (simp_all add: style_ok_def canonical_style_def compact_style_def plain_style_def)

text \<open>A value that holds floats as the library prints them is what reading its text gives.\<close>

definition floats_read :: "(string \<Rightarrow> string) \<Rightarrow> json \<Rightarrow> bool" where
  "floats_read h v \<longleftrightarrow> read_floats h v = v"

lemma insort_key_map_values:
  "insort_key fst (k, f v) (map (\<lambda>(k, v). (k, f v)) xs) = map (\<lambda>(k, v). (k, f v)) (insort_key fst (k, v) xs)"
  by (induction xs) auto

lemma sort_key_map_values:
  "sort_key fst (map (\<lambda>(k, v). (k, f v)) xs) = map (\<lambda>(k, v). (k, f v)) (sort_key fst xs)"
  by (induction xs) (auto simp: insort_key_map_values)

lemma read_floats_sort: "sort_json (read_floats h v) = read_floats h (sort_json v)"
proof (induction v)
  case (JObj kvs)
  have "map (\<lambda>(k, v). (k, sort_json v)) (map (\<lambda>(k, v). (k, read_floats h v)) kvs)
      = map (\<lambda>(k, v). (k, read_floats h v)) (map (\<lambda>(k, v). (k, sort_json v)) kvs)"
    using JObj by (force simp: map_eq_conv)
  with sort_key_map_values show ?case by (simp del: map_map)
qed simp_all

lemma sort_json_again: "sort_json (sort_json v) = sort_json v"
proof (induction v)
  case (JObj kvs)
  have "map (\<lambda>(k, v). (k, sort_json v)) (map (\<lambda>(k, v). (k, sort_json v)) kvs) = map (\<lambda>(k, v). (k, sort_json v)) kvs"
    using JObj by (force simp: map_eq_conv)
  then show ?case by (simp add: sort_key_map_values [symmetric] sort_key_id_if_sorted del: map_map)
qed simp_all

lemma dumps_sorted: "dumps st (sort_json v) = dumps st v"
  by (simp add: dumps_def sort_json_again)

lemma loads_print:
  assumes "style_ok st" and "json_ok v" and "floats_read (lib_float lib) v"
  shows "json_loads lib (print_json st v) = Inr v"
proof -
  let ?t = "print_json st v"
  from print_reads_back [OF assms(1,2)]
  have "parse_value (2 * length ?t + 1) ?t = Some (v, [])"
    using stops_def [of "[]"] by (auto simp: reads_back_def dest!: spec [of _ "2 * length ?t + 1"] spec [of _ "[]"])
  moreover have "skip ?t = ?t" using skip_print [OF assms(2), of st "[]"] by simp
  ultimately show ?thesis using assms(3) by (simp add: json_loads_def skip_def floats_read_def)
qed

lemma loads_dumps:
  assumes "style_ok st" and "json_ok v" and "floats_read (lib_float lib) v"
  shows "json_loads lib (dumps st v) = Inr (sort_json v)"
proof -
  have "floats_read (lib_float lib) (sort_json v)"
    using assms(3) read_floats_sort [of "lib_float lib" v] by (simp add: floats_read_def)
  from loads_print [OF assms(1) json_ok_sort [OF assms(2)] this] show ?thesis by (simp add: dumps_def)
qed

lemma loads_extra_data:
  assumes "json_ok v" and "stops rest" and "skip rest \<noteq> []"
  shows "\<exists>m. json_loads lib (dumps canonical_style v @ rest) = Inl (Exn JSONDecodeError m)"
proof -
  let ?p = "print_json canonical_style (sort_json v)"
  have "parse_value (2 * length (?p @ rest) + 1) (?p @ rest) = Some (sort_json v, rest)"
    using print_reads_back [OF styles_ok(1) json_ok_sort [OF assms(1)]] assms(2)
    by (auto simp: reads_back_def dest!: spec [of _ "2 * length (?p @ rest) + 1"] spec [of _ rest])
  moreover have "skip (?p @ rest) = ?p @ rest" by (rule skip_print [OF json_ok_sort [OF assms(1)]])
  ultimately show ?thesis using assms(3) by (simp add: json_loads_def dumps_def)
qed

lemma read_floats_same: "read_floats (\<lambda>l. l) v = v"
proof (induction v)
  case (JObj kvs)
  then show ?case by (simp, intro map_idI) (auto split: prod.split)
qed (simp_all add: map_idI)

text \<open>Equal texts are texts of equal documents.\<close>

lemma dumps_inj:
  assumes "style_ok st" and "json_ok v" and "json_ok w" and "dumps st v = dumps st w"
  shows "sort_json v = sort_json w"
proof -
  let ?lib = "\<lparr>lib_float = (\<lambda>l. l), lib_wording = id, lib_sha256 = id\<rparr>"
  have "json_loads ?lib (dumps st v) = Inr (sort_json v)" "json_loads ?lib (dumps st w) = Inr (sort_json w)"
    using loads_dumps [OF assms(1,2), of ?lib] loads_dumps [OF assms(1,3), of ?lib]
    by (simp_all add: floats_read_def read_floats_same)
  with assms(4) show ?thesis by simp
qed

section \<open>What is read\<close>

text \<open>
  The documents \<open>json.loads\<close> gives have distinct keys, and their floats print as numbers when the
  library prints floats as numbers.
\<close>

definition prints_floats :: "(string \<Rightarrow> string) \<Rightarrow> bool" where
  "prints_floats h \<longleftrightarrow> (\<forall>l. real_literal (h l) \<and> h (h l) = h l)"

fun keys_ok :: "json \<Rightarrow> bool" where
  "keys_ok (JList xs) = list_all keys_ok xs"
| "keys_ok (JObj kvs) = (distinct (map fst kvs) \<and> list_all (\<lambda>(k, v). keys_ok v) kvs)"
| "keys_ok _ = True"

lemma read_floats_ok: "prints_floats h \<Longrightarrow> keys_ok v \<Longrightarrow> json_ok (read_floats h v)"
  by (induction v) (auto simp: prints_floats_def list_all_iff case_prod_beta comp_def)

lemma read_floats_again: "prints_floats h \<Longrightarrow> read_floats h (read_floats h v) = read_floats h v"
  by (induction v) (auto simp: prints_floats_def case_prod_beta)

lemma dict_of_pairs_keys:
  assumes "\<forall>(k, v) \<in> set kvs. P v"
  shows "distinct (map fst (dict_of_pairs kvs)) \<and> (\<forall>(k, v) \<in> set (dict_of_pairs kvs). P v)"
  using dict_update_all [of kvs "\<lambda>k. P" "[]"] assms by (simp add: dict_of_pairs_def dict_ok_def)

lemma object_keys_ok: "\<forall>(k, v) \<in> set kvs. keys_ok v \<Longrightarrow> keys_ok (JObj (dict_of_pairs kvs))"
  using dict_of_pairs_keys [of kvs keys_ok] by (simp add: list_all_iff)

lemma scalar_keys_ok: "parse_scalar s = Some (v, r) \<Longrightarrow> keys_ok v"
  by (auto simp: parse_scalar_def parse_unsigned_def Let_def split: if_splits prod.splits)

lemma parse_keys_ok:
  "parse_value f s = Some (v, r) \<Longrightarrow> keys_ok v"
  "parse_items f s = Some (vs, r) \<Longrightarrow> list_all keys_ok vs"
  "parse_members f s = Some (kvs, r) \<Longrightarrow> \<forall>(k, v) \<in> set kvs. keys_ok v"
proof (induction f s and f s and f s arbitrary: v r and vs r and kvs r
    rule: parse_value_parse_items_parse_members.induct)
  case (2 f s)
  then obtain c cs where s: "s = c # cs" by (cases s) auto
  consider "c = dquote" | "c = CHR ''[''" "c \<noteq> dquote" | "c = CHR ''{''" "c \<noteq> dquote"
    | "c \<noteq> dquote" "c \<noteq> CHR ''[''" "c \<noteq> CHR ''{''" by blast
  then show ?case
  proof cases
    case 1
    with 2(3) s show ?thesis by auto
  next
    case 2
    with "2.prems" "2.IH"(1) s show ?thesis by (auto split: if_splits)
  next
    case 3
    show ?thesis
    proof (cases "starts ''}'' (skip cs)")
      case True
      with 3 "2.prems" s show ?thesis by auto
    next
      case False
      with 3 "2.prems" s obtain kvs where kvs: "parse_members f (skip cs) = Some (kvs, r)" "v = JObj (dict_of_pairs kvs)"
        by auto
      from "2.IH"(2) [OF s 3(2) _ 3(1) False kvs(1)] 3(1) kvs(2) object_keys_ok show ?thesis by simp
    qed
  next
    case 4
    with "2.prems" s scalar_keys_ok show ?thesis by simp
  qed
next
  case (6 f s)
  then show ?case by (fastforce split: option.splits list.splits if_splits)
qed (auto split: option.splits list.splits if_splits)

lemma json_loads_ok:
  assumes "prints_floats (lib_float lib)" and "json_loads lib s = Inr v"
  shows "json_ok v" and "floats_read (lib_float lib) v"
proof -
  from assms(2) obtain u rest where u: "parse_value (2 * length s + 1) (skip s) = Some (u, rest)"
    "v = read_floats (lib_float lib) u"
    by (auto simp: json_loads_def simp del: parse_value.simps split: option.splits if_splits)
  with read_floats_ok [OF assms(1) parse_keys_ok(1) [OF u(1)]] read_floats_again [OF assms(1)]
  show "json_ok v" "floats_read (lib_float lib) v" by (simp_all add: floats_read_def)
qed

text \<open>
  What \<open>json.dumps\<close> writes, \<open>json.loads\<close> reads back.  For every document and each of the
  styles the code uses, decoding its text gives the document with the keys of its objects
  sorted, where every key has the value it had: no text, whatever quotes, backslashes, control
  characters or brackets it holds, escapes its field.  So two documents with the same text are
  the same up to the order of keys.
\<close>

theorem json_roundtrip:
  assumes "st \<in> {canonical_style, compact_style, plain_style}" and "json_ok v"
    and "floats_read (lib_float lib) v"
  shows "json_loads lib (dumps st v) = Inr (sort_json v)
     \<and> (\<forall>k. json_get (sort_json v) k = map_option sort_json (json_get v k))
     \<and> (\<forall>w. json_ok w \<longrightarrow> dumps st w = dumps st v \<longrightarrow> sort_json w = sort_json v)"
proof -
  have st: "style_ok st" using assms(1) by auto
  show ?thesis
    using loads_dumps [OF st assms(2,3)] sort_json_get [OF assms(2)] dumps_inj [OF st _ assms(2)] by blast
qed

text \<open>The floats of this library: a literal that is read as a float prints as itself.\<close>

definition sample_float :: "string \<Rightarrow> string" where
  "sample_float l = (if real_literal l then l else ''NaN'')"

lemma sample_prints_floats: "prints_floats sample_float"
  by (auto simp: prints_floats_def sample_float_def real_literal_def)

theorem json_roundtrip_witness:
  "let v = JObj [(''b'', JStr ([dquote] @ '',}'')), (''a'', JList [JInt (- 7), JReal ''1.5'', JNull])] in
   json_loads \<lparr>lib_float = sample_float, lib_wording = id, lib_sha256 = id\<rparr> (dumps canonical_style v)
     = Inr (JObj [(''a'', JList [JInt (- 7), JReal ''1.5'', JNull]), (''b'', JStr ([dquote] @ '',}''))])"
proof -
  let ?v = "JObj [(''b'', JStr ([dquote] @ '',}'')), (''a'', JList [JInt (- 7), JReal ''1.5'', JNull])]"
  let ?lib = "\<lparr>lib_float = sample_float, lib_wording = id, lib_sha256 = id\<rparr>"
  have r: "real_literal ''1.5''" by code_simp
  then have "json_ok ?v" "floats_read (lib_float ?lib) ?v" by (simp_all add: floats_read_def sample_float_def)
  from json_roundtrip [OF _ this, of canonical_style] show ?thesis
    by (simp add: insort_key_def)
qed

end
