(* ===== verification/Hash_Chain.thy ===== *)
theory Hash_Chain
  imports Json_Text
begin

text \<open>
  What the audit log (\<open>audit.py\<close>) and the incident evidence chain (\<open>evidence_chain.py\<close>) have in
  common: entries whose canonical text holds the digest of the text of the entry before.  The
  locale states what a chain needs of its format, and proves once that the digest of the last
  entry determines all of them, unless two different texts with one digest are at hand.
\<close>

definition sha256_of :: "'a library_scheme \<Rightarrow> json \<Rightarrow> string" where
  "sha256_of lib v = lib_sha256 lib (dumps canonical_style v)"

text \<open>\<open>GENESIS = "0" * 64\<close>.\<close>

definition genesis_hash :: string where
  "genesis_hash = replicate 64 (CHR ''0'')"

text \<open>
  Two texts with one digest, or a text whose digest is the agreed start: finding either is
  what a cryptographic hash makes infeasible.
\<close>

definition hash_broken :: "(string \<Rightarrow> string) \<Rightarrow> string set \<Rightarrow> bool" where
  "hash_broken digest texts \<longleftrightarrow>
     (\<exists>x \<in> texts. \<exists>y \<in> texts. x \<noteq> y \<and> digest x = digest y) \<or> (\<exists>x \<in> texts. digest x = genesis_hash)"

lemma hash_broken_mono: "hash_broken digest xs \<Longrightarrow> xs \<subseteq> ys \<Longrightarrow> hash_broken digest ys"
  by (auto simp: hash_broken_def)

locale hash_chain =
  fixes ok :: "'e \<Rightarrow> bool"
    and body :: "'e \<Rightarrow> string"
    and same :: "'e \<Rightarrow> 'n"
    and link :: "'e \<Rightarrow> string"
    and digest :: "string \<Rightarrow> string"
    and linked :: "'e list \<Rightarrow> string \<Rightarrow> bool"
  assumes body_commits: "ok a \<Longrightarrow> ok b \<Longrightarrow> body a = body b \<Longrightarrow> same a = same b"
    and same_link: "ok a \<Longrightarrow> ok b \<Longrightarrow> same a = same b \<Longrightarrow> link a = link b"
    and linked_empty: "linked [] h \<Longrightarrow> h = genesis_hash"
    and linked_last: "linked (es @ [e]) h \<Longrightarrow> ok e \<and> linked es (link e) \<and> h = digest (body e)"
begin

text \<open>Entries with equal heads are the same entries.\<close>

lemma head_determines_entries:
  "linked es h \<Longrightarrow> linked fs h \<Longrightarrow>
     map same es = map same fs \<or> hash_broken digest (body ` (set es \<union> set fs))"
proof (induction es arbitrary: fs h rule: rev_induct)
  case Nil
  show ?case
  proof (cases "fs = []")
    case False
    then have "linked (butlast fs @ [last fs]) h" using Nil.prems(2) by simp
    then have "digest (body (last fs)) = genesis_hash" using linked_empty [OF Nil.prems(1)] linked_last by metis
    moreover have "last fs \<in> set fs" using False by simp
    ultimately show ?thesis by (auto simp: hash_broken_def)
  qed simp
next
  case (snoc e es)
  from snoc.prems(1) have e: "ok e" "linked es (link e)" "h = digest (body e)" by (auto dest: linked_last)
  show ?case
  proof (cases fs rule: rev_cases)
    case Nil
    with snoc.prems linked_empty e(3) show ?thesis by (auto simp: hash_broken_def)
  next
    case (snoc gs g)
    with \<open>linked fs h\<close> have g: "ok g" "linked gs (link g)" "h = digest (body g)" by (auto dest: linked_last)
    show ?thesis
    proof (cases "body e = body g")
      case False
      with e(3) g(3) snoc show ?thesis by (auto simp: hash_broken_def)
    next
      case True
      with e g have same: "same e = same g" by (auto intro: body_commits)
      with e g have "link e = link g" by (auto intro: same_link)
      with e(2) g(2) snoc.IH [of "link e" gs] same snoc
        hash_broken_mono [of digest "body ` (set es \<union> set gs)" "body ` (set (es @ [e]) \<union> set fs)"]
      show ?thesis by auto
    qed
  qed
qed

text \<open>No shorter chain has the head of a longer one.\<close>

lemma head_determines_length:
  "linked es h \<Longrightarrow> linked fs h \<Longrightarrow> \<not> hash_broken digest (body ` (set es \<union> set fs)) \<Longrightarrow> length es = length fs"
  using head_determines_entries map_eq_imp_length_eq by blast

end

text \<open>The string a field holds, and two documents that agree up to the order of their keys.\<close>

definition string_field :: "string \<Rightarrow> json \<Rightarrow> string" where
  "string_field k v = (case json_get v k of Some (JStr s) \<Rightarrow> s | _ \<Rightarrow> [])"

lemma string_field_sorted:
  assumes "json_ok a" and "json_ok b" and "sort_json a = sort_json b"
  shows "string_field k a = string_field k b"
proof -
  have "map_option sort_json (json_get a k) = map_option sort_json (json_get b k)"
    using sort_json_get [OF assms(1), of k] sort_json_get [OF assms(2), of k] assms(3) by simp
  moreover have "sort_json x = JStr s \<longleftrightarrow> x = JStr s" "JStr s = sort_json x \<longleftrightarrow> JStr s = x" for x s
    by (cases x; auto)+
  ultimately show ?thesis by (auto simp: string_field_def split: option.splits json.splits)
qed

section \<open>A library for examples\<close>

text \<open>The digest is the length of the text, written in 64 digits.\<close>

definition sample_lib :: library where
  "sample_lib = \<lparr>lib_float = sample_float, lib_wording = id,
     lib_sha256 = (\<lambda>s. let d = digits_of (length s) in replicate (64 - length d) (CHR ''0'') @ d)\<rparr>"

lemma sample_digest_not_genesis: "s \<noteq> [] \<Longrightarrow> lib_sha256 sample_lib s \<noteq> genesis_hash"
proof
  assume s: "s \<noteq> []" "lib_sha256 sample_lib s = genesis_hash"
  have zero: "digits_value 0 ds = 0" if "set ds \<subseteq> {CHR ''0''}" for ds
    using that by (induction ds) auto
  have "set (digits_of (length s)) \<subseteq> set (lib_sha256 sample_lib s)" by (simp add: sample_lib_def Let_def)
  then have "digits_value 0 (digits_of (length s)) = 0"
    using s(2) by (intro zero) (simp add: genesis_hash_def)
  with s(1) show False by (simp add: digits_value_of)
qed

end
