(* ===== verification/Audit_Log.thy ===== *)
theory Audit_Log
  imports Hash_Chain
begin

text \<open>
  \<open>audit.py\<close>: the append-only, hash-linked log of the service, as the text of its file (\<open>None\<close>
  while the file does not exist).  A write appends the line, or raises before the file is
  opened, or raises after a part of the line has reached the file.

  Text is 8-bit, so the line boundaries \<open>\u2028\<close> and \<open>\u2029\<close> of \<open>splitlines\<close> do not occur, and a
  write does not stop inside the encoding of a character.
\<close>

section \<open>Verification\<close>

text \<open>\<open>event.pop("hash")\<close> of a decoded line.\<close>

definition pop_hash :: "json \<Rightarrow> exn + (json \<times> json)" where
  "pop_hash event =
     (case event of
        JObj kvs \<Rightarrow>
          (case map_of kvs ''hash'' of
             Some stored \<Rightarrow> Inr (stored, JObj (dict_del ''hash'' kvs))
           | None \<Rightarrow> Inl (Exn KeyError ''hash''))
      | JList xs \<Rightarrow> Inl (Exn TypeError ''pop of a list'')
      | _ \<Rightarrow> Inl (Exn (OtherException ''AttributeError'') ''pop''))"

text \<open>\<open>value == n\<close> for an integer: \<open>True\<close> and the float \<open>1.0\<close> are equal to \<open>1\<close>.\<close>

fun equals_int :: "json \<Rightarrow> int \<Rightarrow> bool" where
  "equals_int (JInt i) n = (i = n)"
| "equals_int (JBool b) n = (n = (if b then 1 else 0))"
| "equals_int (JReal l) n = (l = str_int n @ ''.0'' \<or> n = 0 \<and> l = ''-0.0'')"
| "equals_int v n = False"

text \<open>The loop of \<open>verify\<close>; an exception leaves it for the handler.\<close>

fun verify_lines :: "'a library_scheme \<Rightarrow> string \<Rightarrow> int \<Rightarrow> string list \<Rightarrow> exn + (bool \<times> string)" where
  "verify_lines lib prev n [] = Inr (True, ''audit chain valid'')"
| "verify_lines lib prev n (line # lines) =
     (if blank line then verify_lines lib prev n lines
      else case json_loads lib line of
        Inl e \<Rightarrow> Inl e
      | Inr decoded \<Rightarrow>
          (case pop_hash decoded of
             Inl e \<Rightarrow> Inl e
           | Inr (stored, event) \<Rightarrow>
               if \<not> (case json_get event ''sequence'' of None \<Rightarrow> False | Some v \<Rightarrow> equals_int v n) then
                 Inr (False, ''sequence mismatch at '' @ str_int n)
               else if json_get event ''previous_hash'' \<noteq> Some (JStr prev) then
                 Inr (False, ''previous hash mismatch at sequence '' @ str_int n)
               else if stored \<noteq> JStr (sha256_of lib event) then
                 Inr (False, ''hash mismatch at sequence '' @ str_int n)
               else verify_lines lib (sha256_of lib event) (n + 1) lines))"

definition malformed :: "exn \<Rightarrow> bool" where
  "malformed e \<longleftrightarrow> is_os_error e \<or> exn_class e \<in> {JSONDecodeError, KeyError, TypeError}"

definition al_verify :: "'a library_scheme \<Rightarrow> string option \<Rightarrow> exn + (bool \<times> string)" where
  "al_verify lib contents =
     (case contents of
        None \<Rightarrow> Inr (True, ''empty audit log'')
      | Some t \<Rightarrow>
          (case verify_lines lib genesis_hash 1 (splitlines t) of
             Inl e \<Rightarrow> if malformed e then Inr (False, ''malformed audit log'') else Inl e
           | Inr r \<Rightarrow> Inr r))"

section \<open>Recording\<close>

text \<open>The event before its hash: a key of the keyword arguments \<open>extra\<close> overrides the one of the same name.\<close>

definition audit_event ::
  "string \<Rightarrow> int \<Rightarrow> json \<Rightarrow> string \<Rightarrow> string \<Rightarrow> string option \<Rightarrow> string option \<Rightarrow> string option \<Rightarrow> json dict \<Rightarrow> json dict" where
  "audit_event previous_hash sequence timestamp event_type agent_id action_id decision reason extra =
     (let text = (\<lambda>v. case v of None \<Rightarrow> JNull | Some s \<Rightarrow> JStr s) in
      foldl (\<lambda>d (k, v). dict_set k v d)
        [(''version'', JInt 1), (''sequence'', JInt sequence), (''timestamp'', timestamp),
         (''event_type'', JStr event_type), (''agent_id'', JStr agent_id), (''action_id'', text action_id),
         (''decision'', text decision), (''reason'', text reason), (''previous_hash'', JStr previous_hash)] extra)"

definition with_hash :: "'a library_scheme \<Rightarrow> json dict \<Rightarrow> json" where
  "with_hash lib event = JObj (dict_set ''hash'' (JStr (sha256_of lib (JObj event))) event)"

text \<open>How the write ends: complete, or an exception and what had been written, if anything.\<close>

datatype append_outcome = Appended | NotOpened exn | Torn nat exn

definition append_line :: "append_outcome \<Rightarrow> string \<Rightarrow> (string option, unit) prog" where
  "append_line io line contents =
     (let t = (case contents of None \<Rightarrow> [] | Some t \<Rightarrow> t) in
      case io of
        Appended \<Rightarrow> (Inr (), Some (t @ line))
      | NotOpened e \<Rightarrow> (Inl e, contents)
      | Torn n e \<Rightarrow> (Inl e, Some (t @ take n line)))"

text \<open>
  \<open>json.loads(lines[-1])["hash"]\<close>; after a verification the last line is an object whose hash is a
  string, so the other cases do not occur.
\<close>

definition last_hash :: "'a library_scheme \<Rightarrow> string list \<Rightarrow> exn + string" where
  "last_hash lib lines =
     (if lines = [] then Inr genesis_hash
      else case json_loads lib (last lines) of
        Inl e \<Rightarrow> Inl e
      | Inr v \<Rightarrow> (case json_get v ''hash'' of Some (JStr h) \<Rightarrow> Inr h | _ \<Rightarrow> Inl (Exn KeyError ''hash'')))"

text \<open>\<open>timestamp\<close> is the caller's value, or the reading of \<open>time()\<close>.\<close>

definition al_append ::
  "'a library_scheme \<Rightarrow> append_outcome \<Rightarrow> (string \<Rightarrow> int \<Rightarrow> json dict) \<Rightarrow> string list \<Rightarrow> (string option, json) prog" where
  "al_append lib io event lines =
     andthen (lift_result (last_hash lib lines)) (\<lambda>previous_hash.
     let e = with_hash lib (event previous_hash (int (length lines) + 1)) in
     andthen (append_line io (dumps canonical_style e @ [line_feed])) (\<lambda>_. ret e))"

definition al_record ::
  "'a library_scheme \<Rightarrow> append_outcome \<Rightarrow> json \<Rightarrow> string \<Rightarrow> string \<Rightarrow> string option \<Rightarrow> string option \<Rightarrow>
     string option \<Rightarrow> json dict \<Rightarrow> (string option, json) prog" where
  "al_record lib io timestamp event_type agent_id action_id decision reason extra =
     (let event = (\<lambda>prev n. audit_event prev n timestamp event_type agent_id action_id decision reason extra) in
      andthen (guarding (event_type \<noteq> []) (Exn ValueError ''event_type must be non-empty'')) (\<lambda>_.
      andthen (guarding (agent_id \<noteq> []) (Exn ValueError ''agent_id must be non-empty'')) (\<lambda>_.
      andthen (reading id) (\<lambda>contents.
        case contents of
          None \<Rightarrow> al_append lib io event []
        | Some t \<Rightarrow>
            andthen (lift_result (al_verify lib contents)) (\<lambda>(ok, verification_reason).
            andthen (guarding ok (Exn RuntimeError
              (''refusing to append to invalid audit chain: '' @ verification_reason))) (\<lambda>_.
            al_append lib io event (filter (\<lambda>l. \<not> blank l) (splitlines t))))))))"

end
