(* ===== verification/Audit_Props.thy ===== *)
theory Audit_Props
  imports Audit_Log
begin

text \<open>
  What the audit log promises: a verified file is a chain of entries linked by their digests,
  \<open>record\<close> adds one entry to it or refuses, and the digest of the last entry determines the
  history.  Two ways the file can be made unusable are stated at the end.
\<close>

section \<open>Lines of a text\<close>

definition terminated :: "string \<Rightarrow> bool" where
  "terminated t \<longleftrightarrow> t = [] \<or> last t = line_feed"

lemma line_feed_boundary [simp]: "boundary line_feed"
  by (simp add: boundary_def line_feed_def code_def)

lemma splitlines_append: "terminated t \<Longrightarrow> splitlines (t @ u) = splitlines t @ splitlines u"
proof (induction t rule: splitlines.induct)
  case (2 c)
  then have "c = line_feed" by (simp add: terminated_def)
  then show ?case by (cases u) (simp_all add: boundary_def line_feed_def code_def)
next
  case (3 c d cs)
  have cs: "terminated (d # cs)" using 3(4) by (auto simp: terminated_def)
  have t: "code c = 13 \<and> d = line_feed \<longrightarrow> terminated cs" using cs by (auto simp: terminated_def split: if_splits)
  have "splitlines (d # cs) \<noteq> []" by (cases "(d # cs)" rule: splitlines.cases) (auto simp: put_first_def split: list.splits)
  with 3 cs t show ?case by (auto simp: put_first_def split: list.splits)
qed simp

lemma splitlines_line:
  "\<forall>c \<in> set l. \<not> boundary c \<Longrightarrow> splitlines (l @ [line_feed]) = [l]"
proof (induction l rule: splitlines.induct)
  case (2 c)
  then show ?case by (simp add: put_first_def)
qed (auto simp: put_first_def)

section \<open>The text of an entry has no line boundary\<close>

text \<open>No string holds \<open>U+0085\<close>; the other boundaries are control characters and escaped.\<close>

definition next_line :: char where "next_line = CHR 0x85"

fun one_line :: "json \<Rightarrow> bool" where
  "one_line (JReal l) = (\<forall>c \<in> set l. \<not> boundary c)"
| "one_line (JStr s) = (next_line \<notin> set s)"
| "one_line (JList xs) = list_all one_line xs"
| "one_line (JObj kvs) = list_all (\<lambda>(k, v). next_line \<notin> set k \<and> one_line v) kvs"
| "one_line v = True"

lemma escape_no_boundary: "c \<noteq> next_line \<Longrightarrow> d \<in> set (escape_char a c) \<Longrightarrow> \<not> boundary d"
proof -
  assume c: "c \<noteq> next_line" and d: "d \<in> set (escape_char a c)"
  have hex: "\<not> boundary (hex_digit n)" if "n < 16" for n
  proof -
    from that have "n \<in> {0, 1, 2, 3, 4, 5, 6, 7, 8, 9, 10, 11, 12, 13, 14, 15}"
      by (simp add: eval_nat_numeral less_Suc_eq)
    then show ?thesis by (auto simp: hex_digit_def boundary_def code_def)
  qed
  have "code c \<noteq> 133"
  proof
    assume "code c = 133"
    then have "(of_char c :: nat) = of_char next_line" by (simp add: code_def next_line_def)
    with c show False by simp
  qed
  then have self: "\<not> boundary c" if "\<not> code c < 32" using that by (auto simp: boundary_def)
  have plain: "\<not> boundary backslash" "\<not> boundary dquote" "\<not> boundary (CHR ''n'')" "\<not> boundary (CHR ''r'')"
    "\<not> boundary (CHR ''t'')" "\<not> boundary (CHR ''f'')" "\<not> boundary (CHR ''b'')" "\<not> boundary (CHR ''u'')"
    "\<not> boundary (CHR ''0'')"
    by (simp_all add: boundary_def code_def backslash_def dquote_def)
  have "code c div 16 < 16" using nat_of_char_less_256 [of c] by (simp add: code_def less_mult_imp_div_less)
  then have "\<not> boundary (hex_digit (code c div 16))" "\<not> boundary (hex_digit (code c mod 16))"
    using hex by simp_all
  with d plain self show ?thesis by (simp add: escape_char_def split: if_splits) auto
qed

lemma json_string_one_line:
  assumes "next_line \<notin> set s"
  shows "\<forall>c \<in> set (json_string a s). \<not> boundary c"
proof
  fix c
  assume "c \<in> set (json_string a s)"
  then consider "c = dquote" | d where "d \<in> set s" "c \<in> set (escape_char a d)" by (auto simp: json_string_def)
  then show "\<not> boundary c"
  proof cases
    case 1
    then show ?thesis by (simp add: dquote_def boundary_def code_def)
  next
    case 2
    with assms have "d \<noteq> next_line" by blast
    with 2 show ?thesis by (intro escape_no_boundary)
  qed
qed

lemma digits_no_boundary: "c \<in> set (digits_of n) \<Longrightarrow> \<not> boundary c"
  using digits_of_chars [of c n] by (auto simp: boundary_def code_def)

lemma print_one_line: "one_line v \<Longrightarrow> \<forall>c \<in> set (print_json canonical_style v). \<not> boundary c"
proof (induction v)
  case (JInt i)
  then show ?case using digits_no_boundary by (auto simp: str_int_def boundary_def code_def)
next
  case (JStr s)
  then show ?case using json_string_one_line by simp
next
  case (JList xs)
  then have "\<forall>x \<in> set xs. \<forall>c \<in> set (print_json canonical_style x). \<not> boundary c" by (simp add: list_all_iff)
  then show ?case by (auto simp: canonical_style_def boundary_def code_def dest!: join_with_chars)
next
  case (JObj kvs)
  have member: "\<not> boundary c" if "(k, v) \<in> set kvs" "c \<in> set (json_string False k @ '':'' @ print_json canonical_style v)" for c k v
  proof -
    from that(1) JObj.prems have "next_line \<notin> set k" "one_line v" by (auto simp: list_all_iff)
    with json_string_one_line [of k False] JObj.IH that show ?thesis by (auto simp: boundary_def code_def)
  qed
  have "\<not> boundary c" if "c \<in> set (join_with '','' (map (\<lambda>(k, v). json_string False k @ '':'' @ print_json canonical_style v) kvs))" for c
    using join_with_chars [OF that] member by (auto simp: boundary_def code_def)
  then show ?case by (simp add: canonical_style_def) (simp add: boundary_def code_def)
qed (auto simp: boundary_def code_def)

lemma one_line_sort: "one_line v \<Longrightarrow> one_line (sort_json v)"
  by (induction v) (fastforce simp: list_all_iff)+

lemma dumps_one_line: "one_line v \<Longrightarrow> \<forall>c \<in> set (dumps canonical_style v). \<not> boundary c"
  using print_one_line [OF one_line_sort] by (simp add: dumps_def)

section \<open>A verified file is a chain of entries\<close>

text \<open>The stored digest and the event of a line.\<close>

definition entry_of :: "'a library_scheme \<Rightarrow> string \<Rightarrow> (json \<times> json) option" where
  "entry_of lib line =
     (case json_loads lib line of
        Inl e \<Rightarrow> None
      | Inr v \<Rightarrow> (case pop_hash v of Inl e \<Rightarrow> None | Inr entry \<Rightarrow> Some entry))"

definition written_lines :: "string \<Rightarrow> string list" where
  "written_lines t = filter (\<lambda>l. \<not> blank l) (splitlines t)"

definition entries_of :: "'a library_scheme \<Rightarrow> string \<Rightarrow> (json \<times> json) list option" where
  "entries_of lib t = those (map (entry_of lib) (written_lines t))"

fun audit_links :: "'a library_scheme \<Rightarrow> string \<Rightarrow> int \<Rightarrow> (json \<times> json) list \<Rightarrow> string \<Rightarrow> bool" where
  "audit_links lib prev n [] head \<longleftrightarrow> head = prev"
| "audit_links lib prev n ((stored, event) # es) head \<longleftrightarrow>
     (\<exists>v. json_get event ''sequence'' = Some v \<and> equals_int v n)
     \<and> json_get event ''previous_hash'' = Some (JStr prev)
     \<and> stored = JStr (sha256_of lib event)
     \<and> audit_links lib (sha256_of lib event) (n + 1) es head"

lemma audit_links_Cons:
  "Ex (audit_links lib prev n ((stored, event) # es)) \<longleftrightarrow>
     (\<exists>v. json_get event ''sequence'' = Some v \<and> equals_int v n)
     \<and> json_get event ''previous_hash'' = Some (JStr prev)
     \<and> stored = JStr (sha256_of lib event)
     \<and> Ex (audit_links lib (sha256_of lib event) (n + 1) es)"
proof -
  have "audit_links lib prev n ((stored, event) # es) = (\<lambda>head.
     (\<exists>v. json_get event ''sequence'' = Some v \<and> equals_int v n)
     \<and> json_get event ''previous_hash'' = Some (JStr prev)
     \<and> stored = JStr (sha256_of lib event)
     \<and> audit_links lib (sha256_of lib event) (n + 1) es head)" by (rule ext) simp
  then show ?thesis by simp
qed

lemma audit_links_none: "Ex (audit_links lib prev n [])"
  by (rule exI [of _ prev]) simp

lemma verify_lines_iff:
  "verify_lines lib prev n lines = Inr (True, m) \<longleftrightarrow> m = ''audit chain valid'' \<and>
     (\<exists>es head. those (map (entry_of lib) (filter (\<lambda>l. \<not> blank l) lines)) = Some es \<and> audit_links lib prev n es head)"
proof (induction lib prev n lines rule: verify_lines.induct)
  case (2 lib prev n line lines)
  show ?case
  proof (cases "blank line")
    case False
    show ?thesis
    proof (cases "entry_of lib line")
      case None
      with False show ?thesis by (auto simp: entry_of_def split: sum.splits)
    next
      case (Some p)
      obtain stored event where p: "p = (stored, event)" by fastforce
      with Some obtain v where v: "json_loads lib line = Inr v" "pop_hash v = Inr (stored, event)"
        by (auto simp: entry_of_def split: sum.splits)
      with 2(2) [OF False v refl] False Some p show ?thesis
        by (auto simp: audit_links_Cons split: option.splits)
    qed
  qed (use 2 in simp)
qed (auto simp: audit_links_none)

lemma audit_links_append:
  "audit_links lib prev n (es @ fs) head \<longleftrightarrow>
     (\<exists>h. audit_links lib prev n es h \<and> audit_links lib h (n + int (length es)) fs head)"
  by (induction lib prev n es head rule: audit_links.induct) (auto simp: algebra_simps)

text \<open>The entries of a file that verifies, and the digest the next entry will hold.\<close>

definition audit_history :: "'a library_scheme \<Rightarrow> string option \<Rightarrow> (json \<times> json) list" where
  "audit_history lib contents = (case contents of None \<Rightarrow> [] | Some t \<Rightarrow> the (entries_of lib t))"

definition audit_head :: "'a library_scheme \<Rightarrow> string option \<Rightarrow> string" where
  "audit_head lib contents =
     (if audit_history lib contents = [] then genesis_hash
      else sha256_of lib (snd (last (audit_history lib contents))))"

lemma verified_chain:
  "al_verify lib contents = Inr (True, m) \<Longrightarrow>
     audit_links lib genesis_hash 1 (audit_history lib contents) (audit_head lib contents)"
proof -
  assume v: "al_verify lib contents = Inr (True, m)"
  have "\<exists>h. audit_links lib genesis_hash 1 (audit_history lib contents) h"
    using v by (cases contents)
      (auto simp: al_verify_def audit_history_def verify_lines_iff entries_of_def written_lines_def split: sum.splits if_splits)
  then obtain h where h: "audit_links lib genesis_hash 1 (audit_history lib contents) h" by blast
  have "h = audit_head lib contents"
  proof (cases "audit_history lib contents" rule: rev_cases)
    case Nil
    with h show ?thesis by (simp add: audit_head_def)
  next
    case (snoc es e)
    obtain s v where "e = (s, v)" by fastforce
    with snoc h show ?thesis by (auto simp: audit_head_def audit_links_append)
  qed
  with h show ?thesis by simp
qed

section \<open>The entry a record adds\<close>

definition hex_digests :: "'a library_scheme \<Rightarrow> bool" where
  "hex_digests lib \<longleftrightarrow> (\<forall>s. set (lib_sha256 lib s) \<subseteq> set ''0123456789abcdef'')"

text \<open>
  What a caller may log: a dictionary of values \<open>json.dumps\<close> takes, without the keys the log
  computes itself, and no text with a line boundary that JSON leaves unescaped.
\<close>

definition plain_value :: "'a library_scheme \<Rightarrow> json \<Rightarrow> bool" where
  "plain_value lib v \<longleftrightarrow> json_ok v \<and> floats_read (lib_float lib) v \<and> one_line v"

definition plain_extra :: "'a library_scheme \<Rightarrow> json dict \<Rightarrow> bool" where
  "plain_extra lib extra \<longleftrightarrow>
     (\<forall>(k, v) \<in> set extra. k \<notin> {''sequence'', ''previous_hash'', ''hash''} \<and> next_line \<notin> set k \<and> plain_value lib v)"

definition plain_option :: "string option \<Rightarrow> bool" where
  "plain_option v \<longleftrightarrow> (\<forall>s. v = Some s \<longrightarrow> next_line \<notin> set s)"

lemma plain_leaves [simp]:
  "plain_value lib (JStr s) \<longleftrightarrow> next_line \<notin> set s" "plain_value lib (JInt i)" "plain_value lib JNull"
  "plain_value lib (JBool b)"
  by (simp_all add: plain_value_def floats_read_def)

lemma plain_object:
  assumes "dict_ok d"
  shows "plain_value lib (JObj d) \<longleftrightarrow> (\<forall>(k, v) \<in> set d. next_line \<notin> set k \<and> plain_value lib v)"
proof -
  have same: "map f xs = xs \<longleftrightarrow> (\<forall>x \<in> set xs. f x = x)" for f and xs :: "(string \<times> json) list"
    using map_eq_conv [of f xs id] by simp
  show ?thesis using assms by (auto simp: plain_value_def floats_read_def dict_ok_def list_all_iff same)
qed

lemma genesis_plain: "next_line \<notin> set genesis_hash"
  by (simp add: genesis_hash_def next_line_def)

lemma hex_plain: "hex_digests lib \<Longrightarrow> next_line \<notin> set (sha256_of lib v)"
proof -
  assume "hex_digests lib"
  then have "set (sha256_of lib v) \<subseteq> set ''0123456789abcdef''" by (simp add: hex_digests_def sha256_of_def)
  then show ?thesis by (auto simp: next_line_def)
qed

lemma audit_event_facts:
  fixes n :: int
  assumes "plain_value lib timestamp" and "next_line \<notin> set prev" and "next_line \<notin> set event_type"
    and "next_line \<notin> set agent_id" and "list_all plain_option [action_id, decision, reason]"
    and "plain_extra lib extra"
  defines "ev \<equiv> audit_event prev n timestamp event_type agent_id action_id decision reason extra"
  shows "dict_ok ev" and "plain_value lib (JObj ev)" and "dict_get ev ''hash'' = None"
    and "dict_get ev ''sequence'' = Some (JInt n)" and "dict_get ev ''previous_hash'' = Some (JStr prev)"
proof -
  let ?text = "\<lambda>v. case v of None \<Rightarrow> JNull | Some s \<Rightarrow> JStr s"
  let ?base = "[(''version'', JInt 1), (''sequence'', JInt n), (''timestamp'', timestamp),
         (''event_type'', JStr event_type), (''agent_id'', JStr agent_id), (''action_id'', ?text action_id),
         (''decision'', ?text decision), (''reason'', ?text reason), (''previous_hash'', JStr prev)]"
  have ev: "ev = foldl (\<lambda>d (k, v). dict_set k v d) ?base extra" by (simp only: ev_def audit_event_def Let_def)
  have opt: "plain_option v \<Longrightarrow> plain_value lib (?text v)" for v
    by (simp add: plain_option_def split: option.split)
  have base: "\<forall>(k, v) \<in> set ?base. next_line \<notin> set k \<and> plain_value lib v"
    using assms(1-5) opt by (simp add: next_line_def)
  have extra: "\<forall>(k, v) \<in> set extra. next_line \<notin> set k \<and> plain_value lib v"
    using assms(6) by (auto simp: plain_extra_def)
  have keys: "k \<notin> fst ` set extra" if "k \<in> {''sequence'', ''previous_hash'', ''hash''}" for k
    using that assms(6) by (auto simp: plain_extra_def)
  have all: "dict_ok ev \<and> (\<forall>(k, v) \<in> set ev. next_line \<notin> set k \<and> plain_value lib v)"
    unfolding ev by (rule dict_update_all [OF extra _ base]) (simp add: dict_ok_def)
  then show "dict_ok ev" "plain_value lib (JObj ev)" by (simp_all add: plain_object)
  show "dict_get ev ''hash'' = None" "dict_get ev ''sequence'' = Some (JInt n)"
    "dict_get ev ''previous_hash'' = Some (JStr prev)"
    using keys by (simp_all add: ev dict_update_get_other) (simp_all add: dict_get_def)
qed

text \<open>The line of an event is read back as the event and its digest.\<close>

lemma pop_sorted_hash:
  assumes "dict_ok ev" and "dict_get ev ''hash'' = None"
  shows "pop_hash (sort_json (JObj (dict_set ''hash'' h ev))) = Inr (sort_json h, sort_json (JObj ev))"
proof -
  let ?ev = "map (\<lambda>(k, v). (k, sort_json v)) ev"
  let ?kvs = "?ev @ [(''hash'', sort_json h)]"
  have kvs: "sort_json (JObj (dict_set ''hash'' h ev)) = JObj (sort_key fst ?kvs)"
    using assms(2) by (simp add: dict_set_new)
  have notin: "''hash'' \<notin> fst ` set ?ev" using assms(2) by (force simp: dict_get_def map_of_eq_None_iff)
  then have "distinct (map fst ?kvs)" using assms(1) by (auto simp: dict_ok_def case_prod_beta comp_def image_image)
  then have get: "map_of (sort_key fst ?kvs) ''hash'' = map_of ?kvs ''hash''" by (simp only: map_of_sort_key)
  have "map_of ?ev ''hash'' = None" using notin by (simp add: map_of_eq_None_iff)
  then have hash: "map_of (sort_key fst ?kvs) ''hash'' = Some (sort_json h)"
    unfolding get by (simp add: map_add_def del: map_map)
  have "filter (\<lambda>(k, v). ''hash'' \<noteq> k) ?ev = ?ev" using notin by (force simp: filter_id_conv)
  then have "dict_del ''hash'' (sort_key fst ?kvs) = sort_key fst ?ev"
    by (simp add: dict_del_def AList.delete_eq filter_sort)
  with hash show ?thesis unfolding kvs by (simp add: pop_hash_def del: sort_json.simps) simp
qed

lemma new_line_read:
  assumes "dict_ok ev" and "plain_value lib (JObj ev)" and "dict_get ev ''hash'' = None" and "hex_digests lib"
  defines "line \<equiv> dumps canonical_style (with_hash lib ev)"
  shows "entry_of lib line = Some (JStr (sha256_of lib (JObj ev)), sort_json (JObj ev))"
    and "\<not> blank line" and "\<forall>c \<in> set line. \<not> boundary c"
proof -
  let ?e = "with_hash lib ev" and ?h = "JStr (sha256_of lib (JObj ev))"
  have "\<forall>(k, v) \<in> set (dict_set ''hash'' ?h ev). next_line \<notin> set k \<and> plain_value lib v"
  proof -
    have "\<forall>(k, v) \<in> set ev. next_line \<notin> set k \<and> plain_value lib v"
      using assms(1,2) plain_object by blast
    moreover have "next_line \<notin> set ''hash''" by (simp add: next_line_def)
    ultimately show ?thesis using assms(3,4) by (auto simp: dict_set_new hex_plain)
  qed
  with assms(1) have e: "plain_value lib ?e" by (simp add: with_hash_def plain_object)
  then have "json_loads lib line = Inr (sort_json ?e)"
    unfolding line_def by (intro loads_dumps) (auto simp: plain_value_def)
  with pop_sorted_hash [OF assms(1,3), of ?h]
  show "entry_of lib line = Some (JStr (sha256_of lib (JObj ev)), sort_json (JObj ev))"
    by (simp add: entry_of_def with_hash_def)
  from e show "\<forall>c \<in> set line. \<not> boundary c" unfolding line_def by (intro dumps_one_line) (simp add: plain_value_def)
  show "\<not> blank line" by (simp add: line_def dumps_def with_hash_def blank_def py_space_def code_def)
qed

definition audit_text :: "string option \<Rightarrow> string" where
  "audit_text contents = (case contents of None \<Rightarrow> [] | Some t \<Rightarrow> t)"

lemma verified_text:
  assumes "al_verify lib contents = Inr (True, m)"
  shows "map (entry_of lib) (written_lines (audit_text contents)) = map Some (audit_history lib contents)"
proof (cases contents)
  case None
  then show ?thesis by (simp add: audit_text_def audit_history_def written_lines_def)
next
  case (Some t)
  with assms have "verify_lines lib genesis_hash 1 (splitlines t) = Inr (True, m)"
    by (auto simp: al_verify_def split: sum.splits if_splits)
  then obtain es where "entries_of lib t = Some es"
    by (auto simp: verify_lines_iff entries_of_def written_lines_def)
  with Some show ?thesis by (simp add: audit_text_def audit_history_def) (simp add: entries_of_def those_Some)
qed

lemma verified_length:
  "al_verify lib contents = Inr (True, m) \<Longrightarrow>
     length (written_lines (audit_text contents)) = length (audit_history lib contents)"
  using verified_text [of lib contents m] map_eq_imp_length_eq by blast

lemma entry_stored:
  "entry_of lib line = Some (stored, event) \<Longrightarrow> \<exists>v. json_loads lib line = Inr v \<and> json_get v ''hash'' = Some stored"
  by (auto simp: entry_of_def pop_hash_def split: sum.splits json.splits option.splits)

lemma verified_last_hash:
  assumes "al_verify lib contents = Inr (True, m)"
  shows "last_hash lib (written_lines (audit_text contents)) = Inr (audit_head lib contents)"
proof (cases "audit_history lib contents" rule: rev_cases)
  case Nil
  with verified_text [OF assms] show ?thesis by (simp add: last_hash_def audit_head_def)
next
  case (snoc es p)
  obtain stored event where p: "p = (stored, event)" by fastforce
  let ?ls = "written_lines (audit_text contents)"
  from verified_chain [OF assms] snoc p have stored: "stored = JStr (audit_head lib contents)"
    by (auto simp: audit_links_append audit_head_def)
  from verified_text [OF assms] snoc have ls: "?ls \<noteq> []" by auto
  with verified_text [OF assms] snoc p have "entry_of lib (last ?ls) = Some (stored, event)"
    by (metis last_map last_snoc list.map_disc_iff)
  with entry_stored ls stored show ?thesis by (fastforce simp: last_hash_def)
qed

lemma head_plain: "hex_digests lib \<Longrightarrow> next_line \<notin> set (audit_head lib contents)"
  by (simp add: audit_head_def genesis_plain hex_plain)

lemma append_extends:
  assumes lib: "hex_digests lib" and old: "al_verify lib contents = Inr (True, m)" "terminated (audit_text contents)"
    and ev: "dict_ok ev" "plain_value lib (JObj ev)" "dict_get ev ''hash'' = None"
      "dict_get ev ''sequence'' = Some (JInt (int (length (audit_history lib contents)) + 1))"
      "dict_get ev ''previous_hash'' = Some (JStr (audit_head lib contents))"
  defines "t \<equiv> audit_text contents @ dumps canonical_style (with_hash lib ev) @ [line_feed]"
  shows "al_verify lib (Some t) = Inr (True, ''audit chain valid'')"
    and "audit_history lib (Some t) = audit_history lib contents @ [(JStr (sha256_of lib (JObj ev)), sort_json (JObj ev))]"
    and "terminated t"
proof -
  let ?line = "dumps canonical_style (with_hash lib ev)" and ?e = "sort_json (JObj ev)"
  let ?h = "sha256_of lib (JObj ev)" and ?es = "audit_history lib contents"
  note line = new_line_read [OF ev(1-3) lib]
  have ls: "written_lines t = written_lines (audit_text contents) @ [?line]"
    using splitlines_append [OF old(2), of "?line @ [line_feed]"] splitlines_line [OF line(3)] line(2)
    by (simp add: t_def written_lines_def)
  then have "map (entry_of lib) (written_lines t) = map Some (?es @ [(JStr ?h, ?e)])"
    using verified_text [OF old(1)] line(1) by simp
  then have entries: "entries_of lib t = Some (?es @ [(JStr ?h, ?e)])"
    unfolding entries_of_def those_Some .
  show history: "audit_history lib (Some t) = ?es @ [(JStr ?h, ?e)]" by (simp add: audit_history_def entries)
  have ok: "json_ok (JObj ev)" using ev(2) by (simp add: plain_value_def)
  have get: "json_get ?e k = map_option sort_json (dict_get ev k)" for k
    using sort_json_get [OF ok, of k] by (simp add: dict_get_def)
  have "sha256_of lib ?e = ?h" by (simp add: sha256_of_def dumps_sorted del: sort_json.simps)
  with get ev(4,5) verified_chain [OF old(1)]
  have "audit_links lib genesis_hash 1 (?es @ [(JStr ?h, ?e)]) ?h"
    by (auto simp: audit_links_append add.commute simp del: sort_json.simps(2))
  then have "verify_lines lib genesis_hash 1 (splitlines t) = Inr (True, ''audit chain valid'')"
    using entries by (auto simp: verify_lines_iff entries_of_def written_lines_def)
  then show "al_verify lib (Some t) = Inr (True, ''audit chain valid'')" by (simp add: al_verify_def)
  show "terminated t" by (simp add: terminated_def t_def)
qed

section \<open>Examples\<close>

lemma sample_digests: "hex_digests sample_lib"
proof -
  have digit: "digit_char n \<in> set ''0123456789abcdef''" if "n < 10" for n
    using that nth_mem [of n "''0123456789''"] by (auto simp: digit_char_def)
  have "set (digits_of n) \<subseteq> set ''0123456789abcdef''" for n
    by (induction n rule: digits_of.induct) (subst digits_of.simps, use digit in simp)
  then show ?thesis by (auto simp: hex_digests_def sample_lib_def Let_def)
qed

text \<open>One decision, recorded in the log \<open>contents\<close>.\<close>

definition sample_record :: "append_outcome \<Rightarrow> string \<Rightarrow> (string option, json) prog" where
  "sample_record io reason =
     al_record sample_lib io (JReal ''1.5'') ''authorization_decision'' ''agent'' (Some ''a1'') (Some ''deny'') (Some reason) []"

section \<open>Properties\<close>

lemma al_append_run:
  "al_append lib io event lines contents =
     (case last_hash lib lines of
        Inl e \<Rightarrow> (Inl e, contents)
      | Inr h \<Rightarrow>
          (let e = with_hash lib (event h (int (length lines) + 1)); t = audit_text contents;
               line = dumps canonical_style e @ [line_feed]
           in case io of
                Appended \<Rightarrow> (Inr e, Some (t @ line))
              | NotOpened x \<Rightarrow> (Inl x, contents)
              | Torn n x \<Rightarrow> (Inl x, Some (t @ take n line))))"
  by (simp add: al_append_def append_line_def audit_text_def prog_defs Let_def split: sum.split append_outcome.split)

text \<open>A record of a log that verifies, given names for the type and the agent.\<close>

lemma al_record_run:
  assumes "event_type \<noteq> []" and "agent_id \<noteq> []" and "al_verify lib contents = Inr (True, m)"
  shows "al_record lib io timestamp event_type agent_id action_id decision reason extra contents =
    (let e = with_hash lib (audit_event (audit_head lib contents) (int (length (audit_history lib contents)) + 1)
               timestamp event_type agent_id action_id decision reason extra);
         t = audit_text contents; line = dumps canonical_style e @ [line_feed]
     in case io of
          Appended \<Rightarrow> (Inr e, Some (t @ line))
        | NotOpened x \<Rightarrow> (Inl x, contents)
        | Torn n x \<Rightarrow> (Inl x, Some (t @ take n line)))"
  using assms verified_last_hash [OF assms(3)] verified_length [OF assms(3)]
  by (cases contents)
    (simp_all add: al_record_def al_append_run andthen_def guarding_def ret_def reading_def lift_result_def Let_def
      written_lines_def audit_text_def audit_history_def split: append_outcome.split)

lemma al_record_refused:
  assumes "event_type = [] \<or> agent_id = [] \<or> (\<forall>m. al_verify lib contents \<noteq> Inr (True, m))"
  shows "\<exists>e. al_record lib io timestamp event_type agent_id action_id decision reason extra contents = (Inl e, contents)"
proof (cases "event_type = [] \<or> agent_id = []")
  case True
  then show ?thesis by (auto simp: al_record_def prog_defs Let_def)
next
  case False
  with assms have bad: "\<forall>m. al_verify lib contents \<noteq> Inr (True, m)" by blast
  then obtain t where t: "contents = Some t" by (cases contents) (auto simp: al_verify_def)
  show ?thesis
  proof (cases "al_verify lib contents")
    case (Inl e)
    with False t show ?thesis by (auto simp: al_record_def prog_defs Let_def)
  next
    case (Inr r)
    with bad obtain why where "r = (False, why)" by (cases r) auto
    with Inr False t show ?thesis by (auto simp: al_record_def prog_defs Let_def)
  qed
qed

lemma record_extends:
  assumes "hex_digests lib" and "al_verify lib contents = Inr (True, m)" and "terminated (audit_text contents)"
    and "event_type \<noteq> []" and "agent_id \<noteq> []" and "next_line \<notin> set event_type" and "next_line \<notin> set agent_id"
    and "list_all plain_option [action_id, decision, reason]" and "plain_value lib timestamp" and "plain_extra lib extra"
  shows "\<exists>ev t. al_record lib Appended timestamp event_type agent_id action_id decision reason extra contents
        = (Inr (with_hash lib ev), Some t)
      \<and> t = audit_text contents @ dumps canonical_style (with_hash lib ev) @ [line_feed]
      \<and> al_verify lib (Some t) = Inr (True, ''audit chain valid'') \<and> terminated t
      \<and> audit_history lib (Some t)
          = audit_history lib contents @ [(JStr (sha256_of lib (JObj ev)), sort_json (JObj ev))]
      \<and> dict_get ev ''sequence'' = Some (JInt (int (length (audit_history lib contents)) + 1))
      \<and> dict_get ev ''previous_hash'' = Some (JStr (audit_head lib contents))"
proof -
  let ?ev = "audit_event (audit_head lib contents) (int (length (audit_history lib contents)) + 1)
               timestamp event_type agent_id action_id decision reason extra"
  note ev = audit_event_facts [OF assms(9) head_plain [OF assms(1)] assms(6,7,8,10),
      where n = "int (length (audit_history lib contents)) + 1"]
  show ?thesis
    using append_extends [OF assms(1,2,3) ev] ev(4,5) al_record_run [OF assms(4,5,2), of Appended]
    by (intro exI [of _ ?ev]) (simp add: Let_def)
qed

text \<open>The log of one decision, as the examples use it.\<close>

lemma sample_plain:
  "plain_value sample_lib (JReal ''1.5'')" "next_line \<notin> set ''agent''" "next_line \<notin> set ''authorization_decision''"
  "plain_extra sample_lib []" "next_line \<notin> set reason \<Longrightarrow> list_all plain_option [Some ''a1'', Some ''deny'', Some reason]"
  by (code_simp, code_simp, code_simp, simp add: plain_extra_def, simp add: plain_option_def next_line_def)

lemma sample_record_valid:
  assumes "next_line \<notin> set reason"
  shows "\<exists>ev t. sample_record Appended reason None = (Inr (with_hash sample_lib ev), Some t)
     \<and> t = dumps canonical_style (with_hash sample_lib ev) @ [line_feed]
     \<and> al_verify sample_lib (Some t) = Inr (True, ''audit chain valid'') \<and> terminated t
     \<and> audit_history sample_lib (Some t) = [(JStr (sha256_of sample_lib (JObj ev)), sort_json (JObj ev))]"
proof -
  have none: "al_verify sample_lib None = Inr (True, ''empty audit log'')" "audit_text None = []"
    "audit_history sample_lib None = []" "terminated []"
    by (simp_all add: al_verify_def audit_text_def audit_history_def terminated_def)
  from record_extends [OF sample_digests none(1) _ _ _ sample_plain(3,2) sample_plain(5) [OF assms] sample_plain(1,4)]
  show ?thesis unfolding sample_record_def none append_Nil by (fastforce simp: none)
qed

text \<open>
  Recording keeps the audit chain.  When the file verifies and ends with a line feed, a
  record of plain values whose write completes returns an event; the file then holds the old
  text and one more line, verifies, ends with a line feed, and its history is the old history
  and the returned event with its digest.  So every log written by \<open>record\<close> alone verifies.
\<close>

theorem audit_record_extends:
  assumes "hex_digests lib" and "al_verify lib contents = Inr (True, m)" and "terminated (audit_text contents)"
    and "event_type \<noteq> []" and "agent_id \<noteq> []" and "next_line \<notin> set event_type" and "next_line \<notin> set agent_id"
    and "list_all plain_option [action_id, decision, reason]" and "plain_value lib timestamp" and "plain_extra lib extra"
  shows "\<exists>ev t. al_record lib Appended timestamp event_type agent_id action_id decision reason extra contents
        = (Inr (with_hash lib ev), Some t)
      \<and> t = audit_text contents @ dumps canonical_style (with_hash lib ev) @ [line_feed]
      \<and> al_verify lib (Some t) = Inr (True, ''audit chain valid'') \<and> terminated t
      \<and> audit_history lib (Some t)
          = audit_history lib contents @ [(JStr (sha256_of lib (JObj ev)), sort_json (JObj ev))]
      \<and> dict_get ev ''sequence'' = Some (JInt (int (length (audit_history lib contents)) + 1))
      \<and> dict_get ev ''previous_hash'' = Some (JStr (audit_head lib contents))"
  using assms by (rule record_extends)

theorem audit_record_extends_witness:
  "\<exists>ev t. sample_record Appended ''no'' (snd (sample_record Appended ''yes'' None)) = (Inr (with_hash sample_lib ev), Some t)
     \<and> al_verify sample_lib (Some t) = Inr (True, ''audit chain valid'') \<and> dict_get ev ''sequence'' = Some (JInt 2)"
proof -
  obtain t where t: "snd (sample_record Appended ''yes'' None) = Some t"
      "al_verify sample_lib (Some t) = Inr (True, ''audit chain valid'')" "terminated t"
      "length (audit_history sample_lib (Some t)) = 1"
    using sample_record_valid [of "''yes''"] by (auto simp: next_line_def)
  from audit_record_extends [OF sample_digests t(2) _ _ _ sample_plain(3,2,5) sample_plain(1,4), of "''no''"] t show ?thesis
    unfolding sample_record_def by (auto simp: audit_text_def next_line_def)
qed

text \<open>
  C22: The audit log fails closed.  A log that does not verify is never written again: \<open>record\<close>
  raises and leaves the file.  Otherwise the old text stays a prefix of the file whatever the
  write does, and the call returns only when the whole line of the event was appended.
\<close>

theorem audit_fails_closed:
  assumes "al_record lib io timestamp event_type agent_id action_id decision reason extra contents = (r, contents')"
  shows "((\<forall>m. al_verify lib contents \<noteq> Inr (True, m)) \<longrightarrow> (\<exists>e. r = Inl e) \<and> contents' = contents)
    \<and> (\<exists>more. audit_text contents' = audit_text contents @ more)
    \<and> (\<forall>e. r = Inr e \<longrightarrow> io = Appended
           \<and> contents' = Some (audit_text contents @ dumps canonical_style e @ [line_feed]))"
proof -
  note run = al_record_run [of event_type agent_id lib contents _ io timestamp action_id decision reason extra]
  consider e where "r = Inl e" "contents' = contents"
    | m where "al_verify lib contents = Inr (True, m)" "event_type \<noteq> []" "agent_id \<noteq> []"
    using al_record_refused [of event_type agent_id lib contents io timestamp action_id decision reason extra] assms
    by auto
  then show ?thesis
  proof cases
    case 2
    with run [of m] assms show ?thesis by (auto simp: Let_def audit_text_def split: append_outcome.splits)
  qed simp
qed

theorem audit_fails_closed_witness:
  "\<exists>e. sample_record Appended ''no'' (Some ''{}'') = (Inl e, Some ''{}'')"
proof -
  obtain r c where rc: "sample_record Appended ''no'' (Some ''{}'') = (r, c)" by fastforce
  have "al_verify sample_lib (Some ''{}'') = Inr (False, ''malformed audit log'')" by code_simp
  then have "\<forall>m. al_verify sample_lib (Some ''{}'') \<noteq> Inr (True, m)" by simp
  with audit_fails_closed [OF rc [unfolded sample_record_def]] have "(\<exists>e. r = Inl e) \<and> c = Some ''{}''" by blast
  with rc show ?thesis by blast
qed

section \<open>The head determines the history\<close>

definition audit_chain :: "'a library_scheme \<Rightarrow> (json \<times> json) list \<Rightarrow> string \<Rightarrow> bool" where
  "audit_chain lib es head \<longleftrightarrow> audit_links lib genesis_hash 1 es head \<and> (\<forall>(stored, event) \<in> set es. json_ok event)"

interpretation audit_log: hash_chain
  "\<lambda>p. json_ok (snd p)" "\<lambda>p. dumps canonical_style (snd p)" "\<lambda>p. sort_json (snd p)"
  "\<lambda>p. string_field ''previous_hash'' (snd p)" "lib_sha256 lib" "audit_chain lib" for lib :: "'a library_scheme"
proof
  fix a b :: "json \<times> json"
  assume ok: "json_ok (snd a)" "json_ok (snd b)"
  then show "dumps canonical_style (snd a) = dumps canonical_style (snd b) \<Longrightarrow> sort_json (snd a) = sort_json (snd b)"
    by (rule dumps_inj [OF styles_ok(1)])
  show "sort_json (snd a) = sort_json (snd b) \<Longrightarrow>
      string_field ''previous_hash'' (snd a) = string_field ''previous_hash'' (snd b)"
    using ok by (rule string_field_sorted)
next
  fix h
  show "audit_chain lib [] h \<Longrightarrow> h = genesis_hash" by (simp add: audit_chain_def)
next
  fix es and e :: "json \<times> json" and h
  assume chain: "audit_chain lib (es @ [e]) h"
  obtain stored event where "e = (stored, event)" by fastforce
  with chain show "json_ok (snd e) \<and> audit_chain lib es (string_field ''previous_hash'' (snd e))
      \<and> h = lib_sha256 lib (dumps canonical_style (snd e))"
    by (auto simp: audit_chain_def audit_links_append string_field_def sha256_of_def)
qed

lemma entry_json_ok:
  assumes "prints_floats (lib_float lib)" and "entry_of lib line = Some (stored, event)"
  shows "json_ok event"
proof -
  from assms(2) obtain kvs where kvs: "json_loads lib line = Inr (JObj kvs)" "event = JObj (dict_del ''hash'' kvs)"
    by (auto simp: entry_of_def pop_hash_def split: sum.splits json.splits option.splits)
  have "json_ok (JObj kvs)" by (rule json_loads_ok [OF assms(1) kvs(1)])
  then show ?thesis
    using kvs(2) dict_ok_del [of kvs "''hash''"] by (auto simp: dict_ok_def dict_del_def list_all_iff AList.delete_eq)
qed

lemma verified_audit_chain:
  assumes "prints_floats (lib_float lib)" and "al_verify lib contents = Inr (True, m)"
  shows "audit_chain lib (audit_history lib contents) (audit_head lib contents)"
proof -
  have "json_ok event" if "(stored, event) \<in> set (audit_history lib contents)" for stored event
  proof -
    from that have "Some (stored, event) \<in> set (map (entry_of lib) (written_lines (audit_text contents)))"
      using verified_text [OF assms(2)] by simp
    then obtain line where "entry_of lib line = Some (stored, event)" by auto
    with assms(1) show ?thesis by (rule entry_json_ok)
  qed
  with verified_chain [OF assms(2)] show ?thesis by (auto simp: audit_chain_def)
qed

text \<open>
  C23: The history of the audit log cannot be changed behind its head.  When two files verify
  and their last entries have the same digest, they hold the same events in the same order:
  an entry altered, removed, inserted or moved changes the head, unless two different texts
  with the same SHA-256 digest, or one whose digest is 64 zeros, are among the entries.
\<close>

theorem audit_tamper_evident:
  assumes "prints_floats (lib_float lib)"
    and "al_verify lib contents = Inr (True, m)" and "al_verify lib contents' = Inr (True, m')"
    and "audit_head lib contents = audit_head lib contents'"
  shows "map (\<lambda>p. sort_json (snd p)) (audit_history lib contents)
       = map (\<lambda>p. sort_json (snd p)) (audit_history lib contents')
    \<or> hash_broken (lib_sha256 lib)
        ((\<lambda>p. dumps canonical_style (snd p)) ` (set (audit_history lib contents) \<union> set (audit_history lib contents')))"
  using audit_log.head_determines_entries verified_audit_chain [OF assms(1,2)] verified_audit_chain [OF assms(1,3)]
    assms(4) by metis

lemma leading_line_feed:
  "al_verify lib (Some (line_feed # t)) = al_verify lib (Some t)"
  "audit_history lib (Some (line_feed # t)) = audit_history lib (Some t)"
proof -
  have "splitlines (line_feed # t) = [] # splitlines t" by (cases t) (simp_all add: line_feed_def boundary_def code_def)
  then show "al_verify lib (Some (line_feed # t)) = al_verify lib (Some t)"
    "audit_history lib (Some (line_feed # t)) = audit_history lib (Some t)"
    by (simp_all add: al_verify_def audit_history_def entries_of_def written_lines_def blank_def)
qed

theorem audit_tamper_evident_witness:
  "\<exists>t. snd (sample_record Appended ''no'' None) = Some t
     \<and> audit_head sample_lib (Some t) = audit_head sample_lib (Some (line_feed # t))
     \<and> map (\<lambda>p. sort_json (snd p)) (audit_history sample_lib (Some t))
       = map (\<lambda>p. sort_json (snd p)) (audit_history sample_lib (Some (line_feed # t)))"
proof -
  obtain t ev where t: "snd (sample_record Appended ''no'' None) = Some t"
      "al_verify sample_lib (Some t) = Inr (True, ''audit chain valid'')"
      "audit_history sample_lib (Some t) = [(JStr (sha256_of sample_lib (JObj ev)), sort_json (JObj ev))]"
    using sample_record_valid [of "''no''"] by (auto simp: next_line_def)
  let ?u = "line_feed # t"
  have u: "al_verify sample_lib (Some ?u) = Inr (True, ''audit chain valid'')"
      "audit_head sample_lib (Some t) = audit_head sample_lib (Some ?u)"
    using t(2) by (simp_all add: leading_line_feed audit_head_def)
  have "dumps canonical_style (sort_json (JObj ev)) \<noteq> []" by (simp add: dumps_def)
  then have "\<not> hash_broken (lib_sha256 sample_lib)
      ((\<lambda>p. dumps canonical_style (snd p)) ` (set (audit_history sample_lib (Some t)) \<union> set (audit_history sample_lib (Some ?u))))"
    using t(3) sample_digest_not_genesis by (simp add: leading_line_feed hash_broken_def)
  moreover have "prints_floats (lib_float sample_lib)" by (simp add: sample_lib_def sample_prints_floats)
  ultimately show ?thesis using audit_tamper_evident [OF _ t(2) u] t(1) u(2) by blast
qed

section \<open>Two ways to lose the log\<close>

text \<open>
  \<open>ensure_ascii=False\<close> leaves \<open>U+0085\<close> in the line, and \<open>splitlines\<close> breaks the line there: an
  action whose id, which the agent chooses, is that character is recorded without an error, and
  from then on the log is malformed and every further record raises.
\<close>

lemma splitlines_broken:
  "\<forall>c \<in> set p. \<not> boundary c \<Longrightarrow> \<exists>ls. splitlines (p @ next_line # q) = p # ls"
proof (induction p rule: splitlines.induct)
  case 1
  show ?case by (cases q) (auto simp: boundary_def next_line_def code_def)
next
  case (2 c)
  then show ?case by (cases q) (auto simp: boundary_def next_line_def code_def put_first_def)
qed (auto simp: put_first_def)

definition broken_head :: string where
  "broken_head = CHR ''{'' # dquote # ''action_id'' @ [dquote, CHR '':'', dquote]"

lemma broken_line:
  "\<exists>q. dumps canonical_style (with_hash lib (audit_event prev n timestamp event_type agent_id
      (Some [next_line]) decision reason [])) = broken_head @ next_line # q"
  by (simp add: dumps_def with_hash_def audit_event_def dict_set_def broken_head_def canonical_style_def
      json_string_def escape_char_def next_line_def code_def dquote_def backslash_def Let_def less_eq_char_def
      less_char_def cong: if_weak_cong)

lemma broken_head_refused: "json_loads lib broken_head = Inl (Exn JSONDecodeError (lib_wording lib broken_head))"
proof -
  have "parse_value (2 * length broken_head + 1) (skip broken_head) = None" by code_simp
  then show ?thesis by (simp only: json_loads_def option.case)
qed

lemma next_line_breaks_log:
  "\<exists>e t. al_record lib Appended timestamp ''e'' ''agent'' (Some [next_line]) decision reason [] None = (Inr e, Some t)
     \<and> al_verify lib (Some t) = Inr (False, ''malformed audit log'')
     \<and> al_record lib io timestamp' ''e'' ''agent'' action_id' decision' reason' extra' (Some t)
       = (Inl (Exn RuntimeError ''refusing to append to invalid audit chain: malformed audit log''), Some t)"
proof -
  obtain q where q: "dumps canonical_style (with_hash lib (audit_event genesis_hash 1 timestamp ''e'' ''agent''
      (Some [next_line]) decision reason [])) = broken_head @ next_line # q" using broken_line by blast
  let ?t = "broken_head @ next_line # q @ [line_feed]"
  obtain e where r: "al_record lib Appended timestamp ''e'' ''agent'' (Some [next_line]) decision reason [] None = (Inr e, Some ?t)"
    by (simp add: al_record_run [of _ _ _ _ "''empty audit log''"] al_verify_def Let_def q audit_head_def
      audit_history_def audit_text_def)
  have "\<forall>c \<in> set broken_head. \<not> boundary c" by (simp add: broken_head_def boundary_def code_def dquote_def)
  then obtain ls where "splitlines ?t = broken_head # ls" using splitlines_broken [of broken_head "q @ [line_feed]"] by auto
  moreover have "\<not> blank broken_head" by (simp add: broken_head_def blank_def py_space_def code_def)
  ultimately have v: "al_verify lib (Some ?t) = Inr (False, ''malformed audit log'')"
    by (simp add: al_verify_def broken_head_refused malformed_def)
  then have "al_record lib io timestamp' ''e'' ''agent'' action_id' decision' reason' extra' (Some ?t)
       = (Inl (Exn RuntimeError ''refusing to append to invalid audit chain: malformed audit log''), Some ?t)"
    by (simp add: al_record_def prog_defs Let_def)
  with r v show ?thesis by blast
qed

text \<open>
  A write that stops before the final line feed leaves a file that verifies; the next record
  is appended to that line, returns, and the file no longer verifies.
\<close>

lemma splitlines_single: "l \<noteq> [] \<Longrightarrow> \<forall>c \<in> set l. \<not> boundary c \<Longrightarrow> splitlines l = [l]"
  by (induction l rule: splitlines.induct) (auto simp: put_first_def)

lemma object_text: "\<exists>cs. dumps canonical_style (JObj kvs) = CHR ''{'' # cs"
  by (simp add: dumps_def)

lemma two_objects_on_a_line:
  assumes "json_ok (JObj kvs)"
  shows "\<exists>m. json_loads lib (dumps canonical_style (JObj kvs) @ dumps canonical_style (JObj kvs2)) = Inl (Exn JSONDecodeError m)"
proof -
  obtain cs where "dumps canonical_style (JObj kvs2) = CHR ''{'' # cs" using object_text by blast
  then show ?thesis using assms
    by (intro loads_extra_data) (simp_all add: stops_def skip_def is_digit_def is_space_def code_def)
qed

lemma missing_line_feed_breaks_log:
  "\<exists>n x t e u. sample_record (Torn n x) ''no'' None = (Inl x, Some t)
     \<and> al_verify sample_lib (Some t) = Inr (True, ''audit chain valid'')
     \<and> sample_record Appended ''no'' (Some t) = (Inr e, Some u)
     \<and> al_verify sample_lib (Some u) = Inr (False, ''malformed audit log'')"
proof -
  have no: "next_line \<notin> set ''no''" by (simp add: next_line_def)
  note opts = sample_plain(5) [OF no]
  let ?ev = "\<lambda>prev n. audit_event prev n (JReal ''1.5'') ''authorization_decision'' ''agent'' (Some ''a1'')
      (Some ''deny'') (Some ''no'') []"
  let ?ev1 = "?ev genesis_hash 1"
  let ?l1 = "dumps canonical_style (with_hash sample_lib ?ev1)"
  note run = al_record_run [of "''authorization_decision''" "''agent''" sample_lib, OF _ _]
  have none: "al_verify sample_lib None = Inr (True, ''empty audit log'')" by (simp add: al_verify_def)
  have first: "sample_record io ''no'' None =
     (case io of Appended \<Rightarrow> (Inr (with_hash sample_lib ?ev1), Some (?l1 @ [line_feed]))
        | NotOpened x \<Rightarrow> (Inl x, None) | Torn n x \<Rightarrow> (Inl x, Some (take n (?l1 @ [line_feed]))))" for io
    unfolding sample_record_def using run [OF _ _ none, of io]
    by (simp add: Let_def audit_head_def audit_history_def audit_text_def split: append_outcome.split)
  have ev1: "dict_ok ?ev1" "plain_value sample_lib (JObj ?ev1)" "dict_get ?ev1 ''hash'' = None"
    using audit_event_facts [OF sample_plain(1) genesis_plain sample_plain(3,2) opts sample_plain(4)] by blast+
  have l1: "?l1 \<noteq> []" "\<forall>c \<in> set ?l1. \<not> boundary c"
    using new_line_read [OF ev1 sample_digests] by (auto simp: dumps_def with_hash_def)
  have v1: "al_verify sample_lib (Some ?l1) = Inr (True, ''audit chain valid'')"
    using sample_record_valid [OF no] first [of Appended] splitlines_single [OF l1] splitlines_line [OF l1(2)]
    by (auto simp: al_verify_def)
  let ?ev2 = "?ev (audit_head sample_lib (Some ?l1)) (int (length (audit_history sample_lib (Some ?l1))) + 1)"
  let ?l2 = "dumps canonical_style (with_hash sample_lib ?ev2)"
  have second: "sample_record Appended ''no'' (Some ?l1) = (Inr (with_hash sample_lib ?ev2), Some (?l1 @ ?l2 @ [line_feed]))"
    unfolding sample_record_def using run [OF _ _ v1, of Appended] by (simp add: Let_def audit_text_def)
  have ev2: "dict_ok ?ev2" "plain_value sample_lib (JObj ?ev2)" "dict_get ?ev2 ''hash'' = None"
    using audit_event_facts [OF sample_plain(1) head_plain [OF sample_digests] sample_plain(3,2) opts sample_plain(4)] by blast+
  have lines: "splitlines (?l1 @ ?l2 @ [line_feed]) = [?l1 @ ?l2]"
    using splitlines_line [of "?l1 @ ?l2"] l1(2) new_line_read(3) [OF ev2 sample_digests] by auto
  have "json_ok (with_hash sample_lib ?ev1)"
    using ev1 by (auto simp: with_hash_def plain_value_def dict_set_new dict_ok_def list_all_iff dict_get_def map_of_eq_None_iff)
  then obtain m where m: "json_loads sample_lib (?l1 @ ?l2) = Inl (Exn JSONDecodeError m)"
    using two_objects_on_a_line by (metis with_hash_def)
  have "\<not> blank (?l1 @ ?l2)" using new_line_read(2) [OF ev1 sample_digests] by (auto simp: blank_def)
  with lines m have "al_verify sample_lib (Some (?l1 @ ?l2 @ [line_feed])) = Inr (False, ''malformed audit log'')"
    by (simp add: al_verify_def malformed_def)
  with first [of "Torn (length ?l1) (Exn OSError [])"] v1 second show ?thesis by fastforce
qed

end
