(* ===== verification/Evidence_Chain.thy ===== *)
theory Evidence_Chain
  imports Hash_Chain Governance_Event Enforcer
begin

text \<open>
  \<open>evidence_chain.py\<close>, \<open>warden_observation.py\<close> and \<open>incident_evidence.py\<close>: the in-memory chain of
  evidence nodes of an incident, and the recorder that appends controller events, enforcement
  results and Warden observations to it.  The state of a chain is the list of its nodes.
\<close>

section \<open>Nodes\<close>

record evidence_node =
  en_sequence :: int
  en_event_id :: string
  en_event_type :: string
  en_timestamp :: int
  en_agent_id :: string
  en_incident_id :: "string option"
  en_containment_epoch :: "int option"
  en_payload :: "json dict"
  en_previous_hash :: string
  en_node_hash :: string

definition evidence_schema :: string where
  "evidence_schema = ''agent-containment/evidence-chain/v1''"

text \<open>The body whose digest is the node hash.\<close>

definition node_body :: "evidence_node \<Rightarrow> json" where
  "node_body n =
     JObj [(''schema'', JStr evidence_schema), (''sequence'', JInt (en_sequence n)),
           (''event_id'', JStr (en_event_id n)), (''event_type'', JStr (en_event_type n)),
           (''timestamp'', JInt (en_timestamp n)), (''agent_id'', JStr (en_agent_id n)),
           (''incident_id'', opt_json JStr (en_incident_id n)),
           (''containment_epoch'', opt_json JInt (en_containment_epoch n)),
           (''payload'', JObj (en_payload n)), (''previous_hash'', JStr (en_previous_hash n))]"

definition node_digest :: "'a library_scheme \<Rightarrow> evidence_node \<Rightarrow> string" where
  "node_digest lib n = sha256_of lib (node_body n)"

definition node_dict :: "evidence_node \<Rightarrow> json" where
  "node_dict n =
     JObj [(''schema'', JStr evidence_schema), (''sequence'', JInt (en_sequence n)),
           (''event_id'', JStr (en_event_id n)), (''event_type'', JStr (en_event_type n)),
           (''timestamp'', JInt (en_timestamp n)), (''agent_id'', JStr (en_agent_id n)),
           (''incident_id'', opt_json JStr (en_incident_id n)),
           (''containment_epoch'', opt_json JInt (en_containment_epoch n)),
           (''payload'', JObj (en_payload n)), (''previous_hash'', JStr (en_previous_hash n)),
           (''node_hash'', JStr (en_node_hash n))]"

section \<open>The chain\<close>

type_synonym evidence = "evidence_node list"

definition head_hash :: "evidence \<Rightarrow> string" where
  "head_hash nodes = (if nodes = [] then genesis_hash else en_node_hash (last nodes))"

text \<open>
  \<open>append\<close>: the payload is copied through its text, so the stored one holds what was hashed.
\<close>

definition ev_append ::
  "'a library_scheme \<Rightarrow> string \<Rightarrow> string \<Rightarrow> int \<Rightarrow> string \<Rightarrow> string option \<Rightarrow> int option \<Rightarrow> json dict option \<Rightarrow>
     (evidence, evidence_node) prog" where
  "ev_append lib event_id event_type timestamp agent_id incident_id containment_epoch payload =
     andthen (guarding (event_id \<noteq> [] \<and> event_type \<noteq> [] \<and> agent_id \<noteq> [])
       (Exn ValueError ''event_id, event_type, and agent_id must be non-empty'')) (\<lambda>_.
     andthen (guarding (0 \<le> timestamp) (Exn ValueError ''timestamp must be non-negative'')) (\<lambda>_.
     andthen (guarding (\<forall>e. containment_epoch = Some e \<longrightarrow> 0 \<le> e)
       (Exn ValueError ''containment_epoch must be non-negative'')) (\<lambda>_.
     andthen (reading id) (\<lambda>nodes.
     andthen (guarding (\<not> list_ex (\<lambda>n. en_event_id n = event_id) nodes)
       (Exn ValueError (''duplicate evidence event_id: '' @ event_id))) (\<lambda>_.
     andthen (lift_result (json_loads lib (dumps canonical_style
       (JObj (case payload of None \<Rightarrow> [] | Some d \<Rightarrow> d))))) (\<lambda>frozen.
     let body = \<lparr>en_sequence = int (length nodes), en_event_id = event_id, en_event_type = event_type,
           en_timestamp = timestamp, en_agent_id = agent_id, en_incident_id = incident_id,
           en_containment_epoch = containment_epoch,
           en_payload = (case frozen of JObj kvs \<Rightarrow> kvs | _ \<Rightarrow> []),
           en_previous_hash = head_hash nodes, en_node_hash = []\<rparr>;
         node = body\<lparr>en_node_hash := node_digest lib body\<rparr>
     in andthen (modifying (\<lambda>nodes. nodes @ [node])) (\<lambda>_. ret node)))))))"

text \<open>The loop of \<open>verify\<close>, with the digest and the event ids seen so far.\<close>

fun verify_nodes :: "'a library_scheme \<Rightarrow> int \<Rightarrow> string \<Rightarrow> string set \<Rightarrow> evidence \<Rightarrow> exn + unit" where
  "verify_nodes lib expected previous seen [] = Inr ()"
| "verify_nodes lib expected previous seen (n # nodes) =
     (if en_sequence n \<noteq> expected then Inl (Exn ValueError ''evidence sequence is not contiguous'')
      else if en_event_id n \<in> seen then
        Inl (Exn ValueError (''duplicate evidence event_id: '' @ en_event_id n))
      else if en_previous_hash n \<noteq> previous then
        Inl (Exn ValueError (''evidence link broken at sequence '' @ str_int (en_sequence n)))
      else if en_node_hash n \<noteq> node_digest lib n then
        Inl (Exn ValueError (''evidence node mutated at sequence '' @ str_int (en_sequence n)))
      else verify_nodes lib (expected + 1) (en_node_hash n) (insert (en_event_id n) seen) nodes)"

definition ev_verify :: "'a library_scheme \<Rightarrow> (evidence, unit) prog" where
  "ev_verify lib = (\<lambda>nodes. (verify_nodes lib 0 genesis_hash {} nodes, nodes))"

fun load_all :: "'a library_scheme \<Rightarrow> string list \<Rightarrow> exn + json list" where
  "load_all lib [] = Inr []"
| "load_all lib (t # ts) =
     (case json_loads lib t of
        Inl e \<Rightarrow> Inl e
      | Inr v \<Rightarrow> (case load_all lib ts of Inl e \<Rightarrow> Inl e | Inr vs \<Rightarrow> Inr (v # vs)))"

definition ev_snapshot :: "'a library_scheme \<Rightarrow> (evidence, json list) prog" where
  "ev_snapshot lib =
     andthen (ev_verify lib) (\<lambda>_. andthen (reading id) (\<lambda>nodes.
       lift_result (load_all lib (map (\<lambda>n. dumps canonical_style (node_dict n)) nodes))))"

definition ev_digest :: "'a library_scheme \<Rightarrow> (evidence, string) prog" where
  "ev_digest lib =
     andthen (ev_verify lib) (\<lambda>_. andthen (ev_snapshot lib) (\<lambda>items. ret (sha256_of lib (JList items))))"

section \<open>Warden observations\<close>

record warden_observation =
  wo_version :: int
  wo_observation_id :: string
  wo_observed_event_id :: string
  wo_observed_event_type :: string
  wo_observed_at :: int
  wo_agent_id :: string
  wo_trace_id :: "string option"
  wo_run_id :: "string option"
  wo_action_id :: "string option"
  wo_policy_decision_id :: "string option"
  wo_incident_id :: "string option"
  wo_containment_epoch :: "int option"
  wo_reason :: "string option"
  wo_attributes :: "json option"

definition attributes_or_empty :: "json option \<Rightarrow> json" where
  "attributes_or_empty a = (case a of None \<Rightarrow> JObj [] | Some v \<Rightarrow> v)"

definition from_governance_event :: "string \<Rightarrow> governance_event \<Rightarrow> exn + warden_observation" where
  "from_governance_event observation_id e =
     (if observation_id = [] then Inl (Exn ValueError ''observation_id must be non-empty'')
      else Inr \<lparr>wo_version = 1, wo_observation_id = observation_id,
        wo_observed_event_id = ge_event_id e, wo_observed_event_type = ge_event_type e,
        wo_observed_at = ge_timestamp e, wo_agent_id = ge_agent_id e, wo_trace_id = ge_trace_id e,
        wo_run_id = ge_run_id e, wo_action_id = ge_action_id e,
        wo_policy_decision_id = ge_policy_decision_id e, wo_incident_id = ge_incident_id e,
        wo_containment_epoch = ge_containment_epoch e, wo_reason = ge_reason e,
        wo_attributes = Some (attributes_or_empty (ge_attributes e))\<rparr>)"

definition observation_dict :: "warden_observation \<Rightarrow> json" where
  "observation_dict ob =
     JObj [(''version'', JInt (wo_version ob)), (''observation_id'', JStr (wo_observation_id ob)),
           (''observed_event_id'', JStr (wo_observed_event_id ob)),
           (''observed_event_type'', JStr (wo_observed_event_type ob)),
           (''observed_at'', JInt (wo_observed_at ob)), (''agent_id'', JStr (wo_agent_id ob)),
           (''trace_id'', opt_json JStr (wo_trace_id ob)), (''run_id'', opt_json JStr (wo_run_id ob)),
           (''action_id'', opt_json JStr (wo_action_id ob)),
           (''policy_decision_id'', opt_json JStr (wo_policy_decision_id ob)),
           (''incident_id'', opt_json JStr (wo_incident_id ob)),
           (''containment_epoch'', opt_json JInt (wo_containment_epoch ob)),
           (''reason'', opt_json JStr (wo_reason ob)),
           (''attributes'', attributes_or_empty (wo_attributes ob)),
           (''authority'', JStr ''observation-only'')]"

definition observation_json :: "warden_observation \<Rightarrow> string" where
  "observation_json ob = dumps compact_style (observation_dict ob)"

section \<open>The recorder\<close>

text \<open>\<open>_derived_id(*parts)\<close> of strings.\<close>

definition derived_id :: "'a library_scheme \<Rightarrow> string list \<Rightarrow> string" where
  "derived_id lib parts = ''evidence:'' @ take 32 (sha256_of lib (JList (map JStr parts)))"

definition record_governance_event :: "'a library_scheme \<Rightarrow> governance_event \<Rightarrow> (evidence, evidence_node) prog" where
  "record_governance_event lib e =
     ev_append lib (ge_event_id e) (ge_event_type e) (ge_timestamp e) (ge_agent_id e) (ge_incident_id e)
       (ge_containment_epoch e)
       (Some [(''source'', JStr ''agent_containment.controller''), (''trace_id'', opt_json JStr (ge_trace_id e)),
              (''run_id'', opt_json JStr (ge_run_id e)), (''action_id'', opt_json JStr (ge_action_id e)),
              (''policy_decision_id'', opt_json JStr (ge_policy_decision_id e)),
              (''reason'', opt_json JStr (ge_reason e)),
              (''attributes'', attributes_or_empty (ge_attributes e))])"

definition record_enforcement_result ::
  "'a library_scheme \<Rightarrow> governance_event \<Rightarrow> enforcement_result \<Rightarrow> string \<Rightarrow> (evidence, evidence_node) prog" where
  "record_enforcement_result lib e r phase =
     ev_append lib
       (derived_id lib [ge_event_id e, ''enforcement'', er_provider r, enforcement_value (er_status r), er_detail r, phase])
       (''enforcement.'' @ phase @ ''.'' @ enforcement_value (er_status r)) (ge_timestamp e) (ge_agent_id e)
       (ge_incident_id e) (ge_containment_epoch e)
       (Some [(''source'', JStr ''enforcement_provider''), (''provider'', JStr (er_provider r)),
              (''status'', JStr (enforcement_value (er_status r))), (''enforced'', JBool (er_enforced r)),
              (''released'', JBool (er_released r)), (''detail'', JStr (er_detail r)),
              (''controller_event_id'', JStr (ge_event_id e))])"

definition record_warden_observation :: "'a library_scheme \<Rightarrow> warden_observation \<Rightarrow> (evidence, evidence_node) prog" where
  "record_warden_observation lib ob =
     ev_append lib (wo_observation_id ob) (''warden.'' @ wo_observed_event_type ob) (wo_observed_at ob)
       (wo_agent_id ob) (wo_incident_id ob) (wo_containment_epoch ob)
       (Some [(''source'', JStr ''warden.observation''), (''observed_event_id'', JStr (wo_observed_event_id ob)),
              (''observed_event_type'', JStr (wo_observed_event_type ob)),
              (''trace_id'', opt_json JStr (wo_trace_id ob)), (''run_id'', opt_json JStr (wo_run_id ob)),
              (''action_id'', opt_json JStr (wo_action_id ob)),
              (''policy_decision_id'', opt_json JStr (wo_policy_decision_id ob)),
              (''reason'', opt_json JStr (wo_reason ob)), (''attributes'', attributes_or_empty (wo_attributes ob)),
              (''authority'', JStr ''observation-only'')])"

section \<open>The chain stays verified\<close>

lemma verify_nodes_snoc:
  "verify_nodes lib k p seen (ns @ [n]) = Inr () \<longleftrightarrow>
     verify_nodes lib k p seen ns = Inr () \<and> en_sequence n = k + int (length ns)
     \<and> en_event_id n \<notin> seen \<union> en_event_id ` set ns
     \<and> en_previous_hash n = (if ns = [] then p else en_node_hash (last ns))
     \<and> en_node_hash n = node_digest lib n"
proof (induction ns arbitrary: k p seen)
  case (Cons m ns)
  then show ?case by (auto simp: add.assoc)
qed auto

definition verified :: "'a library_scheme \<Rightarrow> evidence \<Rightarrow> bool" where
  "verified lib nodes \<longleftrightarrow> verify_nodes lib 0 genesis_hash {} nodes = Inr ()"

lemma verified_empty [simp]: "verified lib []"
  by (simp add: verified_def)

lemma verified_snoc:
  "verified lib (ns @ [n]) \<longleftrightarrow>
     verified lib ns \<and> en_sequence n = int (length ns) \<and> en_event_id n \<notin> en_event_id ` set ns
     \<and> en_previous_hash n = head_hash ns \<and> en_node_hash n = node_digest lib n"
  by (simp add: verified_def verify_nodes_snoc head_hash_def)

lemma node_digest_ignores_hash [simp]: "node_digest lib (n\<lparr>en_node_hash := h\<rparr>) = node_digest lib n"
  by (simp add: node_digest_def node_body_def)

text \<open>An append that raises leaves the chain; one that returns adds its node to a verified chain.\<close>

lemma ev_append_effect:
  assumes "ev_append lib event_id event_type timestamp agent_id incident_id epoch payload nodes = (r, nodes')"
  shows "(case r of Inl e \<Rightarrow> nodes' = nodes
           | Inr n \<Rightarrow> nodes' = nodes @ [n] \<and> en_event_id n = event_id \<and> (verified lib nodes \<longrightarrow> verified lib nodes'))"
  using assms by (auto simp: ev_append_def run_rules verified_snoc Let_def list_ex_iff image_iff
      node_digest_def node_body_def split: if_splits)

text \<open>What the recorder can do to a chain.\<close>

datatype evidence_op =
    Append string string int string "string option" "int option" "json dict option"
  | RecordEvent governance_event
  | RecordResult governance_event enforcement_result string
  | RecordObservation warden_observation

fun evidence_run :: "'a library_scheme \<Rightarrow> evidence_op \<Rightarrow> (evidence, evidence_node) prog" where
  "evidence_run lib (Append i t ts a inc ep p) = ev_append lib i t ts a inc ep p"
| "evidence_run lib (RecordEvent e) = record_governance_event lib e"
| "evidence_run lib (RecordResult e r phase) = record_enforcement_result lib e r phase"
| "evidence_run lib (RecordObservation ob) = record_warden_observation lib ob"

inductive evidence_step :: "'a library_scheme \<Rightarrow> evidence \<Rightarrow> evidence_op \<Rightarrow> evidence \<Rightarrow> bool" for lib where
  evidence_did: "evidence_run lib op nodes = (r, nodes') \<Longrightarrow> evidence_step lib nodes op nodes'"

lemma evidence_step_effect:
  assumes "evidence_step lib nodes op nodes'"
  shows "nodes' = nodes \<or> (\<exists>n. nodes' = nodes @ [n] \<and> (verified lib nodes \<longrightarrow> verified lib nodes'))"
proof -
  from assms obtain r where "evidence_run lib op nodes = (r, nodes')" by (cases rule: evidence_step.cases) auto
  then show ?thesis
    by (cases op; cases r)
      (auto simp: record_governance_event_def record_enforcement_result_def record_warden_observation_def
        dest: ev_append_effect)
qed

text \<open>
  C24: The evidence chain is append-only and always verifies.  Starting from a chain that
  verifies, whatever events, results, observations and raw nodes are appended, in any order and
  including appends that raise, the chain verifies: sequence numbers count from zero, event
  ids are distinct, and every node is linked to the one before by its digest.  The earlier
  nodes stay as they are.
\<close>

theorem evidence_chain_append_only:
  assumes "runs (evidence_step lib) nodes ops nodes'" and "verified lib nodes"
  shows "verified lib nodes' \<and> distinct (map en_event_id nodes')
     \<and> map en_sequence nodes' = map int [0..<length nodes'] \<and> prefix nodes nodes'"
proof -
  have "verified lib nodes' \<and> prefix nodes nodes'"
    by (rule runs_invariant [OF assms(1), where I = "\<lambda>ns. verified lib ns \<and> prefix nodes ns"])
      (use assms(2) in \<open>auto dest!: evidence_step_effect simp: prefix_def\<close>)
  moreover have "distinct (map en_event_id ns) \<and> map en_sequence ns = map int [0..<length ns]" if "verified lib ns" for ns
    using that by (induction ns rule: rev_induct) (auto simp: verified_snoc)
  ultimately show ?thesis by blast
qed

section \<open>The head determines the chain\<close>

text \<open>A node up to the order of the keys of its payload; its hash is determined by the rest.\<close>

definition node_content :: "evidence_node \<Rightarrow> evidence_node \<times> json" where
  "node_content n = (n\<lparr>en_payload := [], en_node_hash := []\<rparr>, sort_json (JObj (en_payload n)))"

definition payload_ok :: "evidence_node \<Rightarrow> bool" where
  "payload_ok n \<longleftrightarrow> json_ok (JObj (en_payload n))"

definition evidence_linked :: "'a library_scheme \<Rightarrow> evidence \<Rightarrow> string \<Rightarrow> bool" where
  "evidence_linked lib nodes h \<longleftrightarrow> verified lib nodes \<and> head_hash nodes = h \<and> (\<forall>n \<in> set nodes. payload_ok n)"

lemma opt_json_inj: "sort_json (opt_json JStr a) = sort_json (opt_json JStr b) \<longleftrightarrow> a = b"
  "sort_json (opt_json JInt c) = sort_json (opt_json JInt d) \<longleftrightarrow> c = d"
  by (cases a; cases b; simp) (cases c; cases d; simp)

lemma node_body_ok: "payload_ok n \<Longrightarrow> json_ok (node_body n)"
  by (cases "en_incident_id n"; cases "en_containment_epoch n") (simp_all add: node_body_def payload_ok_def)

lemma node_body_commits:
  assumes "payload_ok a" and "payload_ok b" and "sort_json (node_body a) = sort_json (node_body b)"
  shows "node_content a = node_content b"
proof -
  have "map_option sort_json (json_get (node_body a) k) = map_option sort_json (json_get (node_body b) k)" for k
    using sort_json_get [OF node_body_ok [OF assms(1)], of k] sort_json_get [OF node_body_ok [OF assms(2)], of k] assms(3)
    by simp
  note field = this [of "''sequence''"] this [of "''event_id''"] this [of "''event_type''"] this [of "''timestamp''"]
    this [of "''agent_id''"] this [of "''incident_id''"] this [of "''containment_epoch''"] this [of "''payload''"]
    this [of "''previous_hash''"]
  show ?thesis using field by (simp add: node_body_def node_content_def opt_json_inj)
qed

interpretation evidence_chain: hash_chain payload_ok "\<lambda>n. dumps canonical_style (node_body n)" node_content
  en_previous_hash "lib_sha256 lib" "evidence_linked lib" for lib :: "'a library_scheme"
proof
  fix a b
  assume ok: "payload_ok a" "payload_ok b"
  then show "dumps canonical_style (node_body a) = dumps canonical_style (node_body b) \<Longrightarrow> node_content a = node_content b"
    by (intro node_body_commits dumps_inj [OF styles_ok(1)] node_body_ok)
  show "node_content a = node_content b \<Longrightarrow> en_previous_hash a = en_previous_hash b"
    by (cases a; cases b) (simp add: node_content_def)
next
  fix h
  show "evidence_linked lib [] h \<Longrightarrow> h = genesis_hash" by (simp add: evidence_linked_def head_hash_def)
next
  fix es e h
  assume "evidence_linked lib (es @ [e]) h"
  then show "payload_ok e \<and> evidence_linked lib es (en_previous_hash e) \<and> h = lib_sha256 lib (dumps canonical_style (node_body e))"
    by (auto simp: evidence_linked_def verified_snoc head_hash_def node_digest_def sha256_of_def)
qed

text \<open>
  C21: The head hash of the evidence chain commits to the whole incident.  Two chains that
  verify and have the same head hold the same nodes: same events, order, times, agents,
  incidents, epochs and payloads (up to the order of keys).  Deleting, altering, reordering or
  inserting evidence makes \<open>verify\<close> raise or changes the head, unless two different texts with
  one SHA-256 digest, or one whose digest is 64 zeros, are among the nodes.
\<close>

theorem evidence_tamper_evident:
  assumes "fst (ev_verify lib nodes) = Inr ()" and "fst (ev_verify lib nodes') = Inr ()"
    and "\<forall>n \<in> set nodes \<union> set nodes'. payload_ok n" and "head_hash nodes = head_hash nodes'"
  shows "map node_content nodes = map node_content nodes'
    \<or> hash_broken (lib_sha256 lib) ((\<lambda>n. dumps canonical_style (node_body n)) ` (set nodes \<union> set nodes'))"
proof -
  have "evidence_linked lib nodes (head_hash nodes)" "evidence_linked lib nodes' (head_hash nodes)"
    using assms by (simp_all add: evidence_linked_def ev_verify_def verified_def)
  then show ?thesis by (rule evidence_chain.head_determines_entries)
qed

text \<open>A node and its copy with the keys of the payload in another order.\<close>

definition sample_node :: evidence_node where
  "sample_node = (let n = \<lparr>en_sequence = 0, en_event_id = ''e'', en_event_type = ''containment'', en_timestamp = 5,
     en_agent_id = ''agent'', en_incident_id = None, en_containment_epoch = Some 1,
     en_payload = [(''a'', JInt 1), (''b'', JNull)], en_previous_hash = genesis_hash, en_node_hash = []\<rparr>
     in n\<lparr>en_node_hash := node_digest sample_lib n\<rparr>)"

theorem evidence_tamper_evident_witness:
  "let m = sample_node\<lparr>en_payload := [(''b'', JNull), (''a'', JInt 1)]\<rparr> in
   fst (ev_verify sample_lib [m]) = Inr () \<and> head_hash [m] = head_hash [sample_node]
   \<and> node_content m = node_content sample_node"
proof -
  let ?m = "sample_node\<lparr>en_payload := [(''b'', JNull), (''a'', JInt 1)]\<rparr>"
  have ok: "payload_ok sample_node" "payload_ok ?m" by (simp_all add: payload_ok_def sample_node_def Let_def)
  have same_text: "dumps canonical_style (node_body ?m) = dumps canonical_style (node_body sample_node)"
    by (simp add: dumps_def node_body_def sample_node_def Let_def)
  have v: "fst (ev_verify sample_lib [sample_node]) = Inr ()" "fst (ev_verify sample_lib [?m]) = Inr ()"
    "head_hash [?m] = head_hash [sample_node]"
    using same_text by (simp_all add: ev_verify_def node_digest_def sha256_of_def head_hash_def)
      (simp_all add: sample_node_def Let_def node_digest_def sha256_of_def node_body_def)
  have "\<not> hash_broken (lib_sha256 sample_lib) ((\<lambda>n. dumps canonical_style (node_body n)) ` (set [?m] \<union> set [sample_node]))"
    using same_text sample_digest_not_genesis by (simp add: hash_broken_def dumps_def node_body_def)
  with evidence_tamper_evident [OF v(2,1) _ v(3)] ok v show ?thesis by (simp add: Let_def)
qed

text \<open>An event of the example and its containment result, recorded one after the other.\<close>

theorem evidence_chain_append_only_witness:
  "\<exists>nodes. runs (evidence_step sample_lib) []
       [Append ''e1'' ''containment'' 5 ''agent'' None (Some 1) None, Append ''e1'' ''again'' 6 ''agent'' None None None] nodes
     \<and> length nodes = 1 \<and> verified sample_lib nodes \<and> distinct (map en_event_id nodes)"
proof -
  have loads: "json_loads sample_lib (dumps canonical_style (JObj [])) = Inr (JObj [])"
    using loads_dumps [of canonical_style "JObj []" sample_lib] by (simp add: floats_read_def)
  let ?op1 = "Append ''e1'' ''containment'' 5 ''agent'' None (Some 1) None"
  let ?op2 = "Append ''e1'' ''again'' 6 ''agent'' None None None"
  let ?nodes = "snd (evidence_run sample_lib ?op1 [])"
  have len: "length ?nodes = 1" "snd (evidence_run sample_lib ?op2 ?nodes) = ?nodes"
    by (simp_all add: ev_append_def prog_defs loads Let_def)
  have "evidence_step sample_lib [] ?op1 ?nodes" "evidence_step sample_lib ?nodes ?op2 ?nodes"
    using len(2) evidence_did [of sample_lib ?op1] evidence_did [of sample_lib ?op2] by (metis prod.collapse)+
  then have run: "runs (evidence_step sample_lib) [] [?op1, ?op2] ?nodes" by (auto simp: runs_Cons_iff)
  from evidence_chain_append_only [OF run] len(1) run show ?thesis by auto
qed

end
