(* ===== verification/Linux_Supervisor.thy ===== *)
theory Linux_Supervisor
  imports Py_Text Enforcer
begin

text \<open>
  \<open>linux_supervisor.py\<close>: the cgroup v2 files of an agent's workload.  The kernel is the record of
  the calls the code makes, on a world \<open>'w\<close> that any of them may change; each may raise.  A
  path is its text, and \<open>Path(p) / name\<close> is \<open>p/name\<close>.
\<close>

record 'w os =
  os_posix :: bool
  os_stat :: "string \<Rightarrow> ('w, int \<times> int \<times> int) prog"
  os_is_dir :: "string \<Rightarrow> ('w, bool) prog"
  os_is_file :: "string \<Rightarrow> ('w, bool) prog"
  os_exists :: "string \<Rightarrow> ('w, bool) prog"
  os_resolve :: "string \<Rightarrow> ('w, string) prog"
  os_read_text :: "string \<Rightarrow> ('w, string) prog"
  os_write_text :: "string \<Rightarrow> string \<Rightarrow> ('w, unit) prog"
  os_mkdir :: "bool \<Rightarrow> string \<Rightarrow> ('w, unit) prog"
  os_rmdir :: "string \<Rightarrow> ('w, unit) prog"
  os_monotonic :: "'w \<Rightarrow> int \<times> 'w"
  os_sleep :: "int \<Rightarrow> 'w \<Rightarrow> 'w"
  os_second :: int

definition path_join :: "string \<Rightarrow> string \<Rightarrow> string" where
  "path_join p name = (if name = [] then p else p @ CHR ''/'' # name)"

definition cgroup2_root :: string where
  "cgroup2_root = ''/sys/fs/cgroup''"

text \<open>\<open>root in path.parents\<close> of two resolved paths.\<close>

definition below :: "string \<Rightarrow> string \<Rightarrow> bool" where
  "below root p \<longleftrightarrow> take (length root + 1) p = root @ ''/''"

section \<open>The membership of a process\<close>

text \<open>
  The loop over the lines of \<open>/proc/.../cgroup\<close>: the path of the first line \<open>0:controllers:path\<close>
  whose path is not empty.
\<close>

fun v2_membership :: "string list \<Rightarrow> string option" where
  "v2_membership [] = None"
| "v2_membership (l # ls) =
     (case split_at_most 2 (CHR '':'') l of
        [hierarchy, controllers, path] \<Rightarrow>
          if hierarchy = ''0'' \<and> path \<noteq> [] then Some path else v2_membership ls
      | _ \<Rightarrow> v2_membership ls)"

definition delegated_root :: "'w os \<Rightarrow> ('w, string) prog" where
  "delegated_root os =
     andthen (os_is_file os ''/proc/self/cgroup'') (\<lambda>ok.
     andthen (guarding ok (Exn RuntimeError ''cannot determine controller cgroup'')) (\<lambda>_.
     andthen (os_read_text os ''/proc/self/cgroup'') (\<lambda>content.
       case v2_membership (splitlines content) of
         None \<Rightarrow> raise (Exn RuntimeError ''process has no cgroup v2 membership'')
       | Some path \<Rightarrow>
           andthen (os_resolve os (path_join cgroup2_root (lstrip (CHR ''/'') path))) (\<lambda>service_cgroup.
             if service_cgroup = cgroup2_root \<or> \<not> below cgroup2_root service_cgroup then
               raise (Exn RuntimeError ''controller cgroup is outside cgroup v2 root'')
             else ret (path_join service_cgroup ''agents'')))))"

text \<open>\<open>LinuxCgroupSupervisor(root)\<close>: the supervisor is its root directory.\<close>

definition mk_supervisor :: "'w os \<Rightarrow> string \<Rightarrow> ('w, string) prog" where
  "mk_supervisor os root =
     andthen (if os_posix os then os_exists os (path_join cgroup2_root ''cgroup.controllers'') else ret False) (\<lambda>ok.
     andthen (guarding ok (Exn RuntimeError ''Linux cgroup v2 is required'')) (\<lambda>_.
     andthen (if root = ''auto'' then delegated_root os else ret root) (\<lambda>root.
     andthen (os_mkdir os True root) (\<lambda>_. ret root))))"

section \<open>Workload directories\<close>

definition safe_name :: "string \<Rightarrow> exn + string" where
  "safe_name agent_id =
     (if agent_id = [] \<or> agent_id \<in> {''.'', ''..''} then Inl (Exn ValueError ''agent_id must be a non-empty string'')
      else if CHR ''/'' \<in> set agent_id \<or> CHR 0x5C \<in> set agent_id \<or> CHR 0x00 \<in> set agent_id then
        Inl (Exn ValueError ''agent_id may not contain path separators or NUL'')
      else Inr agent_id)"

definition sup_create_agent :: "'w os \<Rightarrow> string \<Rightarrow> string \<Rightarrow> ('w, string) prog" where
  "sup_create_agent os root agent_id =
     andthen (lift_result (safe_name agent_id)) (\<lambda>name.
     andthen (os_mkdir os False (path_join root name)) (\<lambda>_. ret (path_join root name)))"

definition sup_attach_pid :: "'w os \<Rightarrow> string \<Rightarrow> int \<Rightarrow> ('w, unit) prog" where
  "sup_attach_pid os path pid =
     andthen (guarding (0 < pid) (Exn ValueError ''pid must be positive'')) (\<lambda>_.
     andthen (os_is_dir os path) (\<lambda>ok.
     andthen (guarding ok (Exn ValueError (''cgroup path does not exist: '' @ path))) (\<lambda>_.
       os_write_text os (path_join path ''cgroup.procs'') (str_int pid @ [line_feed]))))"

definition sup_pid_cgroup_path :: "'w os \<Rightarrow> int \<Rightarrow> ('w, string) prog" where
  "sup_pid_cgroup_path os pid =
     andthen (guarding (0 < pid) (Exn ValueError ''pid must be positive'')) (\<lambda>_.
     let status = ''/proc/'' @ str_int pid @ ''/cgroup'' in
     andthen (os_is_file os status) (\<lambda>ok.
     andthen (guarding ok (Exn (OtherOSError ''ProcessLookupError'') (str_int pid))) (\<lambda>_.
     andthen (os_read_text os status) (\<lambda>content.
       case v2_membership (splitlines content) of
         Some path \<Rightarrow> ret path
       | None \<Rightarrow> raise (Exn RuntimeError (''process '' @ str_int pid @ '' has no cgroup v2 membership''))))))"

text \<open>\<open>actual.relative_to(requested)\<close> succeeds for the directory itself and what lies below it.\<close>

definition sup_pid_in_cgroup :: "'w os \<Rightarrow> int \<Rightarrow> string \<Rightarrow> ('w, bool) prog" where
  "sup_pid_in_cgroup os pid cgroup_path =
     andthen (os_resolve os cgroup_path) (\<lambda>requested.
     andthen (sup_pid_cgroup_path os pid) (\<lambda>path.
     andthen (os_resolve os (path_join cgroup2_root (lstrip (CHR ''/'') path))) (\<lambda>actual.
       ret (actual = requested \<or> below requested actual))))"

text \<open>The dictionary of \<open>cgroup.events\<close>: the last line of a key counts.\<close>

definition event_line :: "string \<Rightarrow> string dict \<Rightarrow> string dict" where
  "event_line l d =
     (case partition_at (CHR '' '') l of
        None \<Rightarrow> d
      | Some (key, v) \<Rightarrow> if key = [] then d else dict_set key (strip v) d)"

definition populated_field :: "string \<Rightarrow> string option" where
  "populated_field content = dict_get (foldl (\<lambda>d l. event_line l d) [] (splitlines content)) ''populated''"

definition sup_is_populated :: "'w os \<Rightarrow> string \<Rightarrow> ('w, bool) prog" where
  "sup_is_populated os path =
     (let events = path_join path ''cgroup.events'' in
      andthen (os_is_file os events) (\<lambda>ok.
      andthen (guarding ok (Exn RuntimeError (''cgroup.events is unavailable: '' @ events))) (\<lambda>_.
      andthen (os_read_text os events) (\<lambda>content.
      let populated = populated_field content in
      andthen (guarding (populated \<in> {Some ''0'', Some ''1''})
        (Exn RuntimeError (''cgroup.events has no valid populated field: '' @ events))) (\<lambda>_.
      ret (populated = Some ''1''))))))"

definition sup_contain :: "'w os \<Rightarrow> string \<Rightarrow> ('w, int) prog" where
  "sup_contain os path =
     (let kill_file = path_join path ''cgroup.kill'' in
      andthen (os_is_file os kill_file) (\<lambda>ok.
      andthen (guarding ok (Exn RuntimeError ''cgroup.kill is unavailable'')) (\<lambda>_.
      andthen (os_write_text os kill_file (''1'' @ [line_feed])) (\<lambda>_. ret 1))))"

definition sup_remove :: "'w os \<Rightarrow> string \<Rightarrow> ('w, unit) prog" where
  "sup_remove os path = os_rmdir os path"

section \<open>Properties\<close>

text \<open>
  The directory of an agent lies directly below the root, and different agents have different
  directories: the name is one path component, not \<open>.\<close> or \<open>..\<close>.
\<close>

lemma safe_name_ok:
  "safe_name agent_id = Inr name \<longleftrightarrow>
     name = agent_id \<and> agent_id \<notin> {[], ''.'', ''..''} \<and> CHR ''/'' \<notin> set agent_id
     \<and> CHR 0x5C \<notin> set agent_id \<and> CHR 0x00 \<notin> set agent_id"
  by (auto simp: safe_name_def)

lemma sup_create_agent_path:
  assumes "sup_create_agent os root a w = (Inr path, w')"
  shows "path = root @ CHR ''/'' # a \<and> CHR ''/'' \<notin> set a \<and> a \<notin> {''.'', ''..''}
    \<and> fst (os_mkdir os False path w) = Inr ()"
proof (cases "safe_name a")
  case (Inl e)
  with assms show ?thesis by (simp add: sup_create_agent_def run_rules)
next
  case (Inr name)
  then have "name = a" "a \<notin> {[], ''.'', ''..''}" "CHR ''/'' \<notin> set a" by (simp_all add: safe_name_ok)
  with Inr assms show ?thesis by (auto simp: sup_create_agent_def run_rules path_join_def)
qed

lemma workload_paths_distinct:
  assumes "sup_create_agent os root a w = (Inr path, w1)" and "sup_create_agent os root b u = (Inr path, u1)"
  shows "a = b"
  using sup_create_agent_path [OF assms(1)] sup_create_agent_path [OF assms(2)] by auto

lemma delegated_root_below:
  "delegated_root os w = (Inr root, w') \<Longrightarrow> below cgroup2_root root"
proof -
  assume "delegated_root os w = (Inr root, w')"
  then obtain s where "below cgroup2_root s" "root = path_join s ''agents''"
    by (auto simp: delegated_root_def run_rules split: option.splits if_splits)
  then show ?thesis by (auto simp: below_def path_join_def take_Cons' split: if_splits dest!: arg_cong [of _ _ length])
qed

text \<open>\<open>populated 0\<close> is reported only for a file whose last \<open>populated\<close> line says so.\<close>

lemma sup_is_populated_reads:
  "sup_is_populated os path w = (Inr b, w') \<Longrightarrow>
     \<exists>content. os_read_text os (path_join path ''cgroup.events'')
         (snd (os_is_file os (path_join path ''cgroup.events'') w)) = (Inr content, w')
       \<and> populated_field content = Some (if b then ''1'' else ''0'')"
  by (auto simp: sup_is_populated_def run_rules Let_def split: if_splits)

end
