(* ===== verification/Cgroup_Enforcer.thy ===== *)
theory Cgroup_Enforcer
  imports Linux_Supervisor
begin

text \<open>
  \<open>cgroup_enforcer.py\<close>: the provider that kills the workload of an agent through its cgroup and
  verifies that the cgroup is empty.  Identities are those the directories had when the
  provider was made.  The bounded wait for the kernel is a loop on the clock: it is a partial
  function, and shown to end when the clock advances.
\<close>

record cgroup_identity =
  cgi_device :: int
  cgi_inode :: int
  cgi_ctime :: int

record cgroup_enforcer =
  cg_paths :: "string dict"
  cg_identities :: "cgroup_identity dict"

definition cg_name :: string where "cg_name = ''cgroup-v2''"

definition cg_identity :: "'w os \<Rightarrow> string \<Rightarrow> ('w, cgroup_identity) prog" where
  "cg_identity os path =
     andthen (os_stat os path) (\<lambda>(dev, ino, ctime).
     andthen (os_is_dir os path) (\<lambda>ok.
     andthen (guarding ok (Exn ValueError (''cgroup path is not a directory: '' @ path))) (\<lambda>_.
       ret \<lparr>cgi_device = dev, cgi_inode = ino, cgi_ctime = ctime\<rparr>)))"

fun identify_all :: "'w os \<Rightarrow> string dict \<Rightarrow> ('w, cgroup_identity dict) prog" where
  "identify_all os [] = ret []"
| "identify_all os ((a, path) # rest) =
     andthen (cg_identity os path) (\<lambda>i. andthen (identify_all os rest) (\<lambda>more. ret ((a, i) # more)))"

definition mk_cgroup_enforcer :: "'w os \<Rightarrow> string dict \<Rightarrow> ('w, cgroup_enforcer) prog" where
  "mk_cgroup_enforcer os paths =
     andthen (identify_all os paths) (\<lambda>ids. ret \<lparr>cg_paths = paths, cg_identities = ids\<rparr>)"

definition cg_missing :: "string \<Rightarrow> enforcement_result" where
  "cg_missing agent_id = mk_result cg_name NOT_CONFIGURED (''no cgroup configured for agent '' @ agent_id)"

definition cg_failed :: "string \<Rightarrow> enforcement_result" where
  "cg_failed detail = mk_result cg_name VERIFICATION_FAILED detail"

text \<open>The loop over the two required control files.\<close>

fun missing_control :: "'w os \<Rightarrow> string \<Rightarrow> string list \<Rightarrow> ('w, string option) prog" where
  "missing_control os path [] = ret None"
| "missing_control os path (c # cs) =
     andthen (os_is_file os (path_join path c)) (\<lambda>ok.
       if ok then missing_control os path cs else ret (Some c))"

definition cg_verify_identity ::
  "'w os \<Rightarrow> cgroup_enforcer \<Rightarrow> string \<Rightarrow> string \<Rightarrow> ('w, enforcement_result option) prog" where
  "cg_verify_identity os c agent_id path =
     andthen (case dict_get (cg_identities c) agent_id of
        None \<Rightarrow> raise (Exn KeyError agent_id) | Some i \<Rightarrow> ret i) (\<lambda>expected.
     andthen (attempt (cg_identity os path)) (\<lambda>r.
       case r of
         Inl e \<Rightarrow>
           if is_os_error e \<or> is_value_error e then
             ret (Some (cg_failed (''cgroup identity unavailable: '' @ exn_text e)))
           else raise e
       | Inr actual \<Rightarrow>
           if actual \<noteq> expected then ret (Some (cg_failed (''cgroup identity changed for '' @ agent_id)))
           else
             andthen (missing_control os path [''cgroup.events'', ''cgroup.kill'']) (\<lambda>missing.
               ret (map_option (\<lambda>c. cg_failed (''required cgroup control file is missing: '' @ c)) missing))))"

text \<open>\<open>try: ... except Exception as exc\<close> around a method, with the status of the handler.\<close>

definition or_result :: "enforcement_status \<Rightarrow> ('w, enforcement_result) prog \<Rightarrow> ('w, enforcement_result) prog" where
  "or_result status m = catch m (\<lambda>e. ret (mk_result cg_name status (exn_text e)))"

definition with_identity ::
  "'w os \<Rightarrow> cgroup_enforcer \<Rightarrow> string \<Rightarrow> string \<Rightarrow> ('w, enforcement_result) prog \<Rightarrow> ('w, enforcement_result) prog" where
  "with_identity os c agent_id path m =
     andthen (cg_verify_identity os c agent_id path) (\<lambda>failure. case failure of Some r \<Rightarrow> ret r | None \<Rightarrow> m)"

definition cg_contain :: "'w os \<Rightarrow> cgroup_enforcer \<Rightarrow> string \<Rightarrow> ('w, enforcement_result) prog" where
  "cg_contain os c agent_id =
     (case dict_get (cg_paths c) agent_id of
        None \<Rightarrow> ret (cg_missing agent_id)
      | Some path \<Rightarrow>
          or_result DEGRADED (with_identity os c agent_id path
            (andthen (sup_contain os path) (\<lambda>_. ret (mk_result cg_name ENFORCED [])))))"

text \<open>\<open>while is_populated(path) and monotonic() < deadline: sleep(0.01)\<close>.\<close>

partial_function (option) cg_wait :: "'w os \<Rightarrow> string \<Rightarrow> int \<Rightarrow> 'w \<Rightarrow> ((exn + unit) \<times> 'w) option" where
  "cg_wait os path deadline w =
     (case sup_is_populated os path w of
        (Inl e, w1) \<Rightarrow> Some (Inl e, w1)
      | (Inr populated, w1) \<Rightarrow>
          if \<not> populated then Some (Inr (), w1)
          else (case os_monotonic os w1 of
              (now, w2) \<Rightarrow>
                if now < deadline then cg_wait os path deadline (os_sleep os (os_second os div 100) w2)
                else Some (Inr (), w2)))"

definition cg_check_empty :: "'w os \<Rightarrow> string \<Rightarrow> string \<Rightarrow> ('w, enforcement_result) prog" where
  "cg_check_empty os agent_id path =
     andthen (sup_is_populated os path) (\<lambda>populated.
       ret (if populated then cg_failed (''cgroup remains populated for '' @ agent_id)
            else mk_result cg_name ENFORCED []))"

text \<open>\<open>None\<close>: the wait does not end.\<close>

definition cg_verify_contained ::
  "'w os \<Rightarrow> cgroup_enforcer \<Rightarrow> string \<Rightarrow> 'w \<Rightarrow> ((exn + enforcement_result) \<times> 'w) option" where
  "cg_verify_contained os c agent_id w =
     (case dict_get (cg_paths c) agent_id of
        None \<Rightarrow> Some (Inr (cg_missing agent_id), w)
      | Some path \<Rightarrow>
          (case cg_verify_identity os c agent_id path w of
             (Inl e, w1) \<Rightarrow> Some (Inr (cg_failed (exn_text e)), w1)
           | (Inr (Some failure), w1) \<Rightarrow> Some (Inr failure, w1)
           | (Inr None, w1) \<Rightarrow>
               (case os_monotonic os w1 of
                  (now, w2) \<Rightarrow>
                    (case cg_wait os path (now + 2 * os_second os) w2 of
                       None \<Rightarrow> None
                     | Some (Inl e, w3) \<Rightarrow> Some (Inr (cg_failed (exn_text e)), w3)
                     | Some (Inr _, w3) \<Rightarrow> Some (or_result VERIFICATION_FAILED (cg_check_empty os agent_id path) w3)))))"

definition cg_release :: "'w os \<Rightarrow> cgroup_enforcer \<Rightarrow> string \<Rightarrow> ('w, enforcement_result) prog" where
  "cg_release os c agent_id =
     (case dict_get (cg_paths c) agent_id of
        None \<Rightarrow> ret (cg_missing agent_id)
      | Some path \<Rightarrow>
          or_result DEGRADED (with_identity os c agent_id path
            (andthen (sup_is_populated os path) (\<lambda>populated.
              ret (if populated then mk_result cg_name DEGRADED (''cgroup remains populated for '' @ agent_id)
                   else mk_result cg_name RELEASED [])))))"

definition cg_verify_released :: "'w os \<Rightarrow> cgroup_enforcer \<Rightarrow> string \<Rightarrow> ('w, enforcement_result) prog" where
  "cg_verify_released os c agent_id =
     (case dict_get (cg_paths c) agent_id of
        None \<Rightarrow> ret (cg_missing agent_id)
      | Some path \<Rightarrow>
          or_result VERIFICATION_FAILED (with_identity os c agent_id path
            (andthen (sup_is_populated os path) (\<lambda>populated.
              ret (if populated then cg_failed (''cgroup is unexpectedly populated for '' @ agent_id)
                   else mk_result cg_name RELEASED [])))))"

section \<open>The wait ends\<close>

text \<open>
  The clock a world shows, and its laws: no call of the verification sets it back, and a sleep
  of at least one tick advances it by one tick or more.
\<close>

definition clock_now :: "'w os \<Rightarrow> 'w \<Rightarrow> int" where
  "clock_now os w = fst (os_monotonic os w)"

definition clock_advances :: "'w os \<Rightarrow> bool" where
  "clock_advances os \<longleftrightarrow> 100 \<le> os_second os
     \<and> (\<forall>w. clock_now os w \<le> clock_now os (snd (os_monotonic os w)))
     \<and> (\<forall>p w. clock_now os w \<le> clock_now os (snd (os_is_file os p w)))
     \<and> (\<forall>p w. clock_now os w \<le> clock_now os (snd (os_read_text os p w)))
     \<and> (\<forall>d w. 1 \<le> d \<longrightarrow> clock_now os w + 1 \<le> clock_now os (os_sleep os d w))"

lemma is_populated_clock:
  assumes "clock_advances os" and "sup_is_populated os path w = (r, w')"
  shows "clock_now os w \<le> clock_now os w'"
proof -
  have "clock_now os w \<le> clock_now os (snd (os_is_file os p w))" "clock_now os w \<le> clock_now os (snd (os_read_text os p w))" for p w
    using assms(1) by (simp_all add: clock_advances_def)
  note step = this(1) this(2) [THEN order_trans [rotated]]
  show ?thesis
    using assms(2) step(1) [of w "path_join path ''cgroup.events''"] step(2) [of _ _ "path_join path ''cgroup.events''"]
    by (fastforce simp: sup_is_populated_def run_rules Let_def split: if_splits)
qed

text \<open>One round of the loop: what it sees, and the clock when it comes back.\<close>

lemma cg_wait_round:
  assumes clock: "clock_advances os" and p: "sup_is_populated os path w = (Inr True, w1)"
    and m: "os_monotonic os w1 = (now, w2)"
  shows "clock_now os w \<le> now" and "now \<le> clock_now os w2"
    and "now < deadline \<Longrightarrow>
      nat (deadline - clock_now os (os_sleep os (os_second os div 100) w2)) < nat (deadline - clock_now os w)"
proof -
  have now: "now = clock_now os w1" by (simp add: clock_now_def m)
  show 1: "clock_now os w \<le> now" using is_populated_clock [OF clock p] now by simp
  show 2: "now \<le> clock_now os w2" using clock m now unfolding clock_advances_def by (metis snd_conv)
  have "1 \<le> os_second os div 100" using clock by (simp add: clock_advances_def pos_imp_zdiv_pos_iff int_one_le_iff_zero_less)
  with clock have "clock_now os w2 + 1 \<le> clock_now os (os_sleep os (os_second os div 100) w2)"
    by (simp add: clock_advances_def)
  with 1 2 show "now < deadline \<Longrightarrow>
      nat (deadline - clock_now os (os_sleep os (os_second os div 100) w2)) < nat (deadline - clock_now os w)"
    by linarith
qed

lemma cg_wait_returns:
  assumes "clock_advances os"
  shows "\<exists>r. cg_wait os path deadline w = Some r"
proof (induction "nat (deadline - clock_now os w)" arbitrary: w rule: less_induct)
  case less
  obtain r w1 where p: "sup_is_populated os path w = (r, w1)" by fastforce
  obtain now w2 where m: "os_monotonic os w1 = (now, w2)" by fastforce
  show ?case
  proof (cases "r = Inr True \<and> now < deadline")
    case True
    with p cg_wait_round(3) [OF assms _ m] less have "\<exists>r. cg_wait os path deadline (os_sleep os (os_second os div 100) w2) = Some r"
      by blast
    with True p m show ?thesis by (subst cg_wait.simps) simp
  next
    case False
    with p m show ?thesis by (subst cg_wait.simps) (auto split: sum.split)
  qed
qed

section \<open>What a verification proves\<close>

lemma cg_identity_checked:
  assumes "cg_verify_identity os c a path w = (Inr None, w')"
  shows "\<exists>v i. cg_identity os path w = (Inr i, v) \<and> dict_get (cg_identities c) a = Some i"
proof (cases "dict_get (cg_identities c) a")
  case None
  with assms show ?thesis by (simp add: cg_verify_identity_def run_rules)
next
  case (Some i)
  obtain r v where r: "cg_identity os path w = (r, v)" by fastforce
  with assms Some have "r = Inr i"
    by (cases r) (auto simp: cg_verify_identity_def prog_defs split: if_splits prod.splits sum.splits)
  with Some r show ?thesis by blast
qed

lemma cg_identity_failure:
  assumes "cg_verify_identity os c a path w = (Inr (Some failure), w')"
  shows "er_status failure = VERIFICATION_FAILED"
proof (cases "dict_get (cg_identities c) a")
  case None
  with assms show ?thesis by (simp add: cg_verify_identity_def run_rules)
next
  case (Some i)
  obtain r v where r: "cg_identity os path w = (r, v)" by fastforce
  with assms Some show ?thesis
    by (cases r) (auto simp: cg_verify_identity_def cg_failed_def prog_defs split: if_splits prod.splits sum.splits)
qed

text \<open>The directory has its first identity, and the last reading of its events says it is empty.\<close>

definition observed_empty :: "'w os \<Rightarrow> cgroup_enforcer \<Rightarrow> string \<Rightarrow> 'w \<Rightarrow> bool" where
  "observed_empty os c a w' \<longleftrightarrow>
     (\<exists>path i u v x content. dict_get (cg_paths c) a = Some path \<and> dict_get (cg_identities c) a = Some i
        \<and> cg_identity os path u = (Inr i, v)
        \<and> os_read_text os (path_join path ''cgroup.events'') x = (Inr content, w')
        \<and> populated_field content = Some ''0'')"

lemma cg_verify_observed:
  assumes "cg_verify_contained os c a w = Some (r, w')"
  shows "\<exists>result. r = Inr result \<and> (er_status result = ENFORCED \<longrightarrow> observed_empty os c a w')"
proof (cases "dict_get (cg_paths c) a")
  case None
  with assms show ?thesis by (auto simp: cg_verify_contained_def cg_missing_def)
next
  case (Some path)
  obtain f w1 where id: "cg_verify_identity os c a path w = (f, w1)" by fastforce
  show ?thesis
  proof (cases "f = Inr None")
    case False
    with assms Some id cg_identity_failure [of os c a path w] show ?thesis
      by (auto simp: cg_verify_contained_def cg_failed_def split: sum.splits option.splits)
  next
    case True
    obtain now w2 where m: "os_monotonic os w1 = (now, w2)" by fastforce
    from assms Some id True m obtain q w3 where wait: "cg_wait os path (now + 2 * os_second os) w2 = Some (q, w3)"
      by (auto simp: cg_verify_contained_def split: option.splits)
    obtain b w4 where check: "sup_is_populated os path w3 = (b, w4)" by fastforce
    from cg_identity_checked [of os c a path w w1] id True obtain v i where i: "cg_identity os path w = (Inr i, v)" "dict_get (cg_identities c) a = Some i"
      by blast
    have "observed_empty os c a w4" if "b = Inr False"
      using sup_is_populated_reads check that i Some unfolding observed_empty_def by fastforce
    with assms Some id True m wait check show ?thesis
      by (auto simp: cg_verify_contained_def or_result_def cg_check_empty_def cg_failed_def prog_defs split: sum.splits)
  qed
qed

lemma cg_verify_returns:
  assumes "clock_advances os"
  shows "\<exists>result w'. cg_verify_contained os c a w = Some (Inr result, w')"
proof -
  have "\<exists>r w'. cg_verify_contained os c a w = Some (r, w')"
  proof (cases "dict_get (cg_paths c) a")
    case None
    then show ?thesis by (simp add: cg_verify_contained_def)
  next
    case (Some path)
    obtain f w1 where id: "cg_verify_identity os c a path w = (f, w1)" by fastforce
    obtain now w2 where m: "os_monotonic os w1 = (now, w2)" by fastforce
    obtain q w3 where wait: "cg_wait os path (now + 2 * os_second os) w2 = Some (q, w3)"
      using cg_wait_returns [OF assms, of path "now + 2 * os_second os" w2] by auto
    obtain r w4 where "or_result VERIFICATION_FAILED (cg_check_empty os a path) w3 = (r, w4)" by fastforce
    with Some id m wait show ?thesis
      by (cases f) (auto simp: cg_verify_contained_def split: option.split sum.split)
  qed
  then show ?thesis using cg_verify_observed [of os c a w] by fastforce
qed

section \<open>The kernel in time\<close>

text \<open>The workload of the cgroup is gone at time \<open>T\<close> of the clock and not before.\<close>

definition reaped_at :: "'w os \<Rightarrow> string \<Rightarrow> int \<Rightarrow> bool" where
  "reaped_at os path T \<longleftrightarrow> (\<forall>w. fst (sup_is_populated os path w) = Inr (clock_now os w < T))"

lemma cg_wait_until_reaped:
  assumes clock: "clock_advances os" and reaped: "reaped_at os path T" and "T \<le> deadline"
  shows "\<exists>w'. cg_wait os path deadline w = Some (Inr (), w') \<and> T \<le> clock_now os w'"
proof (induction "nat (deadline - clock_now os w)" arbitrary: w rule: less_induct)
  case less
  obtain w1 where p: "sup_is_populated os path w = (Inr (clock_now os w < T), w1)"
    using reaped by (metis reaped_at_def prod.collapse)
  obtain now w2 where m: "os_monotonic os w1 = (now, w2)" by fastforce
  show ?case
  proof (cases "clock_now os w < T")
    case False
    with p is_populated_clock [OF clock p] show ?thesis by (subst cg_wait.simps) simp
  next
    case True
    with p have p': "sup_is_populated os path w = (Inr True, w1)" by simp
    note step = cg_wait_round [OF clock p' m]
    show ?thesis
    proof (cases "now < deadline")
      case True
      with less step(3) obtain w' where "cg_wait os path deadline (os_sleep os (os_second os div 100) w2) = Some (Inr (), w')"
        "T \<le> clock_now os w'" by blast
      with True p' m show ?thesis by (subst cg_wait.simps) simp
    next
      case False
      with p' m step(2) assms(3) show ?thesis by (subst cg_wait.simps) simp
    qed
  qed
qed

text \<open>
  C25: The verification of a killed workload always ends, and ENFORCED is only reported for an
  observed empty cgroup.  When the clock advances, \<open>verify_contained\<close> returns a result
  whatever the kernel answers or raises.  If it is ENFORCED, the directory still had the device,
  inode and change time it had when the provider was made, and the last thing the call did was
  to read \<open>cgroup.events\<close> and find \<open>populated 0\<close>.
\<close>

theorem cgroup_verification_ends:
  assumes "clock_advances os"
  shows "\<exists>result w'. cg_verify_contained os c a w = Some (Inr result, w')
     \<and> (er_status result = ENFORCED \<longrightarrow> observed_empty os c a w')"
  using cg_verify_returns [OF assms, of c a w] cg_verify_observed [of os c a w] by fastforce

text \<open>
  C26: The kernel has two seconds.  When the identity check passes and the workload is gone at
  any time up to two seconds after the check, \<open>verify_contained\<close> reports ENFORCED: the
  asynchronous kill is not declared a failure early.
\<close>

theorem cgroup_reaped_in_time:
  assumes "clock_advances os" and "dict_get (cg_paths c) a = Some path"
    and "cg_verify_identity os c a path w = (Inr None, w1)"
    and "reaped_at os path T" and "T \<le> clock_now os w1 + 2 * os_second os"
  shows "\<exists>w'. cg_verify_contained os c a w = Some (Inr (mk_result cg_name ENFORCED []), w')"
proof -
  obtain now w2 where m: "os_monotonic os w1 = (now, w2)" by fastforce
  with assms(5) have "T \<le> now + 2 * os_second os" by (simp add: clock_now_def)
  from cg_wait_until_reaped [OF assms(1,4) this, of w2] obtain w3 where
    wait: "cg_wait os path (now + 2 * os_second os) w2 = Some (Inr (), w3)" "T \<le> clock_now os w3" by blast
  have "fst (sup_is_populated os path w3) = Inr False" using assms(4) wait(2) by (simp add: reaped_at_def)
  then obtain w4 where "sup_is_populated os path w3 = (Inr False, w4)"
    by (cases "sup_is_populated os path w3") auto
  with assms(2,3) m wait(1) show ?thesis
    by (simp add: cg_verify_contained_def or_result_def cg_check_empty_def prog_defs)
qed

text \<open>A kernel whose world is its clock, and a workload that is gone at tick 150 of 100 per second.\<close>

definition demo_events :: "bool \<Rightarrow> string" where
  "demo_events populated = (if populated then ''populated 1'' else ''populated 0'') @ [line_feed]"

definition demo_os :: "int os" where
  "demo_os = \<lparr>os_posix = True, os_stat = (\<lambda>p. ret (1, 2, 3)), os_is_dir = (\<lambda>p. ret True), os_is_file = (\<lambda>p. ret True),
     os_exists = (\<lambda>p. ret True), os_resolve = (\<lambda>p. ret p),
     os_read_text = (\<lambda>p. reading (\<lambda>w. demo_events (w < 150))),
     os_write_text = (\<lambda>p t. ret ()), os_mkdir = (\<lambda>ok p. ret ()), os_rmdir = (\<lambda>p. ret ()),
     os_monotonic = (\<lambda>w. (w, w)), os_sleep = (\<lambda>d w. w + d), os_second = 100\<rparr>"

definition demo_cgroup :: cgroup_enforcer where
  "demo_cgroup = \<lparr>cg_paths = [(''a'', ''/cg/a'')],
     cg_identities = [(''a'', \<lparr>cgi_device = 1, cgi_inode = 2, cgi_ctime = 3\<rparr>)]\<rparr>"

lemma demo_clock_advances: "clock_advances demo_os"
  by (simp add: clock_advances_def clock_now_def demo_os_def ret_def reading_def)

lemma demo_populated: "fst (sup_is_populated demo_os path w) = Inr (w < 150)"
proof -
  have "populated_field (demo_events True) = Some ''1''" "populated_field (demo_events False) = Some ''0''"
    by code_simp+
  then have "populated_field (demo_events b) = Some (if b then ''1'' else ''0'')" for b by (cases b) auto
  then show ?thesis by (simp add: sup_is_populated_def demo_os_def prog_defs Let_def)
qed

theorem cgroup_verification_ends_witness:
  "\<exists>result w'. cg_verify_contained demo_os demo_cgroup ''a'' 0 = Some (Inr result, w')"
  using cgroup_verification_ends [OF demo_clock_advances] by blast

theorem cgroup_reaped_in_time_witness:
  "\<exists>w'. cg_verify_contained demo_os demo_cgroup ''a'' 0 = Some (Inr (mk_result cg_name ENFORCED []), w')"
proof (rule cgroup_reaped_in_time [OF demo_clock_advances])
  show "dict_get (cg_paths demo_cgroup) ''a'' = Some ''/cg/a''" by (simp add: demo_cgroup_def dict_get_def)
  show "cg_verify_identity demo_os demo_cgroup ''a'' ''/cg/a'' 0 = (Inr None, 0)"
    by (simp add: cg_verify_identity_def cg_identity_def demo_os_def demo_cgroup_def prog_defs dict_get_def)
  show "reaped_at demo_os ''/cg/a'' 150"
    using demo_populated by (simp add: reaped_at_def) (simp add: clock_now_def demo_os_def)
  show "(150::int) \<le> clock_now demo_os 0 + 2 * os_second demo_os" by (simp add: clock_now_def demo_os_def)
qed

end
