(* ===== verification/Cilium_Enforcer.thy ===== *)
theory Cilium_Enforcer
  imports Hash_Chain Enforcer
begin

text \<open>
  \<open>cilium_enforcer.py\<close>: the provider that cuts the network of an agent's workload with a
  CiliumNetworkPolicy.  \<open>kubectl\<close> is a parameter: given its arguments and its input it changes
  the world \<open>'w\<close> and returns an exit code and two texts, or raises.  A datapath verifier of the
  caller replaces the default one.
\<close>

record completed =
  cp_returncode :: int
  cp_stdout :: string
  cp_stderr :: string

type_synonym 'w runner = "string list \<Rightarrow> string option \<Rightarrow> ('w, completed) prog"

record cilium_identity =
  ci_name :: string
  ci_selector :: "string dict"

record 'w cilium =
  cil_namespace :: string
  cil_kubectl :: "'w runner"
  cil_verifier :: "(cilium_identity \<Rightarrow> ('w, enforcement_result) prog) option"
  cil_identities :: "cilium_identity dict"

definition cil_name :: string where "cil_name = ''cilium-network-policy''"

definition cil_failed :: "string \<Rightarrow> enforcement_result" where
  "cil_failed detail = mk_result cil_name VERIFICATION_FAILED detail"

section \<open>Construction\<close>

definition cilium_id :: "'a library_scheme \<Rightarrow> string \<Rightarrow> string dict \<Rightarrow> cilium_identity" where
  "cilium_id lib agent_id selector =
     \<lparr>ci_name = ''agentcontainment-'' @ take 20 (lib_sha256 lib agent_id), ci_selector = selector\<rparr>"

fun cilium_ids :: "'a library_scheme \<Rightarrow> string dict dict \<Rightarrow> cilium_identity dict \<Rightarrow> exn + cilium_identity dict" where
  "cilium_ids lib [] ids = Inr ids"
| "cilium_ids lib ((agent_id, selector) # rest) ids =
     (if agent_id = [] then Inl (Exn ValueError ''agent_id must be non-empty'')
      else if selector = [] \<or> list_ex (\<lambda>(k, v). k = [] \<or> v = []) selector then
        Inl (Exn ValueError (''selector for '' @ py_repr agent_id @ '' must contain non-empty labels''))
      else cilium_ids lib rest (dict_set agent_id (cilium_id lib agent_id selector) ids))"

definition mk_cilium ::
  "'a library_scheme \<Rightarrow> string dict dict \<Rightarrow> string \<Rightarrow> 'w runner \<Rightarrow>
     (cilium_identity \<Rightarrow> ('w, enforcement_result) prog) option \<Rightarrow> exn + 'w cilium" where
  "mk_cilium lib selectors namespace kubectl verifier =
     (if namespace = [] \<or> take 1 namespace = ''-'' then
        Inl (Exn ValueError ''namespace must be a non-empty Kubernetes namespace'')
      else (case cilium_ids lib selectors [] of
              Inl e \<Rightarrow> Inl e
            | Inr ids \<Rightarrow> Inr \<lparr>cil_namespace = namespace, cil_kubectl = kubectl, cil_verifier = verifier,
                               cil_identities = ids\<rparr>))"

definition cil_missing :: "string \<Rightarrow> enforcement_result" where
  "cil_missing agent_id =
     mk_result cil_name NOT_CONFIGURED (''no Cilium selector configured for agent '' @ agent_id)"

section \<open>The policy object\<close>

definition labels_json :: "string dict \<Rightarrow> json" where
  "labels_json d = JObj (map (\<lambda>(k, v). (k, JStr v)) d)"

definition deny_rule :: "string \<Rightarrow> json" where
  "deny_rule key = JList [JObj [(key, JList [JStr ''all''])]]"

definition cil_manifest :: "'w cilium \<Rightarrow> cilium_identity \<Rightarrow> json" where
  "cil_manifest c i =
     JObj [(''apiVersion'', JStr ''cilium.io/v2''), (''kind'', JStr ''CiliumNetworkPolicy''),
       (''metadata'', JObj [(''name'', JStr (ci_name i)), (''namespace'', JStr (cil_namespace c)),
          (''labels'', JObj [(''app.kubernetes.io/managed-by'', JStr ''agentcontainment''),
                            (''agentcontainment.io/policy'', JStr ''containment'')])]),
       (''spec'', JObj [(''description'', JStr (''AgentContainment emergency network containment; '' @
                                               ''controller-owned and fail-closed.'')),
          (''endpointSelector'', JObj [(''matchLabels'', labels_json (ci_selector i))]),
          (''ingressDeny'', deny_rule ''fromEntities''), (''egressDeny'', deny_rule ''toEntities'')])]"

text \<open>\<open>json.dumps(manifest, separators=(",", ":"))\<close> keeps the order of the keys.\<close>

definition manifest_text :: "'w cilium \<Rightarrow> cilium_identity \<Rightarrow> string" where
  "manifest_text c i = print_json compact_style (cil_manifest c i)"

text \<open>\<open>labels == dict(selector)\<close>: two dictionaries with the same keys and values.\<close>

fun same_labels :: "json option \<Rightarrow> string dict \<Rightarrow> bool" where
  "same_labels (Some (JObj kvs)) d \<longleftrightarrow>
     list_all (\<lambda>k. map_of kvs k = map_option JStr (dict_get d k)) (map fst kvs @ map fst d)"
| "same_labels v d \<longleftrightarrow> False"

text \<open>\<open>isinstance(value, Mapping)\<close> of \<open>obj.get(key)\<close>.\<close>

fun mapping_at :: "(string \<times> json) list \<Rightarrow> string \<Rightarrow> (string \<times> json) list option" where
  "mapping_at kvs k = (case map_of kvs k of Some (JObj d) \<Rightarrow> Some d | _ \<Rightarrow> None)"

definition attribute_error :: "json \<Rightarrow> exn" where
  "attribute_error v = Exn (OtherException ''AttributeError'') ''get''"

definition matches_policy :: "'w cilium \<Rightarrow> cilium_identity \<Rightarrow> json \<Rightarrow> exn + bool" where
  "matches_policy c i obj =
     (case obj of
        JObj kvs \<Rightarrow>
          Inr (case (mapping_at kvs ''metadata'', mapping_at kvs ''spec'') of
             (Some metadata, Some spec) \<Rightarrow>
               map_of metadata ''name'' = Some (JStr (ci_name i))
               \<and> map_of metadata ''namespace'' = Some (JStr (cil_namespace c))
               \<and> (case mapping_at metadata ''labels'' of
                    None \<Rightarrow> False
                  | Some labels \<Rightarrow>
                      map_of labels ''app.kubernetes.io/managed-by'' = Some (JStr ''agentcontainment'')
                      \<and> map_of labels ''agentcontainment.io/policy'' = Some (JStr ''containment''))
               \<and> (case mapping_at spec ''endpointSelector'' of
                    None \<Rightarrow> False
                  | Some selector \<Rightarrow> same_labels (map_of selector ''matchLabels'') (ci_selector i))
               \<and> map_of spec ''ingressDeny'' = Some (deny_rule ''fromEntities'')
               \<and> map_of spec ''egressDeny'' = Some (deny_rule ''toEntities'')
           | _ \<Rightarrow> False)
      | _ \<Rightarrow> Inl (attribute_error obj))"

section \<open>Asking the cluster\<close>

definition exited :: "string \<Rightarrow> completed \<Rightarrow> string" where
  "exited what r = what @ '' exited '' @ str_int (cp_returncode r)"

text \<open>\<open>_get\<close>: the object, or the error; neither when the object is absent (or is \<open>null\<close>).\<close>

definition cil_get ::
  "'a library_scheme \<Rightarrow> 'w cilium \<Rightarrow> cilium_identity \<Rightarrow> ('w, json option \<times> string option) prog" where
  "cil_get lib c i =
     andthen (cil_kubectl c [''get'', ''ciliumnetworkpolicy'', ci_name i, ''-n'', cil_namespace c, ''-o'', ''json''] None) (\<lambda>r.
       if cp_returncode r \<noteq> 0 then
         (let stderr = strip (cp_stderr r) in
          if occurs ''NotFound'' stderr \<or> occurs ''not found'' (lower stderr) then ret (None, None)
          else ret (None, Some (either_text stderr (exited ''kubectl'' r))))
       else (case json_loads lib (cp_stdout r) of
          Inr JNull \<Rightarrow> ret (None, None)
        | Inr v \<Rightarrow> ret (Some v, None)
        | Inl e \<Rightarrow> ret (None, Some (''invalid kubectl JSON response: '' @ exn_str e))))"

definition selector_text :: "string dict \<Rightarrow> string" where
  "selector_text d = join_with '','' (map (\<lambda>(k, v). k @ ''='' @ v) (sort_key fst d))"

text \<open>The loop over the endpoints: the first failure, or none.\<close>

fun endpoints_enforced :: "json list \<Rightarrow> enforcement_result option" where
  "endpoints_enforced [] = None"
| "endpoints_enforced (endpoint # rest) =
     (let at = (\<lambda>v k. case v of Some (JObj d) \<Rightarrow> map_of d k | _ \<Rightarrow> None);
          realized = at (at (at (Some endpoint) ''status'') ''policy'') ''realized''
      in case realized of
           Some (JObj d) \<Rightarrow>
             if map_of d ''policy-enabled'' = Some (JStr ''both'') then endpoints_enforced rest
             else Some (cil_failed ''CiliumEndpoint policy enforcement is not enabled for both ingress and egress'')
         | _ \<Rightarrow> Some (cil_failed ''CiliumEndpoint has no realized policy status''))"

definition endpoint_datapath :: "'a library_scheme \<Rightarrow> 'w cilium \<Rightarrow> cilium_identity \<Rightarrow> ('w, enforcement_result) prog" where
  "endpoint_datapath lib c i =
     andthen (cil_kubectl c [''get'', ''ciliumendpoints'', ''-n'', cil_namespace c, ''-l'',
        selector_text (ci_selector i), ''-o'', ''json''] None) (\<lambda>r.
       if cp_returncode r \<noteq> 0 then
         ret (cil_failed (either_text (strip (either_text (cp_stderr r) (cp_stdout r)))
               (exited ''kubectl get ciliumendpoints'' r)))
       else (case json_loads lib (cp_stdout r) of
          Inl e \<Rightarrow> ret (cil_failed (''invalid CiliumEndpoint JSON response: '' @ exn_str e))
        | Inr (JObj kvs) \<Rightarrow>
            (case map_of kvs ''items'' of
               Some (JList (item # items)) \<Rightarrow>
                 ret (case endpoints_enforced (item # items) of
                        Some failure \<Rightarrow> failure | None \<Rightarrow> mk_result cil_name ENFORCED [])
             | _ \<Rightarrow> ret (cil_failed ''no CiliumEndpoint matched the containment selector''))
        | Inr v \<Rightarrow> raise (attribute_error v)))"

definition datapath_verifier :: "'a library_scheme \<Rightarrow> 'w cilium \<Rightarrow> cilium_identity \<Rightarrow> ('w, enforcement_result) prog" where
  "datapath_verifier lib c = (case cil_verifier c of Some v \<Rightarrow> v | None \<Rightarrow> endpoint_datapath lib c)"

section \<open>The provider\<close>

text \<open>\<open>except (OSError, subprocess.SubprocessError)\<close>; any other exception leaves the method.\<close>

definition command_error :: "exn \<Rightarrow> bool" where
  "command_error e \<longleftrightarrow> is_os_error e \<or> exn_class e = SubprocessError"

definition or_cil_result :: "enforcement_status \<Rightarrow> ('w, enforcement_result) prog \<Rightarrow> ('w, enforcement_result) prog" where
  "or_cil_result status m =
     catch m (\<lambda>e. if command_error e then ret (mk_result cil_name status (exn_text e)) else raise e)"

definition for_identity ::
  "'w cilium \<Rightarrow> string \<Rightarrow> enforcement_status \<Rightarrow> (cilium_identity \<Rightarrow> ('w, enforcement_result) prog) \<Rightarrow>
     ('w, enforcement_result) prog" where
  "for_identity c agent_id status m =
     (case dict_get (cil_identities c) agent_id of
        None \<Rightarrow> ret (cil_missing agent_id)
      | Some i \<Rightarrow> or_cil_result status (m i))"

text \<open>The result of a command that only has to succeed.\<close>

definition command_result :: "string \<Rightarrow> enforcement_status \<Rightarrow> completed \<Rightarrow> enforcement_result" where
  "command_result what status r =
     (if cp_returncode r \<noteq> 0 then
        mk_result cil_name DEGRADED (either_text (strip (either_text (cp_stderr r) (cp_stdout r))) (exited what r))
      else mk_result cil_name status [])"

definition cil_contain :: "'w cilium \<Rightarrow> string \<Rightarrow> ('w, enforcement_result) prog" where
  "cil_contain c agent_id =
     for_identity c agent_id DEGRADED (\<lambda>i.
       andthen (cil_kubectl c [''apply'', ''--server-side'', ''--field-manager=agentcontainment'', ''-f'', ''-'']
                  (Some (manifest_text c i))) (\<lambda>r.
         ret (command_result ''kubectl apply'' ENFORCED r)))"

definition cil_check :: "'a library_scheme \<Rightarrow> 'w cilium \<Rightarrow> cilium_identity \<Rightarrow> ('w, enforcement_result) prog" where
  "cil_check lib c i =
     andthen (cil_get lib c i) (\<lambda>(obj, error).
       case error of Some e \<Rightarrow> ret (cil_failed e) | None \<Rightarrow>
       (case obj of None \<Rightarrow> ret (cil_failed ''containment policy is absent'') | Some obj \<Rightarrow>
        andthen (lift_result (matches_policy c i obj)) (\<lambda>ok.
          if \<not> ok then
            ret (cil_failed ''live CiliumNetworkPolicy does not match the expected containment policy'')
          else andthen (datapath_verifier lib c i) (\<lambda>datapath.
            if er_status datapath \<noteq> ENFORCED then
              ret (cil_failed (''Cilium policy object is present but datapath verification failed''
                     @ detail_suffix datapath))
            else ret (mk_result cil_name ENFORCED [])))))"

definition cil_verify_contained :: "'a library_scheme \<Rightarrow> 'w cilium \<Rightarrow> string \<Rightarrow> ('w, enforcement_result) prog" where
  "cil_verify_contained lib c agent_id = for_identity c agent_id VERIFICATION_FAILED (cil_check lib c)"

definition cil_release :: "'w cilium \<Rightarrow> string \<Rightarrow> ('w, enforcement_result) prog" where
  "cil_release c agent_id =
     for_identity c agent_id DEGRADED (\<lambda>i.
       andthen (cil_kubectl c [''delete'', ''ciliumnetworkpolicy'', ci_name i, ''-n'', cil_namespace c,
                  ''--ignore-not-found=true''] None) (\<lambda>r.
         ret (command_result ''kubectl delete'' RELEASED r)))"

definition cil_check_absent :: "'a library_scheme \<Rightarrow> 'w cilium \<Rightarrow> cilium_identity \<Rightarrow> ('w, enforcement_result) prog" where
  "cil_check_absent lib c i =
     andthen (cil_get lib c i) (\<lambda>(obj, error).
       ret (case error of Some e \<Rightarrow> cil_failed e | None \<Rightarrow>
         (if obj \<noteq> None then cil_failed ''containment policy is still present''
          else mk_result cil_name RELEASED [])))"

definition cil_verify_released :: "'a library_scheme \<Rightarrow> 'w cilium \<Rightarrow> string \<Rightarrow> ('w, enforcement_result) prog" where
  "cil_verify_released lib c agent_id = for_identity c agent_id VERIFICATION_FAILED (cil_check_absent lib c)"

definition cilium_enforcer :: "'a library_scheme \<Rightarrow> 'w cilium \<Rightarrow> 'w enforcer" where
  "cilium_enforcer lib c =
     \<lparr>enf_name = cil_name, enf_contain = cil_contain c, enf_release = cil_release c,
      enf_verify_contained = cil_verify_contained lib c, enf_verify_released = cil_verify_released lib c\<rparr>"

end
