(* ===== verification/Ebpf_Enforcer.thy ===== *)
theory Ebpf_Enforcer
  imports Linux_Supervisor Cilium_Enforcer
begin

text \<open>
  \<open>egress_enforcement.py\<close>: the kernel egress adapters.  \<open>run\<close> stands for \<open>subprocess.run\<close> of the
  given command line with the adapter's timeout.  The provider has a flag of its own,
  \<open>_release_verified\<close>, so its methods run on the pair of the flag and the world.
\<close>

type_synonym 'w command = "string list \<Rightarrow> ('w, completed) prog"

section \<open>Kernel adapters\<close>

definition noop_kernel_contain :: "('w, unit) prog" where
  "noop_kernel_contain = ret ()"

definition cgroup_egress_contain :: "'w os \<Rightarrow> string \<Rightarrow> ('w, unit) prog" where
  "cgroup_egress_contain os state_path = os_write_text os state_path (''deny'' @ [line_feed])"

record ebpf =
  eb_controller :: string
  eb_object :: string
  eb_cgroup :: string
  eb_pin_dir :: string

fun require_files :: "'w os \<Rightarrow> (string \<times> string) list \<Rightarrow> ('w, unit) prog" where
  "require_files os [] = ret ()"
| "require_files os ((path, label) # rest) =
     andthen (os_is_file os path) (\<lambda>ok.
     andthen (guarding ok (Exn FileNotFoundError (label @ '' not found: '' @ path))) (\<lambda>_. require_files os rest))"

definition command_detail :: "completed \<Rightarrow> string" where
  "command_detail r = strip (either_text (cp_stderr r) (cp_stdout r))"

definition ebpf_attach :: "'w os \<Rightarrow> 'w command \<Rightarrow> ebpf \<Rightarrow> ('w, unit) prog" where
  "ebpf_attach os run x =
     andthen (if os_posix os then os_is_dir os (eb_cgroup x) else ret False) (\<lambda>ok.
     andthen (guarding ok (Exn RuntimeError ''Linux eBPF containment requires an existing cgroup'')) (\<lambda>_.
     andthen (require_files os [(eb_controller x, ''eBPF controller''), (eb_object x, ''eBPF object'')]) (\<lambda>_.
     andthen (os_mkdir os True (eb_pin_dir x)) (\<lambda>_.
     andthen (catch (run [eb_controller x, ''attach'', eb_object x, eb_cgroup x, eb_pin_dir x])
       (\<lambda>e. if command_error e then raise (Exn RuntimeError (''eBPF egress attachment failed: '' @ exn_str e))
            else raise e)) (\<lambda>r.
     guarding (cp_returncode r = 0)
       (Exn RuntimeError (''eBPF egress attachment failed''
          @ (if command_detail r = [] then [] else '': '' @ command_detail r))))))))"

section \<open>The provider\<close>

definition eb_name :: string where "eb_name = ''linux-ebpf-egress''"

definition eb_link :: "ebpf \<Rightarrow> string" where
  "eb_link x = path_join (eb_pin_dir x) ''egress_link''"

text \<open>A program on the world, run beside the flag.\<close>

definition outside :: "('w, 'a) prog \<Rightarrow> (bool \<times> 'w, 'a) prog" where
  "outside m = (\<lambda>(flag, w). case m w of (r, w') \<Rightarrow> (r, (flag, w')))"

definition set_release :: "bool \<Rightarrow> (bool \<times> 'w, unit) prog" where
  "set_release b = modifying (\<lambda>(flag, w). (b, w))"

definition or_eb_result :: "enforcement_status \<Rightarrow> (exn \<Rightarrow> bool) \<Rightarrow> ('w, enforcement_result) prog \<Rightarrow> ('w, enforcement_result) prog" where
  "or_eb_result status caught m =
     catch m (\<lambda>e. if caught e then ret (mk_result eb_name status (exn_str e)) else raise e)"

definition eb_verify_contained :: "'w command \<Rightarrow> ebpf \<Rightarrow> string \<Rightarrow> (bool \<times> 'w, enforcement_result) prog" where
  "eb_verify_contained run x agent_id =
     or_eb_result VERIFICATION_FAILED command_error
       (andthen (outside (run [eb_controller x, ''verify'', eb_pin_dir x, eb_cgroup x])) (\<lambda>r.
         ret (if cp_returncode r \<noteq> 0 then
                mk_result eb_name VERIFICATION_FAILED (either_text (command_detail r) ''pinned eBPF link could not be reopened'')
              else mk_result eb_name ENFORCED [])))"

definition eb_contain :: "'w os \<Rightarrow> 'w command \<Rightarrow> ebpf \<Rightarrow> string \<Rightarrow> (bool \<times> 'w, enforcement_result) prog" where
  "eb_contain os run x agent_id =
     andthen (set_release False) (\<lambda>_.
     andthen (outside (os_exists os (eb_link x))) (\<lambda>pinned.
       if pinned then
         andthen (eb_verify_contained run x agent_id) (\<lambda>verification.
           ret (if er_status verification = ENFORCED then verification
                else mk_result eb_name DEGRADED
                  (either_text (er_detail verification) ''existing pinned eBPF link could not be reconciled'')))
       else
         or_eb_result DEGRADED (\<lambda>e. command_error e \<or> exn_class e = RuntimeError)
           (andthen (outside (ebpf_attach os run x)) (\<lambda>_. ret (mk_result eb_name ENFORCED [])))))"

definition eb_release :: "'w command \<Rightarrow> ebpf \<Rightarrow> string \<Rightarrow> (bool \<times> 'w, enforcement_result) prog" where
  "eb_release run x agent_id =
     andthen (attempt (outside (run [eb_controller x, ''detach'', eb_pin_dir x, eb_cgroup x]))) (\<lambda>r.
       case r of
         Inl e \<Rightarrow> if command_error e then ret (mk_result eb_name DEGRADED (exn_str e)) else raise e
       | Inr c \<Rightarrow>
           if cp_returncode c \<noteq> 0 then
             ret (mk_result eb_name DEGRADED (either_text (command_detail c) ''eBPF detach failed''))
           else andthen (set_release True) (\<lambda>_. ret (mk_result eb_name RELEASED [])))"

definition eb_verify_released :: "'w os \<Rightarrow> ebpf \<Rightarrow> string \<Rightarrow> (bool \<times> 'w, enforcement_result) prog" where
  "eb_verify_released os x agent_id =
     andthen (reading fst) (\<lambda>verified.
       if \<not> verified then
         ret (mk_result eb_name VERIFICATION_FAILED ''release has not been verified by the current controller instance'')
       else andthen (outside (os_exists os (eb_link x))) (\<lambda>pinned.
         ret (if pinned then mk_result eb_name VERIFICATION_FAILED ''pinned eBPF link remains present''
              else mk_result eb_name RELEASED [])))"

definition ebpf_enforcer :: "'w os \<Rightarrow> 'w command \<Rightarrow> ebpf \<Rightarrow> (bool \<times> 'w) enforcer" where
  "ebpf_enforcer os run x =
     \<lparr>enf_name = eb_name, enf_contain = eb_contain os run x, enf_release = eb_release run x,
      enf_verify_contained = eb_verify_contained run x, enf_verify_released = eb_verify_released os x\<rparr>"

end
