(* ===== verification/Provider_Contract.thy ===== *)
theory Provider_Contract
  imports Cgroup_Enforcer Ebpf_Enforcer Containment_Props
begin

text \<open>
  The contract between the containment controller and its enforcement providers: an ENFORCED or
  RELEASED that a provider's verification returns rests on an observation of the boundary made
  by that very call, between the world it started in and the one it left.  The contract is a locale;
  the three providers of the repository satisfy it, and what the controller concludes from it is
  proved once, for the worlds in which its loop makes the calls.
\<close>

section \<open>The calls the controller makes\<close>

text \<open>
  \<open>contain\<close> of a controller, started in \<open>w\<close>, comes to the provider \<open>e\<close>: the local stages and the providers before it
  are done, its \<open>contain\<close> returns ENFORCED, and then its \<open>verify_contained\<close>, which starts in \<open>v\<close>, returns
  ENFORCED in \<open>v'\<close>.
\<close>

definition verified_in_contain ::
  "'w clock \<Rightarrow> nat \<Rightarrow> 'w controller \<Rightarrow> 'w \<Rightarrow> 'w enforcer \<Rightarrow> 'w \<Rightarrow> 'w \<Rightarrow> bool" where
  "verified_in_contain clk p c w e v v' \<longleftrightarrow>
     (let a = rt_agent_id (ctl_runtime c);
          (local, egress, w5) = contain_local_stages c (rt_contain p (ctl_runtime c)) (after_fence clk w)
      in \<exists>before after acc w6 r1 w7 r2. ctl_enforcers c = before @ e # after
        \<and> each_provider (contain_provider clk a) before (fst local, snd local, None, 0) w5 = (acc, w6)
        \<and> enf_contain e a w6 = (Inr r1, w7) \<and> er_status r1 = ENFORCED
        \<and> v = snd (first_applied clk (fst (snd (snd acc))) w7)
        \<and> enf_verify_contained e a v = (Inr r2, v') \<and> er_status r2 = ENFORCED)"

text \<open>\<open>recover\<close>, started in \<open>w\<close>, comes to \<open>e\<close> in the reverse order; both of its calls return RELEASED.\<close>

definition verified_in_recover :: "'w controller \<Rightarrow> 'w \<Rightarrow> 'w enforcer \<Rightarrow> 'w \<Rightarrow> 'w \<Rightarrow> bool" where
  "verified_in_recover c w e v v' \<longleftrightarrow>
     (let a = rt_agent_id (ctl_runtime c)
      in \<exists>before after acc w6 r1 r2. rev (ctl_enforcers c) = before @ e # after
        \<and> each_provider (release_provider a) before [] w = (acc, w6)
        \<and> enf_release e a w6 = (Inr r1, v) \<and> er_status r1 = RELEASED
        \<and> enf_verify_released e a v = (Inr r2, v') \<and> er_status r2 = RELEASED)"

lemma all_providers_at:
  "all_providers step good (before @ e # after) acc w \<Longrightarrow>
     good e (fst (each_provider step before acc w)) (snd (each_provider step before acc w))"
  by (induction before arbitrary: acc w) (auto simp: Let_def split: prod.splits)

lemma confirms_twiceD:
  "confirms_twice status call between verify w \<Longrightarrow>
     \<exists>r1 w1 r2 w2. call w = (Inr r1, w1) \<and> er_status r1 = status
       \<and> verify (between w1) = (Inr r2, w2) \<and> er_status r2 = status"
  by (auto simp: confirms_twice_def split: prod.splits sum.splits)

lemma certified_provider_verified:
  assumes "rep_certified (fst (fst (ctl_contain clk p c w)))" and "e \<in> set (ctl_enforcers c)"
  shows "\<exists>v v'. verified_in_contain clk p c w e v v'"
proof -
  let ?a = "rt_agent_id (ctl_runtime c)"
  obtain local egress w5 where stages:
    "contain_local_stages c (rt_contain p (ctl_runtime c)) (after_fence clk w) = (local, egress, w5)"
    by (metis prod.exhaust)
  obtain before after where split: "ctl_enforcers c = before @ e # after"
    using split_list [OF assms(2)] by blast
  obtain acc w6 where loop:
    "each_provider (contain_provider clk ?a) before (fst local, snd local, None, 0) w5 = (acc, w6)" by fastforce
  have "all_providers (contain_provider clk ?a) (contain_confirmed clk ?a) (ctl_enforcers c)
      (fst local, snd local, None, 0) w5"
    using contain_report_exact [of clk p c w] assms(1) stages
    by (auto simp: split_beta Let_def rep_certified_def)
  from all_providers_at [OF this [unfolded split]] loop have "contain_confirmed clk ?a e acc w6" by simp
  from confirms_twiceD [OF this [unfolded contain_confirmed_def]] obtain r1 w7 r2 v' where
    "enf_contain e ?a w6 = (Inr r1, w7)" "er_status r1 = ENFORCED"
    "enf_verify_contained e ?a (snd (first_applied clk (fst (snd (snd acc))) w7)) = (Inr r2, v')"
    "er_status r2 = ENFORCED" by blast
  with split loop have "verified_in_contain clk p c w e (snd (first_applied clk (fst (snd (snd acc))) w7)) v'"
    unfolding verified_in_contain_def Let_def stages prod.case by blast
  then show ?thesis by blast
qed

lemma recovered_provider_verified:
  assumes "fst (fst (ctl_recover p capability expected c w)) = Inr n" and "e \<in> set (ctl_enforcers c)"
  shows "\<exists>v v'. verified_in_recover c w e v v'"
proof -
  let ?a = "rt_agent_id (ctl_runtime c)"
  have "fst (ctl_release_enforcers c w) = []"
    using assms(1) by (auto simp: ctl_recover_def Let_def split: prod.splits if_splits)
  then have all: "all_providers (release_provider ?a) (release_confirmed ?a) (rev (ctl_enforcers c)) [] w"
    by (simp add: ctl_release_none_iff)
  obtain before after where split: "rev (ctl_enforcers c) = before @ e # after"
    using split_list [of e "rev (ctl_enforcers c)"] assms(2) by auto
  obtain acc w6 where loop: "each_provider (release_provider ?a) before [] w = (acc, w6)" by fastforce
  from all_providers_at [OF all [unfolded split]] loop have "release_confirmed ?a e acc w6" by simp
  from confirms_twiceD [OF this [unfolded release_confirmed_def]] obtain r1 v r2 v' where
    "enf_release e ?a w6 = (Inr r1, v)" "er_status r1 = RELEASED"
    "enf_verify_released e ?a v = (Inr r2, v')" "er_status r2 = RELEASED" by blast
  with split loop have "verified_in_recover c w e v v'"
    unfolding verified_in_recover_def Let_def by blast
  then show ?thesis by blast
qed

section \<open>The contract\<close>

locale observing_provider =
  fixes provider :: "'w enforcer"
    and contained_seen :: "string \<Rightarrow> 'w \<Rightarrow> 'w \<Rightarrow> bool"
    and released_seen :: "string \<Rightarrow> 'w \<Rightarrow> 'w \<Rightarrow> bool"
  assumes verified_seen:
    "enf_verify_contained provider a w = (Inr r, w') \<Longrightarrow> er_status r = ENFORCED \<Longrightarrow> contained_seen a w w'"
  and release_seen:
    "enf_verify_released provider a w = (Inr r, w') \<Longrightarrow> er_status r = RELEASED \<Longrightarrow> released_seen a w w'"
begin

lemma certified_seen:
  assumes "rep_certified (fst (fst (ctl_contain clk p c w)))" and "provider \<in> set (ctl_enforcers c)"
  shows "\<exists>v v'. verified_in_contain clk p c w provider v v' \<and> contained_seen (rt_agent_id (ctl_runtime c)) v v'"
  using certified_provider_verified [OF assms] verified_seen
  by (fastforce simp: verified_in_contain_def Let_def split: prod.splits)

lemma recovered_seen:
  assumes "fst (fst (ctl_recover p capability expected c w)) = Inr n" and "provider \<in> set (ctl_enforcers c)"
  shows "\<exists>v v'. verified_in_recover c w provider v v' \<and> released_seen (rt_agent_id (ctl_runtime c)) v v'"
  using recovered_provider_verified [OF assms] release_seen
  by (fastforce simp: verified_in_recover_def Let_def)

end

section \<open>The cgroup provider\<close>

text \<open>A verification that does not end gives no answer; the clock excludes it (\<open>cg_verify_returns\<close>).\<close>

definition cgroup_provider :: "'w os \<Rightarrow> cgroup_enforcer \<Rightarrow> 'w enforcer" where
  "cgroup_provider os c =
     \<lparr>enf_name = cg_name, enf_contain = cg_contain os c, enf_release = cg_release os c,
      enf_verify_contained = (\<lambda>a w. case cg_verify_contained os c a w of
         Some r \<Rightarrow> r | None \<Rightarrow> (Inl (Exn (OtherException ''NoAnswer'') []), w)),
      enf_verify_released = cg_verify_released os c\<rparr>"

text \<open>
  A call that starts in \<open>w\<close> reads the directory, finds the identity it had at configuration, and goes on in \<open>w1\<close>.
\<close>

definition identity_confirmed :: "'w os \<Rightarrow> cgroup_enforcer \<Rightarrow> string \<Rightarrow> string \<Rightarrow> 'w \<Rightarrow> 'w \<Rightarrow> bool" where
  "identity_confirmed os c a path w w1 \<longleftrightarrow>
     dict_get (cg_paths c) a = Some path \<and> cg_verify_identity os c a path w = (Inr None, w1)
     \<and> (\<exists>i v. dict_get (cg_identities c) a = Some i \<and> cg_identity os path w = (Inr i, v))"

text \<open>The events of the cgroup, read in \<open>w\<close>, say that it is empty; the reading ends in \<open>w'\<close>.\<close>

definition read_empty :: "'w os \<Rightarrow> string \<Rightarrow> 'w \<Rightarrow> 'w \<Rightarrow> bool" where
  "read_empty os path w w' \<longleftrightarrow>
     (\<exists>content. os_read_text os (path_join path ''cgroup.events'')
          (snd (os_is_file os (path_join path ''cgroup.events'') w)) = (Inr content, w')
        \<and> populated_field content = Some ''0'')"

text \<open>What the verification of a containment sees: the identity, then the bounded wait, then an empty cgroup.\<close>

definition cgroup_seen :: "'w os \<Rightarrow> cgroup_enforcer \<Rightarrow> string \<Rightarrow> 'w \<Rightarrow> 'w \<Rightarrow> bool" where
  "cgroup_seen os c a w w' \<longleftrightarrow>
     (\<exists>path w1 now w2 w3. identity_confirmed os c a path w w1 \<and> os_monotonic os w1 = (now, w2)
        \<and> cg_wait os path (now + 2 * os_second os) w2 = Some (Inr (), w3) \<and> read_empty os path w3 w')"

text \<open>And the verification of a release, which does not wait.\<close>

definition cgroup_release_seen :: "'w os \<Rightarrow> cgroup_enforcer \<Rightarrow> string \<Rightarrow> 'w \<Rightarrow> 'w \<Rightarrow> bool" where
  "cgroup_release_seen os c a w w' \<longleftrightarrow>
     (\<exists>path w1. identity_confirmed os c a path w w1 \<and> read_empty os path w1 w')"

lemma cg_verified_seen:
  assumes "cg_verify_contained os c a w = Some (Inr r, w')" and "er_status r = ENFORCED"
  shows "cgroup_seen os c a w w'"
proof (cases "dict_get (cg_paths c) a")
  case None
  with assms show ?thesis by (auto simp: cg_verify_contained_def cg_missing_def)
next
  case (Some path)
  obtain f w1 where id: "cg_verify_identity os c a path w = (f, w1)" by fastforce
  have f: "f = Inr None"
    using assms Some id cg_identity_failure [of os c a path w]
    by (auto simp: cg_verify_contained_def cg_failed_def split: sum.splits option.splits)
  obtain now w2 where m: "os_monotonic os w1 = (now, w2)" by fastforce
  from assms Some id f m obtain q w3 where wait: "cg_wait os path (now + 2 * os_second os) w2 = Some (q, w3)"
    by (auto simp: cg_verify_contained_def split: option.splits)
  obtain b w4 where check: "sup_is_populated os path w3 = (b, w4)" by fastforce
  from assms Some id f m wait check have end_of_call: "q = Inr ()" "b = Inr False" "w4 = w'"
    by (auto simp: cg_verify_contained_def or_result_def cg_check_empty_def cg_failed_def prog_defs
        split: sum.splits if_splits)
  have "identity_confirmed os c a path w w1"
    using cg_identity_checked [of os c a path w w1] id f Some by (auto simp: identity_confirmed_def)
  moreover have "read_empty os path w3 w'"
    using sup_is_populated_reads [of os path w3 False w4] check end_of_call by (simp add: read_empty_def)
  ultimately show ?thesis using m wait end_of_call(1) unfolding cgroup_seen_def by blast
qed

lemma cg_released_seen:
  assumes "cg_verify_released os c a w = (Inr r, w')" and "er_status r = RELEASED"
  shows "cgroup_release_seen os c a w w'"
proof (cases "dict_get (cg_paths c) a")
  case None
  with assms show ?thesis by (auto simp: cg_verify_released_def cg_missing_def prog_defs)
next
  case (Some path)
  obtain f w1 where id: "cg_verify_identity os c a path w = (f, w1)" by fastforce
  obtain b w2 where check: "sup_is_populated os path w1 = (b, w2)" by fastforce
  from assms Some id check cg_identity_failure [of os c a path w] have f: "f = Inr None" "b = Inr False" "w' = w2"
    by (auto simp: cg_verify_released_def or_result_def with_identity_def cg_failed_def prog_defs
        split: sum.splits option.splits if_splits)
  have "identity_confirmed os c a path w w1"
    using cg_identity_checked [of os c a path w w1] id f Some by (auto simp: identity_confirmed_def)
  moreover have "read_empty os path w1 w'"
    using sup_is_populated_reads [of os path w1 False w2] check f by (simp add: read_empty_def)
  ultimately show ?thesis unfolding cgroup_release_seen_def by blast
qed

interpretation cgroup: observing_provider "cgroup_provider os c" "cgroup_seen os c" "cgroup_release_seen os c"
  for os :: "'w os" and c
proof
  fix a w r w'
  show "enf_verify_contained (cgroup_provider os c) a w = (Inr r, w') \<Longrightarrow> er_status r = ENFORCED \<Longrightarrow> cgroup_seen os c a w w'"
    using cg_verified_seen [of os c a w r w'] by (simp add: cgroup_provider_def split: option.splits)
  show "enf_verify_released (cgroup_provider os c) a w = (Inr r, w') \<Longrightarrow> er_status r = RELEASED
      \<Longrightarrow> cgroup_release_seen os c a w w'"
    using cg_released_seen [of os c a w] by (simp add: cgroup_provider_def)
qed

section \<open>The Cilium provider\<close>

text \<open>
  The call read the live policy, it matched, and the datapath verifier, asked next, answered ENFORCED.
\<close>

definition cilium_seen :: "'a library_scheme \<Rightarrow> 'w cilium \<Rightarrow> string \<Rightarrow> 'w \<Rightarrow> 'w \<Rightarrow> bool" where
  "cilium_seen lib c a w w' \<longleftrightarrow>
     (\<exists>i obj d v. dict_get (cil_identities c) a = Some i \<and> cil_get lib c i w = (Inr (Some obj, None), v)
        \<and> matches_policy c i obj = Inr True
        \<and> datapath_verifier lib c i v = (Inr d, w') \<and> er_status d = ENFORCED)"

definition cilium_gone :: "'a library_scheme \<Rightarrow> 'w cilium \<Rightarrow> string \<Rightarrow> 'w \<Rightarrow> 'w \<Rightarrow> bool" where
  "cilium_gone lib c a w w' \<longleftrightarrow>
     (\<exists>i. dict_get (cil_identities c) a = Some i \<and> cil_get lib c i w = (Inr (None, None), w'))"

lemma for_identity_result:
  assumes "for_identity c a status m w = (Inr r, w')" and "er_status r \<notin> {status, NOT_CONFIGURED}"
  shows "\<exists>i. dict_get (cil_identities c) a = Some i \<and> m i w = (Inr r, w')"
proof (cases "dict_get (cil_identities c) a")
  case None
  with assms show ?thesis by (auto simp: for_identity_def cil_missing_def ret_def)
next
  case (Some i)
  with assms show ?thesis
    by (auto simp: for_identity_def or_cil_result_def prog_defs split: prod.splits sum.splits if_splits)
qed

lemma cil_verified_seen:
  assumes "cil_verify_contained lib c a w = (Inr r, w')" and "er_status r = ENFORCED"
  shows "cilium_seen lib c a w w'"
proof -
  obtain i where i: "dict_get (cil_identities c) a = Some i" and
    run: "cil_check lib c i w = (Inr r, w')"
    using for_identity_result [OF assms(1) [unfolded cil_verify_contained_def]] assms(2) by auto
  obtain g v where g: "cil_get lib c i w = (g, v)" by fastforce
  from run g assms(2) obtain obj where obj: "g = Inr (Some obj, None)"
    by (auto simp: cil_check_def prog_defs cil_failed_def split: sum.splits option.splits)
  obtain d w2 where d: "datapath_verifier lib c i v = (d, w2)" by fastforce
  from run g obj d assms(2) have "matches_policy c i obj = Inr True" "w2 = w'" "\<exists>x. d = Inr x \<and> er_status x = ENFORCED"
    by (auto simp: cil_check_def prog_defs cil_failed_def split: sum.splits if_splits)
  with i g obj d show ?thesis unfolding cilium_seen_def by blast
qed

lemma cil_released_seen:
  assumes "cil_verify_released lib c a w = (Inr r, w')" and "er_status r = RELEASED"
  shows "cilium_gone lib c a w w'"
proof -
  obtain i where i: "dict_get (cil_identities c) a = Some i" and
    run: "cil_check_absent lib c i w = (Inr r, w')"
    using for_identity_result [OF assms(1) [unfolded cil_verify_released_def]] assms(2) by auto
  obtain g v where g: "cil_get lib c i w = (g, v)" by fastforce
  from run g assms(2) have "g = Inr (None, None)" "v = w'"
    by (auto simp: cil_check_absent_def prog_defs cil_failed_def split: sum.splits option.splits if_splits)
  with i g show ?thesis unfolding cilium_gone_def by blast
qed

interpretation cilium: observing_provider "cilium_enforcer lib c" "cilium_seen lib c" "cilium_gone lib c"
  for lib :: "'a library_scheme" and c :: "'w cilium"
  by unfold_locales (auto simp: cilium_enforcer_def dest: cil_verified_seen cil_released_seen)

section \<open>The eBPF provider\<close>

text \<open>The controller program reopened the pinned link; or the link is gone after a detach.\<close>

definition ebpf_seen :: "'w command \<Rightarrow> ebpf \<Rightarrow> string \<Rightarrow> bool \<times> 'w \<Rightarrow> bool \<times> 'w \<Rightarrow> bool" where
  "ebpf_seen run x a w w' \<longleftrightarrow>
     (\<exists>r. run [eb_controller x, ''verify'', eb_pin_dir x, eb_cgroup x] (snd w) = (Inr r, snd w') \<and> cp_returncode r = 0)"

definition ebpf_gone :: "'w os \<Rightarrow> ebpf \<Rightarrow> string \<Rightarrow> bool \<times> 'w \<Rightarrow> bool \<times> 'w \<Rightarrow> bool" where
  "ebpf_gone os x a w w' \<longleftrightarrow> fst w \<and> os_exists os (eb_link x) (snd w) = (Inr False, snd w')"

interpretation ebpf: observing_provider "ebpf_enforcer os run x" "ebpf_seen run x" "ebpf_gone os x"
  for os :: "'w os" and run and x
proof
  fix a and w :: "bool \<times> 'w" and r w'
  show "enf_verify_contained (ebpf_enforcer os run x) a w = (Inr r, w') \<Longrightarrow> er_status r = ENFORCED \<Longrightarrow> ebpf_seen run x a w w'"
    by (auto simp: ebpf_enforcer_def eb_verify_contained_def or_eb_result_def outside_def ebpf_seen_def prog_defs
        split: prod.splits sum.splits if_splits)
  show "enf_verify_released (ebpf_enforcer os run x) a w = (Inr r, w') \<Longrightarrow> er_status r = RELEASED \<Longrightarrow> ebpf_gone os x a w w'"
    by (auto simp: ebpf_enforcer_def eb_verify_released_def outside_def ebpf_gone_def prog_defs
        split: prod.splits sum.splits if_splits)
qed

section \<open>What the controller can conclude\<close>

text \<open>
  C27: A certified containment and a completed recovery rest on observations the call itself made.  When the
  report of \<open>contain\<close> is certified, then for every cgroup provider the call came to a verification, from a world
  \<open>v\<close> to a world \<open>v'\<close>, in which the directory of the agent had its configured identity and, after the bounded
  wait, was read to be empty; and for every Cilium provider to one in which the live policy was read, matched, and
  the datapath verification asked next answered ENFORCED.  When \<open>recover\<close> returns, it came for every cgroup
  provider to a verification that read the unchanged directory to be empty, and for every Cilium provider to one
  that read the policy to be absent.
\<close>

theorem provider_reports_observed:
  fixes c :: "'w controller" and lib :: "'a library_scheme"
  defines "a \<equiv> rt_agent_id (ctl_runtime c)"
  shows "(rep_certified (fst (fst (ctl_contain clk p c w))) \<longrightarrow>
        (\<forall>os g. cgroup_provider os g \<in> set (ctl_enforcers c) \<longrightarrow>
           (\<exists>v v'. verified_in_contain clk p c w (cgroup_provider os g) v v' \<and> cgroup_seen os g a v v'))
      \<and> (\<forall>x. cilium_enforcer lib x \<in> set (ctl_enforcers c) \<longrightarrow>
           (\<exists>v v'. verified_in_contain clk p c w (cilium_enforcer lib x) v v' \<and> cilium_seen lib x a v v')))
    \<and> (fst (fst (ctl_recover q capability expected c w)) = Inr n \<longrightarrow>
        (\<forall>os g. cgroup_provider os g \<in> set (ctl_enforcers c) \<longrightarrow>
           (\<exists>v v'. verified_in_recover c w (cgroup_provider os g) v v' \<and> cgroup_release_seen os g a v v'))
      \<and> (\<forall>x. cilium_enforcer lib x \<in> set (ctl_enforcers c) \<longrightarrow>
           (\<exists>v v'. verified_in_recover c w (cilium_enforcer lib x) v v' \<and> cilium_gone lib x a v v')))"
  unfolding a_def
  by (intro conjI impI allI)
     (erule (1) cgroup.certified_seen cgroup.recovered_seen cilium.certified_seen cilium.recovered_seen)+

text \<open>The same for a controller whose world has the flag of an eBPF provider beside it.\<close>

lemma ebpf_reports_observed:
  "rep_certified (fst (fst (ctl_contain clk p c w))) \<Longrightarrow> ebpf_enforcer os run x \<in> set (ctl_enforcers c) \<Longrightarrow>
     \<exists>v v'. verified_in_contain clk p c w (ebpf_enforcer os run x) v v' \<and> ebpf_seen run x (rt_agent_id (ctl_runtime c)) v v'"
  "fst (fst (ctl_recover q capability expected c w)) = Inr n \<Longrightarrow> ebpf_enforcer os run x \<in> set (ctl_enforcers c) \<Longrightarrow>
     \<exists>v v'. verified_in_recover c w (ebpf_enforcer os run x) v v' \<and> ebpf_gone os x (rt_agent_id (ctl_runtime c)) v v'"
  by (erule (1) ebpf.certified_seen ebpf.recovered_seen)+

lemma same_labels_self: "dict_ok d \<Longrightarrow> same_labels (Some (labels_json d)) d"
  by (auto simp: labels_json_def list_all_iff dict_get_def map_of_map)

text \<open>
  What the provider applies is what its verification accepts.  The text \<open>contain\<close> pipes into
  \<open>kubectl apply\<close> decodes to a policy object that \<open>verify_contained\<close> accepts as live; and
  an object that is accepted has the agent's policy name and namespace, selects exactly the
  configured labels and denies all ingress and all egress.
\<close>

theorem cilium_policy_accepted:
  assumes "dict_ok (ci_selector i)"
  shows "json_loads lib (manifest_text c i) = Inr (cil_manifest c i) \<and> matches_policy c i (cil_manifest c i) = Inr True
    \<and> (\<forall>obj. matches_policy c i obj = Inr True \<longrightarrow>
         (\<exists>kvs metadata spec labels. obj = JObj kvs \<and> map_of kvs ''metadata'' = Some (JObj metadata)
            \<and> map_of kvs ''spec'' = Some (JObj spec) \<and> map_of metadata ''name'' = Some (JStr (ci_name i))
            \<and> map_of metadata ''namespace'' = Some (JStr (cil_namespace c))
            \<and> (\<exists>selector. map_of spec ''endpointSelector'' = Some (JObj selector)
                 \<and> map_of selector ''matchLabels'' = Some (JObj labels)
                 \<and> (\<forall>k. map_of labels k = map_option JStr (dict_get (ci_selector i) k)))
            \<and> map_of spec ''ingressDeny'' = Some (deny_rule ''fromEntities'')
            \<and> map_of spec ''egressDeny'' = Some (deny_rule ''toEntities'')))"
proof (intro conjI allI impI)
  have ok: "json_ok (cil_manifest c i)"
    using assms by (auto simp: cil_manifest_def labels_json_def deny_rule_def dict_ok_def list_all_iff comp_def case_prod_beta)
  have "read_floats h (cil_manifest c i) = cil_manifest c i" for h
    by (simp add: cil_manifest_def labels_json_def deny_rule_def case_prod_beta comp_def)
  with ok show "json_loads lib (manifest_text c i) = Inr (cil_manifest c i)"
    unfolding manifest_text_def by (intro loads_print) (simp_all add: floats_read_def)
  show "matches_policy c i (cil_manifest c i) = Inr True"
    using same_labels_self [OF assms] by (simp add: matches_policy_def cil_manifest_def)
next
  fix obj
  assume m: "matches_policy c i obj = Inr True"
  then obtain kvs where obj: "obj = JObj kvs" by (auto simp: matches_policy_def split: json.splits)
  have at: "mapping_at d k = Some e \<longleftrightarrow> map_of d k = Some (JObj e)" for d k e
    by (auto split: option.splits json.splits)
  from m obj obtain metadata spec selector where parts: "map_of kvs ''metadata'' = Some (JObj metadata)"
    "map_of kvs ''spec'' = Some (JObj spec)" "map_of spec ''endpointSelector'' = Some (JObj selector)"
    "same_labels (map_of selector ''matchLabels'') (ci_selector i)"
    and rest: "map_of metadata ''name'' = Some (JStr (ci_name i))" "map_of metadata ''namespace'' = Some (JStr (cil_namespace c))"
    "map_of spec ''ingressDeny'' = Some (deny_rule ''fromEntities'')" "map_of spec ''egressDeny'' = Some (deny_rule ''toEntities'')"
    by (auto simp: matches_policy_def at simp del: mapping_at.simps split: option.splits)
  from parts(4) obtain labels where labels: "map_of selector ''matchLabels'' = Some (JObj labels)"
    "list_all (\<lambda>k. map_of labels k = map_option JStr (dict_get (ci_selector i) k)) (map fst labels @ map fst (ci_selector i))"
    by (cases "map_of selector ''matchLabels''"; simp) (case_tac a; simp)
  have "map_of labels k = map_option JStr (dict_get (ci_selector i) k)" for k
  proof (cases "k \<in> set (map fst labels @ map fst (ci_selector i))")
    case True
    with labels(2) show ?thesis by (auto simp: list_all_iff)
  next
    case False
    then have "map_of labels k = None" "dict_get (ci_selector i) k = None"
      by (auto simp: map_of_eq_None_iff dict_get_def)
    then show ?thesis by simp
  qed
  with obj parts rest labels(1) show "\<exists>kvs metadata spec labels. obj = JObj kvs \<and> map_of kvs ''metadata'' = Some (JObj metadata)
            \<and> map_of kvs ''spec'' = Some (JObj spec) \<and> map_of metadata ''name'' = Some (JStr (ci_name i))
            \<and> map_of metadata ''namespace'' = Some (JStr (cil_namespace c))
            \<and> (\<exists>selector. map_of spec ''endpointSelector'' = Some (JObj selector)
                 \<and> map_of selector ''matchLabels'' = Some (JObj labels)
                 \<and> (\<forall>k. map_of labels k = map_option JStr (dict_get (ci_selector i) k)))
            \<and> map_of spec ''ingressDeny'' = Some (deny_rule ''fromEntities'')
            \<and> map_of spec ''egressDeny'' = Some (deny_rule ''toEntities'')" by blast
qed

section \<open>Examples\<close>

definition demo_int_clock :: "int clock" where
  "demo_int_clock = \<lparr>clk_time = (\<lambda>w. (w, w)), clk_monotonic = (\<lambda>w. (w, w)), clk_utcnow = (\<lambda>w. (''now'', w))\<rparr>"

definition demo_cgroup_controller :: "int controller" where
  "demo_cgroup_controller =
     mk_controller (mk_runtime 0 1 2 ''u'' ''a'' None) {} None None None [cgroup_provider demo_os demo_cgroup]"

lemma demo_cgroup_calls:
  "cg_contain demo_os demo_cgroup ''a'' 150 = (Inr (mk_result cg_name ENFORCED []), 150)"
  "cg_verify_contained demo_os demo_cgroup ''a'' 150 = Some (Inr (mk_result cg_name ENFORCED []), 150)"
proof -
  have id: "cg_verify_identity demo_os demo_cgroup ''a'' ''/cg/a'' w = (Inr None, w)" for w
    by (simp add: cg_verify_identity_def cg_identity_def demo_os_def demo_cgroup_def prog_defs dict_get_def)
  have path: "dict_get (cg_paths demo_cgroup) ''a'' = Some ''/cg/a''" by (simp add: demo_cgroup_def dict_get_def)
  have "snd (sup_is_populated demo_os ''/cg/a'' 150) = 150"
    by (simp add: sup_is_populated_def demo_os_def prog_defs Let_def)
  with demo_populated have empty: "sup_is_populated demo_os ''/cg/a'' 150 = (Inr False, 150)"
    by (simp add: prod_eq_iff)
  have kill: "sup_contain demo_os ''/cg/a'' 150 = (Inr 1, 150)"
    by (simp add: sup_contain_def demo_os_def prog_defs Let_def)
  show "cg_contain demo_os demo_cgroup ''a'' 150 = (Inr (mk_result cg_name ENFORCED []), 150)"
    using id path kill by (simp add: cg_contain_def or_result_def with_identity_def prog_defs)
  have clock: "os_monotonic demo_os 150 = (150, 150)" by (simp add: demo_os_def)
  show "cg_verify_contained demo_os demo_cgroup ''a'' 150 = Some (Inr (mk_result cg_name ENFORCED []), 150)"
    using id path empty clock
    by (simp add: cg_verify_contained_def or_result_def cg_check_empty_def prog_defs cg_wait.simps)
qed

theorem provider_reports_observed_witness:
  "rep_certified (fst (fst (ctl_contain demo_int_clock 3 demo_cgroup_controller 150)))
   \<and> (\<exists>v v'. verified_in_contain demo_int_clock 3 demo_cgroup_controller 150 (cgroup_provider demo_os demo_cgroup) v v'
        \<and> cgroup_seen demo_os demo_cgroup ''a'' v v')"
proof -
  let ?c = demo_cgroup_controller
  have parts: "ctl_enforcers ?c = [cgroup_provider demo_os demo_cgroup]" "rt_agent_id (ctl_runtime ?c) = ''a''"
    by (simp_all add: demo_cgroup_controller_def mk_controller_def mk_runtime_def)
  have "rep_failures (fst (fst (ctl_contain demo_int_clock 3 ?c 150))) = []"
    using demo_cgroup_calls
    by (simp add: ctl_contain_def contain_local_stages_def optional_stage_def Let_def contain_provider_def first_applied_def
        demo_int_clock_def demo_cgroup_controller_def mk_controller_def mk_runtime_def cgroup_provider_def)
  with contain_report_exact [of demo_int_clock 3 ?c 150] parts
  have cert: "rep_certified (fst (fst (ctl_contain demo_int_clock 3 ?c 150)))" by (simp add: split_beta Let_def)
  from provider_reports_observed [of demo_int_clock 3 ?c 150 sample_lib, THEN conjunct1, THEN mp, OF this,
      THEN conjunct1, THEN spec, THEN spec, of demo_os demo_cgroup] parts cert
  show ?thesis by simp
qed

definition demo_cilium :: "nat cilium" where
  "demo_cilium = \<lparr>cil_namespace = ''default'', cil_kubectl = (\<lambda>args input. raise (Exn OSError ''no kubectl'')),
     cil_verifier = None, cil_identities = []\<rparr>"

definition demo_identity :: cilium_identity where
  "demo_identity = \<lparr>ci_name = ''agentcontainment-0'', ci_selector = [(''app'', ''agent'')]\<rparr>"

theorem cilium_policy_accepted_witness:
  "json_loads sample_lib (manifest_text demo_cilium demo_identity) = Inr (cil_manifest demo_cilium demo_identity)
   \<and> matches_policy demo_cilium demo_identity (cil_manifest demo_cilium demo_identity) = Inr True"
  using cilium_policy_accepted [of demo_identity sample_lib demo_cilium] by (simp add: demo_identity_def dict_ok_def)

text \<open>
  The verification compares \<open>matchLabels\<close> and ignores every other key of the selector: a live
  policy whose \<open>matchExpressions\<close> narrow the selection to nothing is accepted, although it no
  longer selects the workload.
\<close>

definition narrowed_policy :: json where
  "narrowed_policy =
     JObj [(''metadata'', JObj [(''name'', JStr ''agentcontainment-0''), (''namespace'', JStr ''default''),
         (''labels'', JObj [(''app.kubernetes.io/managed-by'', JStr ''agentcontainment''),
                           (''agentcontainment.io/policy'', JStr ''containment'')])]),
       (''spec'', JObj [(''endpointSelector'', JObj [(''matchLabels'', JObj [(''app'', JStr ''agent'')]),
          (''matchExpressions'', JList [JObj [(''key'', JStr ''app''), (''operator'', JStr ''DoesNotExist'')]])]),
          (''ingressDeny'', deny_rule ''fromEntities''), (''egressDeny'', deny_rule ''toEntities'')])]"

lemma narrowed_policy_accepted: "matches_policy demo_cilium demo_identity narrowed_policy = Inr True"
  by (simp add: matches_policy_def narrowed_policy_def demo_cilium_def demo_identity_def dict_get_def)

text \<open>
  A JSON answer that is not an object makes \<open>verify_contained\<close> raise instead of reporting a
  failure: only \<open>OSError\<close> and \<open>SubprocessError\<close> are caught.
\<close>

lemma cilium_verification_can_raise:
  assumes "dict_get (cil_identities c) a = Some i" and "cil_get lib c i w = (Inr (Some (JList xs), None), w')"
  shows "fst (cil_verify_contained lib c a w) = Inl (attribute_error (JList xs))"
  using assms by (simp add: cil_verify_contained_def for_identity_def or_cil_result_def cil_check_def matches_policy_def
      attribute_error_def command_error_def is_os_error_def prog_defs)

end
