(* ===== verification/Transport.thy ===== *)
theory Transport
  imports Control_Register Control_Authorize Json_Text Linux_Supervisor
begin

text \<open>
  \<open>transport.py\<close>: the Unix-domain control server.  A connection is the record of the socket calls
  the code makes; a message is a string of bytes.  Here a message is one sequential program; theory
  \<open>Wire_Steps\<close> cuts it into the steps between which other threads run, and the listening socket and
  the threads of the server are in theory \<open>Listener\<close>.
\<close>

section \<open>Configuration\<close>

text \<open>
  \<open>srv_euid\<close> is what \<open>os.geteuid()\<close> returns; \<open>srv_slots\<close> the initial value of the semaphore.
\<close>

record control_server =
  srv_max_message_bytes :: nat
  srv_allowed_uids :: "int list option"
  srv_privileged_uids :: "int list option"
  srv_slots :: nat
  srv_euid :: int

definition mk_control_server ::
  "int \<Rightarrow> int list option \<Rightarrow> int list option \<Rightarrow> int \<Rightarrow> int \<Rightarrow> exn + control_server" where
  "mk_control_server max_message_bytes allowed privileged max_concurrent euid =
     (if max_message_bytes < 1 then Inl (Exn ValueError ''max_message_bytes must be positive'')
      else if max_concurrent < 1 then Inl (Exn ValueError ''max_concurrent_connections must be positive'')
      else Inr \<lparr>srv_max_message_bytes = nat max_message_bytes, srv_allowed_uids = allowed,
                srv_privileged_uids = privileged, srv_slots = nat max_concurrent, srv_euid = euid\<rparr>)"

text \<open>
  What the wire needs of the library beside JSON: \<open>bytes.decode\<close>, as \<open>json.loads\<close> applies it to
  bytes; a decoding error is a \<open>ValueError\<close>.
\<close>

record wire_library = library +
  lib_decode :: "string \<Rightarrow> exn + string"

definition loads_bytes :: "'a wire_library_scheme \<Rightarrow> string \<Rightarrow> exn + json" where
  "loads_bytes lib bs = (case lib_decode lib bs of Inl e \<Rightarrow> Inl e | Inr s \<Rightarrow> json_loads lib s)"

section \<open>Validation\<close>

definition need :: "'a option \<Rightarrow> string \<Rightarrow> ('s, 'a) prog" where
  "need v message = (case v of None \<Rightarrow> raise (Exn ControlProtocolError message) | Some x \<Rightarrow> ret x)"

definition text_field :: "nat \<Rightarrow> json option \<Rightarrow> string option" where
  "text_field limit v =
     (case v of
        Some (JStr t) \<Rightarrow> if t = [] \<or> limit < length t then None else Some t
      | _ \<Rightarrow> None)"

definition tp_agent_id :: "json dict \<Rightarrow> ('s, string) prog" where
  "tp_agent_id request =
     need (text_field 256 (dict_get request ''agent_id''))
       ''agent_id must be a non-empty string of at most 256 characters''"

definition tp_optional_cgroup :: "'w os \<Rightarrow> json dict \<Rightarrow> ('w, string option) prog" where
  "tp_optional_cgroup os request =
     (if dict_get request ''cgroup_path'' \<in> {None, Some JNull} then ret None
      else andthen (need (text_field 4096 (dict_get request ''cgroup_path''))
               ''cgroup_path must be a non-empty string of at most 4096 characters'') (\<lambda>path.
        andthen (if take 1 path = ''/'' then os_is_dir os path else ret False) (\<lambda>ok.
        andthen (guarding ok (Exn ControlProtocolError ''cgroup_path must be an existing absolute directory'')) (\<lambda>_.
        andthen (os_resolve os path) (\<lambda>resolved. ret (Some resolved))))))"

definition string_pair :: "string \<times> json \<Rightarrow> (string \<times> string) option" where
  "string_pair kv = (case snd kv of JStr t \<Rightarrow> Some (fst kv, t) | _ \<Rightarrow> None)"

definition string_pairs :: "json \<Rightarrow> string dict option" where
  "string_pairs v = (case v of JObj kvs \<Rightarrow> those (map string_pair kvs) | _ \<Rightarrow> None)"

definition tp_metadata :: "json dict \<Rightarrow> ('s, string dict) prog" where
  "tp_metadata request =
     need (string_pairs (case dict_get request ''metadata'' of None \<Rightarrow> JObj [] | Some v \<Rightarrow> v))
       ''metadata must be a string-to-string object''"

text \<open>The uids that may register and contain.\<close>

definition privileged_set :: "control_server \<Rightarrow> int list" where
  "privileged_set srv =
     (case srv_privileged_uids srv of
        Some uids \<Rightarrow> uids
      | None \<Rightarrow> (case srv_allowed_uids srv of Some uids \<Rightarrow> uids | None \<Rightarrow> [srv_euid srv]))"

fun known_uid :: "int option \<Rightarrow> int list \<Rightarrow> bool" where
  "known_uid None uids = False"
| "known_uid (Some uid) uids = (uid \<in> set uids)"

definition require_privileged :: "control_server \<Rightarrow> int option \<Rightarrow> ('s, unit) prog" where
  "require_privileged srv uid =
     guarding (known_uid uid (privileged_set srv)) (Exn ControlProtocolError ''forbidden_command'')"

definition peer_allowed :: "control_server \<Rightarrow> int option \<Rightarrow> bool" where
  "peer_allowed srv uid =
     (case srv_allowed_uids srv of None \<Rightarrow> True | Some uids \<Rightarrow> known_uid uid uids)"

section \<open>Commands\<close>

definition tp_workload_pid :: "'w environment \<Rightarrow> json dict \<Rightarrow> ('s, int option) prog" where
  "tp_workload_pid env request =
     (case dict_get request ''workload_pid'' of
        None \<Rightarrow> ret None
      | Some JNull \<Rightarrow> ret None
      | Some v \<Rightarrow>
          andthen (need (case v of JInt n \<Rightarrow> if n \<le> 0 then None else Some n | _ \<Rightarrow> None)
                     ''workload_pid must be a positive integer'') (\<lambda>pid.
          andthen (guarding (env_supervisor env \<noteq> None)
                     (Exn ControlProtocolError ''workload_pid requires a configured cgroup supervisor'')) (\<lambda>_.
          ret (Some pid))))"

definition optional_text :: "string option \<Rightarrow> json" where
  "optional_text v = (case v of None \<Rightarrow> JNull | Some t \<Rightarrow> JStr t)"

text \<open>The workload of a new agent: its cgroup, its process and its token.\<close>

definition admit_workload ::
  "'w environment \<Rightarrow> string \<Rightarrow> int option \<Rightarrow> ('w service, string option \<times> string option) prog" where
  "admit_workload env agent_id workload_pid =
     andthen (if env_supervisor env \<noteq> None
              then andthen (svc_create_workload env agent_id) (\<lambda>path. ret (Some path)) else ret None) (\<lambda>cgroup_path.
     andthen (case workload_pid of
                None \<Rightarrow> ret ()
              | Some pid \<Rightarrow> andthen (svc_attach_workload env agent_id pid) (\<lambda>_. ret ())) (\<lambda>_.
     andthen (case workload_pid of
                None \<Rightarrow> ret None
              | Some pid \<Rightarrow> andthen (svc_issue_identity_token env agent_id (Some pid)) (\<lambda>t. ret (Some t))) (\<lambda>token.
     ret (cgroup_path, token))))"

definition register_response :: "string \<Rightarrow> runtime \<Rightarrow> string option \<times> string option \<Rightarrow> json" where
  "register_response agent_id runtime parts =
     JObj [(''ok'', JBool True), (''agent_id'', JStr agent_id),
       (''state'', JStr (runtime_state_value (rt_state runtime))),
       (''identity_token'', optional_text (snd parts)), (''cgroup_path'', optional_text (fst parts))]"

text \<open>The part of \<open>register\<close> that changes state; every field is validated before it.\<close>

definition tp_enroll ::
  "'w environment \<Rightarrow> string \<Rightarrow> int option \<Rightarrow> string dict \<Rightarrow> ('w service, json) prog" where
  "tp_enroll env agent_id workload_pid metadata =
     andthen (svc_register env agent_id None (Some metadata) None) (\<lambda>runtime.
     andthen (catch (admit_workload env agent_id workload_pid)
                (\<lambda>e. andthen (svc_unregister agent_id) (\<lambda>_. raise e))) (\<lambda>parts.
     ret (register_response agent_id runtime parts)))"

definition tp_register ::
  "'w environment \<Rightarrow> control_server \<Rightarrow> int option \<Rightarrow> json dict \<Rightarrow> ('w service, json) prog" where
  "tp_register env srv uid request =
     andthen (require_privileged srv uid) (\<lambda>_.
     andthen (tp_agent_id request) (\<lambda>agent_id.
     andthen (tp_workload_pid env request) (\<lambda>workload_pid.
     andthen (tp_metadata request) (\<lambda>metadata.
     tp_enroll env agent_id workload_pid metadata))))"

definition tp_status :: "json dict \<Rightarrow> ('w service, json) prog" where
  "tp_status request =
     andthen (tp_agent_id request) (\<lambda>agent_id.
     andthen (svc_status agent_id) (\<lambda>state.
     ret (JObj [(''ok'', JBool True), (''agent_id'', JStr agent_id), (''state'', JStr (runtime_state_value state))])))"

text \<open>The action of an \<open>authorize\<close> request and its token; \<open>risk\<close> defaults to 0.\<close>

definition tp_risk :: "json dict \<Rightarrow> int option" where
  "tp_risk request =
     (case dict_get request ''risk'' of
        None \<Rightarrow> Some 0
      | Some (JInt n) \<Rightarrow> if 0 \<le> n \<and> n \<le> 100 then Some n else None
      | _ \<Rightarrow> None)"

definition token_field :: "json option \<Rightarrow> string option" where
  "token_field v = (case v of Some (JStr t) \<Rightarrow> if t = [] then None else Some t | _ \<Rightarrow> None)"

definition tp_action :: "json dict \<Rightarrow> ('s, action \<times> string) prog" where
  "tp_action request =
     andthen (tp_agent_id request) (\<lambda>agent_id.
     andthen (need (token_field (dict_get request ''identity_token'')) ''identity_token is required'') (\<lambda>token.
     andthen (need (text_field 256 (dict_get request ''action_id''))
                ''action_id must be a non-empty string of at most 256 characters'') (\<lambda>action_id.
     andthen (need (text_field 256 (dict_get request ''operation''))
                ''operation must be a non-empty string of at most 256 characters'') (\<lambda>operation.
     andthen (need (text_field 4096 (dict_get request ''resource''))
                ''resource must be a non-empty string of at most 4096 characters'') (\<lambda>resource.
     andthen (need (tp_risk request) ''risk must be an integer from 0 to 100'') (\<lambda>risk.
     ret (\<lparr>act_agent_id = agent_id, act_action_id = action_id, act_operation = operation,
           act_resource = resource, act_risk = risk, act_metadata = []\<rparr>, token)))))))"

definition tp_authorize ::
  "'w environment \<Rightarrow> 'w os \<Rightarrow> int option \<Rightarrow> json dict \<Rightarrow> ('w service, json) prog" where
  "tp_authorize env os peer_pid request =
     andthen (tp_action request) (\<lambda>(a, token).
     andthen (svc_identity_cgroup (act_agent_id a)) (\<lambda>cgroup.
     andthen (svc_authorize env a (Some token) peer_pid
                (if cgroup = None then None else Some (sup_pid_in_cgroup os))) (\<lambda>d.
     ret (JObj [(''ok'', JBool True), (''agent_id'', JStr (act_agent_id a)),
            (''action_id'', JStr (act_action_id a)), (''decision'', JStr (decision_value (dec_type d))),
            (''reason'', JStr (dec_reason d)), (''timestamp'', JInt (dec_timestamp d))]))))"

definition report_json :: "containment_report \<Rightarrow> json" where
  "report_json r =
     JObj [(''epoch'', JInt (rep_epoch r)), (''stages'', JList (map JStr (rep_stages r))),
       (''failures'', JList (map JStr (rep_failures r))), (''complete'', JBool (rep_complete r))]"

definition tp_contain ::
  "'w environment \<Rightarrow> control_server \<Rightarrow> int option \<Rightarrow> json dict \<Rightarrow> ('w service, json) prog" where
  "tp_contain env srv uid request =
     andthen (require_privileged srv uid) (\<lambda>_.
     andthen (tp_agent_id request) (\<lambda>agent_id.
     andthen (svc_contain env agent_id) (\<lambda>report.
     andthen (svc_status agent_id) (\<lambda>state.
     ret (JObj [(''ok'', JBool True), (''agent_id'', JStr agent_id),
            (''state'', JStr (runtime_state_value state)), (''containment'', report_json report)])))))"

definition tp_report :: "json dict \<Rightarrow> ('w service, json) prog" where
  "tp_report request =
     andthen (tp_agent_id request) (\<lambda>agent_id.
     andthen (svc_report agent_id) (\<lambda>report.
     ret (JObj [(''ok'', JBool True), (''agent_id'', JStr agent_id),
            (''containment'', case report of None \<Rightarrow> JNull | Some r \<Rightarrow> report_json r)])))"

definition tp_snapshot :: "('w service, json) prog" where
  "tp_snapshot =
     andthen (reading svc_snapshot) (\<lambda>states.
     ret (JObj [(''ok'', JBool True),
            (''agents'', JObj (map (\<lambda>(agent_id, state). (agent_id, JStr (runtime_state_value state))) states))]))"

definition error_response :: "string \<Rightarrow> json" where
  "error_response message = JObj [(''ok'', JBool False), (''error'', JStr message)]"

definition handle ::
  "'w environment \<Rightarrow> 'w os \<Rightarrow> control_server \<Rightarrow> json \<Rightarrow> int option \<Rightarrow> int option \<Rightarrow> ('w service, json) prog" where
  "handle env os srv request uid pid =
     (case request of
        JObj kvs \<Rightarrow>
          (let command = dict_get kvs ''command'' in
           if command = Some (JStr ''register'') then tp_register env srv uid kvs
           else if command = Some (JStr ''status'') then tp_status kvs
           else if command = Some (JStr ''authorize'') then tp_authorize env os pid kvs
           else if command = Some (JStr ''contain'') then tp_contain env srv uid kvs
           else if command = Some (JStr ''report'') then tp_report kvs
           else if command = Some (JStr ''snapshot'') then tp_snapshot
           else raise (Exn ControlProtocolError ''unsupported command''))
      | _ \<Rightarrow> ret (error_response ''request must be an object''))"

section \<open>Connections\<close>

text \<open>\<open>cn_peercred\<close> is the credential option of the socket (pid, uid, gid), if there is one.\<close>

record 'w connection =
  cn_recv :: "nat \<Rightarrow> ('w, string) prog"
  cn_sendall :: "string \<Rightarrow> ('w, unit) prog"
  cn_peercred :: "('w, int \<times> int \<times> int) prog option"

definition peer_credentials :: "'w connection \<Rightarrow> ('w, int option \<times> int option) prog" where
  "peer_credentials conn =
     (case cn_peercred conn of
        None \<Rightarrow> ret (None, None)
      | Some get \<Rightarrow>
          catch (andthen get (\<lambda>(pid, uid, gid). ret (Some uid, Some pid)))
            (\<lambda>e. if is_os_error e \<or> exn_class e = OtherException ''struct.error'' then ret (None, None) else raise e))"

text \<open>
  The loop that reads one frame: until the peer ends, a chunk with a line feed arrives, or more
  than \<open>limit\<close> bytes are there.
\<close>

function read_frame :: "(nat \<Rightarrow> ('w, string) prog) \<Rightarrow> nat \<Rightarrow> string \<Rightarrow> ('w, string) prog" where
  "read_frame recv limit data w =
     (if length data \<le> limit then
        (case recv (min 4096 (limit + 1 - length data)) w of
           (Inl e, w') \<Rightarrow> (Inl e, w')
         | (Inr chunk, w') \<Rightarrow>
             if chunk = [] then (Inr data, w')
             else if line_feed \<in> set chunk then (Inr (data @ chunk), w')
             else read_frame recv limit (data @ chunk) w')
      else (Inr data, w))"
  by pat_completeness auto
termination
  by (relation "measure (\<lambda>(recv, limit, data, w). limit + 1 - length data)")
     (auto simp flip: length_greater_0_conv)

declare read_frame.simps [simp del]

definition is_timeout :: "exn \<Rightarrow> bool" where
  "is_timeout e \<longleftrightarrow> exn_class e = OtherOSError ''TimeoutError''"

text \<open>\<open>bytes.strip()\<close>: the white space of ASCII.\<close>

definition byte_space :: "char \<Rightarrow> bool" where
  "byte_space c \<longleftrightarrow> code c \<in> {9, 10, 11, 12, 13, 32}"

definition bytes_strip :: "string \<Rightarrow> string" where
  "bytes_strip s = rev (dropWhile byte_space (rev (dropWhile byte_space s)))"

definition frame_line :: "string \<Rightarrow> string" where
  "frame_line data = bytes_strip (hd (split_at_most 1 line_feed data))"

definition reported :: "exn \<Rightarrow> string" where
  "reported e = (if is_value_error e \<or> exn_class e = KeyError then exn_str e else ''internal_error'')"

definition answer ::
  "'a wire_library_scheme \<Rightarrow> 'w environment \<Rightarrow> 'w os \<Rightarrow> control_server \<Rightarrow> string \<Rightarrow>
     int option \<Rightarrow> int option \<Rightarrow> ('w service, json) prog" where
  "answer lib env os srv line uid pid =
     catch (andthen (lift_result (loads_bytes lib line)) (\<lambda>request. handle env os srv request uid pid))
       (\<lambda>e. ret (error_response (reported e)))"

definition send_response :: "'w connection \<Rightarrow> json \<Rightarrow> ('w service, unit) prog" where
  "send_response conn response = on_world (cn_sendall conn (dumps plain_style response @ [line_feed]))"

definition serve_frame ::
  "'a wire_library_scheme \<Rightarrow> 'w environment \<Rightarrow> 'w os \<Rightarrow> control_server \<Rightarrow> string \<Rightarrow>
     int option \<times> int option \<Rightarrow> ('w service, json) prog" where
  "serve_frame lib env os srv data peer =
     (if \<not> peer_allowed srv (fst peer) then ret (error_response ''unauthorized_peer'')
      else if srv_max_message_bytes srv < length data then ret (error_response ''message_too_large'')
      else if frame_line data = [] then ret (error_response ''empty_request'')
      else answer lib env os srv (frame_line data) (fst peer) (snd peer))"

definition serve_connection ::
  "'a wire_library_scheme \<Rightarrow> 'w environment \<Rightarrow> 'w os \<Rightarrow> control_server \<Rightarrow> 'w connection \<Rightarrow> ('w service, unit) prog" where
  "serve_connection lib env os srv conn =
     andthen (attempt (on_world (read_frame (cn_recv conn) (srv_max_message_bytes srv) []))) (\<lambda>r.
       case r of
         Inl e \<Rightarrow> if is_timeout e then send_response conn (error_response ''request_timeout'') else raise e
       | Inr data \<Rightarrow>
           andthen (on_world (peer_credentials conn)) (\<lambda>peer.
           andthen (serve_frame lib env os srv data peer) (send_response conn)))"

section \<open>The accept loop\<close>

text \<open>
  A new connection takes a slot of the semaphore or is told that the server is busy; a worker
  gives its slot back whatever happens.  The state is the number of slots in use.
\<close>

definition on_accept :: "control_server \<Rightarrow> nat \<Rightarrow> json option \<times> nat" where
  "on_accept srv used =
     (if used < srv_slots srv then (None, used + 1) else (Some (error_response ''server_busy''), used))"

definition on_served :: "nat \<Rightarrow> nat" where
  "on_served used = used - 1"

inductive accept_step :: "control_server \<Rightarrow> nat \<Rightarrow> nat \<Rightarrow> bool" for srv where
  connected: "accept_step srv used (snd (on_accept srv used))"
| finished: "0 < used \<Longrightarrow> accept_step srv used (on_served used)"

inductive_simps accept_step_iff: "accept_step srv used used'"

text \<open>However many peers connect, at most \<open>max_concurrent_connections\<close> of them are served at once.\<close>

lemma workers_bounded:
  "(accept_step srv)\<^sup>*\<^sup>* used used' \<Longrightarrow> used \<le> srv_slots srv \<Longrightarrow> used' \<le> srv_slots srv"
  by (induction rule: rtranclp_induct) (auto simp: accept_step_iff on_accept_def on_served_def)

end
