(* ===== verification/Control_Client.thy ===== *)
theory Control_Client
  imports Transport
begin

text \<open>
  \<open>client.py\<close>: the client of the control socket.  \<open>cs_connect\<close> connects to a path, with the
  timeout set.  The client writes one compact JSON object and a line feed, and reads one frame
  with the loop the server uses.
\<close>

record control_client =
  cl_path :: string
  cl_token :: "string option"

record 'w client_socket =
  cs_connect :: "string \<Rightarrow> ('w, unit) prog"
  cs_sendall :: "string \<Rightarrow> ('w, unit) prog"
  cs_recv :: "nat \<Rightarrow> ('w, string) prog"

definition request_bytes :: "string \<Rightarrow> json dict \<Rightarrow> string" where
  "request_bytes command args =
     print_json compact_style (JObj ((''command'', JStr command) # args)) @ [line_feed]"

text \<open>The bytes of a response as the dictionary it must be.\<close>

definition parse_response :: "'a wire_library_scheme \<Rightarrow> string \<Rightarrow> exn + json dict" where
  "parse_response lib response =
     (if response = [] then Inl (Exn RuntimeError ''control daemon returned no response'')
      else (case lib_decode lib (hd (split_at_most 1 line_feed response)) of
              Inl e \<Rightarrow> Inl (Exn RuntimeError ''invalid control daemon response'')
            | Inr t \<Rightarrow>
                (case json_loads lib t of
                   Inr (JObj kvs) \<Rightarrow> Inr kvs
                 | _ \<Rightarrow> Inl (Exn RuntimeError ''invalid control daemon response''))))"

definition cl_request ::
  "'a wire_library_scheme \<Rightarrow> 'w client_socket \<Rightarrow> control_client \<Rightarrow> string \<Rightarrow> json dict \<Rightarrow> ('w, json dict) prog" where
  "cl_request lib sock c command args =
     andthen (cs_connect sock (cl_path c)) (\<lambda>_.
     andthen (cs_sendall sock (request_bytes command args)) (\<lambda>_.
     andthen (read_frame (cs_recv sock) (64 * 1024) []) (\<lambda>response.
     lift_result (parse_response lib response))))"

text \<open>\<open>result.get("ok")\<close> as a condition.\<close>

fun truthy :: "json option \<Rightarrow> bool" where
  "truthy None = False"
| "truthy (Some JNull) = False"
| "truthy (Some (JBool b)) = b"
| "truthy (Some (JInt n)) = (n \<noteq> 0)"
| "truthy (Some (JReal l)) = (\<exists>c \<in> set (takeWhile (\<lambda>c. c \<notin> {CHR ''e'', CHR ''E''}) l). c \<notin> set ''-0.'')"
| "truthy (Some (JStr t)) = (t \<noteq> [])"
| "truthy (Some (JList xs)) = (xs \<noteq> [])"
| "truthy (Some (JObj kvs)) = (kvs \<noteq> [])"

definition register_args :: "string \<Rightarrow> string dict option \<Rightarrow> int option \<Rightarrow> json dict" where
  "register_args agent_id metadata workload_pid =
     [(''agent_id'', JStr agent_id),
      (''metadata'', JObj (map (\<lambda>(k, v). (k, JStr v)) (case metadata of None \<Rightarrow> [] | Some m \<Rightarrow> m)))]
     @ (case workload_pid of None \<Rightarrow> [] | Some pid \<Rightarrow> [(''workload_pid'', JInt pid)])"

text \<open>The client remembers the token of a registration.\<close>

definition keep_token :: "json dict \<Rightarrow> control_client \<Rightarrow> control_client" where
  "keep_token result c =
     (case dict_get result ''identity_token'' of
        Some (JStr t) \<Rightarrow> if truthy (dict_get result ''ok'') then c\<lparr>cl_token := Some t\<rparr> else c
      | _ \<Rightarrow> c)"

definition cl_register ::
  "'a wire_library_scheme \<Rightarrow> 'w client_socket \<Rightarrow> control_client \<Rightarrow> string \<Rightarrow> string dict option \<Rightarrow> int option \<Rightarrow>
     ('w, json dict \<times> control_client) prog" where
  "cl_register lib sock c agent_id metadata workload_pid =
     andthen (cl_request lib sock c ''register'' (register_args agent_id metadata workload_pid)) (\<lambda>result.
     ret (result, keep_token result c))"

definition cl_status where
  "cl_status lib sock c agent_id = cl_request lib sock c ''status'' [(''agent_id'', JStr agent_id)]"

definition cl_contain where
  "cl_contain lib sock c agent_id = cl_request lib sock c ''contain'' [(''agent_id'', JStr agent_id)]"

definition cl_report where
  "cl_report lib sock c agent_id = cl_request lib sock c ''report'' [(''agent_id'', JStr agent_id)]"

definition authorize_args :: "action \<Rightarrow> string \<Rightarrow> json dict" where
  "authorize_args a token =
     [(''agent_id'', JStr (act_agent_id a)), (''action_id'', JStr (act_action_id a)),
      (''operation'', JStr (act_operation a)), (''resource'', JStr (act_resource a)),
      (''risk'', JInt (act_risk a)), (''identity_token'', JStr token)]"

definition cl_authorize ::
  "'a wire_library_scheme \<Rightarrow> 'w client_socket \<Rightarrow> control_client \<Rightarrow> action \<Rightarrow> ('w, json dict) prog" where
  "cl_authorize lib sock c a =
     (case cl_token c of
        Some token \<Rightarrow>
          if token = [] then raise (Exn RuntimeError ''register the agent first to obtain an identity token'')
          else cl_request lib sock c ''authorize'' (authorize_args a token)
      | None \<Rightarrow> raise (Exn RuntimeError ''register the agent first to obtain an identity token''))"

end
