(* ===== verification/Json_Ascii.thy ===== *)
theory Json_Ascii
  imports Json_Text
begin

text \<open>
  With \<open>ensure_ascii\<close>, the default, \<open>json.dumps\<close> writes graphic ASCII characters and the space
  only: the text of a document is its own encoding, and no line feed is in it.
\<close>

definition graphic :: "char \<Rightarrow> bool" where
  "graphic c \<longleftrightarrow> 32 \<le> code c \<and> code c \<le> 126"

lemma graphic_hex: "n < 16 \<Longrightarrow> graphic (hex_digit n)"
proof -
  assume "n < 16"
  then have "n \<in> {0, 1, 2, 3, 4, 5, 6, 7, 8, 9, 10, 11, 12, 13, 14, 15}"
    by (simp add: eval_nat_numeral less_Suc_eq)
  then show ?thesis by (auto simp: hex_digit_def graphic_def code_def)
qed

lemma graphic_escape: "d \<in> set (escape_char True c) \<Longrightarrow> graphic d"
proof -
  assume d: "d \<in> set (escape_char True c)"
  have marks: "graphic backslash" "graphic dquote" "graphic (CHR ''n'')" "graphic (CHR ''r'')" "graphic (CHR ''t'')"
    "graphic (CHR ''f'')" "graphic (CHR ''b'')" "graphic (CHR ''u'')" "graphic (CHR ''0'')"
    by (simp_all add: graphic_def code_def backslash_def dquote_def)
  have "code c div 16 < 16" using nat_of_char_less_256 [of c] by (simp add: code_def less_mult_imp_div_less)
  then have "graphic (hex_digit (code c div 16))" "graphic (hex_digit (code c mod 16))"
    using graphic_hex by simp_all
  moreover have "graphic c" if "\<not> code c < 32" "\<not> 126 < code c" using that by (simp add: graphic_def)
  ultimately show ?thesis using d marks by (simp add: escape_char_def split: if_splits) auto
qed

lemma graphic_string: "c \<in> set (json_string True s) \<Longrightarrow> graphic c"
  using graphic_escape by (auto simp: json_string_def) (simp_all add: graphic_def code_def dquote_def)

lemma graphic_digit: "is_digit c \<Longrightarrow> graphic c"
  by (simp add: is_digit_def graphic_def)

lemma graphic_digits: "c \<in> set (digits_of n) \<Longrightarrow> graphic c"
  using digits_of_chars [of c n] by (auto simp: graphic_def code_def)

section \<open>Literals of floats\<close>

lemma graphic_number_parts:
  "c \<in> set (fst (split_digits s)) \<Longrightarrow> graphic c" "c \<in> set (fst (split_integer s)) \<Longrightarrow> graphic c"
  "c \<in> set (fst (split_fraction s)) \<Longrightarrow> graphic c" "c \<in> set (fst (split_sign s)) \<Longrightarrow> graphic c"
proof -
  have digits: "graphic c" if "c \<in> set (fst (split_digits s))" for s
    using that graphic_digit by (auto simp: split_digits_def dest: set_takeWhileD)
  then show "c \<in> set (fst (split_digits s)) \<Longrightarrow> graphic c" by blast
  show "c \<in> set (fst (split_integer s)) \<Longrightarrow> graphic c"
    using digits by (auto simp: split_integer_def graphic_def code_def split: list.splits if_splits)
  show "c \<in> set (fst (split_fraction s)) \<Longrightarrow> graphic c"
    using digits by (auto simp: split_fraction_def graphic_def code_def split: list.splits if_splits)
  show "c \<in> set (fst (split_sign s)) \<Longrightarrow> graphic c"
    by (auto simp: split_sign_def graphic_def code_def split: list.splits if_splits)
qed

lemma graphic_exponent: "c \<in> set (fst (split_exponent s)) \<Longrightarrow> graphic c"
proof (cases s)
  case (Cons d cs)
  obtain sign ds where sign: "split_sign cs = (sign, ds)" by fastforce
  obtain digits rest where digits: "split_digits ds = (digits, rest)" by fastforce
  assume "c \<in> set (fst (split_exponent s))"
  with Cons sign digits have "c \<in> {CHR ''e'', CHR ''E''} \<or> c \<in> set sign \<or> c \<in> set digits"
    by (auto simp: split_exponent_def split: if_splits)
  with graphic_number_parts(1) [of c ds] graphic_number_parts(4) [of c cs] sign digits show ?thesis
    by (auto simp: graphic_def code_def)
qed (simp add: split_exponent_def)

lemma graphic_unsigned: "parse_unsigned neg s = Some (JReal l, r) \<Longrightarrow> c \<in> set l \<Longrightarrow> graphic c"
proof -
  obtain digits s1 where 1: "split_integer s = (digits, s1)" by fastforce
  obtain fraction s2 where 2: "split_fraction s1 = (fraction, s2)" by fastforce
  obtain exponent s3 where 3: "split_exponent s2 = (exponent, s3)" by fastforce
  assume "parse_unsigned neg s = Some (JReal l, r)" "c \<in> set l"
  with 1 2 3 have "c \<in> set digits \<or> c \<in> set fraction \<or> c \<in> set exponent \<or> c = CHR ''-''"
    by (auto simp: parse_unsigned_def Let_def split: if_splits)
  with graphic_number_parts(2) [of c s] graphic_number_parts(3) [of c s1] graphic_exponent [of c s2] 1 2 3
  show ?thesis by (auto simp: graphic_def code_def)
qed

lemma graphic_literal: "real_literal l \<Longrightarrow> c \<in> set l \<Longrightarrow> graphic c"
proof -
  assume l: "real_literal l" and c: "c \<in> set l"
  have words: "\<forall>c \<in> set w. graphic c" if "w \<in> {''NaN'', ''Infinity'', ''-Infinity''}" for w
    using that by (auto simp: graphic_def code_def)
  show ?thesis
  proof (cases "l \<in> {''NaN'', ''Infinity'', ''-Infinity''}")
    case False
    with l have "parse_scalar l = Some (JReal l, [])" by (simp add: real_literal_def)
    with c False graphic_unsigned show ?thesis by (simp add: parse_scalar_def split: if_splits)
  qed (use words c in blast)
qed

section \<open>Documents\<close>

lemma print_graphic:
  assumes st: "style_ok st" "sty_ascii st"
  shows "json_ok v \<Longrightarrow> c \<in> set (print_json st v) \<Longrightarrow> graphic c"
proof (induction v arbitrary: c)
  case (JInt i)
  then show ?case using graphic_digits by (auto simp: str_int_def graphic_def code_def split: if_splits)
next
  case (JReal l)
  then show ?case using graphic_literal by auto
next
  case (JStr s)
  then show ?case using st graphic_string by simp
next
  case (JList xs)
  have item: "\<forall>c \<in> set (sty_item st). graphic c" using st by (auto simp: style_ok_def graphic_def code_def)
  have "\<forall>x \<in> set xs. \<forall>c \<in> set (print_json st x). graphic c" using JList by (simp add: list_all_iff)
  with JList.prems item show ?case by (auto simp: graphic_def code_def dest!: join_with_chars)
next
  case (JObj kvs)
  have seps: "\<forall>c \<in> set (sty_item st). graphic c" "\<forall>c \<in> set (sty_key st). graphic c"
    using st by (auto simp: style_ok_def graphic_def code_def)
  have member: "graphic c" if "(k, v) \<in> set kvs" "c \<in> set (json_string (sty_ascii st) k @ sty_key st @ print_json st v)" for c k v
  proof -
    from that(1) JObj.prems(1) have "json_ok v" by (auto simp: list_all_iff)
    with JObj.IH [OF that(1), of v c] that st seps graphic_string [of c k] show ?thesis by auto
  qed
  let ?ms = "map (\<lambda>(k, v). json_string (sty_ascii st) k @ sty_key st @ print_json st v) kvs"
  have "graphic c" if "c \<in> set (join_with (sty_item st) ?ms)" for c
    using join_with_chars [OF that] seps member by auto
  with JObj.prems(2) show ?case by (auto simp: graphic_def code_def)
qed (auto simp: graphic_def code_def split: if_splits)

lemma graphic_not_line_feed: "graphic c \<Longrightarrow> c \<noteq> line_feed"
  by (auto simp: graphic_def line_feed_def code_def)

end
