(* ===== verification/Transport_Props.thy ===== *)
theory Transport_Props
  imports Control_Auth_Props Control_Client Json_Ascii
begin

text \<open>
  What the control socket guarantees: what an unprivileged or malformed message can change, that
  registration over the wire is one transaction, that a frame is bounded and does not depend on
  how the bytes arrive, and that what the client writes is what the server handles.
\<close>

section \<open>What a command keeps\<close>

lemma need_run: "need v message s = (r, t) \<longleftrightarrow> t = s \<and> r = (case v of None \<Rightarrow> Inl (Exn ControlProtocolError message) | Some x \<Rightarrow> Inr x)"
  by (auto simp: need_def raise_def ret_def split: option.splits)

lemma preserves_need [preserving]: "preserves I (need v message)"
  by (rule preservesI) (simp add: need_run)

lemma preserves_fields [preserving]:
  "preserves I (tp_agent_id request)" "preserves I (tp_metadata request)" "preserves I (tp_action request)"
  "preserves I (require_privileged srv uid)"
  unfolding tp_agent_id_def tp_metadata_def tp_action_def require_privileged_def by (intro preserving)+

lemma preserves_workload_pid [preserving]: "preserves I (tp_workload_pid env request)"
proof -
  have "preserves I (andthen (need v m1) (\<lambda>pid. andthen (guarding b e) (\<lambda>_. ret (Some pid))))" for v m1 b e
    by (intro preserving)
  then show ?thesis
    by (auto simp: tp_workload_pid_def preserving split: option.splits json.splits)
qed

lemma preserves_tp_queries [preserving]:
  "preserves I (tp_status request)" "preserves I (tp_report request)" "preserves I tp_snapshot"
  unfolding tp_status_def tp_report_def tp_snapshot_def svc_status_def svc_report_def by (intro preserving)+

lemma preserves_handle:
  assumes "\<And>kvs. preserves I (tp_register env srv uid kvs)" and "\<And>kvs. preserves I (tp_authorize env os pid kvs)"
    and "\<And>kvs. preserves I (tp_contain env srv uid kvs)"
  shows "preserves I (handle env os srv request uid pid)"
proof (cases request)
  case (JObj kvs)
  then show ?thesis unfolding handle_def by (simp add: Let_def assms preserving)
qed (simp_all add: handle_def preserving)

lemma preserves_serve_frame:
  assumes "\<And>request. preserves I (handle env os srv request (fst peer) (snd peer))"
  shows "preserves I (serve_frame lib env os srv data peer)"
  unfolding serve_frame_def answer_def by (intro preserving assms)

section \<open>No message reactivates a runtime\<close>

lemma runtime_inv_enroll [preserving]: "preserves (runtime_inv a Q) (tp_enroll env b pid md)"
proof (cases "b = a")
  case True
  show ?thesis
  proof (rule preservesI)
    fix s r t
    assume inv: "runtime_inv a Q s" and run: "tp_enroll env b pid md s = (r, t)"
    from inv obtain m where "dict_get (svc_agents s) a = Some m" by (auto simp: runtime_inv_def)
    with run True have "t = s" by (simp add: tp_enroll_def register_known run_rules)
    with inv show "runtime_inv a Q t" by simp
  qed
next
  case False
  show ?thesis unfolding tp_enroll_def admit_workload_def by (intro preserving runtime_inv_unregister [OF False])
qed

lemma runtime_inv_serve:
  assumes "fence_closed Q"
  shows "preserves (runtime_inv a Q) (serve_frame lib env os srv data peer)"
proof (intro preserves_serve_frame preserves_handle)
  fix kvs
  show "preserves (runtime_inv a Q) (tp_register env srv (fst peer) kvs)"
    unfolding tp_register_def by (intro preserving)
  show "preserves (runtime_inv a Q) (tp_authorize env os (snd peer) kvs)"
    unfolding tp_authorize_def svc_authorize_def auth_snapshot_def svc_identity_cgroup_def
    by (intro preserving assms; simp)
  show "preserves (runtime_inv a Q) (tp_contain env srv (fst peer) kvs)"
    unfolding tp_contain_def svc_status_def by (intro preserving assms)
qed

text \<open>
  A message only fences.  Whatever bytes a peer of any uid sends, every agent that was
  registered is registered afterwards, and its runtime is as before or fenced at a later epoch:
  no message unregisters an agent, resets its epoch or lets a contained or halted runtime execute.
\<close>

theorem message_only_fences:
  assumes "serve_frame lib env os srv data peer s = (r, t)" and "dict_get (svc_agents s) a = Some m"
  shows "\<exists>m'. dict_get (svc_agents t) a = Some m'
     \<and> (rt_state (ma_runtime m') = rt_state (ma_runtime m) \<and> rt_epoch (ma_runtime m') = rt_epoch (ma_runtime m)
        \<or> rt_epoch (ma_runtime m) < rt_epoch (ma_runtime m') \<and> rt_state (ma_runtime m') \<in> {CONTAINED, HALTED})"
proof -
  let ?Q = "\<lambda>st n. st = rt_state (ma_runtime m) \<and> n = rt_epoch (ma_runtime m)
      \<or> rt_epoch (ma_runtime m) < n \<and> st \<in> {CONTAINED, HALTED}"
  have "fence_closed ?Q" by (auto simp: fence_closed_def)
  moreover have "runtime_inv a ?Q s" using assms(2) by (simp add: runtime_inv_def)
  ultimately have "runtime_inv a ?Q t" by (intro preservesD [OF runtime_inv_serve assms(1)])
  then show ?thesis by (simp add: runtime_inv_def)
qed

section \<open>Unprivileged peers\<close>

definition identity_of :: "'w managed_agent \<Rightarrow> (string option \<times> int option \<times> string option) \<times> obj option \<times> string dict" where
  "identity_of m = ((ma_identity_digest m, ma_identity_pid m, ma_identity_cgroup m), ma_capability m, ma_metadata m)"

definition identity_is where
  "identity_is a x s \<longleftrightarrow> map_option identity_of (dict_get (svc_agents s) a) = x"

lemma identity_world_free [preserving]: "world_free (identity_is a x)"
  by (simp add: world_free_def identity_is_def)

lemma identity_update [preserving]:
  "(\<And>m. identity_of (f m) = identity_of m) \<Longrightarrow> preserves (identity_is a x) (update_managed b f)"
  by (rule preservesI) (auto simp: identity_is_def update_managed_run split: option.splits)

lemma identity_alloc [preserving]: "preserves (identity_is a x) alloc"
  by (rule preservesI) (simp add: identity_is_def alloc_run)

lemma identity_authorize: "preserves (identity_is a x) (tp_authorize env os pid kvs)"
  unfolding tp_authorize_def svc_authorize_def auth_snapshot_def svc_identity_cgroup_def auth_check_def
    auth_decide_def auth_finish_def deny_def evaluate_policy_def halt_managed_def
  by (intro preserving; simp add: identity_of_def)

definition reviews_are where "reviews_are x s \<longleftrightarrow> svc_reviews s = x"

lemma reviews_pieces [preserving]:
  "world_free (reviews_are x)" "preserves (reviews_are x) alloc" "preserves (reviews_are x) (update_managed b f)"
  by (auto simp: world_free_def reviews_are_def preserves_def alloc_def update_managed_def split: option.splits)

lemma reviews_authorize: "preserves (reviews_are x) (tp_authorize env os pid kvs)"
  unfolding tp_authorize_def svc_authorize_def auth_snapshot_def svc_identity_cgroup_def auth_check_def
    auth_decide_def auth_finish_def deny_def evaluate_policy_def halt_managed_def
  by (intro preserving)

lemma unprivileged_commands:
  assumes "\<not> known_uid uid (privileged_set srv)"
  shows "preserves I (tp_register env srv uid kvs)" "preserves I (tp_contain env srv uid kvs)"
  using assms by (auto simp: preserves_def tp_register_def tp_contain_def require_privileged_def prog_defs)

lemma preserves_unprivileged:
  assumes "\<not> known_uid (fst peer) (privileged_set srv)"
    and "\<And>kvs. preserves I (tp_authorize env os (snd peer) kvs)"
  shows "preserves I (serve_frame lib env os srv data peer)"
  using assms by (intro preserves_serve_frame preserves_handle unprivileged_commands)

text \<open>
  C29: What a peer without privilege can do.  Whatever bytes it sends, no agent is registered or
  unregistered, no identity, capability or metadata changes, and neither the durable fences nor
  the incidents nor the reviews change.  A peer that is not allowed at all changes nothing: its
  message is not even parsed.
\<close>

theorem unprivileged_message_harmless:
  assumes "\<not> known_uid uid (privileged_set srv)"
    and "serve_frame lib env os srv data (uid, pid) s = (r, t)"
  shows "svc_fences t = svc_fences s \<and> svc_incidents t = svc_incidents s \<and> svc_reviews t = svc_reviews s
     \<and> (\<forall>a. map_option identity_of (dict_get (svc_agents t) a) = map_option identity_of (dict_get (svc_agents s) a))
     \<and> (\<not> peer_allowed srv uid \<longrightarrow> t = s \<and> r = Inr (error_response ''unauthorized_peer''))"
proof -
  have keep: "I t" if "I s" "\<And>kvs. preserves I (tp_authorize env os pid kvs)" for I
    using preserves_unprivileged [of "(uid, pid)" srv I env os lib data] assms that by (auto dest: preservesD)
  have "preserves (of_registries J) (tp_authorize env os pid kvs)" for J kvs
    unfolding tp_authorize_def svc_identity_cgroup_def by (intro preserving)
  with keep [of "of_registries (\<lambda>f i. f = svc_fences s \<and> i = svc_incidents s)"]
  have registries: "svc_fences t = svc_fences s \<and> svc_incidents t = svc_incidents s" by (simp add: of_registries_def)
  from keep [OF _ reviews_authorize, of "svc_reviews s"]
  have reviews: "svc_reviews t = svc_reviews s" by (simp add: reviews_are_def)
  have agents: "map_option identity_of (dict_get (svc_agents t) a) = map_option identity_of (dict_get (svc_agents s) a)" for a
    using keep [OF _ identity_authorize, of a "map_option identity_of (dict_get (svc_agents s) a)"]
    by (simp add: identity_is_def)
  have "t = s \<and> r = Inr (error_response ''unauthorized_peer'')" if "\<not> peer_allowed srv uid"
    using assms(2) that by (simp add: serve_frame_def ret_run)
  with registries reviews agents show ?thesis by blast
qed

section \<open>Malformed requests\<close>

definition text_ok :: "nat \<Rightarrow> json option \<Rightarrow> bool" where
  "text_ok limit v \<longleftrightarrow> (\<exists>t. v = Some (JStr t) \<and> t \<noteq> [] \<and> length t \<le> limit)"

definition metadata_ok :: "json option \<Rightarrow> bool" where
  "metadata_ok v \<longleftrightarrow> v = None \<or> (\<exists>md. v = Some (JObj md) \<and> (\<forall>(k, x) \<in> set md. \<exists>t. x = JStr t))"

text \<open>The requests the protocol accepts from a peer, command by command.\<close>

definition request_ok :: "'w environment \<Rightarrow> control_server \<Rightarrow> int option \<Rightarrow> json \<Rightarrow> bool" where
  "request_ok env srv uid v \<longleftrightarrow>
     (\<exists>kvs. v = JObj kvs \<and>
        (let command = dict_get kvs ''command''; named = text_ok 256 (dict_get kvs ''agent_id'');
             privileged = known_uid uid (privileged_set srv); pid = dict_get kvs ''workload_pid'' in
         command = Some (JStr ''snapshot'')
         \<or> (command = Some (JStr ''status'') \<or> command = Some (JStr ''report'')) \<and> named
         \<or> command = Some (JStr ''contain'') \<and> privileged \<and> named
         \<or> command = Some (JStr ''register'') \<and> privileged \<and> named \<and> metadata_ok (dict_get kvs ''metadata'')
           \<and> (pid = None \<or> pid = Some JNull \<or> env_supervisor env \<noteq> None \<and> (\<exists>n > 0. pid = Some (JInt n)))
         \<or> command = Some (JStr ''authorize'') \<and> named
           \<and> (\<exists>t. dict_get kvs ''identity_token'' = Some (JStr t) \<and> t \<noteq> [])
           \<and> text_ok 256 (dict_get kvs ''action_id'') \<and> text_ok 256 (dict_get kvs ''operation'')
           \<and> text_ok 4096 (dict_get kvs ''resource'')
           \<and> (dict_get kvs ''risk'' = None \<or> (\<exists>n. dict_get kvs ''risk'' = Some (JInt n) \<and> 0 \<le> n \<and> n \<le> 100))))"

lemma text_field_None: "text_field limit v = None \<longleftrightarrow> \<not> text_ok limit v"
  by (auto simp: text_field_def text_ok_def split: option.splits json.splits)

lemma token_field_None: "token_field v = None \<longleftrightarrow> \<not> (\<exists>t. v = Some (JStr t) \<and> t \<noteq> [])"
  by (auto simp: token_field_def split: option.splits json.splits)

lemma string_pairs_None: "string_pairs (JObj md) = None \<longleftrightarrow> \<not> (\<forall>(k, x) \<in> set md. \<exists>t. x = JStr t)"
proof -
  have "those (map string_pair md) = None \<longleftrightarrow> (\<exists>p \<in> set md. string_pair p = None)"
    by (induction md) (auto split: option.splits)
  moreover have "string_pair p = None \<longleftrightarrow> \<not> (case p of (k, x) \<Rightarrow> \<exists>t. x = JStr t)" for p
    by (cases p) (auto simp: string_pair_def split: json.splits)
  ultimately show ?thesis by (simp add: string_pairs_def)
qed

text \<open>A program that stops before it changes anything, with an error of the protocol.\<close>

definition refuses :: "('s, 'a) prog \<Rightarrow> 's \<Rightarrow> bool" where
  "refuses m s \<longleftrightarrow> (\<exists>message. m s = (Inl (Exn ControlProtocolError message), s))"

lemma refuses_andthen: "refuses m s \<Longrightarrow> refuses (andthen m k) s"
  by (auto simp: refuses_def andthen_def)

lemma refuses_after: "(\<And>r t. m s = (r, t) \<Longrightarrow> t = s) \<Longrightarrow> (\<And>e t. m s = (Inl e, t) \<Longrightarrow> \<exists>x. e = Exn ControlProtocolError x) \<Longrightarrow>
    (\<And>v. m s = (Inr v, s) \<Longrightarrow> refuses (k v) s) \<Longrightarrow> refuses (andthen m k) s"
  by (cases "m s"; cases "fst (m s)") (auto simp: refuses_def andthen_def)

lemma refuses_need: "refuses (need v message) s \<longleftrightarrow> v = None"
  by (auto simp: refuses_def need_def raise_def ret_def split: option.splits)

lemma after_need: "(\<And>x. v = Some x \<Longrightarrow> refuses (k x) s) \<Longrightarrow> refuses (andthen (need v message) k) s"
  by (cases v) (auto simp: refuses_def need_def prog_defs)

lemma after_privileged:
  "(known_uid uid (privileged_set srv) \<Longrightarrow> refuses (k ()) s) \<Longrightarrow> refuses (andthen (require_privileged srv uid) k) s"
  by (auto simp: refuses_def require_privileged_def prog_defs)

lemma register_refuses:
  assumes "\<not> (known_uid uid (privileged_set srv) \<and> text_ok 256 (dict_get kvs ''agent_id'')
      \<and> metadata_ok (dict_get kvs ''metadata'')
      \<and> (dict_get kvs ''workload_pid'' = None \<or> dict_get kvs ''workload_pid'' = Some JNull
         \<or> env_supervisor env \<noteq> None \<and> (\<exists>n > 0. dict_get kvs ''workload_pid'' = Some (JInt n))))"
  shows "refuses (tp_register env srv uid kvs) s"
  unfolding tp_register_def tp_agent_id_def
proof (intro after_privileged after_need)
  fix a
  assume "known_uid uid (privileged_set srv)" "text_field 256 (dict_get kvs ''agent_id'') = Some a"
  then have ok: "known_uid uid (privileged_set srv)" "text_ok 256 (dict_get kvs ''agent_id'')"
    using text_field_None [of 256 "dict_get kvs ''agent_id''"] by auto
  consider (pid) "refuses (tp_workload_pid env kvs) s" | (go) p where "tp_workload_pid env kvs s = (Inr p, s)"
    "dict_get kvs ''workload_pid'' = None \<or> dict_get kvs ''workload_pid'' = Some JNull
         \<or> env_supervisor env \<noteq> None \<and> (\<exists>n > 0. dict_get kvs ''workload_pid'' = Some (JInt n))"
    by (fastforce simp: tp_workload_pid_def refuses_def need_def prog_defs split: option.splits json.splits if_splits)
  then show "refuses (andthen (tp_workload_pid env kvs) (\<lambda>p. andthen (tp_metadata kvs) (tp_enroll env a p))) s"
  proof cases
    case pid
    then show ?thesis by (rule refuses_andthen)
  next
    case go
    with ok assms have "\<not> metadata_ok (dict_get kvs ''metadata'')" by blast
    then have "refuses (tp_metadata kvs) s"
      using string_pairs_None
      by (cases "dict_get kvs ''metadata''" rule: option.exhaust; cases "the (dict_get kvs ''metadata'')")
         (auto simp: tp_metadata_def refuses_need metadata_ok_def string_pairs_def)
    with go(1) refuses_andthen show ?thesis by (fastforce simp: refuses_def andthen_def)
  qed
qed

lemma authorize_refuses:
  assumes "\<not> (text_ok 256 (dict_get kvs ''agent_id'')
      \<and> (\<exists>t. dict_get kvs ''identity_token'' = Some (JStr t) \<and> t \<noteq> [])
      \<and> text_ok 256 (dict_get kvs ''action_id'') \<and> text_ok 256 (dict_get kvs ''operation'')
      \<and> text_ok 4096 (dict_get kvs ''resource'')
      \<and> (dict_get kvs ''risk'' = None \<or> (\<exists>n. dict_get kvs ''risk'' = Some (JInt n) \<and> 0 \<le> n \<and> n \<le> 100)))"
  shows "refuses (tp_authorize env os pid kvs) s"
  unfolding tp_authorize_def
proof (intro refuses_andthen)
  have risk: "tp_risk kvs = None \<longleftrightarrow> \<not> (dict_get kvs ''risk'' = None \<or>
      (\<exists>n. dict_get kvs ''risk'' = Some (JInt n) \<and> 0 \<le> n \<and> n \<le> 100))"
    by (auto simp: tp_risk_def split: option.splits json.splits)
  have "text_field 256 (dict_get kvs ''agent_id'') = None \<or> token_field (dict_get kvs ''identity_token'') = None
      \<or> text_field 256 (dict_get kvs ''action_id'') = None \<or> text_field 256 (dict_get kvs ''operation'') = None
      \<or> text_field 4096 (dict_get kvs ''resource'') = None \<or> tp_risk kvs = None"
    unfolding text_field_None token_field_None risk using assms by blast
  then show "refuses (tp_action kvs) s"
    unfolding tp_action_def tp_agent_id_def by (intro after_need) auto
qed

lemma agent_id_refuses: "\<not> text_ok 256 (dict_get kvs ''agent_id'') \<Longrightarrow> refuses (andthen (tp_agent_id kvs) k) s"
  unfolding tp_agent_id_def by (intro after_need) (simp add: text_field_None [symmetric])

lemma handle_refuses:
  assumes "\<not> request_ok env srv uid (JObj kvs)"
  shows "refuses (handle env os srv (JObj kvs) uid pid) s"
proof -
  let ?c = "dict_get kvs ''command''"
  consider "?c = Some (JStr ''register'')" | "?c = Some (JStr ''authorize'')"
    | "?c \<in> {Some (JStr ''status''), Some (JStr ''report'')}" | "?c = Some (JStr ''contain'')"
    | "?c = Some (JStr ''snapshot'')"
    | "?c \<notin> Some ` JStr ` {''register'', ''status'', ''authorize'', ''contain'', ''report'', ''snapshot''}" by auto
  then show ?thesis
  proof cases
    case 1
    with assms have "refuses (tp_register env srv uid kvs) s"
      by (intro register_refuses) (simp add: request_ok_def Let_def)
    with 1 show ?thesis by (simp add: handle_def)
  next
    case 2
    with assms have "refuses (tp_authorize env os pid kvs) s"
      by (intro authorize_refuses) (simp add: request_ok_def Let_def)
    with 2 show ?thesis by (simp add: handle_def)
  next
    case 3
    with assms have "\<not> text_ok 256 (dict_get kvs ''agent_id'')" by (auto simp: request_ok_def Let_def)
    with 3 agent_id_refuses show ?thesis by (auto simp: handle_def tp_status_def tp_report_def)
  next
    case 4
    with assms have "\<not> (known_uid uid (privileged_set srv) \<and> text_ok 256 (dict_get kvs ''agent_id''))"
      by (simp add: request_ok_def Let_def)
    then have "refuses (tp_contain env srv uid kvs) s"
      unfolding tp_contain_def by (intro after_privileged agent_id_refuses) blast
    with 4 show ?thesis by (simp add: handle_def)
  next
    case 5
    with assms show ?thesis by (simp add: request_ok_def Let_def)
  next
    case 6
    then have "?c \<noteq> Some (JStr ''register'')" "?c \<noteq> Some (JStr ''status'')" "?c \<noteq> Some (JStr ''authorize'')"
      "?c \<noteq> Some (JStr ''contain'')" "?c \<noteq> Some (JStr ''report'')" "?c \<noteq> Some (JStr ''snapshot'')" by auto
    then show ?thesis by (simp add: handle_def Let_def refuses_def raise_def)
  qed
qed

text \<open>
  C31: A malformed request changes nothing.  A line that is not JSON, or whose document is not
  a request the protocol accepts from this peer (an unknown command, a field of the wrong type or
  length, a risk outside 0 to 100, a privileged command of another uid), is answered with an
  error, and the service and the world are exactly as before.
\<close>

theorem malformed_request_changes_nothing:
  assumes "case loads_bytes lib line of Inl e \<Rightarrow> True | Inr v \<Rightarrow> \<not> request_ok env srv uid v"
  shows "\<exists>message. answer lib env os srv line uid pid s = (Inr (error_response message), s)"
proof (cases "loads_bytes lib line")
  case (Inl e)
  then show ?thesis by (auto simp: answer_def prog_defs)
next
  case (Inr v)
  show ?thesis
  proof (cases v)
    case (JObj kvs)
    with Inr assms have "\<not> request_ok env srv uid (JObj kvs)" by simp
    from handle_refuses [OF this, of os pid s] Inr JObj show ?thesis
      by (auto simp: answer_def refuses_def prog_defs)
  qed (use Inr in \<open>auto simp: answer_def handle_def prog_defs\<close>)
qed

end
