(* ===== verification/Json_Prefix.thy ===== *)
theory Json_Prefix
  imports Json_Text
begin

text \<open>
  A JSON object is the end of its own text: what the decoder reads of a text it reads of every longer one, so no text
  cut off before its last character decodes.
\<close>

section \<open>More text after a value\<close>

lemma stops_append: "stops rest \<Longrightarrow> rest \<noteq> [] \<Longrightarrow> stops (rest @ x)"
  by (cases rest) (simp_all add: stops_def)

lemma skip_append: "skip s = c # cs \<Longrightarrow> skip (s @ x) = c # cs @ x"
  unfolding skip_def by (induction s) (auto split: if_splits)

lemma skip_spaces: "skip s = [] \<Longrightarrow> skip (s @ x) = skip x"
  unfolding skip_def by (induction s) (auto split: if_splits)

lemma prepend_append: "prepend c m = Some (v, r) \<Longrightarrow> (\<And>w. m = Some (w, r) \<Longrightarrow> n = Some (w, r @ x)) \<Longrightarrow> prepend c n = Some (v, r @ x)"
  by (auto simp: prepend_Some)

lemma parse_chars_append: "parse_chars s = Some (v, r) \<Longrightarrow> parse_chars (s @ x) = Some (v, r @ x)"
proof (induction s arbitrary: v r rule: parse_chars.induct)
  case (2 c cs)
  consider (quote) "c = dquote" | (escape) "c \<noteq> dquote" "c = backslash" | (plain) "c \<noteq> dquote" "c \<noteq> backslash" by blast
  then show ?case
  proof cases
    case quote
    with "2.prems" show ?thesis by simp
  next
    case escape
    with "2.prems" obtain e es where cs: "cs = e # es" by (cases cs) auto
    show ?thesis
    proof (cases "e = CHR ''u''")
      case True
      obtain h1 h2 h3 h4 rest where es: "es = h1 # h2 # h3 # h4 # rest"
        using "2.prems" escape cs True by (auto split: list.splits)
      with "2.prems" escape cs True obtain y where y: "hex_char h1 h2 h3 h4 = Some y" "prepend y (parse_chars rest) = Some (v, r)"
        by (auto split: option.splits)
      have "prepend y (parse_chars (rest @ x)) = Some (v, r @ x)"
        by (rule prepend_append [OF y(2)]) (rule "2.IH"(1) [OF escape cs True es [THEN trans, OF refl] refl refl refl y(1)])
      with escape cs True es y(1) show ?thesis by simp
    next
      case False
      with "2.prems" escape cs obtain y where y: "escape_meaning e = Some y" "prepend y (parse_chars es) = Some (v, r)"
        by (auto split: option.splits)
      have "prepend y (parse_chars (es @ x)) = Some (v, r @ x)"
        by (rule prepend_append [OF y(2)]) (rule "2.IH"(2) [OF escape cs False y(1)])
      with escape cs False y(1) show ?thesis by simp
    qed
  next
    case plain
    with "2.prems" have y: "\<not> code c < 32" "prepend c (parse_chars cs) = Some (v, r)" by (auto split: if_splits)
    have "prepend c (parse_chars (cs @ x)) = Some (v, r @ x)"
      by (rule prepend_append [OF y(2)]) (rule "2.IH"(3) [OF plain y(1)])
    with plain y(1) show ?thesis by simp
  qed
qed simp

lemma parse_string_append: "parse_string s = Some (v, r) \<Longrightarrow> parse_string (s @ x) = Some (v, r @ x)"
  by (cases s) (auto simp: parse_string_def parse_chars_append split: if_splits)

text \<open>A number that something which cannot continue it follows.\<close>

lemma split_parts:
  "fst (split_integer s) \<noteq> [] \<Longrightarrow> fst (split_integer s) @ snd (split_integer s) = s"
  "fst (split_fraction s) @ snd (split_fraction s) = s"
  "fst (split_exponent s) @ snd (split_exponent s) = s"
proof -
  show "fst (split_integer s) \<noteq> [] \<Longrightarrow> fst (split_integer s) @ snd (split_integer s) = s"
    by (cases s) (auto simp: split_integer_def split_digits_def)
  show "fst (split_fraction s) @ snd (split_fraction s) = s"
    by (cases s) (auto simp: split_fraction_def split_digits_def)
  show "fst (split_exponent s) @ snd (split_exponent s) = s"
  proof (cases s)
    case (Cons c cs)
    have "fst (split_sign cs) @ snd (split_sign cs) = cs" by (cases cs) (auto simp: split_sign_def)
    with Cons show ?thesis
      by (auto simp: split_exponent_def split_digits_def Let_def split: prod.splits if_splits)
  qed (simp add: split_exponent_def)
qed

lemma parse_unsigned_more:
  assumes run: "parse_unsigned neg s = Some (v, rest)" and st: "stops rest" "rest \<noteq> []"
  shows "parse_unsigned neg (s @ x) = Some (v, rest @ x)"
proof -
  define u where "u = fst (split_integer s) @ fst (split_fraction (snd (split_integer s)))
    @ fst (split_exponent (snd (split_fraction (snd (split_integer s)))))"
  have digits: "fst (split_integer s) \<noteq> []" and rest: "rest = snd (split_exponent (snd (split_fraction (snd (split_integer s)))))"
    using run by (auto simp: parse_unsigned_def Let_def split: prod.splits if_splits)
  have s: "s = u @ rest"
    using split_parts(1) [OF digits] split_parts(2) [of "snd (split_integer s)"]
      split_parts(3) [of "snd (split_fraction (snd (split_integer s)))"] rest
    unfolding u_def by (metis append_assoc)
  obtain c cs where u: "u = c # cs" using digits by (cases u) (auto simp: u_def)
  then have u_digits: "fst (split_integer u) \<noteq> []"
    using digits unfolding s by (auto simp: split_integer_def split_digits_def split: if_splits)
  note split = split_integer_append [OF st(1) u_digits] split_fraction_append [OF st(1), of "snd (split_integer u)"]
    split_exponent_append [OF st(1), of "snd (split_fraction (snd (split_integer u)))"]
  have "parse_unsigned neg u = Some (v, [])"
    using run u_digits split unfolding s by (auto simp: parse_unsigned_def Let_def split: prod.splits if_splits)
  from parse_unsigned_append [OF this stops_append [OF st, of x]] show ?thesis by (simp add: s)
qed

lemma starts_iff: "starts w s \<longleftrightarrow> (\<exists>r. s = w @ r)"
  unfolding starts_def by (metis append_eq_conv_conj append_take_drop_id)

lemma unsigned_head: "parse_unsigned neg s = Some (v, rest) \<Longrightarrow> \<exists>c cs. s = c # cs \<and> is_digit c"
proof -
  assume "parse_unsigned neg s = Some (v, rest)"
  then have "fst (split_integer s) \<noteq> []" by (auto simp: parse_unsigned_def Let_def split: prod.splits if_splits)
  then show ?thesis
    by (cases s) (auto simp: split_integer_def split_digits_def is_digit_def code_def split: if_splits)
qed

lemma parse_scalar_more:
  assumes run: "parse_scalar s = Some (v, rest)" and st: "stops rest" "rest \<noteq> []"
  shows "parse_scalar (s @ x) = Some (v, rest @ x)"
proof -
  consider r where "s = ''null'' @ r" | r where "s = ''true'' @ r" | r where "s = ''false'' @ r" | r where "s = ''NaN'' @ r"
    | r where "s = ''Infinity'' @ r" | r where "s = ''-Infinity'' @ r"
    | (minus) r where "s = CHR ''-'' # r" "\<not> starts ''-Infinity'' s" "parse_unsigned True r = Some (v, rest)"
    | (digits) "\<not> starts ''-'' s" "parse_unsigned False s = Some (v, rest)"
    using run by (auto simp: parse_scalar_def starts_iff split: if_splits)
  then show ?thesis
  proof cases
    case (minus r)
    from unsigned_head [OF minus(3)] obtain c cs where r: "r = c # cs" "is_digit c" by blast
    with minus(1) parse_unsigned_more [OF minus(3) st, of x] show ?thesis
      by (auto simp: parse_scalar_def starts_Cons is_digit_def code_def)
  next
    case digits
    from unsigned_head [OF digits(2)] obtain c cs where s: "s = c # cs" "is_digit c" by blast
    with parse_unsigned_more [OF digits(2) st, of x] digit_head [OF s(2)] show ?thesis
      by (auto simp: parse_scalar_def starts_Cons is_digit_def code_def)
  qed (use run in \<open>auto simp: parse_scalar_def starts_Cons\<close>)
qed

section \<open>More text after a document\<close>

text \<open>A text whose first value ends with its own last character: a string, a list or an object.\<close>

definition closed_value :: "string \<Rightarrow> bool" where
  "closed_value s \<longleftrightarrow> (case s of [] \<Rightarrow> False | c # _ \<Rightarrow> c \<in> {dquote, CHR ''['', CHR ''{''})"

lemma skip_stops: "skip r = c # cs \<Longrightarrow> c \<in> {CHR '','', CHR '']'', CHR ''}''} \<Longrightarrow> stops r \<and> r \<noteq> []"
  by (cases r) (auto simp: skip_def stops_def is_space_def is_digit_def code_def split: if_splits)

lemma starts_skip: "starts [c] (skip s) \<Longrightarrow> starts [c] (skip (s @ x)) \<and> drop 1 (skip (s @ x)) = drop 1 (skip s) @ x"
  by (cases "skip s") (auto simp: starts_Cons skip_append)

lemma starts_skip_not:
  "\<not> starts [c] (skip s) \<Longrightarrow> skip s \<noteq> [] \<Longrightarrow> \<not> starts [c] (skip (s @ x)) \<and> skip (s @ x) = skip s @ x"
  by (cases "skip s") (auto simp: starts_Cons skip_append)

lemma parse_more:
  "parse_value f s = Some (v, r) \<Longrightarrow> closed_value s \<or> stops r \<and> r \<noteq> [] \<Longrightarrow> parse_value f (s @ x) = Some (v, r @ x)"
  "parse_items f s = Some (vs, r) \<Longrightarrow> parse_items f (s @ x) = Some (vs, r @ x)"
  "parse_members f s = Some (kvs, r) \<Longrightarrow> parse_members f (s @ x) = Some (kvs, r @ x)"
proof (induction f arbitrary: s v vs kvs r)
  case (Suc f)
  { case 1
    then obtain c cs where s: "s = c # cs" by (cases s) auto
    consider (str) "c = dquote" | (arr) "c = CHR ''[''" | (obj) "c = CHR ''{''"
      | (num) "c \<notin> {dquote, CHR ''['', CHR ''{''}" by blast
    then show ?case
    proof cases
      case str
      with 1(1) s obtain w where "parse_chars cs = Some (w, r)" "v = JStr w" by auto
      with parse_chars_append [OF this(1), of x] str s show ?thesis by simp
    next
      case arr
      show ?thesis
      proof (cases "starts '']'' (skip cs)")
        case True
        with 1(1) s arr starts_skip [OF True, of x] show ?thesis by (auto simp: dquote_def)
      next
        case False
        with 1(1) s arr obtain vs where items: "parse_items f (skip cs) = Some (vs, r)" "v = JList vs"
          by (auto simp: dquote_def)
        then have "skip cs \<noteq> []" by (cases f) (auto simp: parse_value_empty)
        from starts_skip_not [OF False this, of x] have "\<not> starts '']'' (skip cs @ x)" "skip (cs @ x) = skip cs @ x"
          by metis+
        with Suc.IH(2) [OF items(1)] s arr items(2) show ?thesis by (simp add: dquote_def)
      qed
    next
      case obj
      show ?thesis
      proof (cases "starts ''}'' (skip cs)")
        case True
        with 1(1) s obj starts_skip [OF True, of x] show ?thesis by (auto simp: dquote_def)
      next
        case False
        with 1(1) s obj obtain kvs where members: "parse_members f (skip cs) = Some (kvs, r)" "v = JObj (dict_of_pairs kvs)"
          by (auto simp: dquote_def)
        then have "skip cs \<noteq> []" by (cases f) (auto simp: parse_string_def)
        from starts_skip_not [OF False this, of x] have "\<not> starts ''}'' (skip cs @ x)" "skip (cs @ x) = skip cs @ x"
          by metis+
        with Suc.IH(3) [OF members(1)] s obj members(2) show ?thesis by (simp add: dquote_def)
      qed
    next
      case num
      with 1 s have "parse_scalar s = Some (v, r)" "stops r" "r \<noteq> []" by (auto simp: closed_value_def)
      from parse_scalar_more [OF this, of x] num s show ?thesis by simp
    qed
  next
    case 2
    then obtain v rest c cs where first: "parse_value f s = Some (v, rest)" "skip rest = c # cs"
      and last: "c = CHR '','' \<and> (\<exists>ws. parse_items f (skip cs) = Some (ws, r) \<and> vs = v # ws) \<or> c = CHR '']'' \<and> r = cs \<and> vs = [v]"
      by (auto split: option.splits list.splits if_splits)
    have st: "stops rest \<and> rest \<noteq> []" using skip_stops [OF first(2)] last by auto
    note elem = Suc.IH(1) [OF first(1) disjI2 [OF st]]
    note after = skip_append [OF first(2), of x]
    from last show ?case
    proof (elim disjE exE conjE)
      fix ws
      assume more: "c = CHR '',''" "parse_items f (skip cs) = Some (ws, r)" "vs = v # ws"
      then have "skip cs \<noteq> []" by (cases f) (auto simp: parse_value_empty)
      then have "skip (cs @ x) = skip cs @ x" using skip_append by (cases "skip cs") auto
      with elem after more Suc.IH(2) [OF more(2)] show ?thesis by simp
    qed (use elem after in simp)
  next
    case 3
    then obtain k r1 r2 v r3 c cs where key: "parse_string s = Some (k, r1)" "skip r1 = CHR '':'' # r2"
      and first: "parse_value f (skip r2) = Some (v, r3)" "skip r3 = c # cs"
      and last: "c = CHR '','' \<and> (\<exists>ws. parse_members f (skip cs) = Some (ws, r) \<and> kvs = (k, v) # ws)
        \<or> c = CHR ''}'' \<and> r = cs \<and> kvs = [(k, v)]"
      by (auto split: option.splits list.splits if_splits)
    have st: "stops r3 \<and> r3 \<noteq> []" using skip_stops [OF first(2)] last by auto
    have "skip r2 \<noteq> []" using first(1) by (auto simp: parse_value_empty)
    then have r2: "skip (r2 @ x) = skip r2 @ x" using skip_append by (cases "skip r2") auto
    note elem = Suc.IH(1) [OF first(1) disjI2 [OF st]]
    note before = parse_string_append [OF key(1), of x] skip_append [OF key(2), of x] r2
    note after = skip_append [OF first(2), of x]
    from last show ?case
    proof (elim disjE exE conjE)
      fix ws
      assume more: "c = CHR '',''" "parse_members f (skip cs) = Some (ws, r)" "kvs = (k, v) # ws"
      then have "skip cs \<noteq> []" by (cases f) (auto simp: parse_string_def)
      then have "skip (cs @ x) = skip cs @ x" using skip_append by (cases "skip cs") auto
      with before elem after more Suc.IH(3) [OF more(2)] show ?thesis by simp
    qed (use before elem after in simp) }
qed simp_all

text \<open>A text that is cut anywhere inside an object is refused.\<close>

lemma cut_object_fails:
  assumes "style_ok st" and "json_ok (JObj kvs)" and "print_json st (JObj kvs) = short @ x" and "x \<noteq> []" and "short \<noteq> []"
  shows "\<exists>m. json_loads lib short = Inl (Exn JSONDecodeError m)"
proof (rule ccontr)
  assume "\<not> ?thesis"
  then obtain v rest where short: "parse_value (2 * length short + 1) (skip short) = Some (v, rest)" "skip rest = []"
    by (auto simp: json_loads_def split: option.splits if_splits)
  obtain cs where head: "short = CHR ''{'' # cs" using assms(3,5) by (cases short) auto
  then have skip: "skip short = short" by (simp add: skip_def is_space_def code_def)
  let ?t = "print_json st (JObj kvs)"
  let ?f = "2 * length ?t + 1"
  have "length short \<le> length ?t" using arg_cong [OF assms(3), of length] by simp
  then have "parse_value ?f short = Some (v, rest)"
    using json_loads_fuel [of short ?f] short(1) by (simp add: skip)
  moreover have "closed_value short" by (simp add: closed_value_def head)
  ultimately have "parse_value ?f (short @ x) = Some (v, rest @ x)" using parse_more(1) by blast
  moreover have "parse_value ?f ?t = Some (JObj kvs, [])"
    using print_reads_back [OF assms(1,2), unfolded reads_back_def, THEN spec [of _ ?f], THEN spec [of _ "[]"]]
    by (simp add: stops_def del: print_json.simps)
  ultimately have "Some (v, rest @ x) = Some (JObj kvs, [])" by (simp only: assms(3))
  with assms(4) show False by simp
qed

end
