(* ===== verification/Frame_Props.thy ===== *)
theory Frame_Props
  imports Control_Client Json_Ascii Json_Prefix
begin

text \<open>
  Messages on the control socket: the frame a side reads is bounded and is the line the other
  side wrote, however the socket cuts it into chunks, and both sides mean the same document.
\<close>

section \<open>Reading a frame\<close>

text \<open>
  What a stream socket promises: while bytes are pending, \<open>recv n\<close> returns some of the next
  ones, at least one and at most \<open>n\<close>; and it never returns more than \<open>n\<close>.
\<close>

definition delivers :: "(nat \<Rightarrow> ('w, string) prog) \<Rightarrow> ('w \<Rightarrow> string) \<Rightarrow> bool" where
  "delivers recv pending \<longleftrightarrow>
     (\<forall>n w. 0 < n \<and> pending w \<noteq> [] \<longrightarrow>
        (\<exists>c w'. recv n w = (Inr c, w') \<and> c \<noteq> [] \<and> length c \<le> n \<and> pending w = c @ pending w'))"

definition bounded_recv :: "(nat \<Rightarrow> ('w, string) prog) \<Rightarrow> bool" where
  "bounded_recv recv \<longleftrightarrow> (\<forall>n w c w'. recv n w = (Inr c, w') \<longrightarrow> length c \<le> n)"

lemma read_frame_bound:
  "bounded_recv recv \<Longrightarrow> read_frame recv limit data w = (Inr d, w') \<Longrightarrow> length data \<le> limit + 1 \<Longrightarrow>
     length d \<le> limit + 1"
proof (induction recv limit data w rule: read_frame.induct)
  case (1 recv limit data w)
  show ?case
  proof (cases "length data \<le> limit")
    case True
    obtain x u where step: "recv (min 4096 (limit + 1 - length data)) w = (x, u)" by fastforce
    show ?thesis
    proof (cases x)
      case (Inl e)
      with step True "1.prems"(2) show ?thesis by (subst (asm) read_frame.simps) simp
    next
      case (Inr c)
      with step "1.prems"(1) have "length c \<le> min 4096 (limit + 1 - length data)"
        unfolding bounded_recv_def by blast
      with True have "length (data @ c) \<le> limit + 1" by (simp; arith)
      with step True Inr "1.prems" "1.IH" [OF True step [symmetric] Inr] show ?thesis
        by (auto simp: read_frame.simps [of recv limit data w] split: if_splits)
    qed
  qed (use "1.prems" in \<open>simp add: read_frame.simps\<close>)
qed

text \<open>A line that fits is read whole, and nothing of what follows it, if nothing does.\<close>

lemma read_frame_line:
  "delivers recv pending \<Longrightarrow> pending w \<noteq> [] \<Longrightarrow> data @ pending w = line @ [line_feed] \<Longrightarrow> line_feed \<notin> set line \<Longrightarrow>
     length line \<le> limit \<Longrightarrow> \<exists>w'. read_frame recv limit data w = (Inr (line @ [line_feed]), w') \<and> pending w' = []"
proof (induction recv limit data w rule: read_frame.induct)
  case (1 recv limit data w)
  have len: "length data + length (pending w) = length line + 1"
    using arg_cong [OF "1.prems"(3), of length] by simp
  with "1.prems"(2,5) have short: "length data \<le> limit" by (cases "pending w") auto
  then have "0 < min 4096 (limit + 1 - length data)" by simp
  with "1.prems"(1,2) obtain c u where step: "recv (min 4096 (limit + 1 - length data)) w = (Inr c, u)"
    and c: "c \<noteq> []" "pending w = c @ pending u"
    unfolding delivers_def by blast
  show ?case
  proof (cases "line_feed \<in> set c")
    case True
    have "pending u = []"
    proof (rule ccontr)
      assume "pending u \<noteq> []"
      with "1.prems"(3) c(2) have "line = data @ c @ butlast (pending u)"
        by (metis append_assoc butlast_append butlast_snoc)
      with True "1.prems"(4) show False by simp
    qed
    with step short c True "1.prems"(3) show ?thesis by (subst read_frame.simps) simp
  next
    case False
    have more_left: "pending u \<noteq> []"
    proof
      assume "pending u = []"
      with "1.prems"(3) c have "line_feed = last c" by (metis append_Nil2 last_appendR last_snoc)
      with False c(1) last_in_set [of c] show False by simp
    qed
    have "(data @ c) @ pending u = line @ [line_feed]" using "1.prems"(3) c(2) by simp
    from "1.IH" [OF short step [symmetric] refl c(1) False "1.prems"(1) more_left this "1.prems"(4,5)]
    show ?thesis using step short c(1) False by (subst read_frame.simps) simp
  qed
qed

text \<open>A longer line is cut one byte beyond the limit.\<close>

lemma read_frame_long:
  "delivers recv pending \<Longrightarrow> line_feed \<notin> set (take (limit + 1) (data @ pending w)) \<Longrightarrow> length data \<le> limit + 1 \<Longrightarrow>
     limit < length (data @ pending w) \<Longrightarrow> \<exists>w'. read_frame recv limit data w = (Inr (take (limit + 1) (data @ pending w)), w')"
proof (induction recv limit data w rule: read_frame.induct)
  case (1 recv limit data w)
  show ?case
  proof (cases "length data \<le> limit")
    case True
    with "1.prems"(4) have "pending w \<noteq> []" "0 < min 4096 (limit + 1 - length data)" by auto
    with "1.prems"(1) obtain c u where step: "recv (min 4096 (limit + 1 - length data)) w = (Inr c, u)"
      and c: "c \<noteq> []" "pending w = c @ pending u" "length c \<le> min 4096 (limit + 1 - length data)"
      unfolding delivers_def by blast
    have "take (limit + 1) (data @ pending w) = data @ c @ take (limit + 1 - length (data @ c)) (pending u)"
      using c(2,3) True by simp
    then have "set c \<subseteq> set (take (limit + 1) (data @ pending w))" by (simp only: set_append) blast
    with "1.prems"(2) have no_feed: "line_feed \<notin> set c" by blast
    have "length (data @ c) \<le> limit + 1" using True c(3) by (simp; arith)
    with "1.IH" [OF True step [symmetric] refl c(1) no_feed "1.prems"(1)] "1.prems"(2,4) c(2) step True c(1) no_feed
    show ?thesis by (subst read_frame.simps) simp
  next
    case False
    with "1.prems"(3) show ?thesis by (subst read_frame.simps) simp
  qed
qed

text \<open>
  C32: Reading a frame is bounded and does not depend on how the bytes arrive.  No peer makes
  the server hold more than one byte above the limit; a line that fits, with nothing after it, is
  read exactly, whatever chunks the socket returns; a longer one is cut one byte beyond the limit,
  whatever chunks, so that it is refused as too large.
\<close>

theorem frame_bounded:
  assumes "bounded_recv recv" and "delivers recv pending"
  shows "(read_frame recv limit [] w = (Inr d, w') \<longrightarrow> length d \<le> limit + 1)
     \<and> (pending w = line @ [line_feed] \<and> line_feed \<notin> set line \<and> length line \<le> limit \<longrightarrow>
          fst (read_frame recv limit [] w) = Inr (line @ [line_feed]))
     \<and> (line_feed \<notin> set (take (limit + 1) (pending w)) \<and> limit < length (pending w) \<longrightarrow>
          fst (read_frame recv limit [] w) = Inr (take (limit + 1) (pending w)))"
proof (intro conjI impI; (elim conjE)?)
  show "read_frame recv limit [] w = (Inr d, w') \<Longrightarrow> length d \<le> limit + 1"
    by (erule read_frame_bound [OF assms(1)]) simp
next
  assume "pending w = line @ [line_feed]" "line_feed \<notin> set line" "length line \<le> limit"
  with read_frame_line [OF assms(2), of w "[]" line limit]
  show "fst (read_frame recv limit [] w) = Inr (line @ [line_feed])" by auto
next
  assume "line_feed \<notin> set (take (limit + 1) (pending w))" "limit < length (pending w)"
  with read_frame_long [OF assms(2), of limit "[]" w]
  show "fst (read_frame recv limit [] w) = Inr (take (limit + 1) (pending w))" by auto
qed

section \<open>Client and server\<close>

lemma object_shape: "\<exists>u. print_json st (JObj kvs) = CHR ''{'' # u @ ''}''"
  by simp

lemma split_first_line: "line_feed \<notin> set l \<Longrightarrow> hd (split_at_most 1 line_feed (l @ [line_feed])) = l"
proof -
  assume "line_feed \<notin> set l"
  then have "takeWhile (\<lambda>d. d \<noteq> line_feed) (l @ [line_feed]) = l" by (induction l) auto
  then show ?thesis by (simp add: partition_at_def)
qed

lemma split_no_feed: "line_feed \<notin> set l \<Longrightarrow> hd (split_at_most 1 line_feed l) = l"
proof -
  assume "line_feed \<notin> set l"
  then have "takeWhile (\<lambda>d. d \<noteq> line_feed) l = l" by (induction l) auto
  then show ?thesis by (simp add: partition_at_def)
qed

lemma strip_braces: "bytes_strip (CHR ''{'' # u @ ''}'') = CHR ''{'' # u @ ''}''"
  by (simp add: bytes_strip_def byte_space_def code_def)

lemma object_no_feed: "style_ok st \<Longrightarrow> sty_ascii st \<Longrightarrow> json_ok v \<Longrightarrow> line_feed \<notin> set (print_json st v)"
  using print_graphic graphic_not_line_feed by blast

lemma frame_line_object:
  assumes "style_ok st" "sty_ascii st" "json_ok (JObj kvs)"
  shows "frame_line (print_json st (JObj kvs) @ [line_feed]) = print_json st (JObj kvs)"
  using split_first_line [OF object_no_feed [OF assms]] strip_braces object_shape [of st kvs]
  unfolding frame_line_def by metis

definition decodes_ascii :: "'a wire_library_scheme \<Rightarrow> bool" where
  "decodes_ascii lib \<longleftrightarrow> (\<forall>t. (\<forall>c \<in> set t. graphic c) \<longrightarrow> lib_decode lib t = Inr t)"

lemma loads_bytes_print:
  assumes "decodes_ascii lib" "style_ok st" "sty_ascii st" "json_ok v" "floats_read (lib_float lib) v"
  shows "loads_bytes lib (print_json st v) = Inr v"
proof -
  have "lib_decode lib (print_json st v) = Inr (print_json st v)"
    using assms(1) print_graphic [OF assms(2-4)] by (simp add: decodes_ascii_def)
  with loads_print [OF assms(2,4,5)] show ?thesis by (simp add: loads_bytes_def)
qed

lemma ascii_styles [simp]: "sty_ascii compact_style" "sty_ascii plain_style"
  by (simp_all add: compact_style_def plain_style_def)

text \<open>A request as the client writes it is read back and handled.\<close>

lemma serve_request:
  fixes lib :: "'a wire_library_scheme"
  defines "doc \<equiv> \<lambda>command args. JObj ((''command'', JStr command) # args)"
  assumes "decodes_ascii lib" and "json_ok (doc command args)" and "floats_read (lib_float lib) (doc command args)"
    and "length (request_bytes command args) \<le> srv_max_message_bytes srv" and "peer_allowed srv uid"
  shows "serve_frame lib env os srv (request_bytes command args) (uid, pid)
         = catch (handle env os srv (doc command args) uid pid) (\<lambda>e. ret (error_response (reported e)))"
proof -
  let ?t = "print_json compact_style (doc command args)"
  have bytes: "request_bytes command args = ?t @ [line_feed]" by (simp add: request_bytes_def doc_def)
  have line: "frame_line (request_bytes command args) = ?t"
    unfolding bytes doc_def by (rule frame_line_object) (use assms(3) in \<open>simp_all only: styles_ok ascii_styles doc_def\<close>)
  have read: "loads_bytes lib ?t = Inr (doc command args)"
    using loads_bytes_print [OF assms(2)] assms(3,4) by simp
  have "?t \<noteq> []" by (simp add: doc_def)
  with line read assms(5,6) show ?thesis
    by (simp add: serve_frame_def answer_def fun_eq_iff prog_defs)
qed

text \<open>A response as the server writes it, once it is read whole, is the dictionary with its keys sorted.\<close>

lemma parse_response_text:
  fixes lib :: "'a wire_library_scheme"
  assumes "decodes_ascii lib" and "json_ok (JObj kvs)" and "floats_read (lib_float lib) (JObj kvs)"
    and "sort_json (JObj kvs) = JObj srt" and "feed \<in> {[], [line_feed]}"
  shows "parse_response lib (dumps plain_style (JObj kvs) @ feed) = Inr srt"
proof -
  let ?t = "print_json plain_style (JObj srt)"
  have t: "dumps plain_style (JObj kvs) = ?t" by (simp only: dumps_def assms(4))
  have ok: "json_ok (JObj srt)" using json_ok_sort [OF assms(2)] by (simp only: assms(4))
  have floats: "floats_read (lib_float lib) (JObj srt)"
    using assms(3) read_floats_sort [of "lib_float lib" "JObj kvs"] by (simp only: floats_read_def assms(4))
  have "lib_decode lib ?t = Inr ?t"
    using assms(1) print_graphic [of plain_style "JObj srt"] ok by (simp only: decodes_ascii_def) simp
  moreover have "hd (split_at_most 1 line_feed (?t @ feed)) = ?t"
    using split_first_line [OF object_no_feed [of plain_style "JObj srt"]]
      split_no_feed [OF object_no_feed [of plain_style "JObj srt"]] ok assms(5)
    by (auto simp del: split_at_most.simps print_json.simps)
  moreover have "?t \<noteq> []" by simp
  ultimately show ?thesis
    using loads_print [of plain_style "JObj srt" lib] ok floats
    by (simp add: parse_response_def t del: print_json.simps split_at_most.simps)
qed

text \<open>A response that was cut off is not a document.\<close>

lemma parse_response_cut:
  fixes lib :: "'a wire_library_scheme"
  assumes "decodes_ascii lib" and "json_ok (JObj kvs)" and "n < length (dumps plain_style (JObj kvs))" and "n \<noteq> 0"
  shows "parse_response lib (take n (dumps plain_style (JObj kvs))) = Inl (Exn RuntimeError ''invalid control daemon response'')"
proof -
  obtain srt where srt: "sort_json (JObj kvs) = JObj srt" by simp
  define s where "s = print_json plain_style (JObj srt)"
  have t: "dumps plain_style (JObj kvs) = s" by (simp only: dumps_def srt s_def)
  have ok: "json_ok (JObj srt)" using json_ok_sort [OF assms(2)] by (simp only: srt)
  have few: "set (take n s) \<subseteq> set s" by (rule set_take_subset)
  have "\<forall>c \<in> set (take n s). graphic c"
    using print_graphic [OF styles_ok(3) ascii_styles(2) ok] few unfolding s_def by blast
  then have decoded: "lib_decode lib (take n s) = Inr (take n s)" using assms(1) unfolding decodes_ascii_def by blast
  have "line_feed \<notin> set (take n s)"
    using object_no_feed [OF styles_ok(3) ascii_styles(2) ok] few unfolding s_def by blast
  note line = split_no_feed [OF this]
  have ends: "take n s \<noteq> []" "drop n s \<noteq> []" using assms(3,4) unfolding t by auto
  have "print_json plain_style (JObj srt) = take n s @ drop n s" unfolding s_def by (rule append_take_drop_id [symmetric])
  from cut_object_fails [OF styles_ok(3) ok this ends(2,1)]
  obtain m where "json_loads lib (take n s) = Inl (Exn JSONDecodeError m)" by blast
  with decoded line ends(1) show ?thesis unfolding t parse_response_def by (simp del: split_at_most.simps)
qed

lemma dumps_no_feed: "json_ok (JObj kvs) \<Longrightarrow> line_feed \<notin> set (dumps plain_style (JObj kvs))"
  using object_no_feed [of plain_style "sort_json (JObj kvs)"] json_ok_sort [of "JObj kvs"]
  by (simp add: dumps_def del: print_json.simps sort_json.simps)

text \<open>What the read loop of the client passes on of a line that is all the daemon sends.\<close>

lemma client_frame:
  assumes "delivers recv pending" and "pending w = line @ [line_feed]" and "line_feed \<notin> set line"
  shows "\<exists>w'. read_frame recv limit [] w
     = (Inr (if length line \<le> limit then line @ [line_feed] else take (limit + 1) line), w')"
proof (cases "length line \<le> limit")
  case True
  with read_frame_line [OF assms(1), of w "[]" line limit] assms(2,3) show ?thesis by auto
next
  case False
  then have "take (limit + 1) (pending w) = take (limit + 1) line" using assms(2) by simp
  moreover have "line_feed \<notin> set (take (limit + 1) line)" using assms(3) in_set_takeD by metis
  ultimately show ?thesis
    using read_frame_long [OF assms(1), of limit "[]" w] assms(2) False by auto
qed

lemma cl_request_run:
  assumes "cs_connect sock (cl_path c) u = (Inr (), u1)"
    and "cs_sendall sock (request_bytes command args) u1 = (Inr (), u2)"
    and "read_frame (cs_recv sock) (64 * 1024) [] u2 = (Inr response, u3)"
  shows "fst (cl_request lib sock c command args u) = parse_response lib response"
  using assms by (simp add: cl_request_def prog_defs)

text \<open>
  C33: Client and server mean the same document.  When a client's request is all that is pending,
  the server reads exactly its bytes, whatever chunks the socket returns, and hands the very
  dictionary the client built to \<open>handle\<close>.  In the other direction, when the line the server writes for a
  response is all the client's socket has pending after the request is sent, \<open>request\<close> returns exactly
  the dictionary of the response, its keys sorted, whatever the chunks, as long as its text is at most
  64 KiB and one byte; a longer text is cut off by the bounded loop, and \<open>request\<close> always raises
  ``invalid control daemon response'' for it.
\<close>

theorem wire_roundtrip:
  fixes lib :: "'a wire_library_scheme"
  defines "doc \<equiv> \<lambda>command args. JObj ((''command'', JStr command) # args)"
  assumes "decodes_ascii lib" and "json_ok (doc command args)" and "floats_read (lib_float lib) (doc command args)"
    and "delivers (cn_recv conn) pending" and "pending w = request_bytes command args"
    and "length (request_bytes command args) \<le> srv_max_message_bytes srv" and "peer_allowed srv uid"
    and "delivers (cs_recv sock) arriving" and "cs_connect sock (cl_path c) u = (Inr (), u1)"
    and "cs_sendall sock (request_bytes command args) u1 = (Inr (), u2)"
  shows "fst (read_frame (cn_recv conn) (srv_max_message_bytes srv) [] w) = Inr (request_bytes command args)
     \<and> serve_frame lib env os srv (request_bytes command args) (uid, pid)
         = catch (handle env os srv (doc command args) uid pid) (\<lambda>e. ret (error_response (reported e)))
     \<and> (\<forall>kvs. json_ok (JObj kvs) \<and> floats_read (lib_float lib) (JObj kvs)
            \<and> arriving u2 = dumps plain_style (JObj kvs) @ [line_feed] \<longrightarrow>
          (\<exists>sorted. sort_json (JObj kvs) = JObj sorted
             \<and> fst (cl_request lib sock c command args u)
                = (if length (dumps plain_style (JObj kvs)) \<le> 64 * 1024 + 1 then Inr sorted
                   else Inl (Exn RuntimeError ''invalid control daemon response''))))"
proof (intro conjI allI impI)
  let ?t = "print_json compact_style (doc command args)"
  have bytes: "request_bytes command args = ?t @ [line_feed]" by (simp add: request_bytes_def doc_def)
  have no_feed: "line_feed \<notin> set ?t" using object_no_feed assms(3) by simp
  from assms(7) bytes have "length ?t \<le> srv_max_message_bytes srv" by simp
  with read_frame_line [OF assms(5), of w "[]" ?t "srv_max_message_bytes srv"] no_feed assms(6) bytes
  obtain w' where "read_frame (cn_recv conn) (srv_max_message_bytes srv) [] w = (Inr (?t @ [line_feed]), w')" by auto
  with bytes show "fst (read_frame (cn_recv conn) (srv_max_message_bytes srv) [] w) = Inr (request_bytes command args)"
    by simp
  from serve_request [OF assms(2), of command args srv uid env os pid] assms(3,4,7,8)
  show "serve_frame lib env os srv (request_bytes command args) (uid, pid)
         = catch (handle env os srv (doc command args) uid pid) (\<lambda>e. ret (error_response (reported e)))"
    by (simp add: doc_def)
next
  fix kvs
  assume kvs: "json_ok (JObj kvs) \<and> floats_read (lib_float lib) (JObj kvs)
      \<and> arriving u2 = dumps plain_style (JObj kvs) @ [line_feed]"
  obtain srt where srt: "sort_json (JObj kvs) = JObj srt" by simp
  let ?t = "dumps plain_style (JObj kvs)"
  note parsed = parse_response_text [OF assms(2) kvs [THEN conjunct1] kvs [THEN conjunct2, THEN conjunct1] srt]
  have no_feed: "line_feed \<notin> set ?t" using kvs by (intro dumps_no_feed) simp
  obtain u3 where read: "read_frame (cs_recv sock) (64 * 1024) [] u2
      = (Inr (if length ?t \<le> 64 * 1024 then ?t @ [line_feed] else take (64 * 1024 + 1) ?t), u3)"
    using client_frame [OF assms(9) _ no_feed, of u2 "64 * 1024"] kvs by auto
  note request = cl_request_run [OF assms(10,11) read, of lib]
  have "fst (cl_request lib sock c command args u)
      = (if length ?t \<le> 64 * 1024 + 1 then Inr srt else Inl (Exn RuntimeError ''invalid control daemon response''))"
  proof -
    consider "length ?t \<le> 64 * 1024" | "length ?t = 64 * 1024 + 1" | "64 * 1024 + 1 < length ?t" by linarith
    then show ?thesis
    proof cases
      case 1
      with request parsed [of "[line_feed]"] show ?thesis by simp
    next
      case 2
      then have "take (64 * 1024 + 1) ?t = ?t" by simp
      with 2 request parsed [of "[]"] show ?thesis by simp
    next
      case 3
      with request parse_response_cut [OF assms(2), of kvs "64 * 1024 + 1"] kvs show ?thesis by simp
    qed
  qed
  with srt show "\<exists>sorted. sort_json (JObj kvs) = JObj sorted
             \<and> fst (cl_request lib sock c command args u)
                = (if length ?t \<le> 64 * 1024 + 1 then Inr sorted
                   else Inl (Exn RuntimeError ''invalid control daemon response''))" by blast
qed

end
