(* ===== verification/Wire_Props.thy ===== *)
theory Wire_Props
  imports Transport_Props Frame_Props
begin

text \<open>
  Registration over the wire as one transaction, and the framing of messages: how a frame is
  read, and that client and server agree on what was written.
\<close>

section \<open>Registration\<close>

text \<open>The entry of one agent, present or absent.\<close>

definition entry_is :: "string \<Rightarrow> 'w managed_agent option \<Rightarrow> 'w service \<Rightarrow> bool" where
  "entry_is b x s \<longleftrightarrow> dict_get (svc_agents s) b = x"

lemma entry_pieces [preserving]:
  "world_free (entry_is b x)" "preserves (entry_is b x) alloc"
  "preserves (entry_is b x) (with_fences env f)" "preserves (entry_is b x) (with_incidents env g)"
  by (auto simp: world_free_def preserves_def entry_is_def alloc_def with_fences_def with_incidents_def split: prod.splits)

lemma entry_update [preserving]: "a \<noteq> b \<Longrightarrow> preserves (entry_is b x) (update_managed a f)"
  by (rule preservesI) (auto simp: entry_is_def update_managed_run split: option.splits)

lemma entry_admit: "preserves (entry_is b x) (admit env a c)"
  unfolding admit_def register_runtime_def new_runtime_def admit_orphan_fence_def
    reconstruct_incident_def admit_fence_over_recovery_def admit_runtime_fenced_def restore_runtime_def
    admit_runtime_def admit_recovered_def admit_contained_def
  by (intro preserving)

lemma entry_register [preserving]:
  assumes "a \<noteq> b"
  shows "preserves (entry_is b x) (svc_register env a c md pe)"
proof -
  have "preserves (entry_is b x) (modifying (\<lambda>s. s\<lparr>svc_agents := dict_set a m (svc_agents s)\<rparr>))" for m
    using assms by (auto simp: preserves_def entry_is_def modifying_def)
  then show ?thesis
    unfolding svc_register_def rotate_capability_def using assms by (intro preserving entry_admit)
qed

lemma entry_workload [preserving]:
  assumes "a \<noteq> b"
  shows "preserves (entry_is b x) (admit_workload env a pid)" "preserves (entry_is b x) (svc_unregister a)"
proof -
  show "preserves (entry_is b x) (admit_workload env a pid)"
    unfolding admit_workload_def svc_create_workload_def svc_attach_workload_def svc_issue_identity_token_def
    by (intro preserving assms)
  show "preserves (entry_is b x) (svc_unregister a)"
    using assms by (auto simp: preserves_def entry_is_def svc_unregister_def modifying_def)
qed

text \<open>A registered agent has a runtime and no identity yet.\<close>

lemma svc_register_entry:
  assumes "svc_register env a c md pe s = (Inr rt, t)"
  shows "\<exists>m. dict_get (svc_agents t) a = Some m \<and> ma_runtime m = rt \<and> ma_identity_digest m = None
     \<and> ma_identity_pid m = None \<and> ma_identity_cgroup m = None"
  using assms
  by (auto simp: svc_register_def rotate_capability_def rt_rotate_capability_def piece_runs Let_def mk_managed_def
      ma_runtime_def dest!: audit_record_run emit_event_run split: option.splits)

text \<open>What the steps of a workload store in the agent's entry.\<close>

lemma create_workload_entry:
  assumes "svc_create_workload env a s = (Inr path, t)" and "dict_get (svc_agents s) a = Some m"
  shows "env_supervisor env \<noteq> None \<and> dict_get (svc_agents t) a = Some (m\<lparr>ma_identity_cgroup := Some path\<rparr>)"
proof (cases "env_supervisor env")
  case None
  with assms show ?thesis by (simp add: svc_create_workload_def raise_def)
next
  case (Some spv)
  with assms obtain p s1 s2 s3 kw u where "on_world (spv_create_agent spv a) s = (Inr p, s1)"
    "on_world (env_resolve env p) s1 = (Inr path, s2)"
    "update_managed a (\<lambda>m. m\<lparr>ma_identity_cgroup := Some path\<rparr>) s2 = (Inr u, s3)"
    "audit_record env ''workload_created'' a kw s3 = (Inr (), t)"
    by (simp add: svc_create_workload_def run_rules svc_managed_run split: if_splits) blast
  then have "svc_agents s2 = svc_agents s" "svc_agents t = svc_agents s3"
    "update_managed a (\<lambda>m. m\<lparr>ma_identity_cgroup := Some path\<rparr>) s2 = (Inr u, s3)"
    by (auto simp: on_world_run dest: audit_record_run)
  with assms(2) Some show ?thesis by (simp add: update_managed_run)
qed

lemma attach_workload_entry:
  "svc_attach_workload env a pid s = (Inr path, t) \<Longrightarrow> svc_agents t = svc_agents s"
  by (auto simp: svc_attach_workload_def piece_runs split: option.splits dest!: audit_record_run)

lemma issue_token_entry:
  assumes "svc_issue_identity_token env a peer s = (Inr token, t)" and "dict_get (svc_agents s) a = Some m"
  shows "dict_get (svc_agents t) a
    = Some (m\<lparr>ma_identity_digest := Some (env_sha256 env token), ma_identity_pid := peer\<rparr>)"
  using assms by (auto simp: svc_issue_identity_token_def piece_runs split: if_splits)

lemma admit_workload_entry:
  assumes run: "admit_workload env a pid s = (Inr (path, token), t)" and m: "dict_get (svc_agents s) a = Some m"
    and fresh: "ma_identity_cgroup m = None" "ma_identity_digest m = None" "ma_identity_pid m = None"
  shows "\<exists>m'. dict_get (svc_agents t) a = Some m' \<and> ma_runtime m' = ma_runtime m \<and> ma_identity_cgroup m' = path
     \<and> (path = None \<longleftrightarrow> env_supervisor env = None) \<and> ma_identity_pid m' = pid
     \<and> ma_identity_digest m' = map_option (env_sha256 env) token \<and> (token = None \<longleftrightarrow> pid = None)"
proof -
  obtain s1 where 1: "dict_get (svc_agents s1) a = Some (m\<lparr>ma_identity_cgroup := path\<rparr>)"
      "path = None \<longleftrightarrow> env_supervisor env = None"
    and run1: "andthen (case pid of None \<Rightarrow> ret () | Some p \<Rightarrow> andthen (svc_attach_workload env a p) (\<lambda>_. ret ())) (\<lambda>_.
       case pid of None \<Rightarrow> ret None
       | Some p \<Rightarrow> andthen (svc_issue_identity_token env a (Some p)) (\<lambda>t. ret (Some t))) s1 = (Inr token, t)"
  proof (cases "env_supervisor env")
    case None
    have "m\<lparr>ma_identity_cgroup := None\<rparr> = m" using fresh(1) by simp
    with run m None show ?thesis
      by (intro that [of s]) (auto simp: admit_workload_def run_rules)
  next
    case (Some spv)
    with run obtain s1 p where "svc_create_workload env a s = (Inr p, s1)" "path = Some p"
      and rest: "andthen (case pid of None \<Rightarrow> ret () | Some p \<Rightarrow> andthen (svc_attach_workload env a p) (\<lambda>_. ret ())) (\<lambda>_.
       case pid of None \<Rightarrow> ret None
       | Some p \<Rightarrow> andthen (svc_issue_identity_token env a (Some p)) (\<lambda>t. ret (Some t))) s1 = (Inr token, t)"
      by (auto simp: admit_workload_def run_rules)
    with create_workload_entry [OF _ m] Some show ?thesis by (intro that [of s1]) auto
  qed
  show ?thesis
  proof (cases pid)
    case None
    with 1 run1 fresh show ?thesis by (auto simp: run_rules ma_runtime_def)
  next
    case (Some p)
    with run1 obtain s2 tk c where "svc_attach_workload env a p s1 = (Inr c, s2)"
      "svc_issue_identity_token env a (Some p) s2 = (Inr tk, t)" "token = Some tk"
      by (auto simp: run_rules)
    moreover from attach_workload_entry [OF this(1)] 1(1)
    have "dict_get (svc_agents s2) a = Some (m\<lparr>ma_identity_cgroup := path\<rparr>)" by simp
    ultimately show ?thesis using issue_token_entry [of env a "Some p" s2 tk t] 1(2) Some by (simp add: ma_runtime_def)
  qed
qed

text \<open>
  C30: Registration over the wire is one transaction once \<open>register()\<close> has admitted the agent:
  either the response carries the state of the registered runtime, the cgroup that was created
  for it and the token whose digest is bound to the attached process, or an error leaves the
  agent unregistered.  No other agent's entry changes in any case.
\<close>

theorem registration_transactional:
  assumes "tp_enroll env a pid md s = (r, t)"
  shows "(\<forall>b. b \<noteq> a \<longrightarrow> dict_get (svc_agents t) b = dict_get (svc_agents s) b)
     \<and> (case r of
          Inl e \<Rightarrow> \<forall>rt s1. svc_register env a None (Some md) None s = (Inr rt, s1) \<longrightarrow> dict_get (svc_agents t) a = None
        | Inr v \<Rightarrow> \<exists>m path token. dict_get (svc_agents t) a = Some m
            \<and> v = register_response a (ma_runtime m) (path, token) \<and> ma_identity_cgroup m = path
            \<and> (path = None \<longleftrightarrow> env_supervisor env = None) \<and> ma_identity_pid m = pid
            \<and> ma_identity_digest m = map_option (env_sha256 env) token \<and> (token = None \<longleftrightarrow> pid = None))"
proof (intro conjI allI impI)
  fix b
  assume "b \<noteq> a"
  then have "preserves (entry_is b (dict_get (svc_agents s) b)) (tp_enroll env a pid md)"
    unfolding tp_enroll_def by (intro preserving) simp_all
  with assms show "dict_get (svc_agents t) b = dict_get (svc_agents s) b"
    by (auto simp: entry_is_def dest: preservesD)
next
  show "case r of
          Inl e \<Rightarrow> \<forall>rt s1. svc_register env a None (Some md) None s = (Inr rt, s1) \<longrightarrow> dict_get (svc_agents t) a = None
        | Inr v \<Rightarrow> \<exists>m path token. dict_get (svc_agents t) a = Some m
            \<and> v = register_response a (ma_runtime m) (path, token) \<and> ma_identity_cgroup m = path
            \<and> (path = None \<longleftrightarrow> env_supervisor env = None) \<and> ma_identity_pid m = pid
            \<and> ma_identity_digest m = map_option (env_sha256 env) token \<and> (token = None \<longleftrightarrow> pid = None)"
  proof (cases "svc_register env a None (Some md) None s")
    case (Pair x s1)
    show ?thesis
    proof (cases x)
      case (Inl e)
      with Pair assms show ?thesis by (auto simp: tp_enroll_def andthen_def)
    next
      case (Inr rt)
      with Pair svc_register_entry obtain m where m: "dict_get (svc_agents s1) a = Some m" "ma_runtime m = rt"
        "ma_identity_digest m = None" "ma_identity_pid m = None" "ma_identity_cgroup m = None" by blast
      obtain y s2 where y: "admit_workload env a pid s1 = (y, s2)" by fastforce
      show ?thesis
      proof (cases y)
        case (Inl e)
        with Pair Inr y assms show ?thesis by (auto simp: tp_enroll_def prog_defs svc_unregister_def)
      next
        case (Inr parts)
        obtain path token where parts: "parts = (path, token)" by fastforce
        from Pair \<open>x = Inr rt\<close> y Inr assms parts
        have res: "r = Inr (register_response a rt (path, token))" "t = s2" by (auto simp: tp_enroll_def prog_defs)
        have run: "admit_workload env a pid s1 = (Inr (path, token), s2)" using y Inr parts by simp
        from admit_workload_entry [OF run m(1,5,3,4)] obtain m' where
          m': "dict_get (svc_agents s2) a = Some m' \<and> ma_runtime m' = ma_runtime m \<and> ma_identity_cgroup m' = path
            \<and> (path = None \<longleftrightarrow> env_supervisor env = None) \<and> ma_identity_pid m' = pid
            \<and> ma_identity_digest m' = map_option (env_sha256 env) token \<and> (token = None \<longleftrightarrow> pid = None)" ..
        show ?thesis unfolding res sum.case
          by (rule exI [of _ m'], rule exI [of _ path], rule exI [of _ token]) (simp add: m' m(2))
      qed
    qed
  qed
qed

section \<open>Concrete messages\<close>

definition wire_lib :: wire_library where
  "wire_lib = \<lparr>lib_float = sample_float, lib_wording = id, lib_sha256 = id, lib_decode = Inr\<rparr>"

definition wire_server :: control_server where
  "wire_server = \<lparr>srv_max_message_bytes = 65536, srv_allowed_uids = Some [0, 1000],
     srv_privileged_uids = Some [0], srv_slots = 16, srv_euid = 0\<rparr>"

definition wire_os :: "nat os" where
  "wire_os = \<lparr>os_posix = True, os_stat = (\<lambda>p. ret (1, 2, 3)), os_is_dir = (\<lambda>p. ret True), os_is_file = (\<lambda>p. ret True),
     os_exists = (\<lambda>p. ret True), os_resolve = ret, os_read_text = (\<lambda>p. ret ''0::/cg/a''),
     os_write_text = (\<lambda>p t. ret ()), os_mkdir = (\<lambda>b p. ret ()), os_rmdir = (\<lambda>p. ret ()),
     os_monotonic = (\<lambda>w. (0, w + 1)), os_sleep = (\<lambda>n w. w), os_second = 1\<rparr>"

text \<open>A supervisor that places every agent below \<open>/cg\<close>.\<close>

definition wire_env :: "nat environment" where
  "wire_env = demo_env\<lparr>env_supervisor := Some \<lparr>spv_create_agent = (\<lambda>a. ret (''/cg/'' @ a)), spv_attach_pid = (\<lambda>p n. ret ())\<rparr>\<rparr>"

text \<open>A socket over the bytes that have not arrived yet.\<close>

definition wire_connection :: "string connection" where
  "wire_connection = \<lparr>cn_recv = (\<lambda>n w. (Inr (take n w), drop n w)), cn_sendall = (\<lambda>t. ret ()), cn_peercred = None\<rparr>"

lemma wire_connection_delivers: "delivers (cn_recv wire_connection) id" "bounded_recv (cn_recv wire_connection)"
  by (auto simp: delivers_def bounded_recv_def wire_connection_def)

lemma wire_lib_decodes: "decodes_ascii wire_lib"
  by (simp add: decodes_ascii_def wire_lib_def)

theorem message_only_fences_witness:
  "\<exists>r t m'. serve_frame wire_lib wire_env wire_os wire_server (request_bytes ''contain'' [(''agent_id'', JStr ''a'')])
        (Some 0, Some 42) (demo_service []) = (r, t)
     \<and> dict_get (svc_agents t) ''a'' = Some m'
     \<and> (rt_state (ma_runtime m') = ACTIVE \<and> rt_epoch (ma_runtime m') = 0
        \<or> 0 < rt_epoch (ma_runtime m') \<and> rt_state (ma_runtime m') \<in> {CONTAINED, HALTED})"
proof -
  obtain r t where run: "serve_frame wire_lib wire_env wire_os wire_server (request_bytes ''contain'' [(''agent_id'', JStr ''a'')])
        (Some 0, Some 42) (demo_service []) = (r, t)" by fastforce
  from message_only_fences [OF run demo_agent_get]
  show ?thesis using run by (simp add: demo_state_defs mk_controller_def mk_runtime_def)
qed

theorem unprivileged_message_harmless_witness:
  "\<exists>r t. serve_frame wire_lib wire_env wire_os wire_server (request_bytes ''contain'' [(''agent_id'', JStr ''a'')])
        (Some 7, Some 42) (demo_service []) = (r, t) \<and> t = demo_service [] \<and> r = Inr (error_response ''unauthorized_peer'')"
proof -
  obtain r t where run: "serve_frame wire_lib wire_env wire_os wire_server (request_bytes ''contain'' [(''agent_id'', JStr ''a'')])
        (Some 7, Some 42) (demo_service []) = (r, t)" by fastforce
  have "\<not> known_uid (Some 7) (privileged_set wire_server)" by (simp add: wire_server_def privileged_set_def)
  from unprivileged_message_harmless [OF this run] run
  show ?thesis by (simp add: wire_server_def peer_allowed_def)
qed

theorem malformed_request_changes_nothing_witness:
  "\<exists>message. answer wire_lib wire_env wire_os wire_server
       (print_json compact_style (JObj [(''command'', JStr ''register''), (''agent_id'', JStr ''b''), (''workload_pid'', JInt 0)]))
       (Some 0) None (demo_service []) = (Inr (error_response message), demo_service [])"
proof (rule malformed_request_changes_nothing)
  let ?v = "JObj [(''command'', JStr ''register''), (''agent_id'', JStr ''b''), (''workload_pid'', JInt 0)]"
  have "loads_bytes wire_lib (print_json compact_style ?v) = Inr ?v"
    by (rule loads_bytes_print [OF wire_lib_decodes]) (simp_all add: floats_read_def)
  moreover have "\<not> request_ok wire_env wire_server (Some 0) ?v" by (simp add: request_ok_def dict_get_def)
  ultimately show "case loads_bytes wire_lib (print_json compact_style ?v) of
      Inl e \<Rightarrow> True | Inr v \<Rightarrow> \<not> request_ok wire_env wire_server (Some 0) v" by simp
qed

theorem frame_bounded_witness:
  "fst (read_frame (cn_recv wire_connection) 5 [] (''hi'' @ [line_feed])) = Inr (''hi'' @ [line_feed])
   \<and> fst (read_frame (cn_recv wire_connection) 2 [] ''hello'') = Inr ''hel''"
  using frame_bounded [OF wire_connection_delivers(2,1), of 5 "''hi'' @ [line_feed]" _ _ "''hi''"]
    frame_bounded [OF wire_connection_delivers(2,1), of 2 "''hello''"]
  by (simp add: line_feed_def)

text \<open>A daemon that answers every request with one response; the client's socket over what has not arrived.\<close>

definition wire_response :: string where
  "wire_response = dumps plain_style (error_response ''empty_request'')"

definition wire_client :: "string client_socket" where
  "wire_client = \<lparr>cs_connect = (\<lambda>p. ret ()), cs_sendall = (\<lambda>t w. (Inr (), wire_response @ [line_feed])),
     cs_recv = (\<lambda>n w. (Inr (take n w), drop n w))\<rparr>"

theorem wire_roundtrip_witness:
  "fst (read_frame (cn_recv wire_connection) 65536 [] (request_bytes ''status'' [(''agent_id'', JStr ''a'')]))
     = Inr (request_bytes ''status'' [(''agent_id'', JStr ''a'')])
   \<and> serve_frame wire_lib wire_env wire_os wire_server (request_bytes ''status'' [(''agent_id'', JStr ''a'')]) (Some 0, None)
     = catch (handle wire_env wire_os wire_server (JObj [(''command'', JStr ''status''), (''agent_id'', JStr ''a'')]) (Some 0) None)
         (\<lambda>e. ret (error_response (reported e)))
   \<and> fst (cl_request wire_lib wire_client \<lparr>cl_path = ''/run/c'', cl_token = None\<rparr> ''status'' [(''agent_id'', JStr ''a'')] [])
     = Inr [(''error'', JStr ''empty_request''), (''ok'', JBool False)]"
proof -
  let ?doc = "JObj [(''command'', JStr ''status''), (''agent_id'', JStr ''a'')]"
  let ?answer = "[(''ok'', JBool False), (''error'', JStr ''empty_request'')]"
  let ?c = "\<lparr>cl_path = ''/run/c'', cl_token = None\<rparr>"
  have doc: "json_ok ?doc" "floats_read (lib_float wire_lib) ?doc" by (simp_all add: floats_read_def)
  have short: "length (request_bytes ''status'' [(''agent_id'', JStr ''a'')]) \<le> srv_max_message_bytes wire_server"
    by (simp add: request_bytes_def compact_style_def json_string_def escape_char_def code_def dquote_def backslash_def wire_server_def)
  have peer: "peer_allowed wire_server (Some 0)" by (simp add: wire_server_def peer_allowed_def)
  have sock: "delivers (cs_recv wire_client) id" "cs_connect wire_client (cl_path ?c) [] = (Inr (), [])"
    "cs_sendall wire_client (request_bytes ''status'' [(''agent_id'', JStr ''a'')]) [] = (Inr (), wire_response @ [line_feed])"
    by (auto simp: delivers_def wire_client_def ret_def)
  have pending: "id (request_bytes ''status'' [(''agent_id'', JStr ''a'')]) = request_bytes ''status'' [(''agent_id'', JStr ''a'')]"
    by simp
  have answer: "json_ok (JObj ?answer)" "floats_read (lib_float wire_lib) (JObj ?answer)" by (simp_all add: floats_read_def)
  have sorted_keys: "sort_json (JObj ?answer) = JObj [(''error'', JStr ''empty_request''), (''ok'', JBool False)]"
    by (simp add: insort_key_def)
  have fits: "length (dumps plain_style (JObj ?answer)) \<le> 64 * 1024 + 1"
    by (simp add: dumps_def insort_key_def plain_style_def json_string_def escape_char_def code_def dquote_def backslash_def)
  have response: "id (wire_response @ [line_feed]) = dumps plain_style (JObj ?answer) @ [line_feed]"
    by (simp only: wire_response_def error_response_def id_apply)
  note both = wire_roundtrip [where lib = wire_lib and command = "''status''" and args = "[(''agent_id'', JStr ''a'')]"
      and conn = wire_connection and pending = id and w = "request_bytes ''status'' [(''agent_id'', JStr ''a'')]"
      and srv = wire_server and uid = "Some 0" and sock = wire_client and arriving = id and c = ?c
      and u = "[]" and ?u1.0 = "[]" and ?u2.0 = "wire_response @ [line_feed]" and env = wire_env and os = wire_os
      and pid = None, OF wire_lib_decodes doc wire_connection_delivers(1) pending short peer sock]
  note client = both [THEN conjunct2, THEN conjunct2, THEN spec, THEN mp, OF conjI [OF answer(1) conjI [OF answer(2) response]]]
  have "fst (cl_request wire_lib wire_client ?c ''status'' [(''agent_id'', JStr ''a'')] [])
      = Inr [(''error'', JStr ''empty_request''), (''ok'', JBool False)]"
    using client unfolding sorted_keys if_P [OF fits] by auto
  moreover have "srv_max_message_bytes wire_server = 65536" by (simp add: wire_server_def)
  ultimately show ?thesis
    using both [THEN conjunct1] both [THEN conjunct2, THEN conjunct1] by simp
qed

lemma wire_enrolls:
  "\<exists>v t. tp_enroll wire_env ''b'' (Some 42) [] (demo_service []) = (Inr v, t)"
  by (simp add: tp_enroll_def svc_register_def admit_def register_runtime_def new_runtime_def admit_orphan_fence_def
      admit_fence_over_recovery_def admit_runtime_fenced_def admit_runtime_def mk_runtime_def wire_env_def admit_workload_def
      svc_create_workload_def svc_attach_workload_def svc_issue_identity_token_def demo_run_defs demo_dict_defs
      ig_latest_for_agent_def dict_values_def)

theorem registration_transactional_witness:
  "\<exists>v t m token. tp_enroll wire_env ''b'' (Some 42) [] (demo_service []) = (Inr v, t)
     \<and> dict_get (svc_agents t) ''b'' = Some m \<and> ma_identity_pid m = Some 42
     \<and> ma_identity_digest m = Some (rev token) \<and> dict_get (svc_agents t) ''a'' = Some (demo_agent [])"
proof -
  obtain v t where run: "tp_enroll wire_env ''b'' (Some 42) [] (demo_service []) = (Inr v, t)"
    using wire_enrolls by blast
  from registration_transactional [OF run] obtain m path token where
    "dict_get (svc_agents t) ''b'' = Some m" "ma_identity_pid m = Some 42"
    "ma_identity_digest m = map_option (env_sha256 wire_env) token" "token \<noteq> None"
    and "dict_get (svc_agents t) ''a'' = dict_get (svc_agents (demo_service [])) ''a''" by auto
  moreover have "env_sha256 wire_env = rev" by (simp add: wire_env_def demo_env_def)
  ultimately show ?thesis using run demo_agent_get by auto
qed

text \<open>
  The transaction begins after \<open>register()\<close> returned.  When \<open>register()\<close> itself raises at its
  last step, the audit record, the agent is registered and active although the response is an
  error, and a second registration is refused.
\<close>

lemma failed_audit_leaves_agent:
  "\<exists>e t m. tp_enroll (wire_env\<lparr>env_audit := Some (\<lambda>entry. raise (Exn RuntimeError ''audit''))\<rparr>) ''b'' None [] (demo_service [])
      = (Inl e, t)
     \<and> dict_get (svc_agents t) ''b'' = Some m \<and> rt_can_execute (ma_runtime m)"
  by (simp add: tp_enroll_def svc_register_def admit_def register_runtime_def new_runtime_def admit_orphan_fence_def
      admit_fence_over_recovery_def admit_runtime_fenced_def admit_runtime_def mk_runtime_def wire_env_def
      demo_run_defs demo_dict_defs ig_latest_for_agent_def dict_values_def rt_can_execute_def mk_controller_def)

end
