(* ===== verification/Proof_Receipt.thy ===== *)
theory Proof_Receipt
  imports Hash_Chain Governance_Event Containment
begin

text \<open>
  \<open>proof_receipt.py\<close>, the evidence records and receipts of \<open>containment.py\<close>, and the incident
  records of \<open>incident.py\<close>.  The keyed digest is a parameter beside SHA-256; a secret is a string
  of bytes; \<open>uuid.uuid4()\<close> is the text given to the definitions that call it.
\<close>

record mac_library = library +
  lib_hmac :: "string \<Rightarrow> string \<Rightarrow> string"

section \<open>Receipts\<close>

record receipt =
  rc_payload :: "json dict"
  rc_digest :: string
  rc_signature :: string

definition receipt_text :: "json dict \<Rightarrow> string" where
  "receipt_text payload = dumps canonical_style (JObj payload)"

text \<open>\<open>payload.setdefault("receipt_id", str(uuid.uuid4()))\<close> of the copied dictionary.\<close>

definition with_receipt_id :: "string \<Rightarrow> json dict \<Rightarrow> json dict" where
  "with_receipt_id uuid payload =
     (if dict_get payload ''receipt_id'' = None then dict_set ''receipt_id'' (JStr uuid) payload else payload)"

definition issue_receipt :: "'a mac_library_scheme \<Rightarrow> string \<Rightarrow> json \<Rightarrow> string \<Rightarrow> exn + receipt" where
  "issue_receipt lib uuid payload secret =
     (case payload of
        JObj kvs \<Rightarrow>
          if kvs = [] then Inl (Exn ValueError ''receipt payload must be a non-empty mapping'')
          else if secret = [] then Inl (Exn ValueError ''receipt signing secret must be non-empty bytes'')
          else (let p = with_receipt_id uuid kvs; canonical = receipt_text p in
            Inr \<lparr>rc_payload = p, rc_digest = lib_sha256 lib canonical, rc_signature = lib_hmac lib secret canonical\<rparr>)
      | _ \<Rightarrow> Inl (Exn ValueError ''receipt payload must be a non-empty mapping''))"

text \<open>\<open>hmac.compare_digest\<close> of two texts: they must be ASCII.\<close>

definition ascii_text :: "string \<Rightarrow> bool" where
  "ascii_text s \<longleftrightarrow> list_all (\<lambda>c. code c < 128) s"

definition compare_digest :: "string \<Rightarrow> string \<Rightarrow> exn + bool" where
  "compare_digest s t =
     (if ascii_text s \<and> ascii_text t then Inr (s = t)
      else Inl (Exn TypeError ''comparing strings with non-ASCII characters is not supported''))"

text \<open>The signature is compared only when the digest is right.\<close>

definition receipt_verifies :: "'a mac_library_scheme \<Rightarrow> string \<Rightarrow> receipt \<Rightarrow> exn + bool" where
  "receipt_verifies lib secret r =
     (if secret = [] then Inr False
      else (let canonical = receipt_text (rc_payload r) in
        case compare_digest (rc_digest r) (lib_sha256 lib canonical) of
          Inl e \<Rightarrow> Inl e
        | Inr right \<Rightarrow>
            if \<not> right then Inr False else compare_digest (rc_signature r) (lib_hmac lib secret canonical)))"

definition receipt_dict :: "receipt \<Rightarrow> json" where
  "receipt_dict r =
     JObj [(''payload'', JObj (rc_payload r)), (''digest'', JStr (rc_digest r)), (''signature'', JStr (rc_signature r))]"

definition nonempty_text :: "json option \<Rightarrow> string option" where
  "nonempty_text v = (case v of Some (JStr t) \<Rightarrow> if t = [] then None else Some t | _ \<Rightarrow> None)"

definition receipt_of_dict :: "json \<Rightarrow> exn + receipt" where
  "receipt_of_dict document =
     (case document of
        JObj kvs \<Rightarrow>
          if set (map fst kvs) \<noteq> {''payload'', ''digest'', ''signature''} then
            Inl (Exn ValueError ''receipt has an invalid envelope'')
          else (case dict_get kvs ''payload'' of
              Some (JObj payload) \<Rightarrow>
                (case nonempty_text (dict_get kvs ''digest'') of
                   None \<Rightarrow> Inl (Exn ValueError ''receipt digest is invalid'')
                 | Some digest \<Rightarrow>
                     (case nonempty_text (dict_get kvs ''signature'') of
                        None \<Rightarrow> Inl (Exn ValueError ''receipt signature is invalid'')
                      | Some signature \<Rightarrow>
                          Inr \<lparr>rc_payload = payload, rc_digest = digest, rc_signature = signature\<rparr>))
            | _ \<Rightarrow> Inl (Exn ValueError ''receipt payload must be a mapping''))
      | _ \<Rightarrow> Inl (Exn ValueError ''receipt must be a mapping''))"

text \<open>\<open>ReceiptVerifier\<close>: the secret and the ids seen.\<close>

record receipt_verifier =
  vf_secret :: string
  vf_seen :: "string list"

definition mk_verifier :: "string \<Rightarrow> exn + receipt_verifier" where
  "mk_verifier secret =
     (if secret = [] then Inl (Exn ValueError ''receipt verification secret must be non-empty bytes'')
      else Inr \<lparr>vf_secret = secret, vf_seen = []\<rparr>)"

definition vf_verify ::
  "'a mac_library_scheme \<Rightarrow> receipt \<Rightarrow> bool \<Rightarrow> (receipt_verifier, bool) prog" where
  "vf_verify lib r reject_replay v =
     (case receipt_verifies lib (vf_secret v) r of
        Inl e \<Rightarrow> (Inl e, v)
      | Inr verified \<Rightarrow>
          if \<not> verified then (Inr False, v)
          else (case dict_get (rc_payload r) ''receipt_id'' of
              None \<Rightarrow> (Inr True, v)
            | Some JNull \<Rightarrow> (Inr True, v)
            | Some x \<Rightarrow>
                if \<not> reject_replay then (Inr True, v)
                else (case x of
                    JStr i \<Rightarrow>
                      if i = [] \<or> i \<in> set (vf_seen v) then (Inr False, v)
                      else (Inr True, v\<lparr>vf_seen := i # vf_seen v\<rparr>)
                  | _ \<Rightarrow> (Inr False, v))))"

section \<open>Evidence records of a containment report\<close>

definition strings_json :: "string list \<Rightarrow> json" where
  "strings_json xs = JList (map JStr xs)"

definition revocation_record :: "containment_report \<Rightarrow> string \<Rightarrow> string \<Rightarrow> json" where
  "revocation_record r runtime_id revoked_at =
     JObj [(''schema'', JStr ''agent-containment/runtime-authority-revocation/v1''), (''runtime_id'', JStr runtime_id),
       (''agent_id'', JStr (rep_agent_id r)), (''epoch'', JInt (rep_epoch r)), (''revoked'', JBool True),
       (''revoked_at'', JStr revoked_at)]"

definition rep_revocation_evidence :: "'a library_scheme \<Rightarrow> containment_report \<Rightarrow> string \<Rightarrow> exn + json" where
  "rep_revocation_evidence lib r runtime_id =
     (if blank runtime_id then Inl (Exn ValueError ''runtime_id must not be empty'')
      else (case rep_revoked_at r of
          None \<Rightarrow> Inl (Exn ValueError ''authority revocation timestamp is unavailable'')
        | Some revoked_at \<Rightarrow>
            (let body = revocation_record r runtime_id revoked_at in
             Inr (JObj [(''record'', body), (''digest'', JStr (''sha256:'' @ sha256_of lib body)),
               (''revoked'', JBool True), (''revoked_at'', JStr revoked_at), (''runtime_id'', JStr runtime_id),
               (''agent_id'', JStr (rep_agent_id r)), (''epoch'', JInt (rep_epoch r))]))))"

definition enforcement_record :: "containment_report \<Rightarrow> string \<Rightarrow> string \<Rightarrow> string \<Rightarrow> json" where
  "enforcement_record r runtime_id act occurred_at =
     JObj [(''schema'', JStr ''agent-containment/runtime-enforcement/v1''), (''runtime_id'', JStr runtime_id),
       (''agent_id'', JStr (rep_agent_id r)), (''epoch'', JInt (rep_epoch r)), (''action'', JStr act),
       (''external_boundary'', JBool True), (''stages'', strings_json (rep_stages r)),
       (''containment_requested_at'', opt_json JInt (rep_requested_at r)),
       (''provider_applied_at'', opt_json JInt (rep_applied_at r)),
       (''independently_verified_at'', opt_json JInt (rep_verified_at r)), (''occurred_at'', JStr occurred_at)]"

definition rep_enforcement_evidence :: "'a library_scheme \<Rightarrow> containment_report \<Rightarrow> string \<Rightarrow> string \<Rightarrow> exn + json" where
  "rep_enforcement_evidence lib r runtime_id act =
     (if blank runtime_id then Inl (Exn ValueError ''runtime_id must not be empty'')
      else if act \<notin> {''KILL'', ''FENCE''} then Inl (Exn ValueError ''action must be KILL or FENCE'')
      else if \<not> rep_external_verified r \<or> \<not> rep_certified r \<or> \<not> rep_durable r then
        Inl (Exn ValueError ''external enforcement is not independently verified and durable'')
      else (case rep_occurred_at r of
          None \<Rightarrow> Inl (Exn ValueError ''external enforcement timestamp is unavailable'')
        | Some occurred_at \<Rightarrow>
            (let body = enforcement_record r runtime_id act occurred_at in
             Inr (JObj [(''record'', body), (''digest'', JStr (''sha256:'' @ sha256_of lib body))]))))"

text \<open>\<open>receipt_id or f"{agent}:{kind}:{epoch}:{uuid}"\<close>.\<close>

definition receipt_name :: "string option \<Rightarrow> string \<Rightarrow> string \<Rightarrow> int \<Rightarrow> string \<Rightarrow> string" where
  "receipt_name given agent_id kind epoch uuid =
     (case given of
        Some i \<Rightarrow> if i \<noteq> [] then i else agent_id @ kind @ str_int epoch @ '':'' @ uuid
      | None \<Rightarrow> agent_id @ kind @ str_int epoch @ '':'' @ uuid)"

definition rep_receipt_payload ::
  "containment_report \<Rightarrow> string option \<Rightarrow> string option \<Rightarrow> string option \<Rightarrow> string \<Rightarrow> json" where
  "rep_receipt_payload r execution_id policy_id receipt_id uuid =
     JObj [(''schema_version'', JInt 1),
       (''receipt_id'', JStr (receipt_name receipt_id (rep_agent_id r) '':contain:'' (rep_epoch r) uuid)),
       (''execution_id'', opt_json JStr execution_id), (''agent_id'', JStr (rep_agent_id r)),
       (''epoch'', JInt (rep_epoch r)), (''policy_id'', opt_json JStr policy_id),
       (''stages'', strings_json (rep_stages r)), (''failures'', strings_json (rep_failures r)),
       (''persistence_failures'', strings_json (rep_persistence_failures r)),
       (''external_verified'', JBool (rep_external_verified r)),
       (''containment_requested_at'', opt_json JInt (rep_requested_at r)),
       (''provider_applied_at'', opt_json JInt (rep_applied_at r)),
       (''independently_verified_at'', opt_json JInt (rep_verified_at r)),
       (''proof_status'', JStr (if rep_certified r \<and> rep_durable r then ''verified'' else ''degraded''))]"

definition rep_to_receipt ::
  "'a mac_library_scheme \<Rightarrow> containment_report \<Rightarrow> string \<Rightarrow> string option \<Rightarrow> string option \<Rightarrow> string option \<Rightarrow>
     string \<Rightarrow> exn + receipt" where
  "rep_to_receipt lib r secret execution_id policy_id receipt_id uuid =
     issue_receipt lib uuid (rep_receipt_payload r execution_id policy_id receipt_id uuid) secret"

definition rr_receipt_payload ::
  "recovery_report \<Rightarrow> string option \<Rightarrow> string option \<Rightarrow> string option \<Rightarrow> string \<Rightarrow> json" where
  "rr_receipt_payload r execution_id policy_id receipt_id uuid =
     JObj [(''schema_version'', JInt 1),
       (''receipt_id'', JStr (receipt_name receipt_id (rr_agent_id r) '':recover:'' (rr_contained_epoch r) uuid)),
       (''execution_id'', opt_json JStr execution_id), (''agent_id'', JStr (rr_agent_id r)),
       (''contained_epoch'', JInt (rr_contained_epoch r)), (''recovered_epoch'', opt_json JInt (rr_recovered_epoch r)),
       (''events'', strings_json (rr_events r)), (''failures'', strings_json (rr_failures r)),
       (''recontainment_failures'', strings_json (rr_recontainment_failures r)),
       (''recovery_result'', JStr (if rr_successful r then ''completed'' else ''aborted'')),
       (''proof_status'', JStr (rr_proof_status r))]"

definition rr_to_receipt ::
  "'a mac_library_scheme \<Rightarrow> recovery_report \<Rightarrow> string \<Rightarrow> string option \<Rightarrow> string option \<Rightarrow> string option \<Rightarrow>
     string \<Rightarrow> exn + receipt" where
  "rr_to_receipt lib r secret execution_id policy_id receipt_id uuid =
     issue_receipt lib uuid (rr_receipt_payload r execution_id policy_id receipt_id uuid) secret"

section \<open>Incident records\<close>

text \<open>\<open>asdict\<close> of an action, a decision and a report.\<close>

definition action_json :: "action \<Rightarrow> json" where
  "action_json a =
     JObj [(''agent_id'', JStr (act_agent_id a)), (''action_id'', JStr (act_action_id a)),
       (''operation'', JStr (act_operation a)), (''resource'', JStr (act_resource a)), (''risk'', JInt (act_risk a)),
       (''metadata'', JObj (act_metadata a))]"

definition decision_json :: "decision \<Rightarrow> json" where
  "decision_json d =
     JObj [(''action_id'', JStr (dec_action_id d)), (''decision'', JStr (decision_value (dec_type d))),
       (''reason'', JStr (dec_reason d)), (''timestamp'', JInt (dec_timestamp d))]"

definition containment_report_json :: "containment_report \<Rightarrow> json" where
  "containment_report_json r =
     JObj [(''agent_id'', JStr (rep_agent_id r)), (''epoch'', JInt (rep_epoch r)),
       (''stages'', strings_json (rep_stages r)), (''failures'', strings_json (rep_failures r)),
       (''persistence_failures'', strings_json (rep_persistence_failures r)),
       (''external_verified'', JBool (rep_external_verified r)),
       (''containment_requested_at'', opt_json JInt (rep_requested_at r)),
       (''provider_applied_at'', opt_json JInt (rep_applied_at r)),
       (''independently_verified_at'', opt_json JInt (rep_verified_at r)),
       (''authority_revoked_at'', opt_json JStr (rep_revoked_at r)),
       (''enforcement_occurred_at'', opt_json JStr (rep_occurred_at r))]"

definition incident_digest :: "'a library_scheme \<Rightarrow> action list \<Rightarrow> decision list \<Rightarrow> string" where
  "incident_digest lib actions decisions =
     lib_sha256 lib (dumps compact_style
       (JObj [(''actions'', JList (map action_json actions)), (''decisions'', JList (map decision_json decisions))]))"

definition containment_digest :: "'a library_scheme \<Rightarrow> containment_report \<Rightarrow> string" where
  "containment_digest lib r = lib_sha256 lib (dumps compact_style (containment_report_json r))"

definition proof_record ::
  "'a library_scheme \<Rightarrow> string \<Rightarrow> action list \<Rightarrow> decision list \<Rightarrow> bool \<Rightarrow> containment_report option \<Rightarrow> json" where
  "proof_record lib agent_id actions decisions is_contained containment =
     JObj ([(''schema'', JStr ''agent-containment/incident/v1''), (''agent_id'', JStr agent_id),
        (''contained'', JBool is_contained), (''actions'', JList (map action_json actions)),
        (''decisions'', JList (map decision_json decisions)), (''sha256'', JStr (incident_digest lib actions decisions))]
      @ (case containment of
           None \<Rightarrow> []
         | Some c \<Rightarrow> [(''containment'', JObj [(''agent_id'', JStr (rep_agent_id c)), (''epoch'', JInt (rep_epoch c)),
             (''stages'', strings_json (rep_stages c)), (''failures'', strings_json (rep_failures c)),
             (''complete'', JBool (rep_complete c)), (''sha256'', JStr (containment_digest lib c))])]))"

end
