(* ===== verification/Regression.thy ===== *)
theory Regression
  imports Hash_Chain Governance_Event Policy
begin

text \<open>
  \<open>regression.py\<close> and \<open>regression_replay.py\<close>: fixtures derived from an incident, whose id is a
  digest of their content, and the replay of a fixture through a fresh policy engine.  A context
  is a JSON dictionary, so the \<open>default=str\<close> of the serialisation is never used.
\<close>

section \<open>Fixtures\<close>

record fixture =
  fx_schema :: string
  fx_fixture_id :: string
  fx_incident_id :: string
  fx_agent_id :: string
  fx_agent_version :: "string option"
  fx_task :: string
  fx_context :: "json dict"
  fx_action_sequence :: "string list"
  fx_policy_decision :: string
  fx_evidence_refs :: "string list"
  fx_containment_result :: string
  fx_expected_behavior :: string

text \<open>The payload whose digest is the identity: every field but the schema and the id.\<close>

definition fixture_payload :: "fixture \<Rightarrow> json" where
  "fixture_payload x =
     JObj [(''incident_id'', JStr (fx_incident_id x)), (''agent_id'', JStr (fx_agent_id x)),
       (''agent_version'', opt_json JStr (fx_agent_version x)), (''task'', JStr (fx_task x)),
       (''context'', JObj (fx_context x)), (''action_sequence'', JList (map JStr (fx_action_sequence x))),
       (''policy_decision'', JStr (fx_policy_decision x)), (''evidence_refs'', JList (map JStr (fx_evidence_refs x))),
       (''containment_result'', JStr (fx_containment_result x)),
       (''expected_future_behavior'', JStr (fx_expected_behavior x))]"

definition compute_fixture_id :: "'a library_scheme \<Rightarrow> fixture \<Rightarrow> string" where
  "compute_fixture_id lib x = ''regression:'' @ take 32 (sha256_of lib (fixture_payload x))"

definition fixture_dict :: "fixture \<Rightarrow> json" where
  "fixture_dict x =
     JObj [(''schema'', JStr (fx_schema x)), (''fixture_id'', JStr (fx_fixture_id x)),
       (''incident_id'', JStr (fx_incident_id x)), (''agent_id'', JStr (fx_agent_id x)),
       (''agent_version'', opt_json JStr (fx_agent_version x)), (''task'', JStr (fx_task x)),
       (''context'', JObj (fx_context x)), (''action_sequence'', JList (map JStr (fx_action_sequence x))),
       (''policy_decision'', JStr (fx_policy_decision x)), (''evidence_refs'', JList (map JStr (fx_evidence_refs x))),
       (''containment_result'', JStr (fx_containment_result x)),
       (''expected_future_behavior'', JStr (fx_expected_behavior x))]"

definition fixture_digest :: "'a library_scheme \<Rightarrow> fixture \<Rightarrow> string" where
  "fixture_digest lib x = sha256_of lib (fixture_dict x)"

definition verify_identity :: "'a library_scheme \<Rightarrow> fixture \<Rightarrow> bool" where
  "verify_identity lib x \<longleftrightarrow> fx_fixture_id x = compute_fixture_id lib x"

text \<open>\<open>build(...)\<close>: the arguments are the fields of \<open>x\<close>; schema and id are set here.\<close>

definition fixture_schema :: string where
  "fixture_schema = ''agent-containment/regression-fixture/v1''"

definition build_fixture :: "'a library_scheme \<Rightarrow> fixture \<Rightarrow> fixture" where
  "build_fixture lib x = x\<lparr>fx_schema := fixture_schema, fx_fixture_id := compute_fixture_id lib x\<rparr>"

text \<open>\<open>repr\<close> of a bool.\<close>

definition py_bool :: "bool \<Rightarrow> string" where
  "py_bool b = (if b then ''True'' else ''False'')"

definition expects_containment :: "fixture \<Rightarrow> bool" where
  "expects_containment x \<longleftrightarrow> fx_containment_result x \<notin> {''not_required'', ''not-configured'', ''none''}"

definition assert_regression :: "'a library_scheme \<Rightarrow> fixture \<Rightarrow> string \<Rightarrow> bool \<Rightarrow> exn + unit" where
  "assert_regression lib x policy_decision containment_required =
     (if \<not> verify_identity lib x then Inl (Exn AssertionError ''regression fixture identity is invalid'')
      else if fx_policy_decision x \<noteq> policy_decision then
        Inl (Exn AssertionError (''policy decision changed: expected '' @ py_repr (fx_policy_decision x)
               @ '', got '' @ py_repr policy_decision))
      else if expects_containment x \<noteq> containment_required then
        Inl (Exn AssertionError (''containment requirement changed: expected '' @ py_bool (expects_containment x)
               @ '', got '' @ py_bool containment_required))
      else Inr ())"

section \<open>Replay\<close>

text \<open>
  \<open>str()\<close> of a value that is not a string, and \<open>int()\<close> of a float or a string, are parameters.
\<close>

record replay_library = library +
  lib_str :: "json \<Rightarrow> string"
  lib_int :: "json \<Rightarrow> exn + int"

fun py_str :: "'a replay_library_scheme \<Rightarrow> json \<Rightarrow> string" where
  "py_str lib (JStr s) = s"
| "py_str lib v = lib_str lib v"

fun py_int :: "'a replay_library_scheme \<Rightarrow> json \<Rightarrow> exn + int" where
  "py_int lib (JInt n) = Inr n"
| "py_int lib (JBool b) = Inr (if b then 1 else 0)"
| "py_int lib (JReal l) = lib_int lib (JReal l)"
| "py_int lib (JStr s) = lib_int lib (JStr s)"
| "py_int lib v = Inl (Exn TypeError ''int() argument must be a string, a bytes-like object or a real number'')"

record replay_result =
  rp_policy_decision :: string
  rp_containment_required :: bool

text \<open>The policy of the context: its denied operations and its threshold (a bool is an int).\<close>

definition denied_strings :: "json option \<Rightarrow> string list option" where
  "denied_strings v =
     (case v of
        None \<Rightarrow> Some []
      | Some (JList xs) \<Rightarrow> those (map (\<lambda>x. case x of JStr s \<Rightarrow> Some s | _ \<Rightarrow> None) xs)
      | _ \<Rightarrow> None)"

definition threshold :: "json option \<Rightarrow> int option" where
  "threshold v =
     (case v of
        None \<Rightarrow> Some 80
      | Some (JInt n) \<Rightarrow> Some n
      | Some (JBool b) \<Rightarrow> Some (if b then 1 else 0)
      | _ \<Rightarrow> None)"

definition replay_engine :: "fixture \<Rightarrow> exn + policy_engine" where
  "replay_engine x =
     (case dict_get (fx_context x) ''policy'' of
        Some (JObj policy) \<Rightarrow>
          (case denied_strings (dict_get policy ''denied_operations'') of
             None \<Rightarrow> Inl (Exn ValueError ''policy.denied_operations must be a list of strings'')
           | Some denied \<Rightarrow>
               (case threshold (dict_get policy ''max_risk'') of
                  None \<Rightarrow> Inl (Exn ValueError ''policy.max_risk must be an integer'')
                | Some max_risk \<Rightarrow> mk_policy_engine (set denied) max_risk [] 256 []))
      | _ \<Rightarrow> Inl (Exn ValueError ''fixture context must contain a policy mapping''))"

definition replay_action :: "'a replay_library_scheme \<Rightarrow> fixture \<Rightarrow> nat \<Rightarrow> string \<Rightarrow> int \<Rightarrow> action" where
  "replay_action lib x index operation risk =
     \<lparr>act_agent_id = fx_agent_id x, act_action_id = fx_incident_id x @ '':'' @ str_int (int index),
      act_operation = operation,
      act_resource = py_str lib (case dict_get (fx_context x) ''resource'' of None \<Rightarrow> JStr ''regression'' | Some v \<Rightarrow> v),
      act_risk = risk, act_metadata = []\<rparr>"

definition context_risk :: "'a replay_library_scheme \<Rightarrow> fixture \<Rightarrow> exn + int" where
  "context_risk lib x = py_int lib (case dict_get (fx_context x) ''risk'' of None \<Rightarrow> JInt 0 | Some v \<Rightarrow> v)"

text \<open>
  The loop over the operations; only the last one carries the risk of the context, and its
  decision is the one that is left.  \<open>now\<close> is the clock at each decision.
\<close>

fun replay_loop ::
  "'a replay_library_scheme \<Rightarrow> (nat \<Rightarrow> int) \<Rightarrow> fixture \<Rightarrow> nat \<Rightarrow> policy_engine \<Rightarrow> string list \<Rightarrow> exn + decision option" where
  "replay_loop lib now x index pe [] = Inr None"
| "replay_loop lib now x index pe (operation # operations) =
     (if operations = [] then
        (case context_risk lib x of
           Inl e \<Rightarrow> Inl e
         | Inr risk \<Rightarrow> Inr (Some (fst (evaluate (now index) pe (replay_action lib x index operation risk)))))
      else replay_loop lib now x (index + 1)
             (snd (evaluate (now index) pe (replay_action lib x index operation 0))) operations)"

definition replay_fixture ::
  "'a replay_library_scheme \<Rightarrow> (nat \<Rightarrow> int) \<Rightarrow> fixture \<Rightarrow> exn + replay_result" where
  "replay_fixture lib now x =
     (case replay_engine x of
        Inl e \<Rightarrow> Inl e
      | Inr pe \<Rightarrow>
          (case replay_loop lib now x 0 pe (fx_action_sequence x) of
             Inl e \<Rightarrow> Inl e
           | Inr None \<Rightarrow> Inl (Exn ValueError ''fixture action_sequence cannot be empty'')
           | Inr (Some d) \<Rightarrow>
               Inr \<lparr>rp_policy_decision = decision_value (dec_type d),
                    rp_containment_required = (dec_type d \<in> {HALT, DENY, CONTAIN})\<rparr>))"

definition assert_fixture_replays ::
  "'a replay_library_scheme \<Rightarrow> (nat \<Rightarrow> int) \<Rightarrow> fixture \<Rightarrow> exn + unit" where
  "assert_fixture_replays lib now x =
     (case replay_fixture lib now x of
        Inl e \<Rightarrow> Inl e
      | Inr result \<Rightarrow>
          if rp_policy_decision result \<noteq> lower (fx_policy_decision x) then
            Inl (Exn AssertionError (''replay policy mismatch: expected '' @ py_repr (fx_policy_decision x)
                   @ '', got '' @ py_repr (rp_policy_decision result)))
          else if rp_containment_required result \<noteq> expects_containment x then
            Inl (Exn AssertionError (''replay containment mismatch: expected '' @ py_bool (expects_containment x)
                   @ '', got '' @ py_bool (rp_containment_required result)))
          else Inr ())"

section \<open>Identity\<close>

lemma payload_of_build: "fixture_payload (build_fixture lib x) = fixture_payload x"
  by (simp add: fixture_payload_def build_fixture_def)

lemma payload_ok: "json_ok (JObj (fx_context x)) \<Longrightarrow> json_ok (fixture_payload x)"
proof -
  have "json_ok (opt_json JStr v)" for v by (cases v) simp_all
  then show "json_ok (JObj (fx_context x)) \<Longrightarrow> json_ok (fixture_payload x)"
    by (simp add: fixture_payload_def list_all_iff)
qed

text \<open>What two payloads that agree up to the order of keys have in common.\<close>

lemma sort_strings: "map sort_json (map JStr xs) = map JStr xs"
  by (induction xs) simp_all

lemma payload_inj:
  assumes "json_ok (fixture_payload x)" and "json_ok (fixture_payload y)"
    and "sort_json (fixture_payload x) = sort_json (fixture_payload y)"
  shows "fx_incident_id x = fx_incident_id y \<and> fx_agent_id x = fx_agent_id y \<and> fx_agent_version x = fx_agent_version y
     \<and> fx_task x = fx_task y \<and> sort_json (JObj (fx_context x)) = sort_json (JObj (fx_context y))
     \<and> fx_action_sequence x = fx_action_sequence y \<and> fx_policy_decision x = fx_policy_decision y
     \<and> fx_evidence_refs x = fx_evidence_refs y \<and> fx_containment_result x = fx_containment_result y
     \<and> fx_expected_behavior x = fx_expected_behavior y"
proof -
  have same: "map_option sort_json (json_get (fixture_payload x) k) = map_option sort_json (json_get (fixture_payload y) k)" for k
    using sort_json_get [OF assms(1), of k] sort_json_get [OF assms(2), of k] assms(3) by simp
  have opt: "sort_json (opt_json JStr u) = sort_json (opt_json JStr v) \<longleftrightarrow> u = v" for u v
    by (cases u; cases v) simp_all
  have strings: "map JStr us = map JStr vs \<longleftrightarrow> us = vs" for us vs
    by (metis inj_map_eq_map injI json.inject(4))
  show ?thesis
    using same [of "''incident_id''"] same [of "''agent_id''"] same [of "''agent_version''"] same [of "''task''"]
      same [of "''context''"] same [of "''action_sequence''"] same [of "''policy_decision''"] same [of "''evidence_refs''"]
      same [of "''containment_result''"] same [of "''expected_future_behavior''"]
    by (simp add: fixture_payload_def opt sort_strings strings del: sort_json.simps(2) map_map)
qed

end
