(* ===== verification/Regression_Props.thy ===== *)
theory Regression_Props
  imports Regression
begin

text \<open>
  What a regression fixture guarantees: its id commits to its content, and its replay decides by
  the last operation alone, the same way at any time.
\<close>

section \<open>Identity\<close>

lemma identity_text:
  assumes "verify_identity lib x" and "verify_identity lib y" and "fx_fixture_id x = fx_fixture_id y"
  shows "take 32 (lib_sha256 lib (dumps canonical_style (fixture_payload x)))
    = take 32 (lib_sha256 lib (dumps canonical_style (fixture_payload y)))"
  using assms by (simp add: verify_identity_def compute_fixture_id_def sha256_of_def)

text \<open>
  A fixture's id commits to its content.  A built fixture passes its identity check, and
  two fixtures that pass it with the same id agree in every field the replay reads (the context up
  to the order of keys), unless their two texts are a collision of the 32 digits kept of the
  digest.  The check does not depend on the schema field.
\<close>

theorem fixture_identity_commits:
  assumes "json_ok (JObj (fx_context x))" and "json_ok (JObj (fx_context y))"
  shows "verify_identity lib (build_fixture lib x)
     \<and> (verify_identity lib x \<and> verify_identity lib y \<and> fx_fixture_id x = fx_fixture_id y \<longrightarrow>
          (fx_incident_id x = fx_incident_id y \<and> fx_agent_id x = fx_agent_id y \<and> fx_agent_version x = fx_agent_version y
           \<and> fx_task x = fx_task y \<and> sort_json (JObj (fx_context x)) = sort_json (JObj (fx_context y))
           \<and> fx_action_sequence x = fx_action_sequence y \<and> fx_policy_decision x = fx_policy_decision y
           \<and> fx_evidence_refs x = fx_evidence_refs y \<and> fx_containment_result x = fx_containment_result y
           \<and> fx_expected_behavior x = fx_expected_behavior y)
          \<or> (let s = dumps canonical_style (fixture_payload x); t = dumps canonical_style (fixture_payload y) in
               s \<noteq> t \<and> take 32 (lib_sha256 lib s) = take 32 (lib_sha256 lib t)))
     \<and> (verify_identity lib (x\<lparr>fx_schema := schema\<rparr>) \<longleftrightarrow> verify_identity lib x)"
proof (intro conjI impI)
  show "verify_identity lib (build_fixture lib x)"
    using payload_of_build [of lib x] by (simp add: verify_identity_def compute_fixture_id_def) (simp add: build_fixture_def compute_fixture_id_def)
next
  assume ver: "verify_identity lib x \<and> verify_identity lib y \<and> fx_fixture_id x = fx_fixture_id y"
  show "(fx_incident_id x = fx_incident_id y \<and> fx_agent_id x = fx_agent_id y \<and> fx_agent_version x = fx_agent_version y
           \<and> fx_task x = fx_task y \<and> sort_json (JObj (fx_context x)) = sort_json (JObj (fx_context y))
           \<and> fx_action_sequence x = fx_action_sequence y \<and> fx_policy_decision x = fx_policy_decision y
           \<and> fx_evidence_refs x = fx_evidence_refs y \<and> fx_containment_result x = fx_containment_result y
           \<and> fx_expected_behavior x = fx_expected_behavior y)
          \<or> (let s = dumps canonical_style (fixture_payload x); t = dumps canonical_style (fixture_payload y) in
               s \<noteq> t \<and> take 32 (lib_sha256 lib s) = take 32 (lib_sha256 lib t))"
  proof (cases "dumps canonical_style (fixture_payload x) = dumps canonical_style (fixture_payload y)")
    case True
    then have "sort_json (fixture_payload x) = sort_json (fixture_payload y)"
      by (rule dumps_inj [OF styles_ok(1) payload_ok [OF assms(1)] payload_ok [OF assms(2)]])
    from payload_inj [OF payload_ok [OF assms(1)] payload_ok [OF assms(2)] this] show ?thesis by (rule disjI1)
  next
    case False
    with identity_text [of lib x y] ver show ?thesis by (simp add: Let_def)
  qed
next
  show "verify_identity lib (x\<lparr>fx_schema := schema\<rparr>) \<longleftrightarrow> verify_identity lib x"
    by (simp add: verify_identity_def compute_fixture_id_def fixture_payload_def)
qed

section \<open>Replay\<close>

text \<open>An engine of a replay: no rules and no classified operations.\<close>

definition plain_engine :: "policy_engine \<Rightarrow> bool" where
  "plain_engine pe \<longleftrightarrow> pe_rules pe = [] \<and> pe_risk pe = []"

lemma replay_engine_plain: "replay_engine x = Inr pe \<Longrightarrow> plain_engine pe"
  by (auto simp: replay_engine_def mk_policy_engine_def plain_engine_def split: option.splits json.splits if_splits)

lemma plain_evaluate:
  assumes "plain_engine pe"
  shows "dec_type (fst (evaluate now pe a))
      = (if act_operation a \<in> pe_denied pe \<or> pe_max_risk pe \<le> max (act_risk a) 0 then HALT else ALLOW)"
    and "plain_engine (snd (evaluate now pe a))" "pe_denied (snd (evaluate now pe a)) = pe_denied pe"
    "pe_max_risk (snd (evaluate now pe a)) = pe_max_risk pe"
  using assms by (auto simp: evaluate_def plain_engine_def effective_risk_def)

lemma replay_loop_last:
  "plain_engine pe \<Longrightarrow> ops \<noteq> [] \<Longrightarrow> context_risk lib x = Inr risk \<Longrightarrow>
     \<exists>d. replay_loop lib now x index pe ops = Inr (Some d)
       \<and> dec_type d = (if last ops \<in> pe_denied pe \<or> pe_max_risk pe \<le> max risk 0 then HALT else ALLOW)"
proof (induction ops arbitrary: index pe)
  case (Cons operation ops)
  show ?case
  proof (cases "ops = []")
    case True
    with Cons.prems plain_evaluate(1) [OF Cons.prems(1)] show ?thesis by (simp add: replay_action_def)
  next
    case False
    let ?pe = "snd (evaluate (now index) pe (replay_action lib x index operation 0))"
    from Cons.IH [of ?pe "index + 1"] False Cons.prems plain_evaluate(2-4) [OF Cons.prems(1)] show ?thesis by simp
  qed
qed simp

text \<open>
  C37: The replay of a fixture is deterministic and decides by its last operation alone: whatever
  the clock and the operations before it, the result is a halt with containment exactly when that
  operation is denied or the risk of the context reaches the threshold, and an allow otherwise.
\<close>

theorem replay_decides_last_action:
  assumes "replay_engine x = Inr pe" and "fx_action_sequence x \<noteq> []" and "context_risk lib x = Inr risk"
  shows "replay_fixture lib now x
    = (let halt = (last (fx_action_sequence x) \<in> pe_denied pe \<or> pe_max_risk pe \<le> max risk 0) in
       Inr \<lparr>rp_policy_decision = (if halt then ''halt'' else ''allow''), rp_containment_required = halt\<rparr>)"
  using replay_loop_last [OF replay_engine_plain [OF assms(1)] assms(2,3), of now 0] assms(1)
  by (auto simp: replay_fixture_def Let_def)

section \<open>Concrete fixtures\<close>

definition replay_lib :: replay_library where
  "replay_lib = \<lparr>lib_float = sample_float, lib_wording = id, lib_sha256 = id, lib_str = (\<lambda>v. ''value''),
     lib_int = (\<lambda>v. Inl (Exn ValueError ''int''))\<rparr>"

definition demo_fixture :: fixture where
  "demo_fixture = \<lparr>fx_schema = fixture_schema, fx_fixture_id = '''', fx_incident_id = ''i-1'', fx_agent_id = ''a'',
     fx_agent_version = None, fx_task = ''t'',
     fx_context = [(''policy'', JObj [(''denied_operations'', JList [JStr ''shell'']), (''max_risk'', JInt 80)]),
       (''risk'', JInt 10)],
     fx_action_sequence = [''read'', ''shell''], fx_policy_decision = ''halt'', fx_evidence_refs = [],
     fx_containment_result = ''enforced'', fx_expected_behavior = ''halt''\<rparr>"

theorem fixture_identity_commits_witness:
  "verify_identity replay_lib (build_fixture replay_lib demo_fixture)"
proof -
  have "json_ok (JObj (fx_context demo_fixture))" by (simp add: demo_fixture_def)
  from fixture_identity_commits [OF this this, of replay_lib] show ?thesis by blast
qed

theorem replay_decides_last_action_witness:
  "replay_fixture replay_lib int demo_fixture = Inr \<lparr>rp_policy_decision = ''halt'', rp_containment_required = True\<rparr>"
proof -
  have "\<exists>pe. replay_engine demo_fixture = Inr pe \<and> pe_denied pe = {''shell''}"
    by (simp add: replay_engine_def demo_fixture_def dict_get_def denied_strings_def threshold_def mk_policy_engine_def)
  then obtain pe where pe: "replay_engine demo_fixture = Inr pe" "pe_denied pe = {''shell''}" by blast
  have "context_risk replay_lib demo_fixture = Inr 10" by (simp add: context_risk_def demo_fixture_def dict_get_def)
  from replay_decides_last_action [OF pe(1) _ this, of int] pe(2) show ?thesis by (simp add: demo_fixture_def Let_def)
qed

text \<open>
  The engine of a replay is built without the sequence rules and the operation risks of the
  policy: the fixture of an incident that a sequence rule halted replays as an allow, and its
  release check fails.
\<close>

definition sequence_fixture :: fixture where
  "sequence_fixture = demo_fixture\<lparr>fx_context := [(''policy'', JObj [(''max_risk'', JInt 80),
       (''sequence_rules'', JList [JObj [(''name'', JStr ''exfil''), (''sequence'', JList [JStr ''read'', JStr ''send''])]])])],
     fx_action_sequence := [''read'', ''send'']\<rparr>"

lemma sequence_incident_not_replayed:
  "\<exists>message. assert_fixture_replays replay_lib now sequence_fixture = Inl (Exn AssertionError message)"
  by (simp add: assert_fixture_replays_def replay_fixture_def sequence_fixture_def demo_fixture_def replay_engine_def
      dict_get_def denied_strings_def threshold_def mk_policy_engine_def context_risk_def evaluate_def effective_risk_def
      replay_action_def lower_def lower_char_def code_def Let_def)

end
