(* ===== verification/Observation.thy ===== *)
theory Observation
  imports Evidence_Chain Runtime
begin

text \<open>
  What consumers of evidence see: \<open>runtime_observation.py\<close> (a digest-bound reading of a runtime),
  \<open>provenance.py\<close> (records of governance events for a sink), \<open>warden_observer.py\<close> (a stream of
  observations), \<open>dprovenancekit_adapter.py\<close> (the sink for an external recorder), \<open>blast_radius.py\<close>
  (the resources touched) and \<open>to_json\<close> of \<open>governance_event.py\<close>.
\<close>

section \<open>Runtime observations\<close>

record runtime_observation =
  ro_schema :: string
  ro_runtime_id :: string
  ro_agent_id :: string
  ro_epoch :: int
  ro_state :: string
  ro_can_execute :: bool
  ro_observed_at :: int
  ro_digest :: string

definition ro_payload :: "runtime_observation \<Rightarrow> json dict" where
  "ro_payload ob =
     [(''schema'', JStr (ro_schema ob)), (''runtime_id'', JStr (ro_runtime_id ob)),
      (''agent_id'', JStr (ro_agent_id ob)), (''epoch'', JInt (ro_epoch ob)), (''state'', JStr (ro_state ob)),
      (''can_execute'', JBool (ro_can_execute ob)), (''observed_at'', JInt (ro_observed_at ob))]"

definition ro_dict :: "runtime_observation \<Rightarrow> json" where
  "ro_dict ob = JObj (ro_payload ob @ [(''digest'', JStr (ro_digest ob))])"

definition ro_integrity :: "'a library_scheme \<Rightarrow> runtime_observation \<Rightarrow> bool" where
  "ro_integrity lib ob \<longleftrightarrow> ro_digest ob = sha256_of lib (JObj (ro_payload ob))"

definition observation_schema :: string where
  "observation_schema = ''agent-containment/runtime-observation/v1''"

text \<open>\<open>now\<close> is \<open>time()\<close>, used when no time is given.\<close>

definition ro_from_snapshot ::
  "'a library_scheme \<Rightarrow> int \<Rightarrow> runtime_snapshot \<Rightarrow> int option \<Rightarrow> runtime_observation" where
  "ro_from_snapshot lib now sn observed_at =
     (let ob = \<lparr>ro_schema = observation_schema, ro_runtime_id = sn_runtime_id sn, ro_agent_id = sn_agent_id sn,
             ro_epoch = sn_epoch sn, ro_state = runtime_state_value (sn_state sn), ro_can_execute = sn_can_execute sn,
             ro_observed_at = (case observed_at of None \<Rightarrow> now | Some t \<Rightarrow> t), ro_digest = []\<rparr>
      in ob\<lparr>ro_digest := sha256_of lib (JObj (ro_payload ob))\<rparr>)"

definition ro_observe :: "'a library_scheme \<Rightarrow> int \<Rightarrow> runtime \<Rightarrow> runtime_observation" where
  "ro_observe lib now rt = ro_from_snapshot lib now (rt_snapshot rt) None"

definition ro_matches :: "'a library_scheme \<Rightarrow> runtime_observation \<Rightarrow> runtime \<Rightarrow> bool" where
  "ro_matches lib ob rt \<longleftrightarrow>
     (if \<not> ro_integrity lib ob then False
      else (let current = rt_snapshot rt in
        ro_schema ob = observation_schema \<and> ro_runtime_id ob = sn_runtime_id current
        \<and> ro_agent_id ob = sn_agent_id current \<and> ro_epoch ob = sn_epoch current
        \<and> ro_state ob = runtime_state_value (sn_state current) \<and> ro_can_execute ob = sn_can_execute current))"

section \<open>Provenance\<close>

definition event_json :: "governance_event \<Rightarrow> string" where
  "event_json e = dumps compact_style (event_dict e)"

record provenance_record =
  pr_schema :: string
  pr_event_id :: string
  pr_event_type :: string
  pr_timestamp :: int
  pr_agent_id :: string
  pr_trace_id :: "string option"
  pr_run_id :: "string option"
  pr_action_id :: "string option"
  pr_policy_decision_id :: "string option"
  pr_incident_id :: "string option"
  pr_containment_epoch :: "int option"
  pr_reason :: "string option"
  pr_attributes_json :: string

definition provenance_schema :: string where
  "provenance_schema = ''agent-containment/governance-event/v1''"

definition mk_provenance :: "governance_event \<Rightarrow> provenance_record" where
  "mk_provenance e =
     \<lparr>pr_schema = provenance_schema, pr_event_id = ge_event_id e, pr_event_type = ge_event_type e,
      pr_timestamp = ge_timestamp e, pr_agent_id = ge_agent_id e, pr_trace_id = ge_trace_id e, pr_run_id = ge_run_id e,
      pr_action_id = ge_action_id e, pr_policy_decision_id = ge_policy_decision_id e, pr_incident_id = ge_incident_id e,
      pr_containment_epoch = ge_containment_epoch e, pr_reason = ge_reason e,
      pr_attributes_json = dumps compact_style (attributes_or_empty (ge_attributes e))\<rparr>"

definition pr_dict :: "'a library_scheme \<Rightarrow> provenance_record \<Rightarrow> exn + json" where
  "pr_dict lib p =
     (case json_loads lib (pr_attributes_json p) of
        Inl e \<Rightarrow> Inl e
      | Inr attributes \<Rightarrow>
          Inr (JObj [(''schema'', JStr (pr_schema p)), (''event_id'', JStr (pr_event_id p)),
            (''event_type'', JStr (pr_event_type p)), (''timestamp'', JInt (pr_timestamp p)),
            (''agent_id'', JStr (pr_agent_id p)), (''trace_id'', opt_json JStr (pr_trace_id p)),
            (''run_id'', opt_json JStr (pr_run_id p)), (''action_id'', opt_json JStr (pr_action_id p)),
            (''policy_decision_id'', opt_json JStr (pr_policy_decision_id p)),
            (''incident_id'', opt_json JStr (pr_incident_id p)),
            (''containment_epoch'', opt_json JInt (pr_containment_epoch p)), (''reason'', opt_json JStr (pr_reason p)),
            (''attributes'', attributes)]))"

definition pr_json :: "'a library_scheme \<Rightarrow> provenance_record \<Rightarrow> exn + string" where
  "pr_json lib p = (case pr_dict lib p of Inl e \<Rightarrow> Inl e | Inr v \<Rightarrow> Inr (dumps compact_style v))"

text \<open>A sink appends a record to the world or raises; the in-memory sink is a list.\<close>

definition memory_sink :: "provenance_record \<Rightarrow> (provenance_record list, unit) prog" where
  "memory_sink p = modifying (\<lambda>records. records @ [p])"

definition pv_emit :: "(provenance_record \<Rightarrow> ('w, unit) prog) \<Rightarrow> governance_event \<Rightarrow> ('w, bool) prog" where
  "pv_emit sink e =
     andthen (attempt (sink (mk_provenance e))) (\<lambda>r. ret (case r of Inl x \<Rightarrow> False | Inr u \<Rightarrow> True))"

section \<open>Warden\<close>

text \<open>
  The state is the observations in arrival order beside the world; \<open>token\<close> is
  \<open>secrets.token_hex(8)\<close>.
\<close>

definition wd_observe ::
  "('w \<Rightarrow> string \<times> 'w) \<Rightarrow> (warden_observation \<Rightarrow> ('w, unit) prog) option \<Rightarrow> governance_event \<Rightarrow>
     (warden_observation list \<times> 'w, warden_observation) prog" where
  "wd_observe token_hex sink e = (\<lambda>(obs, w).
     case token_hex w of (token, w1) \<Rightarrow>
       (case from_governance_event (''warden:obs:'' @ token) e of
          Inl x \<Rightarrow> (Inl x, (obs, w1))
        | Inr ob \<Rightarrow>
            (case sink of
               None \<Rightarrow> (Inr ob, (obs @ [ob], w1))
             | Some deliver \<Rightarrow>
                 (case deliver ob w1 of
                    (Inl x, w2) \<Rightarrow> (Inl x, (obs @ [ob], w2))
                  | (Inr u, w2) \<Rightarrow> (Inr ob, (obs @ [ob], w2))))))"

definition wd_snapshot :: "(warden_observation list \<times> 'w, warden_observation list) prog" where
  "wd_snapshot = reading fst"

section \<open>The external recorder\<close>

text \<open>
  \<open>dprovenancekit\<close> is a parameter: \<open>dk_enter\<close> and \<open>dk_exit\<close> open and close its traced run,
  \<open>dk_record\<close> records an event.  The context variable \<open>_active\<close> is kept beside the world.
\<close>

record 'w dpk =
  dk_record :: "string \<Rightarrow> json \<Rightarrow> ('w, unit) prog"
  dk_enter :: "string \<Rightarrow> string option \<Rightarrow> ('w, unit) prog"
  dk_exit :: "('w, unit) prog"

record dpk_sink =
  ds_db_path :: "string option"
  ds_context_id :: string

definition beside :: "('w, 'a) prog \<Rightarrow> (bool \<times> 'w, 'a) prog" where
  "beside m = (\<lambda>(active, w). case m w of (r, w') \<Rightarrow> (r, (active, w')))"

definition set_active :: "bool \<Rightarrow> (bool \<times> 'w, unit) prog" where
  "set_active b = modifying (\<lambda>(active, w). (b, w))"

definition dk_append :: "'a library_scheme \<Rightarrow> 'w dpk \<Rightarrow> provenance_record \<Rightarrow> (bool \<times> 'w, unit) prog" where
  "dk_append lib k p =
     andthen (reading fst) (\<lambda>active.
     andthen (guarding active (Exn RuntimeError
       ''DProvenanceKitSink.append() requires an active sink.run() context'')) (\<lambda>_.
     andthen (lift_result (pr_dict lib p)) (\<lambda>attributes.
     beside (dk_record k (''agent_containment.'' @ pr_event_type p) attributes))))"

definition dk_call :: "'a library_scheme \<Rightarrow> 'w dpk \<Rightarrow> governance_event \<Rightarrow> (bool \<times> 'w, bool) prog" where
  "dk_call lib k e = pv_emit (dk_append lib k) e"

text \<open>\<open>with sink.run(...): body\<close>; the variable is reset however the body ends.\<close>

definition dk_run ::
  "'w dpk \<Rightarrow> dpk_sink \<Rightarrow> string option \<Rightarrow> string option \<Rightarrow> (bool \<times> 'w, 'a) prog \<Rightarrow> (bool \<times> 'w, 'a) prog" where
  "dk_run k sink context_id db_path body =
     andthen (reading fst) (\<lambda>before.
     andthen (set_active True) (\<lambda>_.
     andthen (attempt
       (andthen (beside (dk_enter k
            (case context_id of None \<Rightarrow> ds_context_id sink | Some c \<Rightarrow> if c = [] then ds_context_id sink else c)
            (case db_path of None \<Rightarrow> ds_db_path sink | Some p \<Rightarrow> Some p))) (\<lambda>_.
        andthen (attempt body) (\<lambda>r.
        andthen (beside (dk_exit k)) (\<lambda>_. lift_result r))))) (\<lambda>outcome.
     andthen (set_active before) (\<lambda>_. lift_result outcome))))"

section \<open>Blast radius\<close>

record resource_graph =
  rg_touched :: "string set"
  rg_modified :: "string set"
  rg_external :: "string set"

definition rg_record :: "string \<Rightarrow> bool \<Rightarrow> bool \<Rightarrow> resource_graph \<Rightarrow> resource_graph" where
  "rg_record r is_modified is_external g =
     g\<lparr>rg_touched := insert r (rg_touched g),
       rg_modified := (if is_modified then insert r (rg_modified g) else rg_modified g),
       rg_external := (if is_external then insert r (rg_external g) else rg_external g)\<rparr>"

definition rg_summary :: "resource_graph \<Rightarrow> json" where
  "rg_summary g =
     JObj [(''touched'', JInt (int (card (rg_touched g)))), (''modified'', JInt (int (card (rg_modified g)))),
       (''external'', JInt (int (card (rg_external g))))]"

end
