(* ===== verification/Observation_Props.thy ===== *)
theory Observation_Props
  imports Observation Runtime_Fencing
begin

text \<open>
  What evidence is worth after it was taken: an observation of a runtime is fenced by the epoch
  like a lease, provenance is best effort and never stops the caller, and the external recorder
  only sees records inside its run.
\<close>

section \<open>Observations are fenced\<close>

lemma fresh_observation_matches: "ro_matches lib (ro_observe lib now rt) rt"
  by (simp add: ro_matches_def ro_observe_def ro_from_snapshot_def ro_integrity_def ro_payload_def Let_def rt_snapshot_def)

text \<open>A step of the runtime other than the two restorations after a controller restart.\<close>

definition live_step :: "runtime_system \<Rightarrow> runtime_event \<Rightarrow> runtime_system \<Rightarrow> bool" where
  "live_step s ev t \<longleftrightarrow> runtime_step s ev t \<and> (\<forall>e. ev \<noteq> EvRestoreContained e \<and> ev \<noteq> EvRestoreActive e)"

definition epoch_started :: "runtime_system \<Rightarrow> bool" where
  "epoch_started s \<longleftrightarrow> 0 \<le> rt_epoch (sys_runtime s)"

lemma live_step_epoch: "live_step s ev t \<Longrightarrow> rt_epoch (sys_runtime s) \<le> rt_epoch (sys_runtime t)"
  unfolding live_step_def by (elim conjE; drule (1) epoch_advances_by_one) simp

lemma live_step_fence: "live_step s ev t \<Longrightarrow> fencing_event ev \<Longrightarrow> rt_epoch (sys_runtime s) < rt_epoch (sys_runtime t)"
  unfolding live_step_def by (elim conjE; drule (1) epoch_advances_by_one) simp

interpretation observation_fence: lease_fence
  "\<lambda>s ob. ro_matches lib ob (sys_runtime s)" "\<lambda>s. nat (rt_epoch (sys_runtime s))" "\<lambda>ob. Some (nat (ro_epoch ob))"
  epoch_started live_step fencing_event for lib :: "'a library_scheme"
proof unfold_locales
  show "Some (nat (ro_epoch ob)) = Some (nat (rt_epoch (sys_runtime s)))" if "ro_matches lib ob (sys_runtime s)" for s ob
    using that by (simp add: ro_matches_def Let_def rt_snapshot_def split: if_splits)
  show "epoch_started t" if "live_step s e t" "epoch_started s" for s e t
    using live_step_epoch [OF that(1)] that(2) by (simp add: epoch_started_def)
  show "nat (rt_epoch (sys_runtime s)) \<le> nat (rt_epoch (sys_runtime t))" if "live_step s e t" "epoch_started s" for s e t
    using live_step_epoch [OF that(1)] by simp
  show "nat (rt_epoch (sys_runtime s)) < nat (rt_epoch (sys_runtime t))"
    if "live_step s e t" "epoch_started s" "fencing_event e" for s e t
    using live_step_fence [OF that(1,3)] that(2) by (simp add: epoch_started_def)
qed

lemma payload_observation_ok: "json_ok (JObj (ro_payload ob))"
  by (simp add: ro_payload_def)

lemma payload_observation_inj: "sort_json (JObj (ro_payload a)) = sort_json (JObj (ro_payload b)) \<Longrightarrow> ro_payload a = ro_payload b"
proof -
  assume "sort_json (JObj (ro_payload a)) = sort_json (JObj (ro_payload b))"
  then have same: "map_option sort_json (json_get (JObj (ro_payload a)) k) = map_option sort_json (json_get (JObj (ro_payload b)) k)" for k
    using sort_json_get [OF payload_observation_ok, of a k] sort_json_get [OF payload_observation_ok, of b k] by simp
  show ?thesis
    using same [of "''schema''"] same [of "''runtime_id''"] same [of "''agent_id''"] same [of "''epoch''"] same [of "''state''"]
      same [of "''can_execute''"] same [of "''observed_at''"]
    by (simp add: ro_payload_def)
qed

text \<open>
  C36: An observation is fenced by the epoch.  A fresh observation matches its runtime; once a
  halt or a containment follows, no observation that matched before matches again, whatever
  operations of the running controller follow; and two observations with the same digest that pass
  the integrity check describe the same facts, unless their two texts are a SHA-256 collision.
\<close>

theorem observation_fenced:
  assumes "runs live_step s es t" and "epoch_started s" and "ro_matches lib ob (sys_runtime s)"
    and "\<exists>e \<in> set es. fencing_event e"
  shows "ro_matches lib (ro_observe lib now (sys_runtime t)) (sys_runtime t) \<and> \<not> ro_matches lib ob (sys_runtime t)
     \<and> (ro_integrity lib ob' \<and> ro_digest ob' = ro_digest ob \<longrightarrow>
          ro_payload ob' = ro_payload ob
          \<or> (let x = dumps canonical_style (JObj (ro_payload ob')); y = dumps canonical_style (JObj (ro_payload ob)) in
               x \<noteq> y \<and> lib_sha256 lib x = lib_sha256 lib y))"
proof (intro conjI impI; (elim conjE)?)
  show "ro_matches lib (ro_observe lib now (sys_runtime t)) (sys_runtime t)" by (rule fresh_observation_matches)
  have "nat (ro_epoch ob) \<le> nat (rt_epoch (sys_runtime s))"
    using observation_fence.valid_stamp [OF assms(3)] by simp
  then show "\<not> ro_matches lib ob (sys_runtime t)"
    by (intro observation_fence.stale_after_fence [OF assms(2,1,4)]) simp
next
  assume "ro_integrity lib ob'" "ro_digest ob' = ro_digest ob"
  moreover have "ro_integrity lib ob" using assms(3) by (simp add: ro_matches_def split: if_splits)
  ultimately have "sha256_of lib (JObj (ro_payload ob')) = sha256_of lib (JObj (ro_payload ob))"
    by (simp add: ro_integrity_def)
  then show "ro_payload ob' = ro_payload ob
          \<or> (let x = dumps canonical_style (JObj (ro_payload ob')); y = dumps canonical_style (JObj (ro_payload ob)) in
               x \<noteq> y \<and> lib_sha256 lib x = lib_sha256 lib y)"
    using payload_observation_inj dumps_inj [OF styles_ok(1) payload_observation_ok payload_observation_ok, of ob' ob]
    by (auto simp: sha256_of_def Let_def)
qed

theorem observation_fenced_witness:
  "let s = runtime_init ''u'' ''agent''; ob = ro_observe sample_lib 5 (sys_runtime s); t = runtime_exec EvContain s in
   ro_matches sample_lib ob (sys_runtime s) \<and> \<not> ro_matches sample_lib ob (sys_runtime t)"
proof -
  let ?s = "runtime_init ''u'' ''agent''"
  have run: "runs live_step ?s [EvContain] (runtime_exec EvContain ?s)"
    by (simp add: runs_Cons_iff live_step_def runtime_step_iff)
  have "epoch_started ?s" by (simp add: epoch_started_def runtime_init_def mk_runtime_def)
  from observation_fenced [OF run this fresh_observation_matches, of sample_lib 5] fresh_observation_matches [of sample_lib 5 "sys_runtime ?s"]
  show ?thesis by (simp add: Let_def fencing_event_def)
qed

section \<open>Provenance is best effort\<close>

text \<open>
  Emitting never raises; it says whether the sink took the record, and it hands the sink exactly
  the record of the event.
\<close>

lemma pv_emit_result:
  "pv_emit sink e w = (Inr (\<exists>u. fst (sink (mk_provenance e) w) = Inr u), snd (sink (mk_provenance e) w))"
  by (cases "sink (mk_provenance e) w"; cases "fst (sink (mk_provenance e) w)") (simp_all add: pv_emit_def prog_defs)

lemma memory_sink_emit: "pv_emit memory_sink e records = (Inr True, records @ [mk_provenance e])"
  by (simp add: pv_emit_result memory_sink_def modifying_def)

text \<open>The record's dictionary holds the event's attributes, read back from their text.\<close>

lemma provenance_attributes:
  assumes "json_ok (attributes_or_empty (ge_attributes e))"
    and "floats_read (lib_float lib) (attributes_or_empty (ge_attributes e))"
  shows "\<exists>v. pr_dict lib (mk_provenance e) = Inr v
     \<and> json_get v ''attributes'' = Some (sort_json (attributes_or_empty (ge_attributes e)))
     \<and> json_get v ''event_id'' = Some (JStr (ge_event_id e))"
  using loads_dumps [OF styles_ok(2) assms] by (simp add: pr_dict_def mk_provenance_def)

section \<open>The external recorder\<close>

text \<open>Outside a run nothing is recorded and the emitter reports it.\<close>

lemma dk_call_inactive: "dk_call lib k e (False, w) = (Inr False, (False, w))"
  by (simp add: dk_call_def pv_emit_def dk_append_def prog_defs)

text \<open>However the body of a run ends, the activity flag is what it was.\<close>

lemma beside_flag: "beside m (active, w) = (r, (active', w')) \<Longrightarrow> active' = active"
  by (auto simp: beside_def split: prod.splits)

lemma dk_run_restores: "dk_run k sink c p body (active, w) = (r, (active', w')) \<Longrightarrow> active' = active"
  by (auto simp: dk_run_def set_active_def run_rules)

section \<open>Blast radius\<close>

lemma rg_record_contained:
  assumes "rg_modified g \<subseteq> rg_touched g" and "rg_external g \<subseteq> rg_touched g"
  shows "rg_modified (rg_record r m x g) \<subseteq> rg_touched (rg_record r m x g)
     \<and> rg_external (rg_record r m x g) \<subseteq> rg_touched (rg_record r m x g)"
  using assms by (auto simp: rg_record_def)

end
