(* ===== verification/Destination.thy ===== *)
theory Destination
  imports Json_Text "HOL-Library.Product_Lexorder"
begin

text \<open>
  \<open>destination_egress.py\<close> and \<open>destination_binding.py\<close>: host:port entries of an egress policy,
  their canonical form, and the context a provider binds them in.  \<open>ip\<close> stands for
  \<open>str(ipaddress.ip_address(text))\<close>, \<open>None\<close> when that raises.
\<close>

record destination =
  dst_host :: string
  dst_port :: int

definition mk_destination :: "string \<Rightarrow> int \<Rightarrow> exn + destination" where
  "mk_destination host port =
     (if host = [] then Inl (Exn ValueError ''destination host must be non-empty'')
      else if \<not> (1 \<le> port \<and> port \<le> 65535) then
        Inl (Exn ValueError ''destination port must be between 1 and 65535'')
      else Inr \<lparr>dst_host = host, dst_port = port\<rparr>)"

section \<open>Hostnames\<close>

text \<open>The labels and the length that \<open>_HOSTNAME_RE\<close> demands.\<close>

definition alnum :: "char \<Rightarrow> bool" where
  "alnum c \<longleftrightarrow> is_digit c \<or> 65 \<le> code c \<and> code c \<le> 90 \<or> 97 \<le> code c \<and> code c \<le> 122"

definition label_ok :: "string \<Rightarrow> bool" where
  "label_ok l \<longleftrightarrow> l \<noteq> [] \<and> length l \<le> 63 \<and> alnum (hd l) \<and> alnum (last l) \<and> list_all (\<lambda>c. alnum c \<or> c = CHR ''-'') l"

definition hostname_ok :: "string \<Rightarrow> bool" where
  "hostname_ok h \<longleftrightarrow> 1 \<le> length h \<and> length h \<le> 253 \<and> list_all label_ok (split_at_most (length h) (CHR ''.'') h)"

definition rstrip :: "char \<Rightarrow> string \<Rightarrow> string" where
  "rstrip c s = rev (dropWhile (\<lambda>d. d = c) (rev s))"

section \<open>Parsing\<close>

text \<open>The host and the port text of an entry.\<close>

definition split_entry :: "string \<Rightarrow> exn + string \<times> string" where
  "split_entry entry =
     (if take 1 entry = ''['' then
        (case partition_at (CHR '']'') entry of
           Some (l, r) \<Rightarrow>
             if take 1 r = '':'' then Inr (drop 1 l, drop 1 r)
             else Inl (Exn ValueError ''IPv6 destinations must use [address]:port syntax'')
         | None \<Rightarrow> Inl (Exn ValueError ''IPv6 destinations must use [address]:port syntax''))
      else (case partition_at (CHR '':'') entry of
           Some (l, r) \<Rightarrow>
             if CHR '':'' \<in> set r then
               Inl (Exn ValueError ''destination must be host:port; IPv6 literals require brackets'')
             else Inr (l, r)
         | None \<Rightarrow> Inl (Exn ValueError ''destination must be host:port; IPv6 literals require brackets'')))"

definition parse_port :: "string \<Rightarrow> exn + int" where
  "parse_port t =
     (if t = [] \<or> \<not> list_all is_digit t then Inl (Exn ValueError ''destination port must be decimal'')
      else (let port = int (digits_value 0 t) in
        if 1 \<le> port \<and> port \<le> 65535 then Inr port
        else Inl (Exn ValueError ''destination port must be between 1 and 65535'')))"

definition parse_host :: "(string \<Rightarrow> string option) \<Rightarrow> string \<Rightarrow> exn + string" where
  "parse_host ip t =
     (case ip t of
        Some canonical \<Rightarrow> Inr canonical
      | None \<Rightarrow>
          (let host = lower (rstrip (CHR ''.'') t) in
           if \<not> hostname_ok host then Inl (Exn ValueError ''destination host must be a DNS hostname or IP address'')
           else if take 1 host = ''.'' \<or> take 1 (rev host) = ''.'' then
             Inl (Exn ValueError ''destination hostname is invalid'')
           else Inr host))"

definition parse_destination :: "(string \<Rightarrow> string option) \<Rightarrow> string \<Rightarrow> exn + destination" where
  "parse_destination ip entry =
     (if entry = [] then Inl (Exn ValueError ''destination must be a non-empty string'')
      else if strip entry \<noteq> entry \<or> list_ex py_space entry then
        Inl (Exn ValueError ''destination must not contain whitespace'')
      else (case split_entry entry of
          Inl e \<Rightarrow> Inl e
        | Inr (host_text, port_text) \<Rightarrow>
            (case parse_port port_text of
               Inl e \<Rightarrow> Inl e
             | Inr port \<Rightarrow>
                 (case parse_host ip host_text of
                    Inl e \<Rightarrow> Inl e
                  | Inr host \<Rightarrow> mk_destination host port))))"

section \<open>Canonical lists\<close>

fun parse_all :: "(string \<Rightarrow> string option) \<Rightarrow> string list \<Rightarrow> exn + destination list" where
  "parse_all ip [] = Inr []"
| "parse_all ip (v # vs) =
     (case parse_destination ip v of
        Inl e \<Rightarrow> Inl e
      | Inr d \<Rightarrow> (case parse_all ip vs of Inl e \<Rightarrow> Inl e | Inr ds \<Rightarrow> Inr (d # ds)))"

definition dst_key :: "destination \<Rightarrow> string \<times> int" where
  "dst_key d = (dst_host d, dst_port d)"

definition canonicalize :: "(string \<Rightarrow> string option) \<Rightarrow> string list \<Rightarrow> exn + destination list" where
  "canonicalize ip values =
     (case parse_all ip values of Inl e \<Rightarrow> Inl e | Inr ds \<Rightarrow> Inr (sort_key dst_key (remdups ds)))"

definition destination_text :: "destination \<Rightarrow> string" where
  "destination_text d =
     (if CHR '':'' \<in> set (dst_host d) then ''['' @ dst_host d @ '']'' else dst_host d) @ '':'' @ str_int (dst_port d)"

definition canonical_strings :: "(string \<Rightarrow> string option) \<Rightarrow> string list \<Rightarrow> exn + string list" where
  "canonical_strings ip values =
     (case canonicalize ip values of Inl e \<Rightarrow> Inl e | Inr ds \<Rightarrow> Inr (map destination_text ds))"

section \<open>Binding\<close>

record binding_context =
  bc_policy_id :: string
  bc_policy_digest :: string
  bc_agent_id :: string
  bc_runtime_id :: string
  bc_epoch :: int
  bc_destinations :: "destination list"

definition mk_binding_context :: "binding_context \<Rightarrow> exn + binding_context" where
  "mk_binding_context c =
     (if bc_epoch c < 0 then Inl (Exn ValueError ''destination binding epoch must be non-negative'') else Inr c)"

record binding_evidence =
  be_provider :: string
  be_provider_version :: string
  be_effective_config_digest :: string
  be_verification_method :: string
  be_verified :: bool

end
