(* ===== verification/Destination_Props.thy ===== *)
theory Destination_Props
  imports Destination
begin

text \<open>
  The canonical form of destinations: every entry is rendered to a text that parses back to it,
  and the canonical list depends only on which destinations are named.
\<close>

section \<open>What the parser needs of addresses\<close>

text \<open>
  Documented behaviour of \<open>ipaddress\<close>: the canonical text of an address is one of itself and made
  of the characters of the text and of the digits and separators of addresses; a text without a
  colon can only be an IPv4 address, which has no other form.
\<close>

definition ip_laws :: "(string \<Rightarrow> string option) \<Rightarrow> bool" where
  "ip_laws ip \<longleftrightarrow> (\<forall>s t. ip s = Some t \<longrightarrow> t \<noteq> [] \<and> ip t = Some t
     \<and> (\<forall>c \<in> set t. c \<in> set s \<or> is_digit c \<or> c \<in> set ''abcdef:.'')
     \<and> (if CHR '':'' \<in> set s then CHR '':'' \<in> set t else t = s \<and> (\<forall>c \<in> set s. is_digit c \<or> c = CHR ''.'')))"

definition spaceless :: "string \<Rightarrow> bool" where
  "spaceless s \<longleftrightarrow> (\<forall>c \<in> set s. \<not> py_space c)"

lemma strip_spaceless: "spaceless s \<Longrightarrow> strip s = s"
proof -
  assume s: "spaceless s"
  have "dropWhile py_space t = t" if "spaceless t" for t
    using that by (cases t) (auto simp: spaceless_def)
  moreover have "spaceless (rev s)" using s by (simp add: spaceless_def)
  ultimately show ?thesis using s by (simp add: strip_def)
qed

lemma spaceless_append [simp]: "spaceless (s @ t) \<longleftrightarrow> spaceless s \<and> spaceless t"
  by (auto simp: spaceless_def)

lemma spaceless_Cons [simp]: "spaceless (c # s) \<longleftrightarrow> \<not> py_space c \<and> spaceless s"
  by (auto simp: spaceless_def)

lemma spaceless_Nil [simp]: "spaceless []"
  by (simp add: spaceless_def)

lemma spaceless_subset: "set s \<subseteq> set t \<Longrightarrow> spaceless t \<Longrightarrow> spaceless s"
  by (auto simp: spaceless_def)

lemma digit_not_space: "is_digit c \<Longrightarrow> \<not> py_space c"
  by (auto simp: is_digit_def py_space_def)

lemma address_char_not_space: "c \<in> set ''abcdef:.'' \<Longrightarrow> \<not> py_space c"
  by (auto simp: py_space_def code_def)

section \<open>Hostnames\<close>

lemma split_chars: "c \<in> set s \<Longrightarrow> c = d \<or> (\<exists>l \<in> set (split_at_most n d s). c \<in> set l)"
proof (induction n arbitrary: s)
  case (Suc n)
  show ?case
  proof (cases "partition_at d s")
    case (Some lr)
    obtain l r where lr: "lr = (l, r)" by fastforce
    with Some partition_at_text have "s = l @ d # r" by blast
    with Suc.prems have "c \<in> set l \<or> c = d \<or> c \<in> set r" by auto
    with Suc.IH [of r] Some lr show ?thesis by auto
  qed (use Suc.prems in simp)
qed simp

lemma hostname_chars: "hostname_ok h \<Longrightarrow> c \<in> set h \<Longrightarrow> alnum c \<or> c = CHR ''-'' \<or> c = CHR ''.''"
  using split_chars [of c h "CHR ''.''" "length h"] by (fastforce simp: hostname_ok_def label_ok_def list_all_iff)

lemma alnum_plain: "alnum c \<Longrightarrow> \<not> py_space c \<and> c \<notin> set ''[]:''"
  by (auto simp: alnum_def is_digit_def py_space_def code_def)

lemma hostname_plain:
  assumes "hostname_ok h"
  shows "spaceless h" "CHR '':'' \<notin> set h" "take 1 h \<noteq> ''[''"
proof -
  have plain: "\<not> py_space c \<and> c \<notin> set ''[]:''" if "c \<in> set h" for c
    using hostname_chars [OF assms that] alnum_plain [of c] by (auto simp: py_space_def code_def)
  then show "spaceless h" by (simp add: spaceless_def)
  show "CHR '':'' \<notin> set h" using plain by fastforce
  show "take 1 h \<noteq> ''[''" using plain by (cases h) auto
qed

lemma lower_char_again: "lower_char (lower_char c) = lower_char c"
proof -
  have shifted: "code (char_of (code c + 32)) = code c + 32" if "code c + 32 < 256"
    using that by (simp add: code_def)
  show ?thesis
  proof (cases "65 \<le> code c \<and> code c \<le> 90 \<or> 192 \<le> code c \<and> code c \<le> 222 \<and> code c \<noteq> 215")
    case True
    then show ?thesis using shifted by (auto simp: lower_char_def Let_def)
  qed (auto simp: lower_char_def Let_def)
qed

lemma lower_again: "lower (lower s) = lower s"
  by (simp add: lower_def lower_char_again)

lemma rstrip_none: "take 1 (rev h) \<noteq> [c] \<Longrightarrow> rstrip c h = h"
  by (cases h rule: rev_cases) (auto simp: rstrip_def)

section \<open>Entries\<close>

lemma partition_at_first: "c \<notin> set l \<Longrightarrow> partition_at c (l @ c # r) = Some (l, r)"
proof -
  assume c: "c \<notin> set l"
  then have "takeWhile (\<lambda>d. d \<noteq> c) (l @ c # r) = l" "dropWhile (\<lambda>d. d \<noteq> c) (l @ c # r) = c # r"
    by (induction l) auto
  then show ?thesis by (simp add: partition_at_def)
qed

lemma port_text:
  assumes "1 \<le> port" and "port \<le> 65535"
  shows "parse_port (str_int port) = Inr port" "spaceless (str_int port)" "CHR '':'' \<notin> set (str_int port)"
proof -
  have digits: "str_int port = digits_of (nat port)" using assms by (simp add: str_int_def)
  have all: "is_digit c" if "c \<in> set (digits_of (nat port))" for c
    using digits_of_chars [OF that] by (simp add: is_digit_def code_def)
  have "digits_of (nat port) \<noteq> []" by (subst digits_of.simps) simp
  with all digits assms show "parse_port (str_int port) = Inr port"
    by (simp add: parse_port_def digits_value_of list_all_iff)
  show "spaceless (str_int port)" using all digit_not_space digits by (auto simp: spaceless_def)
  show "CHR '':'' \<notin> set (str_int port)" using str_int_chars by blast
qed

lemma entry_bracketed:
  "CHR '']'' \<notin> set h \<Longrightarrow> split_entry (''['' @ h @ '']'' @ '':'' @ p) = Inr (h, p)"
  using partition_at_first [of "CHR '']''" "CHR ''['' # h" "CHR '':'' # p"] by (simp add: split_entry_def)

lemma entry_plain:
  "CHR '':'' \<notin> set h \<Longrightarrow> CHR '':'' \<notin> set p \<Longrightarrow> take 1 h \<noteq> ''['' \<Longrightarrow> split_entry (h @ '':'' @ p) = Inr (h, p)"
  using partition_at_first [of "CHR '':''" h p] by (cases h) (simp_all add: split_entry_def)

text \<open>A host that parses to itself.\<close>

lemma parsed_destination:
  assumes "parse_destination ip entry = Inr d"
  shows "\<exists>host_text port_text. spaceless entry \<and> split_entry entry = Inr (host_text, port_text)
     \<and> parse_host ip host_text = Inr (dst_host d) \<and> dst_host d \<noteq> [] \<and> 1 \<le> dst_port d \<and> dst_port d \<le> 65535"
  using assms
  by (auto simp: parse_destination_def mk_destination_def spaceless_def list_ex_iff
      split: if_splits sum.splits prod.splits)

lemma destination_text_parses:
  assumes "split_entry (destination_text d) = Inr (dst_host d, str_int (dst_port d))" and "spaceless (destination_text d)"
    and "parse_host ip (dst_host d) = Inr (dst_host d)" and "dst_host d \<noteq> []" "1 \<le> dst_port d" "dst_port d \<le> 65535"
  shows "parse_destination ip (destination_text d) = Inr d"
proof -
  have "destination_text d \<noteq> []" by (simp add: destination_text_def)
  with assms strip_spaceless [OF assms(2)] port_text [OF assms(5,6)] show ?thesis
    by (auto simp: parse_destination_def mk_destination_def spaceless_def list_ex_iff)
qed

lemma destination_roundtrip:
  assumes laws: "ip_laws ip" and d: "parse_destination ip entry = Inr d"
  shows "parse_destination ip (destination_text d) = Inr d"
proof -
  from parsed_destination [OF d] obtain ht pt where entry: "spaceless entry" "split_entry entry = Inr (ht, pt)"
    and host: "parse_host ip ht = Inr (dst_host d)" and ok: "dst_host d \<noteq> []" "1 \<le> dst_port d" "dst_port d \<le> 65535"
    by blast
  note port = port_text [OF ok(2,3)]
  have chars: "set ht \<subseteq> set entry" "CHR '':'' \<in> set ht \<Longrightarrow> CHR '']'' \<notin> set ht"
  proof -
    show "set ht \<subseteq> set entry"
      using entry(2) by (auto simp: split_entry_def split: if_splits option.splits dest!: partition_at_text dest: in_set_dropD)
    show "CHR '']'' \<notin> set ht" if "CHR '':'' \<in> set ht"
      using entry(2) that by (auto simp: split_entry_def split: if_splits option.splits dest!: partition_at_text dest: in_set_dropD)
  qed
  then have ht: "spaceless ht" using spaceless_subset entry(1) by blast
  show ?thesis
  proof (cases "ip ht")
    case (Some t)
    with host have t: "dst_host d = t" by (simp add: parse_host_def)
    from laws Some have law: "ip t = Some t" "\<forall>c \<in> set t. c \<in> set ht \<or> is_digit c \<or> c \<in> set ''abcdef:.''"
      "CHR '':'' \<in> set ht \<longleftrightarrow> CHR '':'' \<in> set t"
      "CHR '':'' \<notin> set ht \<Longrightarrow> t = ht \<and> (\<forall>c \<in> set ht. is_digit c \<or> c = CHR ''.'')"
      unfolding ip_laws_def by (blast, blast, metis, metis)
    have space: "spaceless t"
      unfolding spaceless_def using law(2) ht digit_not_space address_char_not_space by (auto simp: spaceless_def)
    have self: "parse_host ip (dst_host d) = Inr (dst_host d)" using law(1) t by (simp add: parse_host_def)
    show ?thesis
    proof (cases "CHR '':'' \<in> set t")
      case True
      with chars(2) law(2,3) have "CHR '']'' \<notin> set t" by (auto simp: is_digit_def code_def)
      with entry_bracketed True t space port(2) show ?thesis
        by (intro destination_text_parses [OF _ _ self ok]) (simp_all add: destination_text_def py_space_def code_def)
    next
      case False
      with law(3,4) have "\<forall>c \<in> set t. is_digit c \<or> c = CHR ''.''" by simp
      moreover have "t \<noteq> []" using ok(1) t by simp
      ultimately have "take 1 t \<noteq> ''[''" by (cases t) (auto simp: is_digit_def code_def)
      with entry_plain [OF _ port(3)] False t space port(2) show ?thesis
        by (intro destination_text_parses [OF _ _ self ok]) (simp_all add: destination_text_def py_space_def code_def)
    qed
  next
    case None
    with host have h0: "hostname_ok (dst_host d)" "lower (rstrip (CHR ''.'') ht) = dst_host d"
      and ends: "take 1 (rev (dst_host d)) \<noteq> ''.''" "take 1 (dst_host d) \<noteq> ''.''"
      by (auto simp: parse_host_def Let_def split: if_splits)
    have "lower (dst_host d) = dst_host d" using lower_again [of "rstrip (CHR ''.'') ht"] h0(2) by simp
    with h0(1) ends have h: "hostname_ok (dst_host d)" "lower (dst_host d) = dst_host d" "take 1 (rev (dst_host d)) \<noteq> ''.''"
      "take 1 (dst_host d) \<noteq> ''.''" by simp_all
    note plain = hostname_plain [OF h(1)]
    have self: "parse_host ip (dst_host d) = Inr (dst_host d)"
    proof (cases "ip (dst_host d)")
      case None
      with h rstrip_none [OF h(3)] show ?thesis by (simp add: parse_host_def Let_def)
    next
      case (Some t)
      with laws plain(2) have "t = dst_host d" unfolding ip_laws_def by metis
      with Some show ?thesis by (simp add: parse_host_def)
    qed
    from entry_plain [OF plain(2) port(3) plain(3)] plain port(2) show ?thesis
      by (intro destination_text_parses [OF _ _ self ok]) (simp_all add: destination_text_def py_space_def code_def)
  qed
qed

section \<open>Canonical lists\<close>

lemma parse_all_iff: "parse_all ip vs = Inr ds \<longleftrightarrow> map (parse_destination ip) vs = map Inr ds"
proof (induction vs arbitrary: ds)
  case (Cons v vs)
  have "parse_all ip (v # vs) = Inr ds \<longleftrightarrow>
      (\<exists>d rest. parse_destination ip v = Inr d \<and> parse_all ip vs = Inr rest \<and> ds = d # rest)"
    by (auto split: sum.split)
  also have "\<dots> \<longleftrightarrow> map (parse_destination ip) (v # vs) = map Inr ds"
    using Cons.IH by (cases ds) auto
  finally show ?case .
qed auto

lemma parse_all_set: "parse_all ip vs = Inr ds \<Longrightarrow> Inr ` set ds = parse_destination ip ` set vs"
  unfolding parse_all_iff by (metis list.set_map)

lemma parse_all_total: "\<forall>v \<in> set vs. \<exists>d. parse_destination ip v = Inr d \<Longrightarrow> \<exists>ds. parse_all ip vs = Inr ds"
  by (induction vs) auto

lemma dst_key_inj: "inj_on dst_key S"
  by (auto simp: inj_on_def dst_key_def)

text \<open>A sorted list of distinct destinations is determined by its elements.\<close>

lemma sorted_destinations_unique:
  assumes "sorted (map dst_key xs)" "distinct xs" "sorted (map dst_key ys)" "distinct ys" "set xs = set ys"
  shows "xs = ys"
proof -
  have "distinct (map dst_key xs)" "distinct (map dst_key ys)" using assms(2,4) dst_key_inj by (simp_all add: distinct_map)
  with assms(1,3,5) have "map dst_key xs = map dst_key ys" by (intro sorted_distinct_set_unique) simp_all
  then show ?thesis using dst_key_inj [of "set xs \<union> set ys"] by (simp add: inj_on_map_eq_map)
qed

lemma canonical_form:
  assumes "canonicalize ip values = Inr ds"
  shows "sorted (map dst_key ds) \<and> distinct ds \<and> Inr ` set ds = parse_destination ip ` set values"
proof -
  from assms obtain ps where ps: "parse_all ip values = Inr ps" and ds: "ds = sort_key dst_key (remdups ps)"
    by (auto simp: canonicalize_def split: sum.splits)
  from parse_all_set [OF ps] ds show ?thesis by simp
qed

text \<open>
  C38: The canonical form of a destination list.  It is sorted and without duplicates, holds
  exactly the destinations the entries name, does not depend on the order, repetition or spelling
  of the entries, and every text it is rendered to parses back to its destination: canonicalizing
  the canonical texts gives the same list.
\<close>

theorem destinations_canonical:
  assumes "ip_laws ip" and "canonicalize ip values = Inr ds"
  shows "sorted (map dst_key ds) \<and> distinct ds \<and> Inr ` set ds = parse_destination ip ` set values
     \<and> (\<forall>other. parse_destination ip ` set other = parse_destination ip ` set values \<longrightarrow> canonicalize ip other = Inr ds)
     \<and> canonicalize ip (map destination_text ds) = Inr ds"
proof -
  note form = canonical_form [OF assms(2)]
  have unique: "canonicalize ip other = Inr ds" if "parse_destination ip ` set other = Inr ` set ds" for other
  proof -
    have "\<forall>v \<in> set other. \<exists>d. parse_destination ip v = Inr d"
    proof
      fix v assume "v \<in> set other"
      then have "parse_destination ip v \<in> Inr ` set ds" unfolding that [symmetric] by (rule imageI)
      then show "\<exists>d. parse_destination ip v = Inr d" by (elim imageE) (rule exI)
    qed
    then obtain ps where ps: "parse_all ip other = Inr ps" using parse_all_total by blast
    then have can: "canonicalize ip other = Inr (sort_key dst_key (remdups ps))" by (simp add: canonicalize_def)
    have "(Inr :: destination \<Rightarrow> exn + destination) ` set (sort_key dst_key (remdups ps)) = Inr ` set ds"
      using parse_all_set [OF ps] that by simp
    then have "set (sort_key dst_key (remdups ps)) = set ds" by (simp add: inj_image_eq_iff)
    with form have "sort_key dst_key (remdups ps) = ds" by (intro sorted_destinations_unique) simp_all
    with can show ?thesis by simp
  qed
  have texts: "parse_destination ip (destination_text d) = Inr d" if "d \<in> set ds" for d
  proof -
    from form have same: "Inr ` set ds = parse_destination ip ` set values" by (rule conjunct2 [THEN conjunct2])
    have "Inr d \<in> parse_destination ip ` set values" unfolding same [symmetric] using that by (rule imageI)
    then obtain v where "parse_destination ip v = Inr d" by (elim imageE) simp
    then show ?thesis by (rule destination_roundtrip [OF assms(1)])
  qed
  then have "parse_destination ip ` set (map destination_text ds) = Inr ` set ds"
    by (simp add: image_image cong: image_cong)
  from unique [OF this] unique form show ?thesis by (metis (lifting))
qed

text \<open>Addresses as dotted quads only, for an example.\<close>

definition quad_ip :: "string \<Rightarrow> string option" where
  "quad_ip s = (if s \<in> {''10.0.0.1'', ''127.0.0.1''} then Some s else None)"

lemma quad_ip_laws: "ip_laws quad_ip"
  by (auto simp: ip_laws_def quad_ip_def is_digit_def code_def)

theorem destinations_canonical_witness:
  "\<exists>ds. canonicalize quad_ip [''Example.COM.:443'', ''10.0.0.1:80'', ''example.com:443''] = Inr ds
     \<and> distinct ds \<and> canonicalize quad_ip (map destination_text ds) = Inr ds"
proof -
  have "canonicalize quad_ip [''Example.COM.:443'', ''10.0.0.1:80'', ''example.com:443'']
      = Inr [\<lparr>dst_host = ''10.0.0.1'', dst_port = 80\<rparr>, \<lparr>dst_host = ''example.com'', dst_port = 443\<rparr>]"
    by code_simp
  then show ?thesis using destinations_canonical [OF quad_ip_laws] by blast
qed

text \<open>
  A text that \<open>ipaddress\<close> refuses is taken for a hostname when it has the characters of one: the
  shorthand \<open>127.1\<close>, which system resolvers read as the address 127.0.0.1, is accepted as a name,
  and so is a bracketed name.
\<close>

lemma shorthand_address_is_hostname:
  "parse_destination quad_ip ''127.1:80'' = Inr \<lparr>dst_host = ''127.1'', dst_port = 80\<rparr>"
  "parse_destination quad_ip ''[example.com]:80'' = Inr \<lparr>dst_host = ''example.com'', dst_port = 80\<rparr>"
  by code_simp+

end
