(* ===== verification/Control_Typing.thy ===== *)
theory Control_Typing
  imports Control_System Control_Demo
begin

text \<open>
  The well-formedness of the whole state of the service, kept by every operation: what an agent
  object holds fits together, and no two agents share a recovery capability.
\<close>

section \<open>Well-formed agents and services\<close>

definition agent_ok :: "obj \<Rightarrow> string \<Rightarrow> 'w managed_agent \<Rightarrow> bool" where
  "agent_ok n a m \<longleftrightarrow>
     rt_agent_id (ma_runtime m) = a \<and> engine_ok (ma_policy m)
     \<and> (ma_identity_pid m \<noteq> None \<longrightarrow> ma_identity_digest m \<noteq> None)
     \<and> (ma_identity_digest m \<noteq> None \<longrightarrow> ma_identity_cgroup m \<noteq> None)
     \<and> ma_capability m = Some (rt_capability (ma_runtime m)) \<and> rt_capability (ma_runtime m) < n"

definition well_typed :: "'w service \<Rightarrow> bool" where
  "well_typed s \<longleftrightarrow>
     dict_ok (svc_agents s) \<and> dict_ok (svc_reviews s)
     \<and> (\<forall>i r. dict_get (svc_reviews s) i = Some r \<longrightarrow> rv_id r = i)
     \<and> (\<forall>a m. dict_get (svc_agents s) a = Some m \<longrightarrow> agent_ok (svc_next s) a m)
     \<and> (\<forall>a b m m'. dict_get (svc_agents s) a = Some m \<longrightarrow> dict_get (svc_agents s) b = Some m' \<longrightarrow>
          ma_capability m = ma_capability m' \<longrightarrow> a = b)"

lemma well_typed_agent: "well_typed s \<Longrightarrow> dict_get (svc_agents s) a = Some m \<Longrightarrow> agent_ok (svc_next s) a m"
  by (simp add: well_typed_def)

lemma agent_ok_mono: "agent_ok n a m \<Longrightarrow> n \<le> k \<Longrightarrow> agent_ok k a m"
  by (simp add: agent_ok_def)

text \<open>Replacing an agent by a well-formed one that keeps the capability, or has a new one.\<close>

lemma well_typed_set:
  assumes "well_typed s" and "agent_ok n b m'" and "svc_next s \<le> n"
    and "(\<exists>m. dict_get (svc_agents s) b = Some m \<and> ma_capability m' = ma_capability m)
      \<or> (\<forall>c. ma_capability m' = Some c \<longrightarrow> svc_next s \<le> c)"
  shows "well_typed (s\<lparr>svc_agents := dict_set b m' (svc_agents s), svc_next := n\<rparr>)"
proof -
  have old: "agent_ok (svc_next s) a m" "\<exists>c. ma_capability m = Some c \<and> c < svc_next s"
    if "dict_get (svc_agents s) a = Some m" for a m
    using well_typed_agent [OF assms(1) that] by (simp_all add: agent_ok_def)
  have other: "a = b" if "dict_get (svc_agents s) a = Some m" "ma_capability m = ma_capability m'" for a m
    using assms(4)
  proof
    assume "\<exists>m0. dict_get (svc_agents s) b = Some m0 \<and> ma_capability m' = ma_capability m0"
    with that assms(1) show ?thesis by (fastforce simp: well_typed_def)
  next
    assume new: "\<forall>c. ma_capability m' = Some c \<longrightarrow> svc_next s \<le> c"
    from old(2) [OF that(1)] that(2) new show ?thesis by auto
  qed
  show ?thesis
    using assms(1-3) old(1) other
    by (auto simp: well_typed_def intro: agent_ok_mono [OF _ assms(3)] dest: sym)
qed

lemma well_typed_keep:
  assumes "well_typed s" and "dict_get (svc_agents s) b = Some m" and "agent_ok (svc_next s) b m'"
    and "ma_capability m' = ma_capability m"
  shows "well_typed (s\<lparr>svc_agents := dict_set b m' (svc_agents s)\<rparr>)"
  using well_typed_set [OF assms(1,3) order_refl] assms(2,4) by simp

section \<open>The pieces\<close>

lemma well_typed_world_free [preserving]: "world_free well_typed"
  by (simp add: world_free_def well_typed_def)

lemma well_typed_world [simp]: "well_typed (s\<lparr>svc_world := w\<rparr>) = well_typed s"
  by (simp add: well_typed_def)

lemma well_typed_pieces [preserving]:
  "preserves well_typed (with_fences env f)"
  "preserves well_typed (with_incidents env g)"
  "preserves well_typed alloc"
  by (rule preservesI; auto simp: well_typed_def with_fences_run with_incidents_run alloc_run
      intro: agent_ok_mono [OF _ le_SucI [OF order_refl]])+

lemma well_typed_update:
  assumes "\<And>n m. agent_ok n b m \<Longrightarrow> agent_ok n b (f m) \<and> ma_capability (f m) = ma_capability m"
  shows "preserves well_typed (update_managed b f)"
proof (rule preservesI)
  fix s :: "'a service" and r t
  assume s: "well_typed s" and run: "update_managed b f s = (r, t)"
  show "well_typed t"
  proof (cases "dict_get (svc_agents s) b")
    case None
    with s run show ?thesis by (simp add: update_managed_run)
  next
    case (Some m)
    from assms [OF well_typed_agent [OF s Some]] have "well_typed (s\<lparr>svc_agents := dict_set b (f m) (svc_agents s)\<rparr>)"
      by (intro well_typed_keep [OF s Some]) simp_all
    with run Some show ?thesis by (simp add: update_managed_run)
  qed
qed

text \<open>A controller that keeps the name and the capability of its runtime.\<close>

lemma agent_ok_controller:
  assumes "agent_ok n b m" and "rt_agent_id (ctl_runtime c) = rt_agent_id (ma_runtime m)"
    and "rt_capability (ctl_runtime c) = rt_capability (ma_runtime m)"
  shows "agent_ok n b (m\<lparr>ma_containment := c\<rparr>)"
  using assms by (simp add: agent_ok_def ma_runtime_def)

lemma well_typed_controller:
  assumes "\<And>c w v c' w'. k c w = ((v, c'), w') \<Longrightarrow>
      rt_agent_id (ctl_runtime c') = rt_agent_id (ctl_runtime c)
      \<and> rt_capability (ctl_runtime c') = rt_capability (ctl_runtime c)"
  shows "preserves well_typed (on_controller b k)"
proof (rule preservesI)
  fix s :: "'a service" and r t
  assume s: "well_typed s" and run: "on_controller b k s = (r, t)"
  show "well_typed t"
    using run [unfolded on_controller_run]
  proof (elim disjE exE conjE)
    fix m v c w
    assume 2: "dict_get (svc_agents s) b = Some m" "k (ma_containment m) (svc_world s) = ((v, c), w)"
        "t = s\<lparr>svc_agents := dict_set b (m\<lparr>ma_containment := c\<rparr>) (svc_agents s), svc_world := w\<rparr>"
    from assms [OF 2(2)] have "agent_ok (svc_next s) b (m\<lparr>ma_containment := c\<rparr>)"
      by (intro agent_ok_controller [OF well_typed_agent [OF s 2(1)]]) (simp_all add: ma_runtime_def)
    from well_typed_keep [OF s 2(1) this] have "well_typed (s\<lparr>svc_agents := dict_set b (m\<lparr>ma_containment := c\<rparr>) (svc_agents s)\<rparr>)"
      by simp
    then show ?thesis unfolding 2(3) by simp
  qed (use s in simp)
qed

lemma well_typed_contain [preserving]: "preserves well_typed (on_controller b (ctl_contain clk p))"
proof (rule well_typed_controller)
  fix c w v c' w'
  assume "ctl_contain clk p c w = ((v, c'), w')"
  then have "ctl_runtime c' = rt_contain p (ctl_runtime c)" using ctl_contain_frame(2) [of clk p c w] by simp
  then show "rt_agent_id (ctl_runtime c') = rt_agent_id (ctl_runtime c)
      \<and> rt_capability (ctl_runtime c') = rt_capability (ctl_runtime c)" by simp
qed

lemma well_typed_providers [preserving]:
  "preserves well_typed (release_all b)" "preserves well_typed (recontain_all b)"
  unfolding release_all_def recontain_all_def by (rule well_typed_controller; auto split: prod.splits)+

lemma well_typed_identity [preserving]:
  "preserves well_typed (revoke_identity b)"
  "preserves well_typed (update_managed b (\<lambda>m. m\<lparr>ma_identity_cgroup := Some path\<rparr>))"
  "preserves well_typed (update_managed b (\<lambda>m. m\<lparr>ma_policy := snd (evaluate now (ma_policy m) act)\<rparr>))"
  "preserves well_typed (update_managed b (\<lambda>m. m\<lparr>ma_containment := c\<lparr>ctl_runtime := ma_runtime m\<rparr>\<rparr>))"
  "preserves well_typed (update_managed b (\<lambda>m.
       if rt_ref (ma_runtime m) = ref then m\<lparr>ma_containment := ctl_halt p (ma_containment m)\<rparr> else m))"
  unfolding revoke_identity_def
  by (rule well_typed_update; auto simp: agent_ok_def ma_runtime_def ctl_halt_def evaluate_engine_ok)+

text \<open>A rotation gives the agent an object no other agent holds.\<close>

lemma agent_ok_rotated:
  assumes "rt_agent_id (ma_runtime m) = b" and "engine_ok (ma_policy m)"
    and "ma_identity_pid m \<noteq> None \<longrightarrow> ma_identity_digest m \<noteq> None"
    and "ma_identity_digest m \<noteq> None \<longrightarrow> ma_identity_cgroup m \<noteq> None"
  shows "agent_ok (n + 1) b (m\<lparr>ma_containment := (ma_containment m)\<lparr>ctl_runtime := (ma_runtime m)\<lparr>rt_capability := n\<rparr>\<rparr>,
     ma_capability := Some n\<rparr>)"
  using assms by (simp add: agent_ok_def ma_runtime_def)

lemma well_typed_rotate [preserving]: "preserves well_typed (rotate_capability b)"
proof (rule preservesI)
  fix s :: "'a service" and r t
  assume s: "well_typed s" and run: "rotate_capability b s = (r, t)"
  show "well_typed t"
  proof (cases "dict_get (svc_agents s) b")
    case None
    then have "t = s\<lparr>svc_next := svc_next s + 1\<rparr>" using run by (auto simp: rotate_capability_def piece_runs)
    with preservesD [OF well_typed_pieces(3), of s] s show ?thesis by (simp add: alloc_run)
  next
    case (Some m)
    let ?m = "m\<lparr>ma_containment := (ma_containment m)\<lparr>ctl_runtime := (ma_runtime m)\<lparr>rt_capability := svc_next s\<rparr>\<rparr>,
       ma_capability := Some (svc_next s)\<rparr>"
    have ok: "agent_ok (svc_next s + 1) b ?m"
      using well_typed_agent [OF s Some] by (intro agent_ok_rotated) (simp_all add: agent_ok_def)
    from run Some have "t = s\<lparr>svc_agents := dict_set b ?m (svc_agents s), svc_next := svc_next s + 1\<rparr>"
      by (auto simp: rotate_capability_def piece_runs rt_rotate_capability_def Let_def)
    with well_typed_set [OF s ok] show ?thesis by simp
  qed
qed

section \<open>The operations\<close>

lemma token_run:
  assumes "svc_issue_identity_token env b peer s = (r, t)"
  obtains (refused) "t = s"
  | (issued) m d w where "dict_get (svc_agents s) b = Some m" "ma_identity_cgroup m \<noteq> None"
      "t = s\<lparr>svc_agents := dict_set b (m\<lparr>ma_identity_digest := Some d, ma_identity_pid := peer\<rparr>) (svc_agents s),
              svc_world := w\<rparr>"
proof (cases "dict_get (svc_agents s) b")
  case None
  with assms refused show ?thesis by (auto simp: svc_issue_identity_token_def piece_runs)
next
  case (Some m)
  obtain v w where v: "env_token_urlsafe env (svc_world s) = (v, w)" by fastforce
  show ?thesis
  proof (cases "(case peer of None \<Rightarrow> True | Some pid \<Rightarrow> 0 < pid) \<and> ma_identity_cgroup m \<noteq> None")
    case True
    with assms Some v have "t = s\<lparr>svc_agents := dict_set b (m\<lparr>ma_identity_digest := Some (env_sha256 env v),
        ma_identity_pid := peer\<rparr>) (svc_agents s), svc_world := w\<rparr>"
      by (auto simp: svc_issue_identity_token_def prog_defs svc_managed_def sense_def update_managed_def)
    with True issued [OF Some] show ?thesis by blast
  next
    case False
    with assms Some refused show ?thesis
      by (auto simp: svc_issue_identity_token_def prog_defs svc_managed_def split: option.splits if_splits)
  qed
qed

lemma well_typed_token [preserving]: "preserves well_typed (svc_issue_identity_token env b peer)"
proof (rule preservesI)
  fix s :: "'a service" and r t
  assume s: "well_typed s" and run: "svc_issue_identity_token env b peer s = (r, t)"
  from run show "well_typed t"
  proof (cases rule: token_run)
    case (issued m d w)
    have "agent_ok (svc_next s) b (m\<lparr>ma_identity_digest := Some d, ma_identity_pid := peer\<rparr>)"
      using well_typed_agent [OF s issued(1)] issued(2) by (simp add: agent_ok_def ma_runtime_def)
    from well_typed_keep [OF s issued(1) this] show ?thesis unfolding issued(3) by simp
  qed (use s in simp)
qed

lemma well_typed_workloads [preserving]:
  "preserves well_typed (svc_configure_containment b c)"
  "preserves well_typed (svc_create_workload env b)"
  "preserves well_typed (svc_attach_workload env b pid)"
  unfolding svc_configure_containment_def svc_create_workload_def svc_attach_workload_def
  by (intro preserving)+

lemma well_typed_unregister [preserving]: "preserves well_typed (svc_unregister b)"
  by (rule preservesI) (auto simp: well_typed_def svc_unregister_def modifying_run split: if_splits)

lemma well_typed_review_set [preserving]:
  "rv_id request = i \<Longrightarrow> preserves well_typed (modifying (\<lambda>s. s\<lparr>svc_reviews := dict_set i request (svc_reviews s)\<rparr>))"
  by (rule preservesI) (auto simp: well_typed_def modifying_run)

text \<open>The review an operation reads carries the id it was asked for.\<close>

lemma svc_review_typed:
  assumes s: "well_typed s" and run: "svc_review env i s = (r, t)"
  shows "well_typed t \<and> (\<forall>request. r = Inr request \<longrightarrow> rv_id request = i)"
proof (cases "dict_get (svc_reviews s) i")
  case None
  with run s show ?thesis by (auto simp: svc_review_def piece_runs)
next
  case (Some request)
  with s have named: "rv_id request = i" by (simp add: well_typed_def)
  obtain now w where now: "clk_time (env_clock env) (svc_world s) = (now, w)" by fastforce
  have next_run: "svc_review env i s = (if rv_current_state now request = rv_state request
      then (Inr request, s\<lparr>svc_world := w\<rparr>)
      else (Inr (request\<lparr>rv_state := rv_current_state now request\<rparr>), s\<lparr>svc_world := w,
          svc_reviews := dict_set i (request\<lparr>rv_state := rv_current_state now request\<rparr>) (svc_reviews s)\<rparr>))"
    using Some now by (simp add: svc_review_def prog_defs read_time_def sense_def)
  show ?thesis
    using run s named unfolding next_run by (auto simp: well_typed_def split: if_splits)
qed

lemma well_typed_review [preserving]: "preserves well_typed (svc_review env i)"
  by (rule preservesI) (simp add: svc_review_typed)

text \<open>What follows the reading of a review is a program on that review.\<close>

lemma well_typed_with_review:
  assumes "\<And>request. rv_id request = i \<Longrightarrow> preserves well_typed (k request)"
  shows "preserves well_typed (andthen (svc_review env i) k)"
proof (rule preservesI)
  fix s :: "'a service" and r t
  assume s: "well_typed s" and run: "andthen (svc_review env i) k s = (r, t)"
  from run consider e where "svc_review env i s = (Inl e, t)"
    | request u where "svc_review env i s = (Inr request, u)" "k request u = (r, t)"
    unfolding andthen_run by blast
  then show "well_typed t"
  proof cases
    case 2
    with svc_review_typed [OF s 2(1)] show ?thesis by (auto intro: preservesD [OF assms 2(2)])
  qed (use svc_review_typed [OF s] in simp)
qed

lemma well_typed_set_review [preserving]: "rv_id request = i \<Longrightarrow> preserves well_typed (set_review i request)"
  unfolding set_review_def by (rule well_typed_review_set)

lemma well_typed_create_review [preserving]:
  "preserves well_typed (create_review env act)"
  "preserves well_typed (request_review env act)"
  unfolding request_review_def create_review_def by (intro preserving; simp)+

lemma well_typed_svc_contain [preserving]: "preserves well_typed (svc_contain env b)"
  unfolding svc_contain_def contain_runtime_def audit_containment_def contain_finish_def
  by (intro preserving)

lemma well_typed_reviews [preserving]:
  "preserves well_typed (svc_approve_review env i)"
  "preserves well_typed (svc_escalate_review env i)"
  unfolding svc_approve_review_def svc_escalate_review_def
  by (rule well_typed_with_review; intro preserving; simp)+

lemma well_typed_auth [preserving]:
  "preserves well_typed (auth_check env snap token peer membership)"
  "preserves well_typed (auth_decide env act snap b)"
  "preserves well_typed (auth_finish env act ref d)"
  unfolding auth_check_def auth_decide_def deny_def evaluate_policy_def auth_finish_def halt_managed_def
  by (intro preserving)+

lemma well_typed_verified [preserving]: "preserves well_typed (verified_outcome env act signal base)"
  unfolding verified_outcome_def verify_decision_def emit_verification_def by (intro preserving)

lemma well_typed_reconcile [preserving]:
  "preserves well_typed (svc_reconcile_containment b)"
  "preserves well_typed (svc_issue_recovery_authorization env b)"
  unfolding svc_issue_recovery_authorization_def svc_reconcile_containment_def
    need_contained_at_def need_recoverable_def
  by (intro preserving)+

text \<open>The reactivated runtime keeps its name and its capability.\<close>

lemma well_typed_activate [preserving]: "preserves well_typed (activate_runtime b e)"
proof (rule preservesI)
  fix s :: "'a service" and r t
  assume s: "well_typed s" and run: "activate_runtime b e s = (r, t)"
  let ?s = "s\<lparr>svc_next := svc_next s + 1\<rparr>"
  have s1: "well_typed ?s" using preservesD [OF well_typed_pieces(3), of s] s by (simp add: alloc_run)
  have "t = ?s \<or> (\<exists>m n rt. dict_get (svc_agents s) b = Some m
     \<and> rt_recover (svc_next s) (ma_capability m) e (ma_runtime m) = Inr (n, rt)
     \<and> t = ?s\<lparr>svc_agents := dict_set b (m\<lparr>ma_containment := (ma_containment m)\<lparr>ctl_runtime := rt\<rparr>\<rparr>) (svc_agents s)\<rparr>)"
    using run
    by (cases "dict_get (svc_agents s) b"; cases "rt_recover (svc_next s) (ma_capability (the (dict_get (svc_agents s) b))) e
          (ma_runtime (the (dict_get (svc_agents s) b)))")
       (auto simp: activate_runtime_def piece_runs)
  then show "well_typed t"
  proof (elim disjE exE conjE)
    fix m n rt
    assume m: "dict_get (svc_agents s) b = Some m"
      and rec: "rt_recover (svc_next s) (ma_capability m) e (ma_runtime m) = Inr (n, rt)"
      and t: "t = ?s\<lparr>svc_agents := dict_set b (m\<lparr>ma_containment := (ma_containment m)\<lparr>ctl_runtime := rt\<rparr>\<rparr>) (svc_agents s)\<rparr>"
    from m have m1: "dict_get (svc_agents ?s) b = Some m" by simp
    have "agent_ok (svc_next ?s) b (m\<lparr>ma_containment := (ma_containment m)\<lparr>ctl_runtime := rt\<rparr>\<rparr>)"
      using well_typed_agent [OF s1 m1] rec by (intro agent_ok_controller) (auto simp: rt_recover_Inr)
    from well_typed_keep [OF s1 m1 this] t show ?thesis by simp
  qed (use s1 in simp)
qed

lemma well_typed_recover [preserving]: "preserves well_typed (svc_recover env b auth)"
  unfolding svc_recover_split recover_after_checks_def recover_clear_fence_def recover_release_def
    recover_commit_def recover_activate_def recover_finish_def compensate_fence_def compensate_incident_def
  by (intro preserving) (simp add: preserves_def)

section \<open>Registration\<close>

text \<open>The admitted runtime carries the id it is registered under: no stage renames it.\<close>

definition yields :: "('a \<Rightarrow> bool) \<Rightarrow> ('s, 'a) prog \<Rightarrow> bool" where
  "yields P m \<longleftrightarrow> (\<forall>s v t. m s = (Inr v, t) \<longrightarrow> P v)"

named_theorems yielding

lemma yields_andthen [yielding]: "(\<And>v. yields P (k v)) \<Longrightarrow> yields P (andthen m k)"
  by (auto simp: yields_def andthen_run)

lemma yields_pure [yielding]: "P v \<Longrightarrow> yields P (ret v)" "yields P (raise e)"
  by (auto simp: yields_def run_rules)

lemma yields_if [yielding]: "(b \<Longrightarrow> yields P m) \<Longrightarrow> (\<not> b \<Longrightarrow> yields P n) \<Longrightarrow> yields P (if b then m else n)"
  by simp

lemma yields_option [yielding]:
  "yields P m \<Longrightarrow> (\<And>x. v = Some x \<Longrightarrow> yields P (k x)) \<Longrightarrow> yields P (case v of None \<Rightarrow> m | Some x \<Rightarrow> k x)"
  by (cases v) simp_all

lemma yields_restore [yielding]:
  "rt_agent_id rt = b \<Longrightarrow> yields (\<lambda>rt. rt_agent_id rt = b) (restore_runtime e rt)"
  by (auto simp: yields_def restore_runtime_def piece_runs dest!: rt_restore_contained_Inr [THEN iffD1, OF sym])

lemma yields_stages [yielding]:
  assumes "rt_agent_id rt = b"
  shows "yields (\<lambda>rt. rt_agent_id rt = b) (admit_runtime_fenced supplied fence rt)"
    and "yields (\<lambda>rt. rt_agent_id rt = b) (admit_runtime env a supplied fence prior rt)"
  unfolding admit_runtime_fenced_def admit_runtime_def admit_recovered_def admit_contained_def
  by (intro yielding assms)+

text \<open>The two stages that see the runtime of the admission, after its id was compared.\<close>

lemma fenced_named:
  "admit_runtime_fenced supplied fence rt s = (Inr rt', t) \<Longrightarrow> rt_agent_id rt = b \<Longrightarrow> rt_agent_id rt' = b"
  by (rule yields_stages(1) [unfolded yields_def, rule_format])

lemma runtime_named:
  "admit_runtime env a supplied fence prior rt s = (Inr rt', t) \<Longrightarrow> rt_agent_id rt = b \<Longrightarrow> rt_agent_id rt' = b"
  by (rule yields_stages(2) [unfolded yields_def, rule_format])

lemma admitted_runtime_named: "admit env a c s = (Inr rt, t) \<Longrightarrow> rt_agent_id rt = a"
  unfolding admit_def andthen_run guarding_run
  by (elim disjE exE conjE; simp split: if_splits; drule (1) fenced_named; drule (1) runtime_named; assumption)

lemma well_typed_admit [preserving]: "preserves well_typed (admit env b c)"
  unfolding admit_def register_runtime_def new_runtime_def admit_orphan_fence_def
    reconstruct_incident_def admit_fence_over_recovery_def admit_runtime_fenced_def restore_runtime_def
    admit_runtime_def admit_recovered_def admit_contained_def
  by (intro preserving)

text \<open>
  A registered agent is well formed once its capability is rotated; between the two assignments it
  has none, so the two steps are taken together.
\<close>

lemma well_typed_install:
  assumes s: "well_typed s" and "rt_agent_id rt = b" and "\<And>pe. policy = Some pe \<Longrightarrow> engine_ok pe"
    and run: "andthen (modifying (\<lambda>s. s\<lparr>svc_agents := dict_set b (mk_managed rt c md policy) (svc_agents s)\<rparr>))
        (\<lambda>_. rotate_capability b) s = (r, t)"
  shows "r = Inr () \<and> well_typed t"
proof -
  let ?m = "mk_managed rt c md policy"
  let ?m' = "?m\<lparr>ma_containment := (ma_containment ?m)\<lparr>ctl_runtime := (ma_runtime ?m)\<lparr>rt_capability := svc_next s\<rparr>\<rparr>,
     ma_capability := Some (svc_next s)\<rparr>"
  have "engine_ok default_policy_engine"
    by (simp add: engine_ok_def default_policy_engine_def)
  with assms(3) have "engine_ok (ma_policy ?m)" by (simp add: mk_managed_def split: option.split)
  moreover have "rt_agent_id (ma_runtime ?m) = b"
    using assms(2) by (simp add: mk_managed_def ma_runtime_def mk_controller_def split: option.split)
  ultimately have ok: "agent_ok (svc_next s + 1) b ?m'"
    by (intro agent_ok_rotated) (simp_all add: mk_managed_def)
  have "r = Inr () \<and> t = s\<lparr>svc_agents := dict_set b ?m' (svc_agents s), svc_next := svc_next s + 1\<rparr>"
    using run by (auto simp: rotate_capability_def piece_runs modifying_run rt_rotate_capability_def Let_def)
  with well_typed_set [OF s ok] show ?thesis by simp
qed

lemma andthen_assoc: "andthen (andthen m k) h = andthen m (\<lambda>v. andthen (k v) h)"
  by (auto simp: fun_eq_iff andthen_def split: prod.splits sum.splits)

lemma register_split:
  "svc_register env b c md policy =
     andthen (admit env b c) (\<lambda>rt.
     andthen (andthen (modifying (\<lambda>s. s\<lparr>svc_agents := dict_set b (mk_managed rt c md policy) (svc_agents s)\<rparr>))
        (\<lambda>_. rotate_capability b)) (\<lambda>_.
     andthen (audit_record env ''agent_registered'' b (\<lambda>e. e)) (\<lambda>_.
     andthen (emit_event env ''agent_registered'' b (\<lambda>e. e)) (\<lambda>_.
     andthen (svc_managed b) (\<lambda>m. ret (ma_runtime m))))))"
  unfolding svc_register_def by (intro arg_cong [where f = "andthen (admit env b c)"]) (simp add: andthen_assoc)

lemma well_typed_register:
  assumes "\<And>pe. policy = Some pe \<Longrightarrow> engine_ok pe"
  shows "preserves well_typed (svc_register env b c md policy)"
proof (rule preservesI)
  fix s :: "'a service" and r t
  assume s: "well_typed s" and run: "svc_register env b c md policy s = (r, t)"
  let ?rest = "\<lambda>_. andthen (audit_record env ''agent_registered'' b (\<lambda>e. e)) (\<lambda>_.
     andthen (emit_event env ''agent_registered'' b (\<lambda>e. e)) (\<lambda>_.
     andthen (svc_managed b) (\<lambda>m. ret (ma_runtime m))))"
  have rest: "preserves well_typed (?rest u)" for u by (intro preserving)
  obtain ad s1 where admit: "admit env b c s = (ad, s1)" by fastforce
  have s1: "well_typed s1" by (rule preservesD [OF well_typed_admit admit s])
  show "well_typed t"
  proof (cases ad)
    case (Inl e)
    with run admit s1 show ?thesis by (simp add: register_split andthen_def)
  next
    case (Inr rt)
    obtain q s2 where inst: "andthen (modifying (\<lambda>s. s\<lparr>svc_agents := dict_set b (mk_managed rt c md policy) (svc_agents s)\<rparr>))
        (\<lambda>_. rotate_capability b) s1 = (q, s2)" by fastforce
    have "rt_agent_id rt = b" using admit Inr by (simp add: admitted_runtime_named)
    from well_typed_install [OF s1 this assms inst] have "q = Inr ()" "well_typed s2" by simp_all
    moreover from run admit Inr inst this have "?rest () s2 = (r, t)"
      by (simp add: register_split andthen_def [of "admit env b c"] andthen_def [of "andthen _ _"])
    ultimately show ?thesis by (blast intro: preservesD [OF rest])
  qed
qed

section \<open>The system\<close>

text \<open>The only input of the caller that is constrained is the policy engine given to a registration.\<close>

definition typed_step :: "(json \<Rightarrow> string) \<Rightarrow> 'w service \<Rightarrow> 'w service_event \<Rightarrow> 'w service \<Rightarrow> bool" where
  "typed_step wording s ev t \<longleftrightarrow>
     service_step wording s ev t
     \<and> (\<forall>env a c md pe. ev = Call env (Register a c md (Some pe)) \<longrightarrow> engine_ok pe)"

lemma well_typed_perform:
  assumes "\<And>a d md pe. c = Register a d md (Some pe) \<Longrightarrow> engine_ok pe" and "well_typed s"
  shows "well_typed (perform env c s)"
proof (cases c)
  case (Register a d md pe)
  then have "\<And>p. pe = Some p \<Longrightarrow> engine_ok p" using assms(1) by simp
  from preserves_effect [OF well_typed_register [OF this] assms(2)] Register show ?thesis by simp
qed (use assms(2) in \<open>simp_all add: preserves_effect preserving\<close>)

lemma mk_service_typed: "mk_service wording x env ig fg n w = Inr s \<Longrightarrow> well_typed s"
  by (auto simp: mk_service_def Let_def well_typed_def split: if_splits sum.splits)

lemma well_typed_step:
  assumes "typed_step wording s ev t" and "well_typed s"
  shows "well_typed t"
proof -
  from assms(1) have step: "service_step wording s ev t"
    and given: "\<And>env a c md pe. ev = Call env (Register a c md (Some pe)) \<Longrightarrow> engine_ok pe"
    by (simp_all add: typed_step_def)
  from step show ?thesis
  proof cases
    case (do_call env c)
    have "engine_ok pe" if "c = Register a d md (Some pe)" for a d md pe
      by (rule given) (simp add: do_call(1) that)
    from well_typed_perform [OF this assms(2)] do_call(2) show ?thesis by simp
  next
    case (restarted ig fg n env w)
    then show ?thesis by (auto intro: mk_service_typed)
  next
    case (outside w)
    with assms(2) show ?thesis by simp
  qed
qed

text \<open>
  C10: The state of the service is well formed after any operations, restarts and faults: an
  agent's runtime carries the id it is registered under, its policy history is within the limit
  and free of forbidden sequences, an identity token exists only beside a workload cgroup and a
  process binding only beside a token, the capability the service keeps is the one its runtime
  checks, no two agents share one, and a review is stored under its own id.
\<close>

theorem service_well_typed:
  assumes "mk_service wording fence_contents env incidents fences n w = Inr s0"
    and "runs (typed_step wording) s0 es s"
  shows "dict_ok (svc_agents s) \<and> dict_ok (svc_reviews s)
     \<and> (\<forall>i r. dict_get (svc_reviews s) i = Some r \<longrightarrow> rv_id r = i)
     \<and> (\<forall>a m. dict_get (svc_agents s) a = Some m \<longrightarrow>
          rt_agent_id (ma_runtime m) = a \<and> engine_ok (ma_policy m)
          \<and> (ma_identity_pid m \<noteq> None \<longrightarrow> ma_identity_digest m \<noteq> None)
          \<and> (ma_identity_digest m \<noteq> None \<longrightarrow> ma_identity_cgroup m \<noteq> None)
          \<and> ma_capability m = Some (rt_capability (ma_runtime m)))
     \<and> (\<forall>a b m m'. dict_get (svc_agents s) a = Some m \<longrightarrow> dict_get (svc_agents s) b = Some m' \<longrightarrow>
          ma_capability m = ma_capability m' \<longrightarrow> a = b)"
proof -
  have "well_typed s"
    by (rule runs_invariant [where I = well_typed, OF assms(2) mk_service_typed [OF assms(1)]]) (rule well_typed_step)
  then show ?thesis by (simp add: well_typed_def agent_ok_def)
qed

theorem service_well_typed_witness:
  "\<exists>s m. runs (typed_step (\<lambda>_. [])) empty_service [Call demo_env (Register ''a'' None None None)] s
     \<and> dict_get (svc_agents s) ''a'' = Some m \<and> ma_capability m = Some (rt_capability (ma_runtime m))"
proof -
  let ?s = "effect (svc_register demo_env ''a'' None None None) empty_service"
  have start: "mk_service (\<lambda>_. []) None demo_env (Some (svc_incidents empty_service))
      (Some (svc_fences empty_service)) 10 0 = Inr empty_service"
    by (simp add: mk_service_def demo_env_def empty_service_def)
  have run: "runs (typed_step (\<lambda>_. [])) empty_service [Call demo_env (Register ''a'' None None None)] ?s"
    using do_call [of "\<lambda>_. []" empty_service demo_env "Register ''a'' None None None"]
    by (simp add: runs_Cons_iff typed_step_def)
  have "\<exists>m. dict_get (svc_agents ?s) ''a'' = Some m"
    by (simp add: effect_def svc_register_def admit_def register_runtime_def new_runtime_def admit_orphan_fence_def
        admit_fence_over_recovery_def admit_runtime_fenced_def admit_runtime_def ig_latest_for_agent_def
        dict_values_def demo_run_defs Let_def dict_get_def dict_set_def)
  then obtain m where "dict_get (svc_agents ?s) ''a'' = Some m" by blast
  with service_well_typed [OF start run] run show ?thesis by blast
qed

end
