(* ===== verification/Host_Adapters.thy ===== *)
theory Host_Adapters
  imports Transport
begin

text \<open>
  The small adapters to the host: \<open>process.py\<close> (killing a cgroup), \<open>bootstrap.py\<close> (the launcher's
  admission check), \<open>proof.py\<close> (the list of proofs a test run writes) and the wiring of
  \<open>daemon.py\<close>; its start, loop and end are in theory \<open>Listener\<close>.
\<close>

section \<open>Processes\<close>

definition noop_process_contain :: "('w, int) prog" where
  "noop_process_contain = ret 0"

definition mk_cgroup_process :: "'w os \<Rightarrow> string \<Rightarrow> ('w, string) prog" where
  "mk_cgroup_process os path =
     andthen (if os_posix os then os_exists os ''/sys/fs/cgroup/cgroup.controllers'' else ret False) (\<lambda>ok.
     andthen (guarding ok (Exn RuntimeError ''cgroup v2 is not available on this host'')) (\<lambda>_.
     andthen (os_is_dir os path) (\<lambda>found.
     andthen (guarding found (Exn ValueError (''cgroup path does not exist: '' @ path))) (\<lambda>_. ret path))))"

definition cgroup_process_contain :: "'w os \<Rightarrow> string \<Rightarrow> ('w, int) prog" where
  "cgroup_process_contain os path =
     (let kill_file = path_join path ''cgroup.kill'' in
      andthen (os_exists os kill_file) (\<lambda>ok.
      andthen (guarding ok (Exn RuntimeError ''cgroup.kill is unavailable; refusing weaker process-tree kill'')) (\<lambda>_.
      andthen (os_write_text os kill_file ''1'') (\<lambda>_. ret 1))))"

section \<open>Bootstrap\<close>

text \<open>\<open>connect\<close> opens a stream to the socket, with the timeout set, and closes it.\<close>

definition bootstrap_error :: "string \<Rightarrow> exn" where
  "bootstrap_error = Exn (OtherException ''BootstrapAdmissionError'')"

definition require_controller_available ::
  "'w os \<Rightarrow> (string \<Rightarrow> ('w, unit) prog) \<Rightarrow> string \<Rightarrow> ('w, unit) prog" where
  "require_controller_available os connect path =
     andthen (os_exists os path) (\<lambda>found.
     andthen (guarding found (bootstrap_error ''controller socket is unavailable'')) (\<lambda>_.
     catch (connect path)
       (\<lambda>e. raise (if is_os_error e then bootstrap_error ''controller endpoint is unavailable'' else e))))"

text \<open>A workload is admitted only when the socket exists and a connection to it succeeded.\<close>

lemma admitted_only_with_controller:
  assumes "require_controller_available os connect path w = (Inr (), w')"
  shows "\<exists>u. os_exists os path w = (Inr True, u) \<and> connect path u = (Inr (), w')"
  using assms by (auto simp: require_controller_available_def run_rules split: if_splits)

section \<open>Proof files\<close>

text \<open>\<open>json.dumps(strings, indent=2)\<close> of a non-empty list of strings.\<close>

definition indented_strings :: "string list \<Rightarrow> string" where
  "indented_strings xs =
     ''['' @ [line_feed] @ join_with ('','' @ [line_feed]) (map (\<lambda>s. ''  '' @ json_string True s) xs) @ [line_feed] @ '']''"

definition proof_strings :: "json \<Rightarrow> string list" where
  "proof_strings v =
     (case v of
        JList xs \<Rightarrow>
          (case those (map (\<lambda>x. case x of JStr s \<Rightarrow> Some s | _ \<Rightarrow> None) xs) of None \<Rightarrow> [] | Some ss \<Rightarrow> ss)
      | _ \<Rightarrow> [])"

text \<open>The parent directory of a path.\<close>

definition parent_of :: "string \<Rightarrow> string" where
  "parent_of path =
     (let up = rev (drop 1 (dropWhile (\<lambda>c. c \<noteq> CHR ''/'') (rev path))) in
      if CHR ''/'' \<notin> set path then ''.'' else if up = [] then ''/'' else up)"

definition read_proofs :: "'a library_scheme \<Rightarrow> 'w os \<Rightarrow> string \<Rightarrow> ('w, string list) prog" where
  "read_proofs lib os path =
     catch (andthen (os_read_text os path) (\<lambda>t. andthen (lift_result (json_loads lib t)) (\<lambda>v. ret (proof_strings v))))
       (\<lambda>e. if is_os_error e \<or> exn_class e = JSONDecodeError then ret [] else raise e)"

definition record_proof ::
  "'a library_scheme \<Rightarrow> 'w os \<Rightarrow> string option \<Rightarrow> string \<Rightarrow> ('w, unit) prog" where
  "record_proof lib os path_value proof_id =
     (case path_value of
        None \<Rightarrow> ret ()
      | Some path \<Rightarrow>
          if path = [] then ret ()
          else andthen (os_mkdir os True (parent_of path)) (\<lambda>_.
               andthen (os_exists os path) (\<lambda>found.
               andthen (if found then read_proofs lib os path else ret []) (\<lambda>existing.
               let ids = (if proof_id \<in> set existing then existing else existing @ [proof_id]) in
               os_write_text os path (indented_strings (sort_key id ids) @ [line_feed])))))"

section \<open>The daemon\<close>

text \<open>The Linux supervisor as the one the service is constructed with.\<close>

definition daemon_supervisor :: "'w os \<Rightarrow> string \<Rightarrow> 'w supervisor" where
  "daemon_supervisor os root =
     \<lparr>spv_create_agent = sup_create_agent os root, spv_attach_pid = sup_attach_pid os\<rparr>"

definition given_uids :: "int list option \<Rightarrow> int list option" where
  "given_uids v = (case v of None \<Rightarrow> None | Some uids \<Rightarrow> if uids = [] then None else Some uids)"

definition daemon_server :: "int list option \<Rightarrow> int list option \<Rightarrow> int \<Rightarrow> exn + control_server" where
  "daemon_server allowed_uid privileged_uid euid =
     mk_control_server (64 * 1024) (given_uids allowed_uid) (given_uids privileged_uid) 16 euid"

text \<open>Without flags only the daemon's own uid may register and contain.\<close>

lemma daemon_defaults:
  assumes "daemon_server None None euid = Inr srv"
  shows "privileged_set srv = [euid] \<and> srv_max_message_bytes srv = 65536 \<and> srv_slots srv = 16"
  using assms by (auto simp: daemon_server_def given_uids_def mk_control_server_def privileged_set_def)

text \<open>A process is placed in the workload directory of its agent, below the supervisor's root.\<close>

lemma daemon_workload_path:
  assumes "spv_create_agent (daemon_supervisor os root) a w = (Inr path, w')"
  shows "path = path_join root a \<and> a \<notin> {[], ''.'', ''..''} \<and> CHR ''/'' \<notin> set a"
  using assms
  by (auto simp: daemon_supervisor_def sup_create_agent_def safe_name_def run_rules split: if_splits)

end
