(* ===== verification/Wire_Steps.thy ===== *)
theory Wire_Steps
  imports Transport
begin

text \<open>
  One message of the control socket as the steps its thread takes.  Every method of the service is one section under
  the service's lock, or reads once without it; between two of them, and between two calls of the socket, any other
  thread can run.  So a command is a chain of steps: each receives the state as it is when the thread comes to
  it and says what remains.  Run to the end without interruption, the steps are the commands of theory \<open>Transport\<close>
  (theory \<open>Steps_Props\<close>).
\<close>

section \<open>Programs in steps\<close>

text \<open>What a thread still has to do: nothing, with its result, or one step on the state and then the rest.\<close>

datatype ('s, 'a) steps = Finished "exn + 'a" | Next "'s \<Rightarrow> ('s, 'a) steps \<times> 's"

definition once :: "('s, 'a) prog \<Rightarrow> ('s, 'a) steps" where
  "once m = Next (\<lambda>s. case m s of (r, s') \<Rightarrow> (Finished r, s'))"

text \<open>The rest depends on the outcome, an exception included.\<close>

primrec sbind :: "('s, 'a) steps \<Rightarrow> (exn + 'a \<Rightarrow> ('s, 'b) steps) \<Rightarrow> ('s, 'b) steps" where
  "sbind (Finished r) f = f r"
| "sbind (Next k) f = Next (\<lambda>s. map_prod (\<lambda>m. sbind m f) id (k s))"

definition sret :: "'a \<Rightarrow> ('s, 'a) steps" where
  "sret v = Finished (Inr v)"

definition sthen :: "('s, 'a) steps \<Rightarrow> ('a \<Rightarrow> ('s, 'b) steps) \<Rightarrow> ('s, 'b) steps" where
  "sthen m f = sbind m (\<lambda>r. case r of Inl e \<Rightarrow> Finished (Inl e) | Inr v \<Rightarrow> f v)"

definition scatch :: "('s, 'a) steps \<Rightarrow> (exn \<Rightarrow> ('s, 'a) steps) \<Rightarrow> ('s, 'a) steps" where
  "scatch m h = sbind m (\<lambda>r. case r of Inl e \<Rightarrow> h e | Inr v \<Rightarrow> sret v)"

text \<open>The thread alone, to its end.\<close>

primrec finish :: "('s, 'a) steps \<Rightarrow> ('s, 'a) prog" where
  "finish (Finished r) = (\<lambda>s. (r, s))"
| "finish (Next k) = (\<lambda>s. case map_prod finish id (k s) of (rest, s') \<Rightarrow> rest s')"

lemma finish_once [simp]: "finish (once m) = m"
  by (rule ext) (simp add: once_def split: prod.split)

lemma finish_ret [simp]: "finish (sret v) = ret v"
  by (rule ext) (simp add: sret_def ret_def)

lemma finish_bind: "finish (sbind m f) s = (case finish m s of (r, s') \<Rightarrow> finish (f r) s')"
proof (induction m arbitrary: s)
  case (Next k)
  obtain m' s' where step: "k s = (m', s')" by fastforce
  then have "(m', s') \<in> range k" by (metis rangeI)
  with Next [of "(m', s')" m'] step show ?case by simp
qed simp

lemma finish_raise: "finish (Finished (Inl e)) = raise e"
  by (rule ext) (simp add: raise_def)

lemma finish_result: "finish (Finished r) = lift_result r"
  by (rule ext) (simp add: lift_result_def)

lemma finish_then [simp]: "finish (sthen m f) = andthen (finish m) (\<lambda>v. finish (f v))"
  by (rule ext) (simp add: sthen_def finish_bind andthen_def split: prod.split sum.split)

lemma finish_catch [simp]: "finish (scatch m h) = catch (finish m) (\<lambda>e. finish (h e))"
  by (rule ext) (simp add: scatch_def finish_bind catch_def ret_def split: prod.split sum.split)

declare finish.simps [simp del]

section \<open>What every interleaving keeps\<close>

text \<open>
  Every step keeps \<open>I\<close>, from any state that satisfies it: the state may have been changed by others between two steps,
  as long as they keep \<open>I\<close> too.
\<close>

inductive steps_keep :: "('s \<Rightarrow> bool) \<Rightarrow> ('s, 'a) steps \<Rightarrow> bool" for I where
  keep_finished: "steps_keep I (Finished r)"
| keep_next: "(\<And>s. I s \<Longrightarrow> I (snd (k s)) \<and> steps_keep I (fst (k s))) \<Longrightarrow> steps_keep I (Next k)"

inductive_simps steps_keep_next: "steps_keep I (Next k)"

named_theorems step_keeping \<open>threads whose steps keep an invariant\<close>

lemma keep_once [step_keeping]: "preserves I m \<Longrightarrow> steps_keep I (once m)"
  by (auto simp: once_def steps_keep_next preserves_def split: prod.split intro: keep_finished)

lemma keep_ret [step_keeping]: "steps_keep I (sret v)"
  by (simp add: sret_def keep_finished)

lemma keep_bind: "steps_keep I m \<Longrightarrow> (\<And>r. steps_keep I (f r)) \<Longrightarrow> steps_keep I (sbind m f)"
  by (induction rule: steps_keep.induct) (auto simp: steps_keep_next)

lemma keep_then [step_keeping]: "steps_keep I m \<Longrightarrow> (\<And>v. steps_keep I (f v)) \<Longrightarrow> steps_keep I (sthen m f)"
  unfolding sthen_def by (rule keep_bind) (auto intro: keep_finished split: sum.split)

lemma keep_catch [step_keeping]: "steps_keep I m \<Longrightarrow> (\<And>e. steps_keep I (h e)) \<Longrightarrow> steps_keep I (scatch m h)"
  unfolding scatch_def by (rule keep_bind) (auto intro: step_keeping split: sum.split)

lemma keep_if [step_keeping]: "steps_keep I m \<Longrightarrow> steps_keep I n \<Longrightarrow> steps_keep I (if b then m else n)"
  by simp

lemma keep_option [step_keeping]:
  "steps_keep I m \<Longrightarrow> (\<And>x. steps_keep I (f x)) \<Longrightarrow> steps_keep I (case v of None \<Rightarrow> m | Some x \<Rightarrow> f x)"
  by (cases v) simp_all

lemma keep_pair [step_keeping]: "(\<And>x y. steps_keep I (f x y)) \<Longrightarrow> steps_keep I (case v of (x, y) \<Rightarrow> f x y)"
  by (cases v) simp

text \<open>The rest has to keep \<open>I\<close> only for the outcomes its first step has in a state that satisfies \<open>I\<close>.\<close>

lemma keep_first:
  "preserves I m \<Longrightarrow> (\<And>s v t. I s \<Longrightarrow> m s = (Inr v, t) \<Longrightarrow> steps_keep I (f v)) \<Longrightarrow> steps_keep I (sthen (once m) f)"
  by (auto simp: sthen_def once_def steps_keep_next preserves_def split: prod.split sum.split intro: keep_finished)

section \<open>The commands\<close>

definition steps_workload ::
  "'w environment \<Rightarrow> string \<Rightarrow> int option \<Rightarrow> ('w service, string option \<times> string option) steps" where
  "steps_workload env agent_id workload_pid =
     sthen (if env_supervisor env \<noteq> None
            then sthen (once (svc_create_workload env agent_id)) (\<lambda>path. sret (Some path)) else sret None) (\<lambda>cgroup_path.
     sthen (case workload_pid of
              None \<Rightarrow> sret ()
            | Some pid \<Rightarrow> sthen (once (svc_attach_workload env agent_id pid)) (\<lambda>_. sret ())) (\<lambda>_.
     sthen (case workload_pid of
              None \<Rightarrow> sret None
            | Some pid \<Rightarrow> sthen (once (svc_issue_identity_token env agent_id (Some pid))) (\<lambda>t. sret (Some t))) (\<lambda>token.
     sret (cgroup_path, token))))"

text \<open>The runtime object \<open>register()\<close> returned, as it is now.\<close>

definition runtime_now :: "string \<Rightarrow> runtime \<Rightarrow> 'w service \<Rightarrow> runtime" where
  "runtime_now agent_id rt s =
     (case dict_get (svc_agents s) agent_id of
        None \<Rightarrow> rt
      | Some m \<Rightarrow> if rt_ref (ma_runtime m) = rt_ref rt then ma_runtime m else rt)"

definition steps_enroll ::
  "'w environment \<Rightarrow> string \<Rightarrow> int option \<Rightarrow> string dict \<Rightarrow> ('w service, json) steps" where
  "steps_enroll env agent_id workload_pid metadata =
     sthen (once (svc_register env agent_id None (Some metadata) None)) (\<lambda>runtime.
     sthen (scatch (steps_workload env agent_id workload_pid)
              (\<lambda>e. sthen (once (svc_unregister agent_id)) (\<lambda>_. Finished (Inl e)))) (\<lambda>parts.
     once (reading (\<lambda>s. register_response agent_id (runtime_now agent_id runtime s) parts))))"

definition steps_register ::
  "'w environment \<Rightarrow> control_server \<Rightarrow> int option \<Rightarrow> json dict \<Rightarrow> ('w service, json) steps" where
  "steps_register env srv uid request =
     sthen (once (require_privileged srv uid)) (\<lambda>_.
     sthen (once (tp_agent_id request)) (\<lambda>agent_id.
     sthen (once (tp_workload_pid env request)) (\<lambda>workload_pid.
     sthen (once (tp_metadata request)) (\<lambda>metadata.
     steps_enroll env agent_id workload_pid metadata))))"

text \<open>
  \<open>authorize\<close>: the workload cgroup, the snapshot, the membership predicate, the decision, the halt, the audit record
  and the event are steps of their own.
\<close>

definition record_decision :: "'w environment \<Rightarrow> action \<Rightarrow> decision \<Rightarrow> ('w service, unit) prog" where
  "record_decision env a d =
     audit_record env ''authorization_decision'' (act_agent_id a)
       (\<lambda>e. e\<lparr>au_action_id := Some (act_action_id a), au_decision := Some (decision_value (dec_type d)),
              au_reason := Some (dec_reason d)\<rparr>)"

definition emit_decision :: "'w environment \<Rightarrow> action \<Rightarrow> decision \<Rightarrow> ('w service, unit) prog" where
  "emit_decision env a d =
     emit_event env ''authorization_decision'' (act_agent_id a)
       (\<lambda>e. e\<lparr>ge_action_id := Some (act_action_id a),
              ge_policy_decision_id := Some (act_action_id a), ge_reason := Some (dec_reason d),
              ge_attributes := Some (JObj [(''decision'', JStr (decision_value (dec_type d)))])\<rparr>)"

definition steps_service_authorize ::
  "'w environment \<Rightarrow> action \<Rightarrow> string option \<Rightarrow> int option \<Rightarrow>
     (int \<Rightarrow> string \<Rightarrow> ('w, bool) prog) option \<Rightarrow> ('w service, decision) steps" where
  "steps_service_authorize env a token peer membership =
     sthen (once (auth_snapshot a)) (\<lambda>snap.
     sthen (once (auth_check env snap token peer membership)) (\<lambda>authenticated.
     sthen (once (auth_decide env a snap authenticated)) (\<lambda>d.
     sthen (once (if dec_type d = HALT then halt_managed (act_agent_id a) (snap_ref snap) else ret ())) (\<lambda>_.
     sthen (once (record_decision env a d)) (\<lambda>_.
     sthen (once (emit_decision env a d)) (\<lambda>_. sret d))))))"

definition steps_authorize ::
  "'w environment \<Rightarrow> 'w os \<Rightarrow> int option \<Rightarrow> json dict \<Rightarrow> ('w service, json) steps" where
  "steps_authorize env os peer_pid request =
     sthen (once (tp_action request)) (\<lambda>(a, token).
     sthen (once (svc_identity_cgroup (act_agent_id a))) (\<lambda>cgroup.
     sthen (steps_service_authorize env a (Some token) peer_pid
              (if cgroup = None then None else Some (sup_pid_in_cgroup os))) (\<lambda>d.
     sret (JObj [(''ok'', JBool True), (''agent_id'', JStr (act_agent_id a)),
            (''action_id'', JStr (act_action_id a)), (''decision'', JStr (decision_value (dec_type d))),
            (''reason'', JStr (dec_reason d)), (''timestamp'', JInt (dec_timestamp d))]))))"

definition steps_contain ::
  "'w environment \<Rightarrow> control_server \<Rightarrow> int option \<Rightarrow> json dict \<Rightarrow> ('w service, json) steps" where
  "steps_contain env srv uid request =
     sthen (once (require_privileged srv uid)) (\<lambda>_.
     sthen (once (tp_agent_id request)) (\<lambda>agent_id.
     sthen (once (svc_contain env agent_id)) (\<lambda>report.
     sthen (once (svc_status agent_id)) (\<lambda>state.
     sret (JObj [(''ok'', JBool True), (''agent_id'', JStr agent_id),
            (''state'', JStr (runtime_state_value state)), (''containment'', report_json report)])))))"

text \<open>The other commands ask the service once.\<close>

definition steps_handle ::
  "'w environment \<Rightarrow> 'w os \<Rightarrow> control_server \<Rightarrow> json \<Rightarrow> int option \<Rightarrow> int option \<Rightarrow> ('w service, json) steps" where
  "steps_handle env os srv request uid pid =
     (case request of
        JObj kvs \<Rightarrow>
          (let command = dict_get kvs ''command'' in
           if command = Some (JStr ''register'') then steps_register env srv uid kvs
           else if command = Some (JStr ''status'') then once (tp_status kvs)
           else if command = Some (JStr ''authorize'') then steps_authorize env os pid kvs
           else if command = Some (JStr ''contain'') then steps_contain env srv uid kvs
           else if command = Some (JStr ''report'') then once (tp_report kvs)
           else if command = Some (JStr ''snapshot'') then once tp_snapshot
           else Finished (Inl (Exn ControlProtocolError ''unsupported command'')))
      | _ \<Rightarrow> sret (error_response ''request must be an object''))"

section \<open>A connection\<close>

text \<open>Every \<open>recv\<close> of the loop that reads the frame is a step: a slow peer does not hold up the others.\<close>

function steps_read :: "(nat \<Rightarrow> ('w, string) prog) \<Rightarrow> nat \<Rightarrow> string \<Rightarrow> ('w service, string) steps" where
  "steps_read recv limit data =
     (if length data \<le> limit then
        sthen (once (on_world (recv (min 4096 (limit + 1 - length data))))) (\<lambda>chunk.
          if chunk = [] then sret data
          else if line_feed \<in> set chunk then sret (data @ chunk)
          else steps_read recv limit (data @ chunk))
      else sret data)"
  by pat_completeness auto
termination
  by (relation "measure (\<lambda>(recv, limit, data). limit + 1 - length data)")
     (auto simp flip: length_greater_0_conv)

declare steps_read.simps [simp del]

definition steps_answer ::
  "'a wire_library_scheme \<Rightarrow> 'w environment \<Rightarrow> 'w os \<Rightarrow> control_server \<Rightarrow> string \<Rightarrow>
     int option \<Rightarrow> int option \<Rightarrow> ('w service, json) steps" where
  "steps_answer lib env os srv line uid pid =
     scatch (sthen (Finished (loads_bytes lib line)) (\<lambda>request. steps_handle env os srv request uid pid))
       (\<lambda>e. sret (error_response (reported e)))"

definition steps_frame ::
  "'a wire_library_scheme \<Rightarrow> 'w environment \<Rightarrow> 'w os \<Rightarrow> control_server \<Rightarrow> string \<Rightarrow>
     int option \<times> int option \<Rightarrow> ('w service, json) steps" where
  "steps_frame lib env os srv data peer =
     (if \<not> peer_allowed srv (fst peer) then sret (error_response ''unauthorized_peer'')
      else if srv_max_message_bytes srv < length data then sret (error_response ''message_too_large'')
      else if frame_line data = [] then sret (error_response ''empty_request'')
      else steps_answer lib env os srv (frame_line data) (fst peer) (snd peer))"

definition steps_connection ::
  "'a wire_library_scheme \<Rightarrow> 'w environment \<Rightarrow> 'w os \<Rightarrow> control_server \<Rightarrow> 'w connection \<Rightarrow> ('w service, unit) steps" where
  "steps_connection lib env os srv conn =
     sbind (steps_read (cn_recv conn) (srv_max_message_bytes srv) []) (\<lambda>r.
       case r of
         Inl e \<Rightarrow>
           if is_timeout e then once (send_response conn (error_response ''request_timeout'')) else Finished (Inl e)
       | Inr data \<Rightarrow>
           sthen (once (on_world (peer_credentials conn))) (\<lambda>peer.
           sthen (steps_frame lib env os srv data peer) (\<lambda>response. once (send_response conn response))))"

end
