(* ===== verification/Listener.thy ===== *)
theory Listener
  imports Host_Adapters Wire_Steps
begin

text \<open>
  The life of the control server: \<open>start\<close>, \<open>serve_forever\<close>, \<open>serve_once\<close>, \<open>close\<close> and the worker threads of
  \<open>transport.py\<close>, and the \<open>main\<close> of \<open>daemon.py\<close> around them.

  The accept loop, the workers and whoever closes the server are threads; an execution is a sequence of their
  steps, in any order.  The accept loop is cut where another thread can come between: the test of the stop event, the
  reading of \<open>self._sock\<close>, the return of \<open>accept\<close>.  A worker is cut into the steps of theory \<open>Wire_Steps\<close>: every
  call of its socket, every section under the service's lock and every call outside of it is a step of its own, and
  any other thread can run between two of them.  A section under the lock is one step: what other threads do
  without it (a call of a socket, an audit record, the halt of a runtime, which takes the lock of the runtime alone)
  comes before or after it here, not inside.  \<open>close\<close> is one step: the daemon calls it in a signal handler, which
  runs in the thread of the accept loop.
\<close>

section \<open>The sockets\<close>

text \<open>The calls of the operating system; a connection is what \<open>accept\<close> returned.\<close>

record 'w sockets =
  sk_unix :: bool
  sk_mkdir :: "string \<Rightarrow> ('w, unit) prog"
  sk_unlink :: "string \<Rightarrow> ('w, unit) prog"
  sk_socket :: "('w, obj) prog"
  sk_bind :: "obj \<Rightarrow> string \<Rightarrow> ('w, unit) prog"
  sk_chmod :: "string \<Rightarrow> int \<Rightarrow> ('w, unit) prog"
  sk_listen :: "obj \<Rightarrow> int \<Rightarrow> ('w, unit) prog"
  sk_accept :: "obj \<Rightarrow> ('w, 'w connection) prog"
  sk_close :: "obj \<Rightarrow> ('w, unit) prog"
  sk_hang_up :: "'w connection \<Rightarrow> ('w, unit) prog"

text \<open>
  Where the thread in \<open>serve_forever\<close> stands: before the test of the event, before \<open>self._sock.accept()\<close>, inside
  \<open>accept\<close> on a socket, or returned.
\<close>

datatype loop_point = Testing | Accepting | Waiting obj | Returned "exn + unit"

text \<open>
  \<open>ln_stop\<close> is \<open>self._stop\<close>, \<open>ln_given\<close> the event given to \<open>serve_forever\<close>, if any; \<open>ln_used\<close> are the slots taken from
  the semaphore, \<open>ln_workers\<close> what each of the threads that run has still to do.
\<close>

record 'w listener =
  ln_sock :: "obj option"
  ln_stop :: bool
  ln_given :: "bool option"
  ln_point :: loop_point
  ln_used :: nat
  ln_workers :: "('w service, unit) steps list"
  ln_service :: "'w service"

definition on_service :: "('w service, 'a) prog \<Rightarrow> ('w listener, 'a) prog" where
  "on_service m g = (case m (ln_service g) of (r, s) \<Rightarrow> (r, g\<lparr>ln_service := s\<rparr>))"

definition on_system :: "('w, 'a) prog \<Rightarrow> ('w listener, 'a) prog" where
  "on_system m = on_service (on_world m)"

section \<open>Start and close\<close>

definition unlink_missing_ok :: "'w sockets \<Rightarrow> string \<Rightarrow> ('w listener, unit) prog" where
  "unlink_missing_ok k path =
     catch (on_system (sk_unlink k path)) (\<lambda>e. if exn_class e = FileNotFoundError then ret () else raise e)"

definition ln_start :: "'w sockets \<Rightarrow> string \<Rightarrow> int \<Rightarrow> ('w listener, unit) prog" where
  "ln_start k path mode =
     andthen (guarding (sk_unix k) (Exn RuntimeError ''Unix-domain sockets are unavailable on this platform'')) (\<lambda>_.
     andthen (on_system (sk_mkdir k (parent_of path))) (\<lambda>_.
     andthen (unlink_missing_ok k path) (\<lambda>_.
     andthen (modifying (\<lambda>g. g\<lparr>ln_stop := False\<rparr>)) (\<lambda>_.
     andthen (on_system (sk_socket k)) (\<lambda>s.
     andthen (modifying (\<lambda>g. g\<lparr>ln_sock := Some s\<rparr>)) (\<lambda>_.
     andthen (on_system (sk_bind k s path)) (\<lambda>_.
     andthen (on_system (sk_chmod k path mode)) (\<lambda>_.
     on_system (sk_listen k s 16)))))))))"

definition ln_close :: "'w sockets \<Rightarrow> string \<Rightarrow> ('w listener, unit) prog" where
  "ln_close k path =
     andthen (modifying (\<lambda>g. g\<lparr>ln_stop := True\<rparr>)) (\<lambda>_.
     andthen (reading ln_sock) (\<lambda>sock.
     andthen (case sock of None \<Rightarrow> ret ()
              | Some s \<Rightarrow> andthen (on_system (sk_close k s)) (\<lambda>_. modifying (\<lambda>g. g\<lparr>ln_sock := None\<rparr>))) (\<lambda>_.
     unlink_missing_ok k path)))"

section \<open>The accept loop\<close>

definition event_set :: "'w listener \<Rightarrow> bool" where
  "event_set g = (case ln_given g of None \<Rightarrow> ln_stop g | Some b \<Rightarrow> b)"

text \<open>The call of \<open>serve_forever\<close>, up to the loop.\<close>

definition ln_serve_forever :: "bool option \<Rightarrow> 'w listener \<Rightarrow> 'w listener" where
  "ln_serve_forever given g =
     g\<lparr>ln_given := given,
       ln_point := (if ln_sock g = None then Returned (Inl (Exn RuntimeError ''server is not started'')) else Testing)\<rparr>"

definition ln_test :: "'w listener \<Rightarrow> 'w listener" where
  "ln_test g = g\<lparr>ln_point := (if event_set g then Returned (Inr ()) else Accepting)\<rparr>"

definition no_accept :: exn where
  "no_accept = Exn (OtherException ''AttributeError'') (quoted ''NoneType'' @ '' object has no attribute '' @ quoted ''accept'')"

definition ln_enter_accept :: "'w listener \<Rightarrow> 'w listener" where
  "ln_enter_accept g = g\<lparr>ln_point := (case ln_sock g of None \<Rightarrow> Returned (Inl no_accept) | Some s \<Rightarrow> Waiting s)\<rparr>"

text \<open>A new connection: a worker starts when a slot is free, otherwise the peer is told that the server is busy.\<close>

definition turn_away :: "'w sockets \<Rightarrow> 'w connection \<Rightarrow> json \<Rightarrow> ('w listener, unit) prog" where
  "turn_away k conn response =
     andthen (attempt (on_service (send_response conn response))) (\<lambda>r.
     andthen (on_system (sk_hang_up k conn)) (\<lambda>_.
       case r of Inr _ \<Rightarrow> ret () | Inl e \<Rightarrow> if is_os_error e then ret () else raise e))"

text \<open>
  What a worker has to do: serve the connection, and close it whatever happens; what the thread raises ends the thread.
\<close>

definition ln_worker ::
  "'w sockets \<Rightarrow> 'a wire_library_scheme \<Rightarrow> 'w environment \<Rightarrow> 'w os \<Rightarrow> control_server \<Rightarrow> 'w connection \<Rightarrow>
     ('w service, unit) steps" where
  "ln_worker k lib env os srv conn =
     sbind (steps_connection lib env os srv conn) (\<lambda>r.
     sthen (once (on_world (sk_hang_up k conn))) (\<lambda>_. Finished r))"

definition ln_admit ::
  "'w sockets \<Rightarrow> 'a wire_library_scheme \<Rightarrow> 'w environment \<Rightarrow> 'w os \<Rightarrow> control_server \<Rightarrow> 'w connection \<Rightarrow>
     ('w listener, unit) prog" where
  "ln_admit k lib env os srv conn g =
     (case on_accept srv (ln_used g) of
        (None, used) \<Rightarrow>
          (Inr (), g\<lparr>ln_used := used, ln_workers := ln_workers g @ [ln_worker k lib env os srv conn]\<rparr>)
      | (Some busy, used) \<Rightarrow> turn_away k conn busy (g\<lparr>ln_used := used\<rparr>))"

definition ln_accepted ::
  "'w sockets \<Rightarrow> 'a wire_library_scheme \<Rightarrow> 'w environment \<Rightarrow> 'w os \<Rightarrow> control_server \<Rightarrow> obj \<Rightarrow>
     'w listener \<Rightarrow> 'w listener" where
  "ln_accepted k lib env os srv s g =
     (case on_system (sk_accept k s) g of
        (Inl e, g') \<Rightarrow>
          g'\<lparr>ln_point := (if is_timeout e then Testing
                           else if is_os_error e \<and> (event_set g' \<or> ln_sock g' = None) then Returned (Inr ())
                           else Returned (Inl e))\<rparr>
      | (Inr conn, g') \<Rightarrow>
          (case ln_admit k lib env os srv conn g' of
             (Inr _, g'') \<Rightarrow> g''\<lparr>ln_point := Testing\<rparr>
           | (Inl e, g'') \<Rightarrow> g''\<lparr>ln_point := Returned (Inl e)\<rparr>))"

text \<open>
  \<open>_serve_connection_with_slot\<close>: a worker takes its next step on the service as it is now; when nothing is left, also
  because it raised, it ends and gives its slot back.
\<close>

definition ln_work :: "nat \<Rightarrow> 'w listener \<Rightarrow> 'w listener" where
  "ln_work i g =
     (case ln_workers g ! i of
        Finished r \<Rightarrow>
          g\<lparr>ln_workers := take i (ln_workers g) @ drop (i + 1) (ln_workers g), ln_used := on_served (ln_used g)\<rparr>
      | Next step \<Rightarrow>
          (case step (ln_service g) of
             (rest, s) \<Rightarrow> g\<lparr>ln_workers := (ln_workers g)[i := rest], ln_service := s\<rparr>))"

text \<open>\<open>serve_once\<close> serves the connection in its own thread.\<close>

definition ln_serve_connection ::
  "'w sockets \<Rightarrow> 'a wire_library_scheme \<Rightarrow> 'w environment \<Rightarrow> 'w os \<Rightarrow> control_server \<Rightarrow> 'w connection \<Rightarrow>
     ('w listener, unit) prog" where
  "ln_serve_connection k lib env os srv conn =
     andthen (attempt (on_service (serve_connection lib env os srv conn))) (\<lambda>r.
     andthen (on_system (sk_hang_up k conn)) (\<lambda>_. lift_result r))"

definition ln_serve_once ::
  "'w sockets \<Rightarrow> 'a wire_library_scheme \<Rightarrow> 'w environment \<Rightarrow> 'w os \<Rightarrow> control_server \<Rightarrow> ('w listener, unit) prog" where
  "ln_serve_once k lib env os srv =
     andthen (reading ln_sock) (\<lambda>sock.
       case sock of
         None \<Rightarrow> raise (Exn RuntimeError ''server is not started'')
       | Some s \<Rightarrow> andthen (on_system (sk_accept k s)) (ln_serve_connection k lib env os srv))"

section \<open>Executions\<close>

text \<open>A step of the accept loop, of a worker, of the thread that closes the server, of the one that sets the event.\<close>

datatype server_event = Loop | Work nat | Close | Flag

definition loop_step ::
  "'w sockets \<Rightarrow> 'a wire_library_scheme \<Rightarrow> 'w environment \<Rightarrow> 'w os \<Rightarrow> control_server \<Rightarrow> 'w listener \<Rightarrow> 'w listener" where
  "loop_step k lib env os srv g =
     (case ln_point g of
        Testing \<Rightarrow> ln_test g
      | Accepting \<Rightarrow> ln_enter_accept g
      | Waiting s \<Rightarrow> ln_accepted k lib env os srv s g
      | Returned r \<Rightarrow> g)"

fun server_step ::
  "'w sockets \<Rightarrow> 'a wire_library_scheme \<Rightarrow> 'w environment \<Rightarrow> 'w os \<Rightarrow> control_server \<Rightarrow> string \<Rightarrow>
     server_event \<Rightarrow> 'w listener \<Rightarrow> 'w listener" where
  "server_step k lib env os srv path Loop g = loop_step k lib env os srv g"
| "server_step k lib env os srv path (Work i) g = (if i < length (ln_workers g) then ln_work i g else g)"
| "server_step k lib env os srv path Close g = snd (ln_close k path g)"
| "server_step k lib env os srv path Flag g = g\<lparr>ln_given := map_option (\<lambda>_. True) (ln_given g)\<rparr>"

definition server_run where
  "server_run k lib env os srv path events g = fold (server_step k lib env os srv path) events g"

section \<open>The daemon\<close>

text \<open>
  The signal handler \<open>shutdown\<close> is the events \<open>Flag\<close> and \<open>Close\<close>.  After \<open>serve_forever\<close> the daemon closes the server
  and returns 0, or passes the exception on.
\<close>

definition shutdown :: "server_event list" where
  "shutdown = [Flag, Close]"

definition daemon_join_cgroup :: "'w os \<Rightarrow> string option \<Rightarrow> int \<Rightarrow> ('w, unit) prog" where
  "daemon_join_cgroup os controller_cgroup pid =
     (case controller_cgroup of
        None \<Rightarrow> ret ()
      | Some path \<Rightarrow>
          if path = [] then ret ()
          else andthen (mk_supervisor os path) (\<lambda>root.
               andthen (os_mkdir os True root) (\<lambda>_. sup_attach_pid os root pid)))"

definition daemon_start ::
  "'w sockets \<Rightarrow> 'w os \<Rightarrow> string option \<Rightarrow> int \<Rightarrow> string \<Rightarrow> int \<Rightarrow> ('w listener, unit) prog" where
  "daemon_start k os controller_cgroup pid path mode =
     andthen (on_system (daemon_join_cgroup os controller_cgroup pid)) (\<lambda>_.
     andthen (ln_start k path mode) (\<lambda>_. modifying (ln_serve_forever (Some False))))"

definition daemon_exit :: "'w sockets \<Rightarrow> string \<Rightarrow> exn + unit \<Rightarrow> ('w listener, int) prog" where
  "daemon_exit k path left = andthen (ln_close k path) (\<lambda>_. andthen (lift_result left) (\<lambda>_. ret 0))"

end
