(* ===== verification/Steps_Props.thy ===== *)
theory Steps_Props
  imports Wire_Steps Wire_Props
begin

text \<open>
  The steps of a message are the message: run without interruption they are exactly the sequential program of theory
  \<open>Transport\<close>.  And whatever other threads do between them, they keep every registered agent, and only fence its runtime.
\<close>

section \<open>Without interruption\<close>

lemma finish_workload: "finish (steps_workload env a pid) = admit_workload env a pid"
  unfolding steps_workload_def admit_workload_def by (cases pid) simp_all

text \<open>At the end of a registration that nothing interrupted, the runtime is as \<open>register()\<close> returned it.\<close>

lemma finish_enroll: "finish (steps_enroll env a pid md) = tp_enroll env a pid md"
proof (rule ext)
  fix s
  have "finish (scatch (steps_workload env a pid) (\<lambda>e. sthen (once (svc_unregister a)) (\<lambda>_. Finished (Inl e))))
      = catch (admit_workload env a pid) (\<lambda>e. andthen (svc_unregister a) (\<lambda>_. raise e))" (is "?w = ?v")
    by (simp add: finish_workload finish_raise)
  have "andthen ?v (\<lambda>parts. reading (\<lambda>s. register_response a (runtime_now a rt s) parts)) s1
      = andthen ?v (\<lambda>parts. ret (register_response a rt parts)) s1"
    if reg: "svc_register env a None (Some md) None s = (Inr rt, s1)" for rt s1
  proof (cases "admit_workload env a pid s1")
    case (Pair x s2)
    show ?thesis
    proof (cases x)
      case (Inl e)
      with Pair show ?thesis by (simp add: prog_defs svc_unregister_def)
    next
      case (Inr parts)
      obtain path token where parts: "parts = (path, token)" by fastforce
      from svc_register_entry [OF reg] obtain m where m: "dict_get (svc_agents s1) a = Some m" "ma_runtime m = rt"
        "ma_identity_digest m = None" "ma_identity_pid m = None" "ma_identity_cgroup m = None" by blast
      have "admit_workload env a pid s1 = (Inr (path, token), s2)" using Pair Inr parts by simp
      from admit_workload_entry [OF this m(1,5,3,4)] obtain m' where
        "dict_get (svc_agents s2) a = Some m'" "ma_runtime m' = ma_runtime m" by blast
      with m(2) have "runtime_now a rt s2 = rt" by (simp add: runtime_now_def)
      with Pair Inr show ?thesis by (simp add: prog_defs)
    qed
  qed
  then show "finish (steps_enroll env a pid md) s = tp_enroll env a pid md s"
    unfolding steps_enroll_def tp_enroll_def finish_then finish_once \<open>?w = ?v\<close>
    by (cases "svc_register env a None (Some md) None s"; cases "fst (svc_register env a None (Some md) None s)")
       (auto simp: andthen_def)
qed

lemma finish_register: "finish (steps_register env srv uid kvs) = tp_register env srv uid kvs"
  unfolding steps_register_def tp_register_def by (simp add: finish_enroll)

lemma finish_authorize: "finish (steps_authorize env os pid kvs) = tp_authorize env os pid kvs"
proof -
  have "finish (steps_service_authorize env a token peer membership) = svc_authorize env a token peer membership"
    for a token peer membership
    by (simp add: steps_service_authorize_def svc_authorize_def auth_finish_def record_decision_def emit_decision_def)
  then show ?thesis by (simp add: steps_authorize_def tp_authorize_def case_prod_beta')
qed

lemma finish_contain: "finish (steps_contain env srv uid kvs) = tp_contain env srv uid kvs"
  unfolding steps_contain_def tp_contain_def by simp

lemma finish_handle: "finish (steps_handle env os srv request uid pid) = handle env os srv request uid pid"
  by (simp add: steps_handle_def handle_def Let_def finish_register finish_authorize finish_contain finish_raise
      split: json.split)

lemma finish_read: "finish (steps_read recv limit data) s = on_world (read_frame recv limit data) s"
proof (induction recv limit data arbitrary: s rule: steps_read.induct)
  case (1 recv limit data)
  show ?case
  proof (cases "length data \<le> limit")
    case True
    obtain x w where recv: "recv (min 4096 (limit + 1 - length data)) (svc_world s) = (x, w)" by fastforce
    show ?thesis
    proof (cases x)
      case (Inl e)
      with recv True show ?thesis
        by (simp add: steps_read.simps [of recv limit data] read_frame.simps [of recv limit data] on_world_def andthen_def)
    next
      case (Inr chunk)
      with recv True 1 [of chunk "s\<lparr>svc_world := w\<rparr>"] show ?thesis
        by (simp add: steps_read.simps [of recv limit data] read_frame.simps [of recv limit data] on_world_def andthen_def
            ret_def)
    qed
  next
    case False
    then show ?thesis
      by (simp add: steps_read.simps [of recv limit data] read_frame.simps [of recv limit data] on_world_def ret_def)
  qed
qed

lemma finish_frame: "finish (steps_frame lib env os srv data peer) = serve_frame lib env os srv data peer"
  by (simp add: steps_frame_def serve_frame_def steps_answer_def answer_def finish_handle finish_result)

theorem connection_uninterrupted:
  "finish (steps_connection lib env os srv conn) = serve_connection lib env os srv conn"
proof (rule ext)
  fix s
  obtain r t where read: "on_world (read_frame (cn_recv conn) (srv_max_message_bytes srv) []) s = (r, t)" by fastforce
  show "finish (steps_connection lib env os srv conn) s = serve_connection lib env os srv conn s"
    unfolding steps_connection_def serve_connection_def finish_bind finish_read
    using read by (cases r) (auto simp: andthen_def attempt_def finish_frame finish_raise)
qed

section \<open>With any interruption\<close>

text \<open>
  A thread whose \<open>register()\<close> finds the agent known never comes to the rollback, so no thread unregisters an agent
  that was registered before the thread began, however the threads alternate.
\<close>

lemma keep_enroll [step_keeping]: "steps_keep (runtime_inv a Q) (steps_enroll env b pid md)"
proof (cases "b = a")
  case True
  show ?thesis
    unfolding steps_enroll_def
  proof (rule keep_first)
    fix s rt t
    assume inv: "runtime_inv a Q s" and run: "svc_register env b None (Some md) None s = (Inr rt, t)"
    from inv obtain m where "dict_get (svc_agents s) a = Some m" by (auto simp: runtime_inv_def)
    with run True have False by (simp add: register_known)
    then show "steps_keep (runtime_inv a Q) (sthen (scatch (steps_workload env b pid)
        (\<lambda>e. sthen (once (svc_unregister b)) (\<lambda>_. Finished (Inl e)))) (\<lambda>parts.
        once (reading (\<lambda>s. register_response b (runtime_now b rt s) parts))))" ..
  qed (intro preserving)
next
  case False
  show ?thesis
    unfolding steps_enroll_def steps_workload_def
    by (intro step_keeping preserving runtime_inv_unregister [OF False] keep_finished)
qed

lemma keep_queries:
  "steps_keep I (once (tp_status kvs))" "steps_keep I (once (tp_report kvs))" "steps_keep I (once tp_snapshot)"
  by (intro step_keeping preserving)+

lemma keep_handle:
  assumes "fence_closed Q"
  shows "steps_keep (runtime_inv a Q) (steps_handle env os srv request uid pid)"
proof -
  have "steps_keep (runtime_inv a Q) (steps_register env srv uid kvs)" for kvs
    unfolding steps_register_def by (intro step_keeping preserving)
  moreover have "steps_keep (runtime_inv a Q) (steps_authorize env os pid kvs)" for kvs
    unfolding steps_authorize_def steps_service_authorize_def auth_snapshot_def svc_identity_cgroup_def
      record_decision_def emit_decision_def
    by (intro step_keeping preserving assms; simp)
  moreover have "steps_keep (runtime_inv a Q) (steps_contain env srv uid kvs)" for kvs
    unfolding steps_contain_def svc_status_def by (intro step_keeping preserving assms)
  ultimately show ?thesis
    by (cases request) (simp_all add: steps_handle_def Let_def keep_finished keep_ret keep_queries)
qed

lemma keep_read [step_keeping]: "world_free I \<Longrightarrow> steps_keep I (steps_read recv limit data)"
proof (induction recv limit data rule: steps_read.induct)
  case (1 recv limit data)
  show ?case
  proof (cases "length data \<le> limit")
    case True
    have "steps_keep I (if chunk = [] then sret data
        else if line_feed \<in> set chunk then sret (data @ chunk) else steps_read recv limit (data @ chunk))" for chunk
      using True 1 by (auto intro: keep_ret)
    then have "steps_keep I (sthen (once (on_world (recv (min 4096 (limit + 1 - length data))))) (\<lambda>chunk.
        if chunk = [] then sret data
        else if line_feed \<in> set chunk then sret (data @ chunk) else steps_read recv limit (data @ chunk)))"
      by (rule keep_then [OF keep_once, rotated]) (intro preserving 1(2))
    with True show ?thesis by (simp add: steps_read.simps [of recv limit data])
  next
    case False
    then show ?thesis by (simp add: steps_read.simps [of recv limit data] keep_ret)
  qed
qed

text \<open>Whatever other threads do between the steps of a connection, each step keeps or fences the runtime of \<open>a\<close>.\<close>

lemma keep_connection:
  assumes "fence_closed Q"
  shows "steps_keep (runtime_inv a Q) (steps_connection lib env os srv conn)"
proof -
  have "steps_keep (runtime_inv a Q) (steps_frame lib env os srv data peer)" for data peer
    unfolding steps_frame_def steps_answer_def by (intro step_keeping keep_handle assms keep_finished)
  then show ?thesis
    unfolding steps_connection_def send_response_def
    by (intro keep_bind step_keeping preserving runtime_inv_world_free)
       (auto split: sum.split intro!: step_keeping preserving keep_finished runtime_inv_world_free)
qed

end
