(* ===== verification/Listener_Props.thy ===== *)
theory Listener_Props
  imports Listener Steps_Props
begin

text \<open>
  What holds of the whole server in every execution, in whatever order its threads run: the agents are only ever
  fenced, the workers are bounded, and a shutdown ends the accept loop.  One order of a shutdown and the accept loop
  makes the daemon fail instead of returning 0.
\<close>

section \<open>What every execution keeps\<close>

lemma on_service_run: "on_service m g = (fst (m (ln_service g)), g\<lparr>ln_service := snd (m (ln_service g))\<rparr>)"
  by (simp add: on_service_def split_beta)

text \<open>
  An invariant of the service that every step of every worker keeps, whatever happens outside, is kept by the whole
  server.
\<close>

definition served :: "('w service \<Rightarrow> bool) \<Rightarrow> 'w listener \<Rightarrow> bool" where
  "served I g \<longleftrightarrow> I (ln_service g) \<and> (\<forall>m \<in> set (ln_workers g). steps_keep I m)"

definition beside_service :: "('w listener \<Rightarrow> 'w listener) \<Rightarrow> bool" where
  "beside_service f \<longleftrightarrow> (\<forall>g. ln_service (f g) = ln_service g \<and> ln_workers (f g) = ln_workers g)"

lemma served_on_service [preserving]: "preserves I m \<Longrightarrow> preserves (served I) (on_service m)"
  by (rule preservesI) (auto simp: on_service_run served_def preserves_def)

lemma served_on_system [preserving]: "world_free I \<Longrightarrow> preserves (served I) (on_system m)"
  unfolding on_system_def by (intro preserving)

lemma served_modifying: "beside_service f \<Longrightarrow> preserves (served I) (modifying f)"
  by (rule preservesI) (auto simp: modifying_run served_def beside_service_def)

lemma served_close: "world_free I \<Longrightarrow> preserves (served I) (ln_close k path)"
  unfolding ln_close_def unlink_missing_ok_def
  by (intro preserving served_modifying; simp add: beside_service_def)

lemma keep_worker:
  assumes "world_free I" and "steps_keep I (steps_connection lib env os srv conn)"
  shows "steps_keep I (ln_worker k lib env os srv conn)"
  unfolding ln_worker_def by (intro keep_bind step_keeping preserving keep_finished assms)

lemma served_admit:
  assumes "world_free I" and "\<And>conn. steps_keep I (steps_connection lib env os srv conn)"
  shows "preserves (served I) (ln_admit k lib env os srv conn)"
proof (rule preservesI)
  fix g r t
  assume start: "served I g" and run: "ln_admit k lib env os srv conn g = (r, t)"
  have "preserves (served I) (turn_away k conn response)" for response
    unfolding turn_away_def send_response_def by (intro preserving assms(1))
  moreover have "served I (g\<lparr>ln_used := used\<rparr>)" for used
    using start by (simp add: served_def)
  ultimately have "served I (snd (turn_away k conn response (g\<lparr>ln_used := used\<rparr>)))" for response used
    unfolding preserves_def by blast
  then show "served I t"
    using start run keep_worker [OF assms]
    by (auto simp: ln_admit_def served_def split: prod.splits option.splits) (metis snd_conv)+
qed

lemma served_work:
  assumes "served I g" and "i < length (ln_workers g)"
  shows "served I (ln_work i g)"
proof -
  have this_one: "steps_keep I (ln_workers g ! i)" using assms by (simp add: served_def)
  show ?thesis
  proof (cases "ln_workers g ! i")
    case (Finished r)
    have "set (take i (ln_workers g) @ drop (i + 1) (ln_workers g)) \<subseteq> set (ln_workers g)"
      using set_take_subset set_drop_subset by fastforce
    with Finished assms(1) show ?thesis by (auto simp: ln_work_def served_def)
  next
    case (Next step)
    obtain rest s where step: "step (ln_service g) = (rest, s)" by fastforce
    have "I s \<and> steps_keep I rest"
      using this_one Next step assms(1) by (auto simp: steps_keep_next served_def)
    with Next step assms(1) set_update_subset_insert [of "ln_workers g" i rest] show ?thesis
      by (auto simp: ln_work_def served_def)
  qed
qed

lemma server_step_keeps:
  assumes "world_free I" and "\<And>conn. steps_keep I (steps_connection lib env os srv conn)" and "served I g"
  shows "served I (server_step k lib env os srv path e g)"
proof (cases e)
  case Loop
  have "served I (ln_accepted k lib env os srv s g)" for s
  proof -
    obtain r g' where accept: "on_system (sk_accept k s) g = (r, g')" by (cases "on_system (sk_accept k s) g")
    have g': "served I g'" by (rule preservesD [OF served_on_system [OF assms(1)] accept assms(3)])
    show ?thesis
    proof (cases r)
      case (Inl e) with accept g' show ?thesis by (simp add: ln_accepted_def served_def)
    next
      case (Inr conn)
      obtain r' g'' where admit: "ln_admit k lib env os srv conn g' = (r', g'')" by (cases "ln_admit k lib env os srv conn g'")
      have "served I g''" by (rule preservesD [OF served_admit [OF assms(1,2)] admit g'])
      with Inr accept admit show ?thesis by (cases r') (simp_all add: ln_accepted_def served_def)
    qed
  qed
  with Loop assms(3) show ?thesis
    by (simp add: loop_step_def ln_test_def ln_enter_accept_def served_def split: loop_point.splits)
next
  case (Work i)
  with served_work [OF assms(3), of i] assms(3) show ?thesis by simp
next
  case Close
  with served_close [OF assms(1)] assms(3) show ?thesis by (simp add: preserves_def)
qed (use assms(3) in \<open>simp add: served_def\<close>)

lemma server_run_keeps:
  assumes "world_free I" and "\<And>conn. steps_keep I (steps_connection lib env os srv conn)" and "served I g"
  shows "served I (server_run k lib env os srv path events g)"
  using assms(3) unfolding server_run_def
  by (induction events arbitrary: g) (simp_all add: server_step_keeps [OF assms(1,2)])

text \<open>A worker that nothing interrupts serves its connection as \<open>serve_once\<close> does.\<close>

lemma worker_uninterrupted:
  "on_service (finish (ln_worker k lib env os srv conn)) = ln_serve_connection k lib env os srv conn"
  by (rule ext) (simp add: ln_worker_def ln_serve_connection_def finish_bind connection_uninterrupted finish_result
      on_service_def on_system_def andthen_def attempt_def lift_result_def split: prod.split sum.split)

text \<open>The semaphore counts the worker threads.\<close>

definition slots_ok :: "control_server \<Rightarrow> 'w listener \<Rightarrow> bool" where
  "slots_ok srv g \<longleftrightarrow> ln_used g = length (ln_workers g) \<and> length (ln_workers g) \<le> srv_slots srv"

lemma on_service_frame [simp]:
  "ln_used (snd (on_service m g)) = ln_used g" "ln_workers (snd (on_service m g)) = ln_workers g"
  "ln_point (snd (on_service m g)) = ln_point g" "event_set (snd (on_service m g)) = event_set g"
  "ln_sock (snd (on_service m g)) = ln_sock g" "ln_given (snd (on_service m g)) = ln_given g"
  by (simp_all add: on_service_run event_set_def split: option.split)

definition threads :: "'w listener \<Rightarrow> nat \<times> ('w service, unit) steps list \<times> loop_point \<times> bool option" where
  "threads g = (ln_used g, ln_workers g, ln_point g, ln_given g)"

definition threads_are where "threads_are x g \<longleftrightarrow> threads g = x"

lemma threads_on_system [preserving]: "preserves (threads_are x) (on_service m)" "preserves (threads_are x) (on_system n)"
  by (rule preservesI, simp add: on_service_run on_system_def threads_are_def threads_def)+

lemma threads_modifying: "(\<And>g. threads (f g) = threads g) \<Longrightarrow> preserves (threads_are x) (modifying f)"
  by (rule preservesI) (auto simp: modifying_run threads_are_def)

lemma threads_kept:
  "threads (snd (ln_close k path g)) = threads g" "threads (snd (turn_away k conn response g)) = threads g"
proof -
  have "preserves (threads_are (threads g)) (ln_close k path)"
    unfolding ln_close_def unlink_missing_ok_def by (intro preserving threads_modifying; simp add: threads_def)
  moreover have "preserves (threads_are (threads g)) (turn_away k conn response)"
    unfolding turn_away_def by (intro preserving)
  ultimately show "threads (snd (ln_close k path g)) = threads g" "threads (snd (turn_away k conn response g)) = threads g"
    by (simp_all add: preserves_def threads_are_def)
qed

lemma slots_ok_threads: "threads g = threads g' \<Longrightarrow> slots_ok srv g \<longleftrightarrow> slots_ok srv g'"
  by (simp add: slots_ok_def threads_def)

lemma slots_ok_admit: "slots_ok srv g \<Longrightarrow> slots_ok srv (snd (ln_admit k lib env os srv conn g))"
  using threads_kept(2) [of k conn "error_response ''server_busy''" "g\<lparr>ln_used := srv_slots srv\<rparr>"]
  by (auto simp: ln_admit_def on_accept_def slots_ok_def threads_def)

lemma slots_ok_step: "slots_ok srv g \<Longrightarrow> slots_ok srv (server_step k lib env os srv path e g)"
proof (cases e)
  case Loop
  assume ok: "slots_ok srv g"
  have "slots_ok srv (ln_accepted k lib env os srv s g)" for s
  proof -
    obtain r g' where accept: "on_system (sk_accept k s) g = (r, g')" by (cases "on_system (sk_accept k s) g")
    have g': "slots_ok srv g'"
      using ok accept slots_ok_threads [of g' g] by (auto simp: on_system_def on_service_run threads_def)
    show ?thesis
    proof (cases r)
      case (Inl e) with accept g' show ?thesis by (simp add: ln_accepted_def slots_ok_def)
    next
      case (Inr conn)
      have "slots_ok srv (snd (ln_admit k lib env os srv conn g'))" by (rule slots_ok_admit [OF g'])
      with Inr accept show ?thesis
        by (cases "ln_admit k lib env os srv conn g'") (auto simp: ln_accepted_def slots_ok_def split: sum.splits)
    qed
  qed
  with Loop ok show ?thesis
    by (simp add: loop_step_def ln_test_def ln_enter_accept_def slots_ok_def split: loop_point.splits)
next
  case (Work i)
  assume ok: "slots_ok srv g"
  show ?thesis
  proof (cases "i < length (ln_workers g)")
    case True
    with ok Work show ?thesis
      by (auto simp: ln_work_def slots_ok_def on_served_def split: steps.split prod.splits)
  next
    case False
    then show ?thesis using ok Work by simp
  qed
next
  case Close
  assume "slots_ok srv g"
  then show ?thesis using Close slots_ok_threads [OF threads_kept(1) [of k path g], of srv] by simp
next
  case Flag
  assume "slots_ok srv g"
  then show ?thesis using Flag by (simp add: slots_ok_def)
qed

lemma slots_ok_run: "slots_ok srv g \<Longrightarrow> slots_ok srv (server_run k lib env os srv path events g)"
  unfolding server_run_def by (induction events arbitrary: g) (simp_all add: slots_ok_step)

text \<open>
  C28: Whatever peers connect, whatever bytes they send, and however the steps of the accept loop, of the workers and
  of a shutdown alternate: every agent that was registered while no message was in progress stays registered, its
  runtime as it was then or fenced at a later epoch, and at most \<open>max_concurrent_connections\<close> workers run.  A step of a
  worker is a call of its socket, one section of the service under its lock, or a call between two of them, so
  registrations, rollbacks, authorizations and containments of different peers interleave.
\<close>

theorem server_only_fences:
  assumes "ln_workers g = []" and "ln_used g = 0" and "dict_get (svc_agents (ln_service g)) a = Some m"
  shows "\<exists>g' m'. server_run k lib env os srv path events g = g' \<and> length (ln_workers g') \<le> srv_slots srv
     \<and> dict_get (svc_agents (ln_service g')) a = Some m'
     \<and> (rt_state (ma_runtime m') = rt_state (ma_runtime m) \<and> rt_epoch (ma_runtime m') = rt_epoch (ma_runtime m)
        \<or> rt_epoch (ma_runtime m) < rt_epoch (ma_runtime m') \<and> rt_state (ma_runtime m') \<in> {CONTAINED, HALTED})"
proof -
  let ?Q = "\<lambda>st n. st = rt_state (ma_runtime m) \<and> n = rt_epoch (ma_runtime m)
      \<or> rt_epoch (ma_runtime m) < n \<and> st \<in> {CONTAINED, HALTED}"
  let ?g = "server_run k lib env os srv path events g"
  have "fence_closed ?Q" by (auto simp: fence_closed_def)
  moreover have "served (runtime_inv a ?Q) g" using assms(1,3) by (simp add: served_def runtime_inv_def)
  ultimately have "served (runtime_inv a ?Q) ?g"
    by (intro server_run_keeps runtime_inv_world_free keep_connection)
  moreover have "slots_ok srv g" using assms(1,2) by (simp add: slots_ok_def)
  then have "length (ln_workers ?g) \<le> srv_slots srv"
    using slots_ok_run [of srv g k lib env os path events] by (simp add: slots_ok_def)
  ultimately show ?thesis by (simp add: served_def runtime_inv_def)
qed

section \<open>Shutting down\<close>

fun turns_left :: "loop_point \<Rightarrow> nat" where
  "turns_left (Returned r) = 0"
| "turns_left Testing = 1"
| "turns_left (Waiting s) = 2"
| "turns_left Accepting = 3"

lemma loop_step_turns: "event_set g \<Longrightarrow> turns_left (ln_point (loop_step k lib env os srv g)) \<le> turns_left (ln_point g) - 1"
  by (auto simp: loop_step_def ln_test_def ln_enter_accept_def ln_accepted_def split: loop_point.split option.split sum.split prod.split)

lemma admit_given: "ln_given (snd (ln_admit k lib env os srv conn g)) = ln_given g"
  using threads_kept(2) [of k conn "error_response ''server_busy''" "g\<lparr>ln_used := ln_used g\<rparr>"]
  by (simp add: ln_admit_def on_accept_def threads_def)

lemma accepted_given: "ln_given (ln_accepted k lib env os srv s g) = ln_given g"
proof -
  obtain r g' where accept: "on_system (sk_accept k s) g = (r, g')" by (cases "on_system (sk_accept k s) g")
  then have g': "ln_given g' = ln_given g" by (auto simp: on_system_def on_service_run)
  show ?thesis
  proof (cases r)
    case (Inl e) with accept g' show ?thesis by (simp add: ln_accepted_def)
  next
    case (Inr conn)
    with accept g' admit_given [of k lib env os srv conn g'] show ?thesis
      by (cases "ln_admit k lib env os srv conn g'") (auto simp: ln_accepted_def split: sum.splits)
  qed
qed

lemma loop_step_given: "ln_given (loop_step k lib env os srv g) = ln_given g"
  by (simp add: loop_step_def ln_test_def ln_enter_accept_def accepted_given split: loop_point.split)

lemma work_kept:
  "ln_given (ln_work i g) = ln_given g" "ln_point (ln_work i g) = ln_point g"
  by (simp_all add: ln_work_def split_beta split: steps.split)

lemma server_step_given:
  "ln_given g = Some True \<Longrightarrow> ln_given (server_step k lib env os srv path e g) = Some True"
  using threads_kept(1) [of k path g] by (cases e) (simp_all add: loop_step_given work_kept threads_def)

lemma server_step_turns:
  assumes "ln_given g = Some True"
  shows "turns_left (ln_point (server_step k lib env os srv path e g))
     \<le> (if e = Loop then turns_left (ln_point g) - 1 else turns_left (ln_point g))"
proof -
  have "event_set g" using assms by (simp add: event_set_def)
  then show ?thesis
    using loop_step_turns [of g k lib env os srv] threads_kept(1) [of k path g] by (cases e) (simp_all add: work_kept threads_def)
qed

lemma server_run_turns:
  "ln_given g = Some True \<Longrightarrow>
     turns_left (ln_point (server_run k lib env os srv path events g)) \<le> turns_left (ln_point g) - count_list events Loop"
proof (induction events arbitrary: g)
  case (Cons e events)
  let ?g = "server_step k lib env os srv path e g"
  have "turns_left (ln_point (server_run k lib env os srv path events ?g)) \<le> turns_left (ln_point ?g) - count_list events Loop"
    by (rule Cons.IH [OF server_step_given [OF Cons.prems]])
  then show ?case
    using server_step_turns [OF Cons.prems, of k lib env os srv path e] by (auto simp: server_run_def split: if_splits)
qed (simp add: server_run_def)

text \<open>
  C34: A signal stops the daemon's server: from wherever the accept loop stands, it has left after at most three more of
  its own steps, whatever peers, workers and the system do.
\<close>

theorem shutdown_stops_server:
  assumes "ln_given g = Some b" and "3 \<le> count_list events Loop"
  shows "\<exists>r. ln_point (server_run k lib env os srv path (shutdown @ events) g) = Returned r"
proof -
  let ?g = "server_run k lib env os srv path shutdown g"
  have "ln_given ?g = Some True"
    using assms(1) threads_kept(1) [of k path "g\<lparr>ln_given := Some True\<rparr>"]
    by (simp add: server_run_def shutdown_def threads_def)
  then have "turns_left (ln_point (server_run k lib env os srv path events ?g)) \<le> turns_left (ln_point ?g) - 3"
    using server_run_turns [of ?g k lib env os srv path events] assms(2) by linarith
  moreover have "turns_left p \<le> 3" for p by (cases p) simp_all
  ultimately have "turns_left (ln_point (server_run k lib env os srv path (shutdown @ events) g)) = 0"
    using diff_is_0_eq by (simp add: server_run_def)
  then show ?thesis
    by (cases "ln_point (server_run k lib env os srv path (shutdown @ events) g)") simp_all
qed

text \<open>The handler that comes between the test of the event and \<open>self._sock.accept()\<close> makes the loop raise.\<close>

lemma shutdown_race:
  assumes "ln_point g = Accepting" and "ln_given g = Some b" and "ln_close k path (g\<lparr>ln_given := Some True\<rparr>) = (Inr (), g')"
    and "ln_sock g' = None"
  shows "ln_point (server_run k lib env os srv path (shutdown @ [Loop]) g) = Returned (Inl no_accept)"
  using assms threads_kept(1) [of k path "g\<lparr>ln_given := Some True\<rparr>"]
  by (simp add: server_run_def shutdown_def threads_def loop_step_def ln_enter_accept_def)

lemma start_run:
  assumes "ln_start k path mode g = (Inr u, g')"
  shows "ln_sock g' \<noteq> None \<and> \<not> ln_stop g'"
  using assms by (auto simp: ln_start_def run_rules on_system_def on_service_run)

text \<open>A started daemon is in its loop, and nothing but a signal sets its event.\<close>

lemma daemon_start_run:
  assumes "daemon_start k os controller_cgroup pid path mode g = (Inr u, g')"
  shows "ln_point g' = Testing \<and> ln_given g' = Some False \<and> ln_sock g' \<noteq> None"
  using assms start_run [of k path mode] by (auto simp: daemon_start_def run_rules ln_serve_forever_def)

lemma close_run:
  assumes "ln_close k path g = (Inr u, g')"
  shows "ln_sock g' = None \<and> ln_stop g'"
  using assms by (auto simp: ln_close_def run_rules unlink_missing_ok_def on_system_def on_service_run split: option.splits if_splits)

text \<open>The daemon returns 0 only when the loop left without an exception, and its server is closed then.\<close>

lemma daemon_exit_run:
  assumes "daemon_exit k path left g = (Inr n, g')"
  shows "left = Inr () \<and> n = 0 \<and> ln_sock g' = None \<and> ln_stop g'"
  using assms close_run [of k path g] by (auto simp: daemon_exit_def run_rules)

lemma daemon_exit_race: "daemon_exit k path (Inl no_accept) g \<noteq> (Inr n, g')"
  using daemon_exit_run [of k path "Inl no_accept" g n g'] by auto

section \<open>A concrete server\<close>

text \<open>Every connection asks, as root, to contain the agent \<open>a\<close>.\<close>

definition toy_sockets :: "nat sockets" where
  "toy_sockets = \<lparr>sk_unix = True, sk_mkdir = (\<lambda>p. ret ()), sk_unlink = (\<lambda>p. ret ()), sk_socket = ret 7,
     sk_bind = (\<lambda>s p. ret ()), sk_chmod = (\<lambda>p n. ret ()), sk_listen = (\<lambda>s n. ret ()),
     sk_accept = (\<lambda>s. ret \<lparr>cn_recv = (\<lambda>n. ret (take n (request_bytes ''contain'' [(''agent_id'', JStr ''a'')]))),
       cn_sendall = (\<lambda>t. ret ()), cn_peercred = Some (ret (42, 0, 0))\<rparr>),
     sk_close = (\<lambda>s. ret ()), sk_hang_up = (\<lambda>c. ret ())\<rparr>"

definition toy_listener :: "nat listener" where
  "toy_listener = \<lparr>ln_sock = None, ln_stop = False, ln_given = None, ln_point = Returned (Inr ()), ln_used = 0,
     ln_workers = [], ln_service = demo_service []\<rparr>"

lemma toy_started:
  "daemon_start toy_sockets wire_os None 42 ''/run/c'' 384 toy_listener
     = (Inr (), toy_listener\<lparr>ln_sock := Some 7, ln_given := Some False, ln_point := Testing\<rparr>)"
  by (simp add: daemon_start_def daemon_join_cgroup_def ln_start_def unlink_missing_ok_def on_system_def on_service_run on_world_def prog_defs
      ln_serve_forever_def toy_sockets_def toy_listener_def demo_service_def empty_service_def)

text \<open>Two peers at once; the first message is read while the second connection is accepted.\<close>

definition toy_events :: "server_event list" where
  "toy_events = [Loop, Loop, Loop, Work 0, Loop, Loop, Loop, Work 1, Work 0, Work 0, Work 1, Work 0, Work 1, Work 0]"

theorem server_only_fences_witness:
  "\<exists>g m'. server_run toy_sockets wire_lib wire_env wire_os wire_server ''/run/c'' toy_events toy_listener = g
     \<and> length (ln_workers g) \<le> 16 \<and> dict_get (svc_agents (ln_service g)) ''a'' = Some m'"
proof -
  have "ln_workers toy_listener = []" "ln_used toy_listener = 0" by (simp_all add: toy_listener_def)
  moreover have "dict_get (svc_agents (ln_service toy_listener)) ''a'' = Some (demo_agent [])"
    by (simp add: toy_listener_def demo_agent_get)
  ultimately show ?thesis
    using server_only_fences [of toy_listener "''a''" "demo_agent []" toy_sockets wire_lib wire_env wire_os
        wire_server "''/run/c''" toy_events] by (auto simp: wire_server_def)
qed

theorem shutdown_stops_server_witness:
  "\<exists>g r. daemon_start toy_sockets wire_os None 42 ''/run/c'' 384 toy_listener = (Inr (), g)
     \<and> ln_point (server_run toy_sockets wire_lib wire_env wire_os wire_server ''/run/c'' (shutdown @ [Loop, Work 0, Loop, Loop]) g) = Returned r"
  using toy_started shutdown_stops_server [of "toy_listener\<lparr>ln_sock := Some 7, ln_given := Some False, ln_point := Testing\<rparr>"
      False "[Loop, Work 0, Loop, Loop]" toy_sockets wire_lib wire_env wire_os wire_server "''/run/c''"] by simp

text \<open>The race on the concrete server, from its start: one round of the loop, then the signal, then the loop.\<close>

lemma toy_race:
  "\<exists>g. daemon_start toy_sockets wire_os None 42 ''/run/c'' 384 toy_listener = (Inr (), g)
     \<and> ln_point (server_run toy_sockets wire_lib wire_env wire_os wire_server ''/run/c'' (Loop # shutdown @ [Loop]) g)
       = Returned (Inl no_accept)"
proof -
  let ?g = "toy_listener\<lparr>ln_sock := Some 7, ln_given := Some False, ln_point := Testing\<rparr>"
  let ?tested = "toy_listener\<lparr>ln_sock := Some 7, ln_given := Some False, ln_point := Accepting\<rparr>"
  have "loop_step toy_sockets wire_lib wire_env wire_os wire_server ?g = ?tested"
    by (simp add: loop_step_def ln_test_def event_set_def)
  then have first: "server_run toy_sockets wire_lib wire_env wire_os wire_server ''/run/c'' (Loop # events) ?g
      = server_run toy_sockets wire_lib wire_env wire_os wire_server ''/run/c'' events ?tested" for events
    by (simp add: server_run_def)
  obtain g' where "ln_close toy_sockets ''/run/c'' (?tested\<lparr>ln_given := Some True\<rparr>) = (Inr (), g')" "ln_sock g' = None"
    by (simp add: ln_close_def unlink_missing_ok_def on_system_def on_service_run on_world_def prog_defs toy_sockets_def)
  from shutdown_race [of ?tested False, OF _ _ this] show ?thesis by (simp add: toy_started first)
qed

end
