(* ===== verification/Hostile_Demo.thy ===== *)
theory Hostile_Demo
  imports Host_Adapters
begin

text \<open>
  \<open>demo/hostile_agent_demo.py\<close>: the showcase that runs the adversarial tests and writes the evidence
  file with its verdict.  The test runner, the temporary file and the host's facts are parameters;
  the texts printed on the terminal are not modelled.
\<close>

section \<open>The tests and the attack matrix\<close>

record test_case =
  tc_name :: string
  tc_path :: string
  tc_attacks :: "string list"
  tc_proofs :: "string list"

record matrix_item =
  mx_attack :: string
  mx_expected :: string
  mx_path :: string

definition isolation_path :: string where
  "isolation_path = ''tests/integration/test_controller_isolation.py::test_unprivileged_agent_cannot_interfere_with_controller''"

definition delegation_path :: string where
  "delegation_path = ''tests/integration/test_cgroup_delegation.py::test_non_root_process_uses_delegated_cgroup_subtree''"

definition process_path :: string where
  "process_path = ''tests/integration/test_linux_ebpf.py::test_controller_containment_kills_hostile_cgroup_process''"

definition egress_path :: string where
  "egress_path = ''tests/integration/test_linux_ebpf.py::test_linux_ebpf_blocks_subprocess_egress_after_containment''"

definition lease_path :: string where
  "lease_path = ''tests/test_epoch_fencing_adversarial.py::test_stale_execution_lease_cannot_cross_containment_or_recovery''"

text \<open>In every entry of the list the attacks covered and the proof ids are the same texts.\<close>

definition demo_test :: "string \<Rightarrow> string \<Rightarrow> string list \<Rightarrow> test_case" where
  "demo_test name path ids = \<lparr>tc_name = name, tc_path = path, tc_attacks = ids, tc_proofs = ids\<rparr>"

definition hostile_tests :: "test_case list" where
  "hostile_tests =
     [demo_test ''controller isolation'' isolation_path
        [''controller_signal'', ''controller_ptrace_memory'', ''controller_ipc_tamper''],
      demo_test ''cgroup delegation boundary'' delegation_path [''cross_boundary_cgroup_migrate''],
      demo_test ''process containment'' process_path [''cgroup_workload_containment''],
      demo_test ''kernel egress containment'' egress_path [''post_containment_egress''],
      demo_test ''stale execution lease fencing'' lease_path [''stale_execution_lease'']]"

definition attack_matrix :: "matrix_item list" where
  "attack_matrix = map (\<lambda>(a, x, p). \<lparr>mx_attack = a, mx_expected = x, mx_path = p\<rparr>)
     [(''controller_signal'', ''denied'', isolation_path),
      (''controller_ptrace_memory'', ''denied'', isolation_path),
      (''controller_ipc_tamper'', ''denied'', isolation_path),
      (''cross_boundary_cgroup_migrate'', ''denied'', delegation_path),
      (''cgroup_workload_containment'', ''enforced'', process_path),
      (''post_containment_egress'', ''denied'', egress_path),
      (''stale_execution_lease'', ''invalidated'', lease_path)]"

section \<open>Running a test\<close>

record evidence_item =
  ei_name :: string
  ei_path :: string
  ei_nodeid :: string
  ei_attacks :: "string list"
  ei_proofs :: "string list"
  ei_result :: string
  ei_exit_code :: int
  ei_duration :: string

text \<open>
  The host: \<open>dh_pytest\<close> runs one test with the proof file in its environment and yields the exit
  code, \<open>dh_seconds\<close> is the text of a rounded duration.
\<close>

record 'w demo_host =
  dh_os :: "'w os"
  dh_pytest :: "string \<Rightarrow> string \<Rightarrow> ('w, int) prog"
  dh_seconds :: "int \<Rightarrow> string"
  dh_tempname :: "('w, string) prog"
  dh_unlink :: "string \<Rightarrow> ('w, unit) prog"
  dh_now :: "('w, string) prog"
  dh_environ :: "string \<Rightarrow> string option"
  dh_platform :: string
  dh_platform_text :: string
  dh_kernel :: string
  dh_euid :: int

definition read_proof_file :: "'a library_scheme \<Rightarrow> 'w demo_host \<Rightarrow> string \<Rightarrow> ('w, string set) prog" where
  "read_proof_file lib h path = andthen (read_proofs lib (dh_os h) path) (\<lambda>ids. ret (set ids))"

definition host_clock :: "'w demo_host \<Rightarrow> ('w, int) prog" where
  "host_clock h w = (case os_monotonic (dh_os h) w of (t, w') \<Rightarrow> (Inr t, w'))"

text \<open>The item of a finished run: a pass needs exit code 0 and exactly the expected new markers.\<close>

definition test_passed :: "test_case \<Rightarrow> int \<Rightarrow> string set \<Rightarrow> bool" where
  "test_passed t exit_code new_proofs \<longleftrightarrow>
     exit_code = 0 \<and> set (tc_proofs t) - new_proofs = {} \<and> new_proofs - set (tc_proofs t) = {}"

definition run_item :: "test_case \<Rightarrow> int \<Rightarrow> string set \<Rightarrow> string \<Rightarrow> evidence_item" where
  "run_item t exit_code new_proofs duration =
     \<lparr>ei_name = tc_name t, ei_path = tc_path t, ei_nodeid = tc_path t, ei_attacks = tc_attacks t,
      ei_proofs = sorted_list_of_set (new_proofs \<inter> set (tc_proofs t)),
      ei_result = (if test_passed t exit_code new_proofs then ''passed'' else ''failed''),
      ei_exit_code = exit_code, ei_duration = duration\<rparr>"

definition run_test ::
  "'a library_scheme \<Rightarrow> 'w demo_host \<Rightarrow> string \<Rightarrow> test_case \<Rightarrow> evidence_item list \<Rightarrow>
     ('w, int \<times> evidence_item list) prog" where
  "run_test lib h proof_file t evidence =
     andthen (read_proof_file lib h proof_file) (\<lambda>before.
     andthen (host_clock h) (\<lambda>started.
     andthen (dh_pytest h (tc_path t) proof_file) (\<lambda>exit_code.
     andthen (read_proof_file lib h proof_file) (\<lambda>after.
     andthen (host_clock h) (\<lambda>ended.
     ret (if test_passed t exit_code (after - before) then 0 else 1,
          evidence @ [run_item t exit_code (after - before) (dh_seconds h (ended - started))]))))))"

fun run_tests ::
  "'a library_scheme \<Rightarrow> 'w demo_host \<Rightarrow> string \<Rightarrow> test_case list \<Rightarrow> int \<Rightarrow> evidence_item list \<Rightarrow>
     ('w, int \<times> evidence_item list) prog" where
  "run_tests lib h proof_file [] failures evidence = ret (failures, evidence)"
| "run_tests lib h proof_file (t # ts) failures evidence =
     andthen (run_test lib h proof_file t evidence) (\<lambda>(failed, evidence').
     run_tests lib h proof_file ts (failures + failed) evidence')"

section \<open>The evidence file\<close>

definition strings_repr :: "string set \<Rightarrow> string" where
  "strings_repr xs = ''['' @ join_with '', '' (map py_repr (sorted_list_of_set xs)) @ '']''"

definition items_by_path :: "evidence_item list \<Rightarrow> evidence_item dict" where
  "items_by_path evidence = foldl (\<lambda>d i. dict_set (ei_path i) i d) [] evidence"

text \<open>The loop over the matrix.\<close>

fun check_matrix :: "evidence_item dict \<Rightarrow> matrix_item list \<Rightarrow> exn + unit" where
  "check_matrix by_path [] = Inr ()"
| "check_matrix by_path (x # xs) =
     (case dict_get by_path (mx_path x) of
        None \<Rightarrow> Inl (Exn ValueError (''attack '' @ py_repr (mx_attack x) @ '' has no recorded test evidence''))
      | Some i \<Rightarrow>
          if ei_nodeid i \<noteq> mx_path x then
            Inl (Exn ValueError (''attack '' @ py_repr (mx_attack x) @ '' is not bound to its executed pytest nodeid''))
          else if mx_attack x \<notin> set (ei_attacks i) then
            Inl (Exn ValueError (''attack '' @ py_repr (mx_attack x) @ '' is not covered by '' @ py_repr (mx_path x)))
          else if mx_attack x \<notin> set (ei_proofs i) then
            Inl (Exn ValueError (''attack '' @ py_repr (mx_attack x) @ '' has no executed proof marker''))
          else check_matrix by_path xs)"

definition derived_result :: "evidence_item list \<Rightarrow> string" where
  "derived_result evidence =
     (if list_all (\<lambda>i. ei_result i = ''passed'' \<and> ei_exit_code i = 0) evidence then ''contained'' else ''failed'')"

definition mismatch :: "string \<Rightarrow> string set \<Rightarrow> string set \<Rightarrow> exn" where
  "mismatch what expected recorded =
     Exn ValueError (''hostile-agent '' @ what @ '' mismatch; missing='' @ strings_repr (expected - recorded)
       @ '', unexpected='' @ strings_repr (recorded - expected))"

definition validate_evidence ::
  "test_case list \<Rightarrow> matrix_item list \<Rightarrow> evidence_item list \<Rightarrow> string option \<Rightarrow> exn + string" where
  "validate_evidence tests matrix evidence result =
     (let expected_attacks = mx_attack ` set matrix; covered = (\<Union>i \<in> set evidence. set (ei_attacks i));
          expected_nodeids = tc_path ` set tests; recorded_nodeids = ei_nodeid ` set evidence;
          expected_proofs = (\<Union>t \<in> set tests. set (tc_proofs t)); recorded_proofs = (\<Union>i \<in> set evidence. set (ei_proofs i))
      in
      if evidence = [] then
        Inl (Exn ValueError ''cannot produce hostile-agent evidence without recorded tests'')
      else if length (items_by_path evidence) \<noteq> length evidence then
        Inl (Exn ValueError ''hostile-agent evidence contains duplicate test paths'')
      else if covered \<noteq> expected_attacks then Inl (mismatch ''attack coverage'' expected_attacks covered)
      else if recorded_nodeids \<noteq> expected_nodeids then Inl (mismatch ''proof nodeid'' expected_nodeids recorded_nodeids)
      else (case check_matrix (items_by_path evidence) matrix of
          Inl e \<Rightarrow> Inl e
        | Inr _ \<Rightarrow>
            if recorded_proofs \<noteq> expected_proofs then Inl (mismatch ''proof marker'' expected_proofs recorded_proofs)
            else if result \<noteq> None \<and> result \<noteq> Some (derived_result evidence) then
              Inl (Exn ValueError (''evidence result '' @ py_repr (the result)
                 @ '' is inconsistent with recorded test outcomes; expected '' @ py_repr (derived_result evidence)))
            else Inr (derived_result evidence)))"

definition item_json :: "evidence_item \<Rightarrow> json" where
  "item_json i =
     JObj [(''name'', JStr (ei_name i)), (''test_path'', JStr (ei_path i)), (''test_nodeid'', JStr (ei_nodeid i)),
       (''attacks_covered'', JList (map JStr (ei_attacks i))), (''proof_ids'', JList (map JStr (ei_proofs i))),
       (''result'', JStr (ei_result i)), (''exit_code'', JInt (ei_exit_code i)),
       (''duration_seconds'', JReal (ei_duration i))]"

definition matrix_json :: "matrix_item \<Rightarrow> json" where
  "matrix_json x =
     JObj [(''attack'', JStr (mx_attack x)), (''expected'', JStr (mx_expected x)), (''test_path'', JStr (mx_path x))]"

definition evidence_payload ::
  "'w demo_host \<Rightarrow> matrix_item list \<Rightarrow> evidence_item list \<Rightarrow> string \<Rightarrow> string \<Rightarrow> json" where
  "evidence_payload h matrix evidence verdict generated_at =
     JObj [(''schema_version'', JInt 2), (''evidence_type'', JStr ''hostile_agent_demo''), (''result'', JStr verdict),
       (''generated_at'', JStr generated_at),
       (''repository'', opt_json JStr (dh_environ h ''GITHUB_REPOSITORY'')),
       (''commit_sha'', opt_json JStr (dh_environ h ''GITHUB_SHA'')),
       (''run_id'', opt_json JStr (dh_environ h ''GITHUB_RUN_ID'')),
       (''runner'', JObj [(''os'', JStr (dh_platform h)), (''platform'', JStr (dh_platform_text h)),
          (''kernel'', JStr (dh_kernel h)), (''euid'', JInt (dh_euid h))]),
       (''tests'', JList (map item_json evidence)), (''attack_matrix'', JList (map matrix_json matrix)),
       (''proof_ids'', JList (map JStr (sorted_list_of_set (\<Union>i \<in> set evidence. set (ei_proofs i))))),
       (''claims'', JObj [(''scope'', JStr ''test evidence from temporary resources on the tested Linux host''),
          (''universal_security_guarantee'', JBool False), (''host_cryptographic_attestation'', JBool False)])]"

text \<open>\<open>json.dump(value, indent=2)\<close>.\<close>

definition new_line :: "nat \<Rightarrow> string" where
  "new_line n = line_feed # replicate (2 * n) (CHR 0x20)"

fun pretty :: "nat \<Rightarrow> json \<Rightarrow> string" where
  "pretty n (JList xs) =
     (if xs = [] then ''[]''
      else ''['' @ new_line (n + 1) @ join_with ('','' @ new_line (n + 1)) (map (pretty (n + 1)) xs) @ new_line n @ '']'')"
| "pretty n (JObj kvs) =
     (if kvs = [] then ''{}''
      else ''{'' @ new_line (n + 1)
        @ join_with ('','' @ new_line (n + 1)) (map (\<lambda>(k, v). json_string True k @ '': '' @ pretty (n + 1) v) kvs)
        @ new_line n @ ''}'')"
| "pretty n v = print_json plain_style v"

definition evidence_file :: string where
  "evidence_file = ''hostile-agent-evidence.json''"

definition write_evidence ::
  "'w demo_host \<Rightarrow> test_case list \<Rightarrow> matrix_item list \<Rightarrow> evidence_item list \<Rightarrow> string option \<Rightarrow> ('w, unit) prog" where
  "write_evidence h tests matrix evidence result =
     andthen (lift_result (validate_evidence tests matrix evidence result)) (\<lambda>verdict.
     andthen (dh_now h) (\<lambda>generated_at.
     os_write_text (dh_os h) evidence_file
       (pretty 0 (sort_json (evidence_payload h matrix evidence verdict generated_at)) @ [line_feed])))"

section \<open>The program\<close>

definition demo_main ::
  "'a library_scheme \<Rightarrow> 'w demo_host \<Rightarrow> test_case list \<Rightarrow> matrix_item list \<Rightarrow> ('w, int) prog" where
  "demo_main lib h tests matrix =
     (if dh_platform h \<noteq> ''linux'' \<or> dh_euid h \<noteq> 0
         \<or> dh_environ h ''AGENT_CONTAINMENT_RUN_PRIVILEGED_TESTS'' \<noteq> Some ''1'' then ret 2
      else
        andthen (dh_tempname h) (\<lambda>proof_file.
        andthen (dh_unlink h proof_file) (\<lambda>_.
        andthen (attempt (run_tests lib h proof_file tests 0 [])) (\<lambda>outcome.
        andthen (catch (dh_unlink h proof_file)
                   (\<lambda>e. if exn_class e = FileNotFoundError then ret () else raise e)) (\<lambda>_.
        andthen (lift_result outcome) (\<lambda>(failures, evidence).
        if failures \<noteq> 0 then andthen (write_evidence h tests matrix evidence (Some ''failed'')) (\<lambda>_. ret 1)
        else andthen (write_evidence h tests matrix evidence (Some ''contained'')) (\<lambda>_. ret 0)))))))"

end
