(* ===== verification/Hostile_Props.thy ===== *)
theory Hostile_Props
  imports Hostile_Demo Hash_Chain
begin

text \<open>
  What the verdict of the hostile-agent demonstration rests on: a passed test is one whose own run
  ended with exit code 0 and added exactly its markers, and the verdict \<open>contained\<close> needs every
  attack of the matrix to have such a test.
\<close>

section \<open>Valid evidence\<close>

lemma items_by_path_item:
  "dict_get (foldl (\<lambda>d i. dict_set (ei_path i) i d) d is) p = Some i \<Longrightarrow>
     (i \<in> set is \<and> ei_path i = p) \<or> dict_get d p = Some i"
proof (induction "is" arbitrary: d)
  case (Cons j js)
  then show ?case by (fastforce split: if_splits)
qed simp

lemma check_matrix_ok:
  "check_matrix d xs = Inr u \<Longrightarrow> x \<in> set xs \<Longrightarrow>
     \<exists>i. dict_get d (mx_path x) = Some i \<and> mx_attack x \<in> set (ei_attacks i) \<and> mx_attack x \<in> set (ei_proofs i)"
  by (induction xs) (auto split: option.splits if_splits)

lemma validated:
  assumes "validate_evidence tests matrix evidence result = Inr verdict"
  shows "verdict = derived_result evidence" and "result = None \<or> result = Some verdict"
    and "x \<in> set matrix \<Longrightarrow> \<exists>i \<in> set evidence. ei_path i = mx_path x \<and> mx_attack x \<in> set (ei_proofs i)"
proof -
  from assms obtain u where ok: "check_matrix (items_by_path evidence) matrix = Inr u"
    and res: "verdict = derived_result evidence" "result = None \<or> result = Some verdict"
    by (auto simp: validate_evidence_def Let_def split: if_splits sum.splits)
  show "verdict = derived_result evidence" and "result = None \<or> result = Some verdict" using res .
  show "\<exists>i \<in> set evidence. ei_path i = mx_path x \<and> mx_attack x \<in> set (ei_proofs i)" if "x \<in> set matrix"
    using check_matrix_ok [OF ok that] items_by_path_item [of "[]" evidence "mx_path x"]
    by (auto simp: items_by_path_def)
qed

section \<open>The runs of the tests\<close>

text \<open>
  The test \<open>t\<close> of the list, in the state its turn came: the markers before, the exit code of its
  run, the markers after.
\<close>

definition proved_in_turn ::
  "'a library_scheme \<Rightarrow> 'w demo_host \<Rightarrow> string \<Rightarrow> test_case list \<Rightarrow> 'w \<Rightarrow> test_case \<Rightarrow> bool" where
  "proved_in_turn lib h proof_file tests start t \<longleftrightarrow>
     (\<exists>earlier later failures evidence w0 before w1 w2 after w3.
        tests = earlier @ t # later
        \<and> run_tests lib h proof_file earlier 0 [] start = (Inr (failures, evidence), w0)
        \<and> read_proof_file lib h proof_file w0 = (Inr before, w1)
        \<and> dh_pytest h (tc_path t) proof_file (snd (os_monotonic (dh_os h) w1)) = (Inr 0, w2)
        \<and> read_proof_file lib h proof_file w2 = (Inr after, w3)
        \<and> after - before = set (tc_proofs t))"

lemma run_tests_append:
  "run_tests lib h pf (ts @ us) n ev =
     andthen (run_tests lib h pf ts n ev) (\<lambda>(n', ev'). run_tests lib h pf us n' ev')"
proof (induction ts arbitrary: n ev)
  case Nil
  then show ?case by (simp add: fun_eq_iff andthen_def ret_def)
next
  case (Cons t ts)
  then show ?case
    by (simp add: fun_eq_iff andthen_def split: prod.splits sum.splits)
qed

lemma host_clock_run:
  "host_clock h w = (r, w') \<longleftrightarrow> r = Inr (fst (os_monotonic (dh_os h) w)) \<and> w' = snd (os_monotonic (dh_os h) w)"
  by (auto simp: host_clock_def split: prod.splits)

lemma run_test_run:
  assumes "run_test lib h pf t evidence w0 = (Inr (failed, evidence'), w')"
  obtains before w1 exit_code w2 after w3 duration where
    "read_proof_file lib h pf w0 = (Inr before, w1)"
    "dh_pytest h (tc_path t) pf (snd (os_monotonic (dh_os h) w1)) = (Inr exit_code, w2)"
    "read_proof_file lib h pf w2 = (Inr after, w3)"
    "failed = (if test_passed t exit_code (after - before) then 0 else 1)"
    "evidence' = evidence @ [run_item t exit_code (after - before) duration]"
  using assms by (auto simp: run_test_def run_rules host_clock_run)

lemma proof_set_finite: "read_proof_file lib h pf w = (Inr s, w') \<Longrightarrow> finite s"
  by (auto simp: read_proof_file_def run_rules)

text \<open>A run without failures added one item per test, each with its own proof.\<close>

lemma failed_tests_grow: "run_tests lib h pf ts n ev w = (Inr (m, ev'), w') \<Longrightarrow> n \<le> m"
proof (induction ts arbitrary: n ev w)
  case (Cons t ts)
  then obtain failed ev1 w1 where one: "run_test lib h pf t ev w = (Inr (failed, ev1), w1)"
    and rest: "run_tests lib h pf ts (n + failed) ev1 w1 = (Inr (m, ev'), w')"
    by (auto simp: run_rules)
  have "0 \<le> failed" using one by (rule run_test_run) simp
  with Cons.IH [OF rest] show ?case by simp
qed (simp add: ret_def)

lemma passed_item:
  assumes "test_passed t c (new :: string set)" and "finite new"
  shows "set (ei_proofs (run_item t c new d)) = set (tc_proofs t) \<and> c = 0 \<and> new = set (tc_proofs t)"
proof -
  have "new = set (tc_proofs t)" "c = 0" using assms(1) by (auto simp: test_passed_def)
  then show ?thesis by (simp add: run_item_def)
qed

lemma items_proved:
  assumes "run_tests lib h pf tests 0 [] start = (Inr (0, ev), w')" and "i \<in> set ev"
  shows "\<exists>t \<in> set tests. ei_path i = tc_path t \<and> set (ei_proofs i) = set (tc_proofs t)
     \<and> proved_in_turn lib h pf tests start t"
  using assms
proof (induction tests arbitrary: ev w' rule: rev_induct)
  case Nil
  then show ?case by (simp add: ret_def)
next
  case (snoc t ts)
  from snoc.prems(1) obtain m ev0 w0 failed where
    ts: "run_tests lib h pf ts 0 [] start = (Inr (m, ev0), w0)"
    and one: "run_test lib h pf t ev0 w0 = (Inr (failed, ev), w')" and sum: "m + failed = 0"
    by (auto simp: run_tests_append run_rules)
  from one obtain before w1 c w2 after w3 d where run:
    "read_proof_file lib h pf w0 = (Inr before, w1)"
    "dh_pytest h (tc_path t) pf (snd (os_monotonic (dh_os h) w1)) = (Inr c, w2)"
    "read_proof_file lib h pf w2 = (Inr after, w3)"
    "failed = (if test_passed t c (after - before) then 0 else 1)"
    "ev = ev0 @ [run_item t c (after - before) d]" by (rule run_test_run)
  have zero: "m = 0" "test_passed t c (after - before)"
    using failed_tests_grow [OF ts] sum run(4) by (auto split: if_splits)
  have "finite (after - before)" using proof_set_finite [OF run(3)] by simp
  note passed = passed_item [OF zero(2) this, of d]
  have item: "set (ei_proofs (run_item t c (after - before) d)) = set (tc_proofs t)" "c = 0"
    "after - before = set (tc_proofs t)" by (fact passed [THEN conjunct1] passed [THEN conjunct2, THEN conjunct1]
        passed [THEN conjunct2, THEN conjunct2])+
  show ?case
  proof (cases "i \<in> set ev0")
    case True
    from snoc.IH [OF ts [unfolded zero(1)] True] obtain u where u: "u \<in> set ts" "ei_path i = tc_path u"
      "set (ei_proofs i) = set (tc_proofs u)" "proved_in_turn lib h pf ts start u" by blast
    from u(4) have "proved_in_turn lib h pf (ts @ [t]) start u"
      unfolding proved_in_turn_def by (metis append_Cons append_assoc)
    with u show ?thesis by auto
  next
    case False
    with snoc.prems(2) run(5) have i: "i = run_item t c (after - before) d" by simp
    have "proved_in_turn lib h pf (ts @ [t]) start t"
      unfolding proved_in_turn_def using ts run(1,2,3) item by blast
    with i item show ?thesis by (auto simp: run_item_def)
  qed
qed

section \<open>The verdict\<close>

text \<open>
  C39: The demonstration returns 0 only for a proved containment: then for every attack of the
  matrix the list holds the test the matrix names, which in its turn ran with exit code 0 and added
  to the proof file exactly its markers, the attack's among them, and the last thing written is the
  evidence file of these runs with the verdict \<open>contained\<close>.
\<close>

theorem hostile_verdict_proved:
  assumes "demo_main lib h tests matrix w = (Inr 0, w')"
  shows "\<exists>proof_file start evidence failures w1 generated_at w2.
     run_tests lib h proof_file tests 0 [] start = (Inr (failures, evidence), w1)
     \<and> os_write_text (dh_os h) evidence_file
          (pretty 0 (sort_json (evidence_payload h matrix evidence ''contained'' generated_at)) @ [line_feed]) w2
        = (Inr (), w')
     \<and> (\<forall>x \<in> set matrix. \<exists>t \<in> set tests. tc_path t = mx_path x \<and> mx_attack x \<in> set (tc_proofs t)
          \<and> proved_in_turn lib h proof_file tests start t)"
proof -
  from assms obtain pf start failures evidence w1 w3 where
    run: "run_tests lib h pf tests 0 [] start = (Inr (failures, evidence), w1)"
    and rest: "(if failures \<noteq> 0 then andthen (write_evidence h tests matrix evidence (Some ''failed'')) (\<lambda>_. ret 1)
        else andthen (write_evidence h tests matrix evidence (Some ''contained'')) (\<lambda>_. ret 0)) w3 = (Inr (0 :: int), w')"
    by (auto simp: demo_main_def run_rules simp del: if_split split: prod.splits) (auto split: if_splits simp: run_rules)
  from rest have "failures = 0" and "write_evidence h tests matrix evidence (Some ''contained'') w3 = (Inr (), w')"
    by (auto simp: run_rules split: if_splits)
  then obtain verdict at w2 where valid: "validate_evidence tests matrix evidence (Some ''contained'') = Inr verdict"
    and writing: "os_write_text (dh_os h) evidence_file
          (pretty 0 (sort_json (evidence_payload h matrix evidence verdict at)) @ [line_feed]) w2 = (Inr (), w')"
    by (auto simp: write_evidence_def run_rules dest: sym)
  have "verdict = ''contained''" using validated(2) [OF valid] by simp
  moreover have "\<exists>t \<in> set tests. tc_path t = mx_path x \<and> mx_attack x \<in> set (tc_proofs t)
      \<and> proved_in_turn lib h pf tests start t" if x: "x \<in> set matrix" for x
  proof -
    from validated(3) [OF valid x] obtain i where i: "i \<in> set evidence" "ei_path i = mx_path x" "mx_attack x \<in> set (ei_proofs i)"
      by blast
    from items_proved [OF run [unfolded \<open>failures = 0\<close>] i(1)] i(2,3) show ?thesis by auto
  qed
  ultimately show ?thesis using run writing by blast
qed

text \<open>The script's own lists: every attack of its matrix is proved by the test it names, and they cover each other.\<close>

lemma paths_distinct: "distinct [isolation_path, delegation_path, process_path, egress_path, lease_path]"
  by (simp add: isolation_path_def delegation_path_def process_path_def egress_path_def lease_path_def)

lemma hostile_lists_match:
  "list_all (\<lambda>x. list_ex (\<lambda>t. tc_path t = mx_path x \<and> mx_attack x \<in> set (tc_proofs t)) hostile_tests) attack_matrix"
  by (simp add: attack_matrix_def hostile_tests_def demo_test_def)

lemma hostile_paths_distinct: "distinct (map tc_path hostile_tests)"
  using paths_distinct by (simp add: hostile_tests_def demo_test_def)

text \<open>A host whose world says whether the only test has run; the test adds its marker.\<close>

definition toy_host :: "bool demo_host" where
  "toy_host = \<lparr>dh_os = \<lparr>os_posix = True, os_stat = (\<lambda>p. ret (0, 0, 0)), os_is_dir = (\<lambda>p. ret True),
       os_is_file = (\<lambda>p. ret True), os_exists = (\<lambda>p. ret True), os_resolve = ret,
       os_read_text = (\<lambda>p w. (Inr (dumps canonical_style (JList (if w then [JStr ''lease''] else []))), w)),
       os_write_text = (\<lambda>p t. ret ()), os_mkdir = (\<lambda>b p. ret ()), os_rmdir = (\<lambda>p. ret ()),
       os_monotonic = (\<lambda>w. (0, w)), os_sleep = (\<lambda>n w. w), os_second = 1\<rparr>,
     dh_pytest = (\<lambda>path file w. (Inr 0, True)), dh_seconds = (\<lambda>n. ''0.0''), dh_tempname = ret ''/tmp/p'',
     dh_unlink = (\<lambda>p. ret ()), dh_now = ret ''now'', dh_environ = (\<lambda>v. Some ''1''), dh_platform = ''linux'',
     dh_platform_text = ''Linux'', dh_kernel = ''6'', dh_euid = 0\<rparr>"

definition toy_test :: test_case where
  "toy_test = demo_test ''lease'' ''tests/t.py'' [''lease'']"

definition toy_item :: matrix_item where
  "toy_item = \<lparr>mx_attack = ''lease'', mx_expected = ''invalidated'', mx_path = ''tests/t.py''\<rparr>"

lemma toy_read: "read_proof_file sample_lib toy_host p w = (Inr (if w then {''lease''} else {}), w)"
proof -
  let ?v = "JList (if w then [JStr ''lease''] else [])"
  have "json_loads sample_lib (dumps canonical_style ?v) = Inr (sort_json ?v)"
    by (rule loads_dumps) (simp_all add: floats_read_def)
  then show ?thesis
    by (simp add: read_proof_file_def read_proofs_def toy_host_def prog_defs proof_strings_def)
qed

lemma toy_calls:
  "dh_pytest toy_host path p w = (Inr 0, True)" "host_clock toy_host w = (Inr 0, w)" "dh_seconds toy_host n = ''0.0''"
  "dh_tempname toy_host = ret ''/tmp/p''" "dh_unlink toy_host p = ret ()" "dh_now toy_host = ret ''now''"
  "dh_environ toy_host v = Some ''1''" "dh_platform toy_host = ''linux''" "dh_euid toy_host = 0"
  "os_write_text (dh_os toy_host) p content = ret ()"
  by (simp_all add: toy_host_def host_clock_def)

lemma toy_run:
  "run_test sample_lib toy_host p toy_test [] False = (Inr (0, [run_item toy_test 0 {''lease''} ''0.0'']), True)"
proof -
  have "run_test sample_lib toy_host p toy_test [] False
    = (let d = {''lease''} - {} in
       (Inr (if test_passed toy_test 0 d then 0 else 1, [run_item toy_test 0 d ''0.0'']), True))"
    unfolding run_test_def
    by (simp add: andthen_def toy_read toy_calls ret_def)
  then show ?thesis by (simp add: test_passed_def toy_test_def demo_test_def)
qed

theorem hostile_verdict_proved_witness:
  "\<exists>proof_file start. proved_in_turn sample_lib toy_host proof_file [toy_test] start toy_test"
proof -
  have valid: "validate_evidence [toy_test] [toy_item] [run_item toy_test 0 {''lease''} ''0.0''] (Some ''contained'')
      = Inr ''contained''"
    by (simp add: validate_evidence_def items_by_path_def run_item_def toy_test_def toy_item_def demo_test_def
        test_passed_def derived_result_def dict_get_def dict_set_def)
  have runs: "run_tests sample_lib toy_host p [toy_test] 0 [] False
      = (Inr (0, [run_item toy_test 0 {''lease''} ''0.0'']), True)" for p
    by (simp add: andthen_def toy_run ret_def)
  have "demo_main sample_lib toy_host [toy_test] [toy_item] False = (Inr 0, True)"
    unfolding demo_main_def write_evidence_def toy_calls
    by (simp add: prog_defs valid runs del: run_tests.simps)
  from hostile_verdict_proved [OF this] show ?thesis by auto
qed

section \<open>Failed runs\<close>

text \<open>
  Evidence without a marker for every attack is refused whatever verdict is given, so a
  demonstration whose test fails before it records its marker raises instead of writing the evidence
  \<open>failed\<close> and returning 1.
\<close>

lemma check_matrix_error: "check_matrix d xs = Inl e \<Longrightarrow> \<exists>m. e = Exn ValueError m"
  by (induction xs) (auto split: option.splits if_splits)

lemma unproved_attack_rejected:
  assumes "x \<in> set matrix" and "\<forall>i \<in> set evidence. ei_path i = mx_path x \<longrightarrow> mx_attack x \<notin> set (ei_proofs i)"
  shows "\<exists>m. validate_evidence tests matrix evidence result = Inl (Exn ValueError m)"
proof (cases "validate_evidence tests matrix evidence result")
  case (Inl e)
  then show ?thesis
    by (auto simp: validate_evidence_def Let_def mismatch_def dest: check_matrix_error split: if_splits sum.splits)
next
  case (Inr verdict)
  with validated(3) [OF Inr assms(1)] assms(2) show ?thesis by blast
qed

lemma unproved_failure_raises:
  assumes "run_tests lib h pf tests 0 [] w1 = (Inr (failures, evidence), w2)" and "x \<in> set matrix"
    and "\<forall>i \<in> set evidence. ei_path i = mx_path x \<longrightarrow> mx_attack x \<notin> set (ei_proofs i)"
    and "dh_tempname h w = (Inr pf, w0)" and "dh_unlink h pf w0 = (Inr (), w1)" and "dh_unlink h pf w2 = (Inr (), w3)"
    and "dh_platform h = ''linux''" and "dh_euid h = 0"
    and "dh_environ h ''AGENT_CONTAINMENT_RUN_PRIVILEGED_TESTS'' = Some ''1''"
  shows "\<exists>m. demo_main lib h tests matrix w = (Inl (Exn ValueError m), w3)"
proof -
  from unproved_attack_rejected [OF assms(2,3)] obtain m m' where
    "validate_evidence tests matrix evidence (Some ''failed'') = Inl (Exn ValueError m)"
    "validate_evidence tests matrix evidence (Some ''contained'') = Inl (Exn ValueError m')" by metis
  with assms(1,4-9) show ?thesis
    by (simp add: demo_main_def write_evidence_def prog_defs)
qed

end
