(* ===== verification/Demo_Scenarios.thy ===== *)
theory Demo_Scenarios
  imports Gateway Agent_Tree Proof_Receipt
begin

text \<open>
  The three simulated demonstrations (\<open>demo/run_demo.py\<close>, \<open>demo/adversarial_demo.py\<close>,
  \<open>demo/child_agent_demo.py\<close>) as compositions of the models of their parts, and what they end in
  whatever the clocks read.  The printed texts are not modelled.
\<close>

definition demo_act :: "string \<Rightarrow> string \<Rightarrow> string \<Rightarrow> string \<Rightarrow> int \<Rightarrow> action" where
  "demo_act agent_id action_id operation resource risk =
     \<lparr>act_agent_id = agent_id, act_action_id = action_id, act_operation = operation, act_resource = resource,
      act_risk = risk, act_metadata = []\<rparr>"

text \<open>\<open>Runtime(id)\<close>, \<open>ContainmentController(runtime, CapabilitySet(...))\<close> and \<open>ActionGateway(policy, controller)\<close>.\<close>

definition demo_capabilities :: "string set" where
  "demo_capabilities = {''filesystem.write'', ''database.write'', ''network.egress''}"

definition scenario_gateway :: "string \<Rightarrow> string \<Rightarrow> policy_engine \<Rightarrow> 'w \<Rightarrow> exn + 'w gateway" where
  "scenario_gateway uuid agent_id policy w =
     mk_gateway policy (mk_controller (mk_runtime 0 1 2 uuid agent_id None) demo_capabilities None None None []) None 3 w"

section \<open>A rogue agent\<close>

definition rogue_actions :: "action list" where
  "rogue_actions =
     [demo_act ''rogue-agent-01'' ''a1'' ''read'' ''workspace'' 0,
      demo_act ''rogue-agent-01'' ''a2'' ''write'' ''workspace/report.md'' 10,
      demo_act ''rogue-agent-01'' ''a3'' ''exfiltrate_secret'' ''vault/API_KEY'' 100,
      demo_act ''rogue-agent-01'' ''a4'' ''delete_production'' ''prod-db'' 100]"

fun authorize_all :: "'w clock \<Rightarrow> action list \<Rightarrow> ('w gateway, unit) prog" where
  "authorize_all clk [] = ret ()"
| "authorize_all clk (a # as) = andthen (gw_authorize clk a) (\<lambda>_. authorize_all clk as)"

text \<open>The gateway at the end and the record that is printed.\<close>

definition run_demo :: "'a library_scheme \<Rightarrow> 'w clock \<Rightarrow> string \<Rightarrow> 'w \<Rightarrow> exn + json \<times> 'w gateway" where
  "run_demo lib clk uuid w =
     (case mk_policy_engine {''delete_production'', ''exfiltrate_secret''} 90 [] 256 [] of
        Inl e \<Rightarrow> Inl e
      | Inr policy \<Rightarrow>
          (case scenario_gateway uuid ''rogue-agent-01'' policy w of
             Inl e \<Rightarrow> Inl e
           | Inr g \<Rightarrow>
               (case authorize_all clk rogue_actions g of
                  (Inl e, g') \<Rightarrow> Inl e
                | (Inr _, g') \<Rightarrow>
                    Inr (proof_record lib ''rogue-agent-01'' rogue_actions (gw_history g') (ctl_contained (gw_containment g')) None,
                         g'))))"

section \<open>A forbidden sequence\<close>

definition adversarial_attempts :: "(string \<times> action) list" where
  "adversarial_attempts =
     [(''download-file'', demo_act ''rogue-demo'' ''a1'' ''download_file'' ''workspace/report.txt'' 5),
      (''upload-file'', demo_act ''rogue-demo'' ''a2'' ''upload_file'' ''external.example/report.txt'' 10),
      (''delete-after-upload'', demo_act ''rogue-demo'' ''a3'' ''delete_file'' ''workspace/report.txt'' 10)]"

definition bypass_action :: action where
  "bypass_action = demo_act ''rogue-demo'' ''bypass'' ''write'' ''prod-db'' 1"

text \<open>\<open>controller.contain()\<close> on the controller the gateway holds.\<close>

definition gw_contain :: "'w clock \<Rightarrow> ('w gateway, containment_report) prog" where
  "gw_contain clk g =
     (case ctl_contain clk (gw_next g) (gw_containment g) (gw_world g) of
        ((report, c), w) \<Rightarrow> (Inr report, g\<lparr>gw_containment := c, gw_next := gw_next g + 1, gw_world := w\<rparr>))"

definition on_gateway :: "('w gateway, 'b) prog \<Rightarrow> (attack_result list \<times> 'w gateway, 'b) prog" where
  "on_gateway m s = (case m (snd s) of (r, g) \<Rightarrow> (r, (fst s, g)))"

text \<open>The attempts up to the first one that is blocked, which is answered by a containment.\<close>

fun attempt_until_blocked ::
  "'w clock \<Rightarrow> (string \<times> action) list \<Rightarrow> (attack_result list \<times> 'w gateway, containment_report option) prog" where
  "attempt_until_blocked clk [] = ret None"
| "attempt_until_blocked clk ((name, a) # rest) =
     andthen (attack_attempt clk name a) (\<lambda>result.
       if at_blocked result then andthen (on_gateway (gw_contain clk)) (\<lambda>report. ret (Some report))
       else attempt_until_blocked clk rest)"

definition demo_bypasses :: "attack_result list \<Rightarrow> attack_result list" where
  "demo_bypasses results =
     filter (\<lambda>r. \<not> at_blocked r \<and> at_name r \<notin> {''download-file'', ''upload-file''}) results"

definition adversarial_body ::
  "'w clock \<Rightarrow> (attack_result list \<times> 'w gateway, containment_report option \<times> decision) prog" where
  "adversarial_body clk =
     andthen (attempt_until_blocked clk adversarial_attempts) (\<lambda>report.
     andthen (on_gateway (gw_authorize clk bypass_action)) (\<lambda>d.
     andthen (reading (\<lambda>s. demo_bypasses (fst s))) (\<lambda>bypasses.
     andthen (guarding (bypasses = []) (Exn AssertionError
        (''containment bypasses detected: '' @ join_with '', '' (map at_name bypasses)))) (\<lambda>_.
     ret (report, d)))))"

definition adversarial_demo ::
  "'w clock \<Rightarrow> string \<Rightarrow> 'w \<Rightarrow> exn + (exn + containment_report option \<times> decision) \<times> (attack_result list \<times> 'w gateway)" where
  "adversarial_demo clk uuid w =
     (case mk_sequence_rule ''prevent-download-upload-delete'' [''download_file'', ''upload_file'', ''delete_file''] HALT False of
        Inl e \<Rightarrow> Inl e
      | Inr rule \<Rightarrow>
          (case mk_policy_engine {''exfiltrate_secret''} 90 [rule] 256 [] of
             Inl e \<Rightarrow> Inl e
           | Inr policy \<Rightarrow>
               (case scenario_gateway uuid ''rogue-demo'' policy w of
                  Inl e \<Rightarrow> Inl e
                | Inr g \<Rightarrow> Inr (adversarial_body clk ([], g)))))"

section \<open>Containment of a family\<close>

text \<open>
  The gateways hold the controllers of the tree's nodes, the same objects: a gateway is run on the node's current
  controller, the object counter and the outside world of the tree, and leaves them there.
\<close>

definition on_node :: "string \<Rightarrow> ('w gateway, 'b) prog \<Rightarrow> ('w agent_tree \<times> 'w gateway, 'b) prog" where
  "on_node agent_id m s =
     (case tr_require agent_id (fst s) of
        (Inl e, t) \<Rightarrow> (Inl e, s)
      | (Inr n, t) \<Rightarrow>
          (case m ((snd s)\<lparr>gw_containment := nd_containment n, gw_next := tr_next t, gw_world := tr_world t\<rparr>) of
             (r, g) \<Rightarrow> (r, (t\<lparr>tr_nodes := dict_set agent_id (n\<lparr>nd_containment := gw_containment g\<rparr>) (tr_nodes t),
                              tr_next := gw_next g, tr_world := gw_world g\<rparr>, g))))"

text \<open>\<open>ActionGateway(PolicyEngine(...), node.containment)\<close>: it attaches its egress registry to the node's controller.\<close>

definition family_gateway :: "string \<Rightarrow> ('w agent_tree, 'w gateway) prog" where
  "family_gateway agent_id =
     andthen (tr_require agent_id) (\<lambda>n.
     andthen (lift_result (mk_policy_engine {''exfiltrate_secret''} 80 [] 256 [])) (\<lambda>policy.
     andthen (\<lambda>t. (mk_gateway policy (nd_containment n) None (tr_next t) (tr_world t), t)) (\<lambda>g.
     andthen (modifying (tr_update agent_id (\<lambda>n. n\<lparr>nd_containment := gw_containment g\<rparr>))) (\<lambda>_.
     ret g))))"

definition open_family :: "('w \<Rightarrow> string \<times> 'w) \<Rightarrow> ('w agent_tree, 'w gateway) prog" where
  "open_family uuid =
     andthen (tr_register_root uuid ''parent-agent'' (Some {''db.read'', ''network''})) (\<lambda>parent.
     andthen (tr_spawn uuid ''parent-agent'' ''child-agent'' None) (\<lambda>child.
     andthen (family_gateway ''parent-agent'') (\<lambda>parent_gateway.
     family_gateway ''child-agent'')))"

definition child_attack :: action where
  "child_attack = demo_act ''child-agent'' ''child-1'' ''exfiltrate_secret'' ''customer-data'' 100"

definition post_containment :: action where
  "post_containment = demo_act ''child-agent'' ''child-2'' ''db.read'' ''customer-data'' 0"

text \<open>
  The decision on the child's attack, the tree after it, the decision after the first containment, the agents the second
  containment reports and the tree at the end; \<open>None\<close> would be a containment that does not end.
\<close>

definition child_demo ::
  "('w \<Rightarrow> string \<times> 'w) \<Rightarrow> 'w clock \<Rightarrow> 'w \<Rightarrow>
     (exn + decision \<times> 'w agent_tree \<times> decision \<times> string list \<times> 'w agent_tree) option" where
  "child_demo uuid clk w =
     (case open_family uuid (empty_tree w) of
        (Inl e, t) \<Rightarrow> Some (Inl e)
      | (Inr g, t) \<Rightarrow>
          (case on_node ''child-agent'' (gw_authorize clk child_attack) (t, g) of
             (Inl e, s) \<Rightarrow> Some (Inl e)
           | (Inr attack, s) \<Rightarrow>
               (case tr_contain clk ''parent-agent'' (fst s) of
                  None \<Rightarrow> None
                | Some (Inl e, t') \<Rightarrow> Some (Inl e)
                | Some (Inr _, t') \<Rightarrow>
                    (case on_node ''child-agent'' (gw_authorize clk post_containment) (t', snd s) of
                       (Inl e, s') \<Rightarrow> Some (Inl e)
                     | (Inr d, s') \<Rightarrow>
                         (case tr_contain clk ''parent-agent'' (fst s') of
                            None \<Rightarrow> None
                          | Some (Inl e, t'') \<Rightarrow> Some (Inl e)
                          | Some (Inr contained_ids, t'') \<Rightarrow> Some (Inr (attack, fst s, d, contained_ids, t'')))))))"

section \<open>Where the demonstrations end\<close>

lemma gw_time_eq: "gw_time clk g = (Inr (fst (clk_time clk (gw_world g))), g\<lparr>gw_world := snd (clk_time clk (gw_world g))\<rparr>)"
  by (simp add: gw_time_def split_beta)

lemmas scenario_defs = prog_defs gw_authorize_def gw_deny_def gw_evaluate_def gw_halt_def gw_record_def gw_time_eq
  wrong_agent_def gw_runtime_def evaluate_def effective_risk_def rule_matches_def deque_append_def mk_decision_def
  scenario_gateway_def mk_gateway_def ctl_attach_egress_def mk_controller_def mk_runtime_def ctl_halt_def rt_halt_def
  rt_can_execute_def mk_policy_engine_def mk_sequence_rule_def demo_act_def dict_get_def split_beta

lemma run_demo_outcome:
  "\<exists>record g. run_demo lib clk uuid w = Inr (record, g)
     \<and> map dec_type (gw_history g) = [ALLOW, ALLOW, HALT, DENY] \<and> rt_state (gw_runtime g) = HALTED
     \<and> json_get record ''contained'' = Some (JBool False)"
  by (simp add: run_demo_def rogue_actions_def scenario_defs ctl_contained_def proof_record_def Let_def)

lemmas contain_scenario_defs = gw_contain_def ctl_contain_def contain_local_stages_def optional_stage_def
  eg_terminate_all_def target_agent_def connections_of_def dict_values_def dict_del_def rt_contain_def rep_complete_def

text \<open>The gateway of the adversarial demonstration at its stages.\<close>

definition sequence_policy :: "string list \<Rightarrow> policy_engine" where
  "sequence_policy h =
     \<lparr>pe_denied = {''exfiltrate_secret''}, pe_max_risk = 90,
      pe_rules = [\<lparr>sr_name = ''prevent-download-upload-delete'',
        sr_sequence = [''download_file'', ''upload_file'', ''delete_file''], sr_decision = HALT, sr_consecutive = False\<rparr>],
      pe_risk = [], pe_history = h, pe_limit = 256\<rparr>"

definition adversarial_gateway ::
  "string \<Rightarrow> string list \<Rightarrow> runtime_state \<Rightarrow> int \<Rightarrow> decision list \<Rightarrow> 'w \<Rightarrow> 'w gateway" where
  "adversarial_gateway uuid h st n ds w =
     \<lparr>gw_policy = sequence_policy h,
      gw_containment = ctl_attach_egress \<lparr>eg_connections = []\<rparr>
        (mk_controller (mk_runtime 0 (if n = 0 then 1 else 3) 2 uuid ''rogue-demo'' None\<lparr>rt_state := st, rt_epoch := n\<rparr>)
          demo_capabilities None None None []),
      gw_limit = None, gw_history = ds, gw_next = (if n = 0 then 3 else 4), gw_world = w\<rparr>"

lemma sequence_policy_steps:
  "evaluate t (sequence_policy []) (snd (adversarial_attempts ! 0))
     = (mk_decision t ''a1'' ALLOW ''within policy'', sequence_policy [''download_file''])"
  "evaluate t (sequence_policy [''download_file'']) (snd (adversarial_attempts ! 1))
     = (mk_decision t ''a2'' ALLOW ''within policy'', sequence_policy [''download_file'', ''upload_file''])"
  "evaluate t (sequence_policy [''download_file'', ''upload_file'']) (snd (adversarial_attempts ! 2))
     = (mk_decision t ''a3'' HALT (''sequence rule '' @ quoted ''prevent-download-upload-delete'' @ '' matched''),
        sequence_policy [''download_file'', ''upload_file''])"
  by (simp_all add: evaluate_def sequence_policy_def adversarial_attempts_def demo_act_def effective_risk_def
      rule_matches_def deque_append_def dict_get_def)

text \<open>One attempt on a gateway whose agent may execute.\<close>

lemma harness_attempt_run:
  assumes "evaluate (fst (clk_time clk (gw_world g))) (gw_policy g) a = (d, pe)" and "\<not> wrong_agent g a"
    and "rt_can_execute (gw_runtime g)" and "gw_limit g = None"
  shows "attack_attempt clk name a (results, g)
     = (let r = \<lparr>at_name = name, at_decision = dec_type d, at_blocked = (dec_type d \<noteq> ALLOW), at_reason = dec_reason d\<rparr>;
            g' = g\<lparr>gw_world := snd (clk_time clk (gw_world g)), gw_policy := pe, gw_history := gw_history g @ [d]\<rparr>
        in (Inr r, (results @ [r],
              if dec_type d = HALT
              then g'\<lparr>gw_containment := ctl_halt (gw_next g) (gw_containment g), gw_next := gw_next g + 1\<rparr> else g')))"
  using assms
  by (simp add: attack_attempt_def gw_authorize_def gw_evaluate_def gw_halt_def gw_record_def gw_time_eq prog_defs Let_def)

lemma adversarial_gateway_sel [simp]:
  "gw_policy (adversarial_gateway uuid h st n ds w) = sequence_policy h"
  "gw_world (adversarial_gateway uuid h st n ds w) = w" "gw_limit (adversarial_gateway uuid h st n ds w) = None"
  "gw_history (adversarial_gateway uuid h st n ds w) = ds"
  "rt_agent_id (gw_runtime (adversarial_gateway uuid h st n ds w)) = ''rogue-demo''"
  "rt_state (gw_runtime (adversarial_gateway uuid h st n ds w)) = st"
  by (simp_all add: adversarial_gateway_def gw_runtime_def ctl_attach_egress_def mk_controller_def mk_runtime_def)

lemma adversarial_gateway_step:
  "(adversarial_gateway uuid h ACTIVE 0 ds w)\<lparr>gw_world := w', gw_policy := sequence_policy h', gw_history := ds'\<rparr>
     = adversarial_gateway uuid h' ACTIVE 0 ds' w'"
  "(adversarial_gateway uuid h ACTIVE 0 ds w)\<lparr>gw_containment := ctl_halt (gw_next (adversarial_gateway uuid h ACTIVE 0 ds w))
       (gw_containment (adversarial_gateway uuid h ACTIVE 0 ds w)),
       gw_next := gw_next (adversarial_gateway uuid h ACTIVE 0 ds w) + 1\<rparr>
     = adversarial_gateway uuid h HALTED 1 ds w"
  by (simp_all add: adversarial_gateway_def ctl_halt_def rt_halt_def ctl_attach_egress_def mk_controller_def mk_runtime_def)

text \<open>The three attempts: two are allowed, the third halts the agent.\<close>

lemma attempt_on_stage:
  assumes "evaluate (fst (clk_time clk w)) (sequence_policy h) a = (d, sequence_policy h')"
    and "act_agent_id a = ''rogue-demo''"
  shows "attack_attempt clk name a (results, adversarial_gateway uuid h ACTIVE 0 ds w)
     = (let r = \<lparr>at_name = name, at_decision = dec_type d, at_blocked = (dec_type d \<noteq> ALLOW), at_reason = dec_reason d\<rparr>;
            w' = snd (clk_time clk w)
        in (Inr r, (results @ [r],
              if dec_type d = HALT then adversarial_gateway uuid h' HALTED 1 (ds @ [d]) w'
              else adversarial_gateway uuid h' ACTIVE 0 (ds @ [d]) w')))"
proof -
  let ?g = "adversarial_gateway uuid h ACTIVE 0 ds w"
  have run: "rt_can_execute (gw_runtime ?g)" "\<not> wrong_agent ?g a" "gw_limit ?g = None"
    using assms(2) by (simp_all add: rt_can_execute_def wrong_agent_def)
  have ev: "evaluate (fst (clk_time clk (gw_world ?g))) (gw_policy ?g) a = (d, sequence_policy h')"
    using assms(1) by simp
  have halted: "adversarial_gateway uuid h' ACTIVE 0 ds' w'
      \<lparr>gw_containment := ctl_halt (gw_next ?g) (gw_containment ?g), gw_next := gw_next ?g + 1\<rparr>
    = adversarial_gateway uuid h' HALTED 1 ds' w'" for w' ds'
    by (simp add: adversarial_gateway_def ctl_halt_def rt_halt_def ctl_attach_egress_def mk_controller_def mk_runtime_def)
  show ?thesis
    by (simp only: harness_attempt_run [OF ev run(2,1,3)] Let_def adversarial_gateway_sel adversarial_gateway_step(1) halted)
qed

text \<open>The containment, and a gateway whose runtime is contained.\<close>

lemma contain_on_stage:
  "\<exists>report g. gw_contain clk (adversarial_gateway uuid h HALTED 1 ds w) = (Inr report, g)
     \<and> rep_complete report \<and> rep_epoch report = 2 \<and> rt_state (gw_runtime g) = CONTAINED
     \<and> rt_epoch (gw_runtime g) = 2 \<and> rt_agent_id (gw_runtime g) = ''rogue-demo''
     \<and> ctl_capabilities (gw_containment g) = {}"
  by (simp add: contain_scenario_defs adversarial_gateway_def ctl_attach_egress_def mk_controller_def mk_runtime_def
      gw_runtime_def split_beta Let_def)

lemma authorize_on_contained:
  assumes "rt_state (gw_runtime g) = CONTAINED" and "rt_agent_id (gw_runtime g) = act_agent_id a"
  shows "\<exists>d g'. gw_authorize clk a g = (Inr d, g') \<and> dec_type d = DENY \<and> gw_containment g' = gw_containment g"
  using assms
  by (simp add: gw_authorize_def gw_deny_def gw_record_def gw_time_eq prog_defs wrong_agent_def rt_can_execute_def
      mk_decision_def)

lemma adversarial_start:
  "adversarial_demo clk uuid w = Inr (adversarial_body clk ([], adversarial_gateway uuid [] ACTIVE 0 [] w))"
  by (simp add: adversarial_demo_def mk_sequence_rule_def mk_policy_engine_def scenario_gateway_def mk_gateway_def
      adversarial_gateway_def sequence_policy_def mk_controller_def ctl_attach_egress_def mk_runtime_def)

lemma adversarial_attempts_run:
  "\<exists>report results g. attempt_until_blocked clk adversarial_attempts ([], adversarial_gateway uuid [] ACTIVE 0 [] w)
       = (Inr (Some report), (results, g))
     \<and> map (\<lambda>r. (at_name r, at_decision r, at_blocked r)) results
       = [(''download-file'', ALLOW, False), (''upload-file'', ALLOW, False), (''delete-after-upload'', HALT, True)]
     \<and> rep_complete report \<and> rep_epoch report = 2 \<and> rt_state (gw_runtime g) = CONTAINED
     \<and> rt_epoch (gw_runtime g) = 2 \<and> rt_agent_id (gw_runtime g) = ''rogue-demo''
     \<and> ctl_capabilities (gw_containment g) = {}"
proof -
  define a b c where abc: "a = snd (adversarial_attempts ! 0)" "b = snd (adversarial_attempts ! 1)"
    "c = snd (adversarial_attempts ! 2)"
  have attempts: "adversarial_attempts = [(''download-file'', a), (''upload-file'', b), (''delete-after-upload'', c)]"
    by (simp add: abc adversarial_attempts_def)
  have agents: "act_agent_id a = ''rogue-demo''" "act_agent_id b = ''rogue-demo''" "act_agent_id c = ''rogue-demo''"
    by (simp_all add: abc adversarial_attempts_def demo_act_def)
  note evals = sequence_policy_steps [folded abc]
  note stages = attempt_on_stage [OF evals(1) agents(1)] attempt_on_stage [OF evals(2) agents(2)]
    attempt_on_stage [OF evals(3) agents(3)]
  let ?w3 = "snd (clk_time clk (snd (clk_time clk (snd (clk_time clk w)))))"
  obtain ds results where blocked: "attempt_until_blocked clk adversarial_attempts ([], adversarial_gateway uuid [] ACTIVE 0 [] w)
      = andthen (on_gateway (gw_contain clk)) (\<lambda>report. ret (Some report))
          (results, adversarial_gateway uuid [''download_file'', ''upload_file''] HALTED 1 ds ?w3)"
    and results: "map (\<lambda>r. (at_name r, at_decision r, at_blocked r)) results
       = [(''download-file'', ALLOW, False), (''upload-file'', ALLOW, False), (''delete-after-upload'', HALT, True)]"
    by (simp add: attempts andthen_def stages Let_def mk_decision_def)
  obtain report g where "gw_contain clk (adversarial_gateway uuid [''download_file'', ''upload_file''] HALTED 1 ds ?w3) = (Inr report, g)"
    "rep_complete report" "rep_epoch report = 2" "rt_state (gw_runtime g) = CONTAINED" "rt_epoch (gw_runtime g) = 2"
    "rt_agent_id (gw_runtime g) = ''rogue-demo''" "ctl_capabilities (gw_containment g) = {}"
    using contain_on_stage [of clk uuid "[''download_file'', ''upload_file'']" ds ?w3] by blast
  then show ?thesis
    using results by (simp add: blocked andthen_def on_gateway_def ret_def)
qed

text \<open>
  C40: \<open>demo/adversarial_demo.py\<close>, whatever the clocks read: the download and the upload are allowed, the deletion
  that completes the forbidden sequence halts the agent, the containment is complete and leaves the runtime
  contained at epoch 2 without capabilities, the action tried afterwards is denied, and no bypass is reported.
\<close>

theorem adversarial_demo_contained:
  "\<exists>report d results g. adversarial_demo clk uuid w = Inr (Inr (Some report, d), (results, g))
     \<and> map (\<lambda>r. (at_name r, at_decision r)) results
       = [(''download-file'', ALLOW), (''upload-file'', ALLOW), (''delete-after-upload'', HALT)]
     \<and> rep_complete report \<and> rep_epoch report = 2 \<and> rt_state (gw_runtime g) = CONTAINED
     \<and> rt_epoch (gw_runtime g) = 2 \<and> ctl_capabilities (gw_containment g) = {} \<and> dec_type d = DENY
     \<and> demo_bypasses results = []"
proof -
  obtain report results g where run: "attempt_until_blocked clk adversarial_attempts
      ([], adversarial_gateway uuid [] ACTIVE 0 [] w) = (Inr (Some report), (results, g))"
    and results: "map (\<lambda>r. (at_name r, at_decision r, at_blocked r)) results
       = [(''download-file'', ALLOW, False), (''upload-file'', ALLOW, False), (''delete-after-upload'', HALT, True)]"
    and g: "rep_complete report" "rep_epoch report = 2" "rt_state (gw_runtime g) = CONTAINED"
      "rt_epoch (gw_runtime g) = 2" "rt_agent_id (gw_runtime g) = ''rogue-demo''" "ctl_capabilities (gw_containment g) = {}"
    using adversarial_attempts_run [of clk uuid w] by (elim exE conjE) (rule that)
  obtain d g' where bypass: "gw_authorize clk bypass_action g = (Inr d, g')" "dec_type d = DENY"
    "gw_containment g' = gw_containment g"
    using authorize_on_contained [OF g(3), of bypass_action clk] g(5) by (auto simp: bypass_action_def demo_act_def)
  have none: "demo_bypasses results = []"
    using results by (auto simp: demo_bypasses_def map_eq_Cons_conv)
  have "adversarial_demo clk uuid w = Inr (Inr (Some report, d), (results, g'))"
    by (simp add: adversarial_start adversarial_body_def run bypass(1) none andthen_def on_gateway_def
        reading_def guarding_def ret_def)
  moreover have "gw_runtime g' = gw_runtime g"
    using bypass(3) by (simp add: gw_runtime_def)
  ultimately show ?thesis
    using results g bypass none by (auto simp: map_eq_Cons_conv)
qed

section \<open>A child and its parent\<close>

definition family :: "'w agent_tree \<Rightarrow> 'w agent_node \<Rightarrow> 'w agent_node \<Rightarrow> bool" where
  "family t p c \<longleftrightarrow> dict_get (tr_nodes t) ''parent-agent'' = Some p \<and> dict_get (tr_nodes t) ''child-agent'' = Some c
     \<and> nd_agent_id p = ''parent-agent'' \<and> nd_children p = {''child-agent''} \<and> nd_children c = {}
     \<and> rt_agent_id (nd_runtime c) = ''child-agent''"

lemma family_contain:
  assumes "family t p c"
  shows "\<exists>t' p' c'. tr_contain clk ''parent-agent'' t = Some (Inr [''parent-agent'', ''child-agent''], t') \<and> family t' p' c'
     \<and> rt_state (nd_runtime p') = CONTAINED \<and> rt_state (nd_runtime c') = CONTAINED
     \<and> ctl_capabilities (nd_containment p') = {} \<and> ctl_capabilities (nd_containment c') = {}"
proof -
  let ?t1 = "contain_node clk ''parent-agent'' p t"
  let ?t2 = "contain_node clk ''child-agent'' c ?t1"
  from assms obtain p' where p': "contained_from p p'"
    "\<And>b. dict_get (tr_nodes ?t1) b = (if b = ''parent-agent'' then Some p' else dict_get (tr_nodes t) b)"
    using contain_node_get [of t "''parent-agent''" p clk] by (auto simp: family_def)
  with assms obtain c' where c': "contained_from c c'"
    "\<And>b. dict_get (tr_nodes ?t2) b = (if b = ''child-agent'' then Some c' else dict_get (tr_nodes ?t1) b)"
    using contain_node_get [of ?t1 "''child-agent''" c clk] by (auto simp: family_def)
  have turn: "contain_loop clk (x # rest) visited t0 = contain_loop clk (push_all (sorted_descending (nd_children n)) rest)
      (visited @ [x]) (contain_node clk x n t0)" if "dict_get (tr_nodes t0) x = Some n" for x rest visited t0 n
    using that by (subst contain_loop.simps) (simp add: tr_require_def)
  have stop: "contain_loop clk [] visited t0 = Some (Inr visited, t0)" for visited t0
    by (subst contain_loop.simps) simp
  have members: "dict_get (tr_nodes t) ''parent-agent'' = Some p" "dict_get (tr_nodes ?t1) ''child-agent'' = Some c"
    "nd_children p = {''child-agent''}" "nd_children c = {}" "nd_agent_id p = ''parent-agent''"
    using assms p'(2) by (simp_all add: family_def)
  have "tr_contain clk ''parent-agent'' t = contain_loop clk [''parent-agent''] [] t"
    by (simp add: tr_contain_def tr_require_def members)
  also have "\<dots> = contain_loop clk [''child-agent''] [''parent-agent''] ?t1"
    by (simp add: turn [OF members(1)] members(3) push_all_def sorted_descending_def)
  also have "\<dots> = Some (Inr [''parent-agent'', ''child-agent''], ?t2)"
    by (simp add: turn [OF members(2)] members(4) push_all_def sorted_descending_def stop)
  finally have "tr_contain clk ''parent-agent'' t = Some (Inr [''parent-agent'', ''child-agent''], ?t2)" .
  then show ?thesis
    using assms p' c' by (auto simp: family_def contained_from_def nd_runtime_def)
qed

lemma family_opens:
  "\<exists>g t p c. open_family uuid (empty_tree w) = (Inr g, t) \<and> family t p c
     \<and> rt_state (nd_runtime p) = ACTIVE \<and> rt_state (nd_runtime c) = ACTIVE \<and> gw_limit g = None \<and> gw_history g = []
     \<and> pe_denied (gw_policy g) = {''exfiltrate_secret''}
     \<and> ctl_capabilities (nd_containment c) = {''db.read'', ''network''}"
  by (simp add: open_family_def tr_register_root_def tr_spawn_def tr_absent_def tr_require_def add_node_def tr_update_def
      inherited_capabilities_def family_gateway_def family_def prog_defs mk_gateway_def mk_policy_engine_def empty_tree_def
      ctl_attach_egress_def mk_controller_def mk_runtime_def nd_runtime_def ctl_contained_def rt_can_execute_def
      lift_result_def split_beta Let_def)

text \<open>A decision on the child changes its node only, and of the node its controller only.\<close>

lemma on_node_run:
  assumes "family t p c" and "gw_authorize clk a (g\<lparr>gw_containment := nd_containment c, gw_next := tr_next t,
      gw_world := tr_world t\<rparr>) = (Inr d, g')" and "rt_agent_id (gw_runtime g') = ''child-agent''"
  shows "\<exists>t'. on_node ''child-agent'' (gw_authorize clk a) (t, g) = (Inr d, (t', g'))
     \<and> family t' p (c\<lparr>nd_containment := gw_containment g'\<rparr>)"
  using assms by (simp add: on_node_def tr_require_def family_def gw_runtime_def nd_runtime_def)

lemma child_halts:
  assumes "family t p c" and "rt_state (nd_runtime c) = ACTIVE" and "pe_denied (gw_policy g) = {''exfiltrate_secret''}"
  shows "\<exists>d t' g' c'. on_node ''child-agent'' (gw_authorize clk child_attack) (t, g) = (Inr d, (t', g'))
     \<and> family t' p c' \<and> dec_type d = HALT \<and> rt_state (nd_runtime c') = HALTED"
proof -
  let ?g = "g\<lparr>gw_containment := nd_containment c, gw_next := tr_next t, gw_world := tr_world t\<rparr>"
  have "\<exists>d g'. gw_authorize clk child_attack ?g = (Inr d, g') \<and> dec_type d = HALT
      \<and> rt_state (gw_runtime g') = HALTED \<and> rt_agent_id (gw_runtime g') = ''child-agent''"
    using assms
    by (simp add: gw_authorize_def gw_evaluate_def gw_halt_def gw_record_def gw_time_eq prog_defs wrong_agent_def
        rt_can_execute_def evaluate_def mk_decision_def child_attack_def demo_act_def family_def nd_runtime_def gw_runtime_def
        ctl_halt_def split_beta)
  then show ?thesis
    using on_node_run [OF assms(1), of clk child_attack g] by (fastforce simp: gw_runtime_def nd_runtime_def)
qed

lemma child_denied:
  assumes "family t p c" and "rt_state (nd_runtime c) = CONTAINED"
  shows "\<exists>d t' g' c'. on_node ''child-agent'' (gw_authorize clk post_containment) (t, g) = (Inr d, (t', g'))
     \<and> family t' p c' \<and> dec_type d = DENY"
proof -
  let ?g = "g\<lparr>gw_containment := nd_containment c, gw_next := tr_next t, gw_world := tr_world t\<rparr>"
  have "rt_state (gw_runtime ?g) = CONTAINED" "rt_agent_id (gw_runtime ?g) = act_agent_id post_containment"
    using assms by (simp_all add: gw_runtime_def nd_runtime_def family_def post_containment_def demo_act_def)
  from authorize_on_contained [OF this, of clk] obtain d g' where
    "gw_authorize clk post_containment ?g = (Inr d, g')" "dec_type d = DENY" "gw_containment g' = nd_containment c" by auto
  with on_node_run [OF assms(1), of clk post_containment g] assms(1) show ?thesis
    by (fastforce simp: gw_runtime_def nd_runtime_def family_def)
qed

text \<open>
  \<open>demo/child_agent_demo.py\<close>, whatever the clocks and ids are: it ends, the child's attack halts the child and
  leaves the parent active, the containment of the parent covers the child, whose next action is denied.
\<close>

lemma child_demo_propagates:
  "\<exists>attack t d t' p c p' c'. child_demo uuid clk w = Some (Inr (attack, t, d, [''parent-agent'', ''child-agent''], t'))
     \<and> dec_type attack = HALT \<and> dec_type d = DENY \<and> family t p c \<and> family t' p' c'
     \<and> rt_state (nd_runtime p) = ACTIVE \<and> rt_state (nd_runtime c) = HALTED
     \<and> rt_state (nd_runtime p') = CONTAINED \<and> rt_state (nd_runtime c') = CONTAINED
     \<and> ctl_capabilities (nd_containment c') = {}"
proof -
  obtain g t0 p c0 where start: "open_family uuid (empty_tree w) = (Inr g, t0)" "family t0 p c0"
    "rt_state (nd_runtime p) = ACTIVE" "rt_state (nd_runtime c0) = ACTIVE" "pe_denied (gw_policy g) = {''exfiltrate_secret''}"
    using family_opens [of uuid w] by (elim exE conjE) (rule that)
  obtain attack t g' c where halt: "on_node ''child-agent'' (gw_authorize clk child_attack) (t0, g) = (Inr attack, (t, g'))"
    "family t p c" "dec_type attack = HALT" "rt_state (nd_runtime c) = HALTED"
    using child_halts [OF start(2,4,5), of clk] by (elim exE conjE) (rule that)
  obtain t1 p1 c1 where first: "tr_contain clk ''parent-agent'' t = Some (Inr [''parent-agent'', ''child-agent''], t1)"
    "family t1 p1 c1" "rt_state (nd_runtime c1) = CONTAINED"
    using family_contain [OF halt(2), of clk] by (elim exE conjE) (rule that)
  obtain d t2 g2 c2 where denied: "on_node ''child-agent'' (gw_authorize clk post_containment) (t1, g') = (Inr d, (t2, g2))"
    "family t2 p1 c2" "dec_type d = DENY"
    using child_denied [OF first(2,3), of clk g'] by (elim exE conjE) (rule that)
  obtain t' p' c' where last: "tr_contain clk ''parent-agent'' t2 = Some (Inr [''parent-agent'', ''child-agent''], t')"
    "family t' p' c'" "rt_state (nd_runtime p') = CONTAINED" "rt_state (nd_runtime c') = CONTAINED"
    "ctl_capabilities (nd_containment c') = {}"
    using family_contain [OF denied(2), of clk] by (elim exE conjE) (rule that)
  have "child_demo uuid clk w = Some (Inr (attack, t, d, [''parent-agent'', ''child-agent''], t'))"
    by (simp add: child_demo_def start(1) halt(1) first(1) denied(1) last(1))
  with start(3) halt(2-4) denied(3) last(2-5) show ?thesis by blast
qed

end
