(* ===== verification/Linux_Demo.thy ===== *)
theory Linux_Demo
  imports Host_Adapters Ebpf_Enforcer
begin

text \<open>
  \<open>demo/linux_containment_demo.py\<close>: the service, the supervisor, the controller and the kernel egress adapter around a
  real child process.  The child, the test server, the marker files and the audit file are outside: the record of the
  calls the script makes.  The waits for marker files are loops on the clock, hence programs to an option, \<open>None\<close>
  being a wait that never ends.  The printed texts are not modelled.
\<close>

section \<open>Programs that may not end\<close>

type_synonym ('s, 'a) oprog = "'s \<Rightarrow> ((exn + 'a) \<times> 's) option"

definition ending :: "('s, 'a) prog \<Rightarrow> ('s, 'a) oprog" where
  "ending m s = Some (m s)"

definition oandthen :: "('s, 'a) oprog \<Rightarrow> ('a \<Rightarrow> ('s, 'b) oprog) \<Rightarrow> ('s, 'b) oprog" where
  "oandthen m f s =
     (case m s of
        None \<Rightarrow> None
      | Some (Inl e, t) \<Rightarrow> Some (Inl e, t)
      | Some (Inr x, t) \<Rightarrow> f x t)"

text \<open>\<open>try: m finally: last\<close>.\<close>

definition ofinally :: "('s, 'a) oprog \<Rightarrow> ('s, unit) prog \<Rightarrow> ('s, 'a) oprog" where
  "ofinally m cleanup s =
     (case m s of
        None \<Rightarrow> None
      | Some (r, t) \<Rightarrow> Some (andthen cleanup (\<lambda>_. lift_result r) t))"

section \<open>The system\<close>

text \<open>
  \<open>ds_server\<close> makes the listening test server and yields its number, host and port; \<open>ds_poll\<close> and \<open>ds_wait\<close> are the methods of the
  child, whose exit code the script reads afterwards; \<open>ds_audit\<close> is \<open>AuditLog.record\<close> and \<open>ds_verify\<close> \<open>AuditLog.verify\<close>.
\<close>

record 'w demo_system =
  ds_os :: "'w os"
  ds_platform :: string
  ds_euid :: int
  ds_pid :: int
  ds_mkdtemp :: "('w, string) prog"
  ds_server :: "('w, obj \<times> string \<times> int) prog"
  ds_accept :: "obj \<Rightarrow> ('w, obj) prog"
  ds_recv :: "obj \<Rightarrow> ('w, string) prog"
  ds_close :: "obj \<Rightarrow> ('w, unit) prog"
  ds_popen :: "string list \<Rightarrow> ('w, int) prog"
  ds_poll :: "int \<Rightarrow> ('w, int option) prog"
  ds_kill :: "int \<Rightarrow> ('w, unit) prog"
  ds_wait :: "int \<Rightarrow> int \<Rightarrow> ('w, int) prog"
  ds_run :: "'w command"
  ds_unlink :: "string \<Rightarrow> ('w, unit) prog"
  ds_audit :: "string \<Rightarrow> audit_entry \<Rightarrow> ('w, unit) prog"
  ds_verify :: "string \<Rightarrow> ('w, bool \<times> string) prog"
  ds_env :: "'w environment"

text \<open>The variables of \<open>main\<close> that change in the \<open>try\<close>; \<open>dm_group = None\<close> is the unbound \<open>group\<close>.\<close>

record 'w demo_state =
  dm_child :: "int option"
  dm_code :: "int option"
  dm_group :: "string option"
  dm_pin :: string
  dm_service :: "'w service option"
  dm_world :: 'w

definition on_host :: "('w, 'a) prog \<Rightarrow> ('w demo_state, 'a) prog" where
  "on_host m s = (case m (dm_world s) of (r, w) \<Rightarrow> (r, s\<lparr>dm_world := w\<rparr>))"

text \<open>A method of the service, which the script has made by then.\<close>

definition on_demo_service :: "('w service, 'a) prog \<Rightarrow> ('w demo_state, 'a) prog" where
  "on_demo_service m s =
     (case dm_service s of
        None \<Rightarrow> raise (Exn (OtherException ''UnboundLocalError'') ''service'') s
      | Some sv \<Rightarrow>
          (case m (sv\<lparr>svc_world := dm_world s\<rparr>) of
             (r, sv') \<Rightarrow> (r, s\<lparr>dm_service := Some sv', dm_world := svc_world sv'\<rparr>)))"

section \<open>Waiting for a file\<close>

definition timed_out :: "string \<Rightarrow> exn" where
  "timed_out path = Exn RuntimeError (''timed out waiting for '' @ path)"

partial_function (option) wait_loop :: "'w os \<Rightarrow> string \<Rightarrow> int \<Rightarrow> 'w \<Rightarrow> ((exn + unit) \<times> 'w) option" where
  "wait_loop os path deadline w =
     (case os_monotonic os w of
        (now, w1) \<Rightarrow>
          if \<not> now < deadline then Some (Inl (timed_out path), w1)
          else (case os_exists os path w1 of
                  (Inl e, w2) \<Rightarrow> Some (Inl e, w2)
                | (Inr found, w2) \<Rightarrow>
                    if found then Some (Inr (), w2)
                    else wait_loop os path deadline (os_sleep os (os_second os div 50) w2)))"

definition wait_for :: "'w os \<Rightarrow> string \<Rightarrow> int \<Rightarrow> ('w, unit) oprog" where
  "wait_for os path timeout w =
     (case os_monotonic os w of (now, w1) \<Rightarrow> wait_loop os path (now + timeout) w1)"

definition demo_wait :: "'w demo_system \<Rightarrow> string \<Rightarrow> int \<Rightarrow> ('w demo_state, unit) oprog" where
  "demo_wait d path seconds s =
     (case wait_for (ds_os d) path (seconds * os_second (ds_os d)) (dm_world s) of
        None \<Rightarrow> None
      | Some (r, w) \<Rightarrow> Some (r, s\<lparr>dm_world := w\<rparr>))"

section \<open>The stages of the script\<close>

definition controller_bin :: string where "controller_bin = ''build/agent_containment_ebpf_ctl''"
definition bpf_object :: string where "bpf_object = ''build/agent_containment_egress.bpf.o''"
definition pin_prefix :: string where "pin_prefix = ''/sys/fs/bpf/agent-containment-demo-''"

definition demo_policy :: "exn + policy_engine" where
  "demo_policy =
     (case mk_sequence_rule ''download-upload-delete'' [''download_file'', ''upload_file'', ''delete_file''] HALT False of
        Inl e \<Rightarrow> Inl e
      | Inr rule \<Rightarrow> mk_policy_engine {} 80 [rule] 256 [])"

text \<open>The environment of the service: the audit log and the supervisor at the cgroup root.\<close>

definition linux_env :: "'w demo_system \<Rightarrow> string \<Rightarrow> string \<Rightarrow> 'w environment" where
  "linux_env d root audit_path =
     (ds_env d)\<lparr>env_audit := Some (ds_audit d audit_path), env_sink := None,
        env_supervisor := Some (daemon_supervisor (ds_os d) root)\<rparr>"

definition child_command :: "'w demo_system \<Rightarrow> string \<Rightarrow> string \<Rightarrow> int \<Rightarrow> string list" where
  "child_command d work host port =
     [''controller-assigned'', host, str_int port, path_join work ''ready'', path_join work ''connected'',
      path_join work ''start'', path_join work ''release'', path_join work ''blocked'', path_join work ''escaped'']"

definition child_agent_id :: "int \<Rightarrow> string" where
  "child_agent_id pid = ''adversarial-agent-'' @ str_int pid"

text \<open>The child is started, the service made, the agent registered and its process placed in its cgroup.\<close>

definition demo_enroll :: "'w demo_system \<Rightarrow> string \<Rightarrow> string \<Rightarrow> int \<Rightarrow> ('w demo_state, int \<times> 'w environment \<times> runtime) prog" where
  "demo_enroll d work host port =
     andthen (on_host (ds_popen d (child_command d work host port))) (\<lambda>pid.
     andthen (modifying (\<lambda>s. s\<lparr>dm_child := Some pid\<rparr>)) (\<lambda>_.
     andthen (on_host (mk_supervisor (ds_os d) ''/sys/fs/cgroup'')) (\<lambda>root.
     andthen (lift_result demo_policy) (\<lambda>policy.
     let env = linux_env d root (path_join work ''audit.jsonl'') in
     andthen (\<lambda>s. (case mk_service (\<lambda>v. []) None env None None 0 (dm_world s) of
                     Inl e \<Rightarrow> (Inl e, s) | Inr sv \<Rightarrow> (Inr (), s\<lparr>dm_service := Some sv\<rparr>))) (\<lambda>_.
     andthen (on_demo_service (svc_register env (child_agent_id pid) None (Some [(''demo'', ''linux-adversarial'')]) (Some policy)))
       (\<lambda>runtime.
     andthen (on_demo_service (svc_create_workload env (child_agent_id pid))) (\<lambda>cgroup.
     andthen (modifying (\<lambda>s. s\<lparr>dm_group := Some cgroup\<rparr>)) (\<lambda>_.
     andthen (on_demo_service (svc_attach_workload env (child_agent_id pid) pid)) (\<lambda>_.
     ret (pid, env, runtime))))))))))"

text \<open>The kernel egress adapter on the agent's cgroup, and the controller that uses it.\<close>

definition demo_egress :: "string \<Rightarrow> string \<Rightarrow> ebpf" where
  "demo_egress cgroup pin = \<lparr>eb_controller = controller_bin, eb_object = bpf_object, eb_cgroup = cgroup, eb_pin_dir = pin\<rparr>"

definition demo_controller :: "'w demo_system \<Rightarrow> string \<Rightarrow> string \<Rightarrow> runtime \<Rightarrow> 'w controller" where
  "demo_controller d cgroup pin runtime =
     mk_controller runtime {''filesystem.write'', ''database.write'', ''network.egress''} None
       (Some (ebpf_attach (ds_os d) (ds_run d) (demo_egress cgroup pin))) None []"

definition demo_configure :: "'w demo_system \<Rightarrow> int \<Rightarrow> runtime \<Rightarrow> ('w demo_state, unit) prog" where
  "demo_configure d pid runtime =
     (let pin = pin_prefix @ str_int pid in
      andthen (modifying (\<lambda>s. s\<lparr>dm_pin := pin\<rparr>)) (\<lambda>_.
      andthen (on_host (os_mkdir (ds_os d) False pin)) (\<lambda>_.
      andthen (reading (\<lambda>s. the (dm_group s))) (\<lambda>cgroup.
      on_demo_service (svc_configure_containment (child_agent_id pid) (demo_controller d cgroup pin runtime))))))"

text \<open>The child connects once before the containment.\<close>

definition demo_connection :: "'w demo_system \<Rightarrow> obj \<Rightarrow> string \<Rightarrow> ('w demo_state, unit) oprog" where
  "demo_connection d server work =
     oandthen (demo_wait d (path_join work ''ready'') 5) (\<lambda>_.
     oandthen (ending (on_host (os_write_text (ds_os d) (path_join work ''start.release'') ''go''))) (\<lambda>_.
     oandthen (demo_wait d (path_join work ''connected'') 5) (\<lambda>_.
     ending (
       andthen (on_host (ds_accept d server)) (\<lambda>conn.
       andthen (on_host (ds_recv d conn)) (\<lambda>data.
       andthen (guarding (data = ''pre-containment'') (Exn AssertionError [])) (\<lambda>_.
       on_host (ds_close d conn))))))))"

definition demo_actions :: "string \<Rightarrow> action list" where
  "demo_actions agent_id = map (\<lambda>(action_id, operation, resource).
       \<lparr>act_agent_id = agent_id, act_action_id = action_id, act_operation = operation, act_resource = resource,
        act_risk = 10, act_metadata = []\<rparr>)
     [(''a1'', ''download_file'', ''workspace/report.txt''),
      (''a2'', ''upload_file'', ''localhost/report.txt''),
      (''a3'', ''delete_file'', ''workspace/report.txt'')]"

text \<open>\<open>service.authorize(Action(...))\<close>, without a token, up to the first HALT.\<close>

fun authorize_until_halt :: "'w environment \<Rightarrow> action list \<Rightarrow> ('w service, decision list) prog" where
  "authorize_until_halt env [] = ret []"
| "authorize_until_halt env (a # as) =
     andthen (svc_authorize env a None None None) (\<lambda>d.
       if dec_type d = HALT then ret [d]
       else andthen (authorize_until_halt env as) (\<lambda>ds. ret (d # ds)))"

text \<open>After the containment the child tries once more to connect; then it is killed through its cgroup.\<close>

definition demo_check_blocked :: "'w demo_system \<Rightarrow> string \<Rightarrow> ('w demo_state, unit) oprog" where
  "demo_check_blocked d work =
     oandthen (ending (on_host (os_write_text (ds_os d) (path_join work ''release.release'') ''go''))) (\<lambda>_.
     oandthen (demo_wait d (path_join work ''blocked'') 3) (\<lambda>_.
     ending (andthen (on_host (os_exists (ds_os d) (path_join work ''escaped''))) (\<lambda>escaped.
             guarding (\<not> escaped) (Exn AssertionError [])))))"

definition demo_kill :: "'w demo_system \<Rightarrow> int \<Rightarrow> ('w demo_state, unit) prog" where
  "demo_kill d pid =
     andthen (reading (\<lambda>s. the (dm_group s))) (\<lambda>cgroup.
     andthen (on_host (mk_cgroup_process (ds_os d) cgroup)) (\<lambda>path.
     andthen (on_host (cgroup_process_contain (ds_os d) path)) (\<lambda>_.
     andthen (on_host (ds_wait d pid 3)) (\<lambda>code.
     modifying (\<lambda>s. s\<lparr>dm_code := Some code\<rparr>)))))"

definition demo_verdict :: "'w demo_system \<Rightarrow> string \<Rightarrow> containment_report \<Rightarrow> ('w demo_state, int) prog" where
  "demo_verdict d work report =
     andthen (on_host (ds_verify d (path_join work ''audit.jsonl''))) (\<lambda>(valid, message).
     andthen (reading dm_code) (\<lambda>code.
       if rep_complete report \<and> ''runtime_fenced'' \<in> set (rep_stages report)
          \<and> ''capabilities_revoked'' \<in> set (rep_stages report)
          \<and> ''kernel_egress_contained'' \<in> set (rep_stages report) \<and> code \<noteq> None then
         andthen (on_host (os_exists (ds_os d) (path_join work ''escaped''))) (\<lambda>escaped.
         ret (if \<not> escaped \<and> valid then 0 else 1))
       else ret 1))"

definition demo_try :: "'w demo_system \<Rightarrow> obj \<Rightarrow> string \<Rightarrow> string \<Rightarrow> int \<Rightarrow> ('w demo_state, int) oprog" where
  "demo_try d server host work port =
     oandthen (ending (demo_enroll d work host port)) (\<lambda>(pid, env, runtime).
     oandthen (ending (demo_configure d pid runtime)) (\<lambda>_.
     oandthen (demo_connection d server work) (\<lambda>_.
     oandthen (ending (on_demo_service (authorize_until_halt env (demo_actions (child_agent_id pid))))) (\<lambda>_.
     oandthen (ending (on_demo_service (svc_contain env (child_agent_id pid)))) (\<lambda>report.
     oandthen (ending (on_demo_service (svc_status (child_agent_id pid)))) (\<lambda>_.
     oandthen (demo_check_blocked d work) (\<lambda>_.
     oandthen (ending (demo_kill d pid)) (\<lambda>_.
     ending (demo_verdict d work report)))))))))"

section \<open>Cleaning up\<close>

definition quiet_rmdir :: "'w demo_system \<Rightarrow> string \<Rightarrow> ('w demo_state, unit) prog" where
  "quiet_rmdir d path =
     catch (on_host (os_rmdir (ds_os d) path)) (\<lambda>e. if is_os_error e then ret () else raise e)"

fun unlink_all :: "'w demo_system \<Rightarrow> string list \<Rightarrow> ('w demo_state, unit) prog" where
  "unlink_all d [] = ret ()"
| "unlink_all d (p # ps) = andthen (on_host (ds_unlink d p)) (\<lambda>_. unlink_all d ps)"

definition unbound_group :: exn where
  "unbound_group = Exn (OtherException ''UnboundLocalError'') ''group''"

definition demo_cleanup :: "'w demo_system \<Rightarrow> obj \<Rightarrow> string \<Rightarrow> ('w demo_state, unit) prog" where
  "demo_cleanup d server work =
     andthen (reading dm_child) (\<lambda>child.
     andthen (case child of None \<Rightarrow> ret ()
              | Some pid \<Rightarrow>
                  andthen (on_host (ds_poll d pid)) (\<lambda>code.
                    if code = None then andthen (on_host (ds_kill d pid)) (\<lambda>_. andthen (on_host (ds_wait d pid 3)) (\<lambda>_. ret ()))
                    else ret ())) (\<lambda>_.
     andthen (reading dm_pin) (\<lambda>pin.
     andthen (on_host (ds_run d [controller_bin, ''detach'', pin])) (\<lambda>_.
     andthen (reading dm_group) (\<lambda>cgroup.
     andthen (case cgroup of None \<Rightarrow> raise unbound_group | Some path \<Rightarrow> quiet_rmdir d path) (\<lambda>_.
     andthen (on_host (ds_close d server)) (\<lambda>_.
     andthen (unlink_all d (map (path_join work)
       [''ready'', ''connected'', ''blocked'', ''escaped'', ''audit.jsonl'', ''start'', ''release'', ''release.release'', ''start.release''])) (\<lambda>_.
     andthen (quiet_rmdir d pin) (\<lambda>_. quiet_rmdir d work)))))))))"

section \<open>The script\<close>

definition demo_ready :: "'w demo_system \<Rightarrow> ('w, bool) prog" where
  "demo_ready d =
     (if ds_platform d \<noteq> ''linux'' \<or> ds_euid d \<noteq> 0 then ret False
      else andthen (os_exists (ds_os d) ''/sys/fs/cgroup/cgroup.controllers'') (\<lambda>cgroup2.
        if \<not> cgroup2 then ret False
        else andthen (os_is_file (ds_os d) controller_bin) (\<lambda>bin.
          if \<not> bin then ret False else os_is_file (ds_os d) bpf_object)))"

definition linux_demo :: "'w demo_system \<Rightarrow> ('w demo_state, int) oprog" where
  "linux_demo d =
     oandthen (ending (on_host (demo_ready d))) (\<lambda>ready.
       if \<not> ready then ending (ret 2)
       else
         oandthen (ending (modifying (\<lambda>s. s\<lparr>dm_child := None, dm_code := None, dm_group := None, dm_service := None,
            dm_pin := pin_prefix @ str_int (ds_pid d)\<rparr>))) (\<lambda>_.
         oandthen (ending (on_host (ds_mkdtemp d))) (\<lambda>work.
         oandthen (ending (on_host (ds_server d))) (\<lambda>(server, host, port).
         ofinally (demo_try d server host work port) (demo_cleanup d server work)))))"

end
