(* ===== verification/Linux_Props.thy ===== *)
theory Linux_Props
  imports Linux_Demo Control_Auth_Props
begin

text \<open>
  What the Linux demonstration shows when it returns 0, what its calls of \<open>authorize\<close> really decide, that its waits
  end, and how its cleanup fails when the script fails early.
\<close>

section \<open>Running the stages\<close>

lemma ending_run: "ending m s = Some (r, t) \<longleftrightarrow> m s = (r, t)"
  by (auto simp: ending_def)

lemma oandthen_run:
  "oandthen m f s = Some (r, t) \<longleftrightarrow>
     (\<exists>e. m s = Some (Inl e, t) \<and> r = Inl e) \<or> (\<exists>x u. m s = Some (Inr x, u) \<and> f x u = Some (r, t))"
  by (auto simp: oandthen_def split: option.splits sum.splits)

lemma ofinally_run:
  "ofinally m cleanup s = Some (r, t) \<longleftrightarrow> (\<exists>r' u. m s = Some (r', u) \<and> andthen cleanup (\<lambda>_. lift_result r') u = (r, t))"
  by (auto simp: ofinally_def split: option.splits)

section \<open>Waits\<close>

text \<open>A clock that never goes back and is at least a tick further after a sleep.\<close>

definition ticking :: "'w os \<Rightarrow> bool" where
  "ticking os \<longleftrightarrow> 50 \<le> os_second os
     \<and> (\<forall>w. fst (os_monotonic os w) \<le> fst (os_monotonic os (snd (os_monotonic os w))))
     \<and> (\<forall>p w. fst (os_monotonic os w) \<le> fst (os_monotonic os (snd (os_exists os p w))))
     \<and> (\<forall>n w. 1 \<le> n \<longrightarrow> fst (os_monotonic os w) + 1 \<le> fst (os_monotonic os (os_sleep os n w)))"

lemma wait_loop_ends:
  assumes "ticking os"
  shows "\<exists>r. wait_loop os path deadline w = Some r"
proof (induction "nat (deadline - fst (os_monotonic os w))" arbitrary: w rule: less_induct)
  case less
  obtain now w1 where now: "os_monotonic os w = (now, w1)" by fastforce
  obtain r w2 where found: "os_exists os path w1 = (r, w2)" by fastforce
  show ?case
  proof (cases "now < deadline \<and> r = Inr False")
    case True
    have "now \<le> fst (os_monotonic os w1)" "fst (os_monotonic os w1) \<le> fst (os_monotonic os w2)"
      using assms now found unfolding ticking_def by (metis fst_conv snd_conv)+
    moreover have "1 \<le> os_second os div 50" using assms by (simp add: ticking_def pos_imp_zdiv_pos_iff int_one_le_iff_zero_less)
    then have "fst (os_monotonic os w2) + 1 \<le> fst (os_monotonic os (os_sleep os (os_second os div 50) w2))"
      using assms by (simp add: ticking_def)
    ultimately have "\<exists>r. wait_loop os path deadline (os_sleep os (os_second os div 50) w2) = Some r"
      using True now by (intro less.hyps) simp
    with True now found show ?thesis by (subst wait_loop.simps) simp
  next
    case False
    with now found show ?thesis by (subst wait_loop.simps) (auto split: sum.split)
  qed
qed

lemma wait_for_ends: "ticking os \<Longrightarrow> \<exists>r. wait_for os path timeout w = Some r"
  unfolding wait_for_def split_beta by (rule wait_loop_ends)

section \<open>Authorization without a token\<close>

lemma unauthenticated_denied:
  assumes "svc_authorize env a None peer membership s = (Inr d, t)"
  shows "dec_type d = DENY"
  using assms
  by (auto simp: svc_authorize_def auth_check_def auth_decide_def deny_def auth_finish_def run_rules mk_decision_def
      split: option.splits)

lemma unauthenticated_run:
  "authorize_until_halt env as s = (Inr ds, t) \<Longrightarrow> length ds = length as \<and> (\<forall>d \<in> set ds. dec_type d = DENY)"
proof (induction as arbitrary: ds s)
  case (Cons a as)
  then obtain d s1 where one: "svc_authorize env a None None None s = (Inr d, s1)"
    and rest: "(if dec_type d = HALT then ret [d] else andthen (authorize_until_halt env as) (\<lambda>ds. ret (d # ds))) s1 = (Inr ds, t)"
    by (auto simp: run_rules)
  have "dec_type d = DENY" by (rule unauthenticated_denied [OF one])
  with rest obtain ds' where "authorize_until_halt env as s1 = (Inr ds', t)" "ds = d # ds'" by (auto simp: run_rules)
  with Cons.IH \<open>dec_type d = DENY\<close> show ?case by simp
qed (simp add: ret_def)

section \<open>What is left when the script returns\<close>

text \<open>The stages after the containment do not touch the service.\<close>

definition service_is where "service_is x s \<longleftrightarrow> dm_service s = x"

lemma service_on_host [preserving]: "preserves (service_is x) (on_host m)"
  by (rule preservesI) (auto simp: on_host_def service_is_def split: prod.splits)

lemma service_modifying: "(\<And>s. dm_service (f s) = dm_service s) \<Longrightarrow> preserves (service_is x) (modifying f)"
  by (rule preservesI) (auto simp: modifying_run service_is_def)

lemma service_unlink [preserving]: "preserves (service_is x) (unlink_all d ps)"
  by (induction ps) (auto intro!: preserving)

lemma service_stages:
  "preserves (service_is x) (demo_kill d pid)" "preserves (service_is x) (demo_verdict d work report)"
  "preserves (service_is x) (demo_cleanup d server work)"
  unfolding demo_kill_def demo_verdict_def demo_cleanup_def quiet_rmdir_def
  by (intro preserving service_modifying; simp)+

lemma on_host_frame: "on_host m s = (r, t) \<Longrightarrow> dm_service t = dm_service s"
  by (auto simp: on_host_def split: prod.splits)

lemma demo_wait_frame: "demo_wait d path n s = Some (r, t) \<Longrightarrow> dm_service t = dm_service s"
  by (auto simp: demo_wait_def split: option.splits)

lemma service_blocked: "demo_check_blocked d work s = Some (r, t) \<Longrightarrow> dm_service t = dm_service s"
  by (auto simp: demo_check_blocked_def oandthen_run ending_run run_rules dest!: on_host_frame demo_wait_frame split: if_splits)

lemma service_kept: "preserves (service_is (dm_service s)) m \<Longrightarrow> m s = (r, t) \<Longrightarrow> dm_service t = dm_service s"
  by (drule preservesD) (auto simp: service_is_def)

lemma on_demo_service_run:
  assumes "on_demo_service m s = (Inr v, t)"
  shows "\<exists>sv sv'. m sv = (Inr v, sv') \<and> dm_service t = Some sv'"
  using assms by (auto simp: on_demo_service_def raise_def split: option.splits prod.splits)

lemma verdict_zero:
  assumes "demo_verdict d work report s = (Inr 0, t)"
  shows "rep_complete report \<and> ''kernel_egress_contained'' \<in> set (rep_stages report)"
  using assms by (auto simp: demo_verdict_def run_rules split: if_splits)

text \<open>
  The Linux demonstration returns 0 only after a containment of its agent that was complete and in which
  the kernel egress adapter was attached; the service it leaves is the one that containment left.  All three
  actions before it were denied, since none carries the agent's token.
\<close>

lemma linux_demo_contained:
  assumes "linux_demo d s = Some (Inr 0, t)"
  shows "\<exists>pid env sv sv' report s0 s1 ds.
     svc_contain env (child_agent_id pid) sv = (Inr report, sv')
     \<and> (\<exists>final. dm_service t = Some final \<and> svc_agents final = svc_agents sv' \<and> svc_incidents final = svc_incidents sv'
          \<and> svc_fences final = svc_fences sv')
     \<and> rep_complete report \<and> ''kernel_egress_contained'' \<in> set (rep_stages report)
     \<and> authorize_until_halt env (demo_actions (child_agent_id pid)) s0 = (Inr ds, s1)
     \<and> map dec_type ds = [DENY, DENY, DENY]"
proof -
  from assms obtain work server host port s2 s3 where
    main: "demo_try d server host work port s2 = Some (Inr 0, s3)"
    and cleanup: "andthen (demo_cleanup d server work) (\<lambda>_. lift_result (Inr 0)) s3 = (Inr (0 :: int), t)"
    by (auto simp: linux_demo_def oandthen_run ofinally_run ending_run run_rules split: if_splits)
  from cleanup obtain u where "demo_cleanup d server work s3 = (Inr u, t)" by (auto simp: run_rules)
  from service_kept [OF service_stages(3) this] have left: "dm_service t = dm_service s3" .
  from main obtain pid env runtime a0 a1 a2 a3 a4 a5 a6 ds report st u1 u2 where
    auth: "on_demo_service (authorize_until_halt env (demo_actions (child_agent_id pid))) a0 = (Inr ds, a1)"
    and contain: "on_demo_service (svc_contain env (child_agent_id pid)) a1 = (Inr report, a2)"
    and status: "on_demo_service (svc_status (child_agent_id pid)) a2 = (Inr st, a3)"
    and blocked: "demo_check_blocked d work a3 = Some (Inr u1, a4)" and kill: "demo_kill d pid a4 = (Inr u2, a5)"
    and verdict: "demo_verdict d work report a5 = (Inr 0, s3)"
    by (auto simp: demo_try_def oandthen_run ending_run)
  from on_demo_service_run [OF auth] obtain sa sa' where sa: "authorize_until_halt env (demo_actions (child_agent_id pid)) sa = (Inr ds, sa')"
    by blast
  have denied: "map dec_type ds = [DENY, DENY, DENY]"
    using unauthenticated_run [OF sa] by (auto simp: demo_actions_def length_Suc_conv)
  from on_demo_service_run [OF contain] obtain sv sv' where
    sv: "svc_contain env (child_agent_id pid) sv = (Inr report, sv')" "dm_service a2 = Some sv'" by blast
  have a3: "dm_service a3 = Some (sv'\<lparr>svc_world := dm_world a2\<rparr>)"
    using status sv(2) by (auto simp: on_demo_service_def svc_status_def svc_managed_def run_rules split: prod.splits option.splits)
  have "dm_service t = dm_service a3"
    using left service_kept [OF service_stages(2) verdict] service_kept [OF service_stages(1) kill] service_blocked [OF blocked]
    by simp
  then have final: "dm_service t = Some (sv'\<lparr>svc_world := dm_world a2\<rparr>)" using a3 by simp
  show ?thesis
    by (rule exI [of _ pid], rule exI [of _ env], rule exI [of _ sv], rule exI [of _ sv'], rule exI [of _ report],
        rule exI [of _ sa], rule exI [of _ sa'], rule exI [of _ ds])
       (simp add: sv(1) sa denied final verdict_zero [OF verdict])
qed

section \<open>A script that fails early\<close>

text \<open>
  When the \<open>try\<close> block raises before the cgroup of the agent exists, the cleanup raises on the unbound variable: the
  error is lost, and the test server and the files of the script stay.
\<close>

lemma early_failure_masked:
  assumes "demo_enroll d work host port s = (Inl e, s1)" and "dm_group s1 = None" and "dm_child s1 = None"
    and "ds_run d [controller_bin, ''detach'', dm_pin s1] (dm_world s1) = (Inr done, w)"
  shows "ofinally (demo_try d server host work port) (demo_cleanup d server work) s
     = Some (Inl unbound_group, s1\<lparr>dm_world := w\<rparr>)"
  using assms
  by (simp add: ofinally_def demo_try_def oandthen_def ending_def demo_cleanup_def on_host_def prog_defs)

lemma popen_failure_masked:
  assumes "ds_popen d (child_command d work host port) (dm_world s) = (Inl e, w1)" and "dm_group s = None" and "dm_child s = None"
    and "ds_run d [controller_bin, ''detach'', dm_pin s] w1 = (Inr done, w)"
  shows "ofinally (demo_try d server host work port) (demo_cleanup d server work) s
     = Some (Inl unbound_group, s\<lparr>dm_world := w\<rparr>)"
proof -
  have "demo_enroll d work host port s = (Inl e, s\<lparr>dm_world := w1\<rparr>)"
    using assms(1) by (simp add: demo_enroll_def on_host_def prog_defs)
  from early_failure_masked [OF this] assms(2-4) show ?thesis by simp
qed

end
