(* ===== verification/Spec2Isabelle.thy ===== *)
theory Spec2Isabelle
  imports Control_Findings Gateway Agent_Tree Audit_Props Evidence_Chain Provider_Contract Wire_Props
    Receipt_Props Regression_Props Observation_Props Destination_Props Control_Typing Listener_Props
    Hostile_Props Demo_Scenarios Linux_Props
begin

text \<open>
  AgentContainment: containment of AI agents from outside the agent.

  \<^bold>\<open>The program.\<close>  A controller holds one \<open>Runtime\<close> per agent, a state machine (ACTIVE, HALTED, CONTAINED)
  with an epoch.  What the agent may do is decided by a policy engine; what it may still execute is a question
  of leases bound to the epoch.  Containing an agent fences the runtime (state and epoch), revokes its
  capabilities, credentials, connections and identity, tells the external providers (cgroup, eBPF, Cilium) to
  cut it off and asks each of them to verify that, and leaves durable evidence: a fence, an incident, audit
  records, events.  Recovery is a transaction in the other direction and needs an authorization bound to the
  contained epoch.  The service (\<open>ContainmentService\<close>) composes these parts for many agents; a Unix socket
  and a client make it available to other processes; the gateway and the agent tree use the same controller
  without the service; receipts, chains, fixtures and observations are what others see of an incident.

  All sources are under \<open>src/src/agent_containment/\<close> and \<open>src/demo/\<close>.  Each theory opens with what it holds;
  this is the map.

  \<^bold>\<open>Vocabulary.\<close>
    \<^item> \<open>Prelude\<close>: Python exceptions (\<open>exn\<close>: a class and its argument), programs \<open>('s, 'a) prog\<close> that thread a state
      and may raise (\<open>ret\<close>, \<open>raise\<close>, \<open>andthen\<close>, \<open>catch\<close>, \<open>attempt\<close>, \<open>guarding\<close>), insertion-ordered dictionaries
      (\<open>dict_get\<close>, \<open>dict_set\<close>), the type \<open>json\<close>, and the rules \<open>run_rules\<close>, \<open>prog_defs\<close>, \<open>preserving\<close>
      on which most proofs run.
    \<^item> \<open>Py_Text\<close>, \<open>Json_Text\<close>, \<open>Json_Ascii\<close>, \<open>Json_Prefix\<close>, \<open>Hash_Chain\<close>: the methods of \<open>str\<close>, the texts \<open>json.dumps\<close> writes and
      the parser \<open>json.loads\<close> with their round trip and the refusal of a cut-off object, and the locale \<open>hash_chain\<close> of linked digests.
    \<^item> \<open>Models\<close>, \<open>Policy\<close> (\<open>models.py\<close>, \<open>policy.py\<close>): actions, decisions, the engine with its bounded history.

  \<^bold>\<open>Runtime and controller.\<close>
    \<^item> \<open>Runtime\<close>, \<open>Runtime_Fencing\<close> (\<open>runtime.py\<close>): the operations, and the runtime as a transition system; the
      locale \<open>lease_fence\<close> says what an epoch fence promises and is interpreted for execution leases, egress
      leases (\<open>Egress\<close>, \<open>egress.py\<close>), credential leases (\<open>Credentials\<close>, \<open>credentials.py\<close>) and observations.
    \<^item> \<open>Enforcer\<close>, \<open>Containment\<close>, \<open>Containment_Props\<close> (\<open>enforcer.py\<close>, \<open>containment.py\<close>): providers as records of
      functions on the outside world, containment with its report, release, recovery and recontainment; the locale
      \<open>provider_loop\<close> is the shape of the three loops over the providers.
    \<^item> \<open>Linux_Supervisor\<close>, \<open>Cgroup_Enforcer\<close>, \<open>Cilium_Enforcer\<close>, \<open>Ebpf_Enforcer\<close> (the files of these names and
      \<open>egress_enforcement.py\<close>), \<open>Provider_Contract\<close>: the three providers; the locale \<open>observing_provider\<close> says that
      a confirmed boundary was observed by that call, between the world it started in and the one it left; each
      provider satisfies it, and the controller's reports inherit it for the verifications their loops make.
    \<^item> \<open>Gateway\<close> (\<open>gateway.py\<close>, \<open>attack_harness.py\<close>), \<open>Agent_Tree\<close> (\<open>agent_tree.py\<close>): tools run under a valid
      lease only; containment of a whole subtree.

  \<^bold>\<open>The service.\<close>
    \<^item> \<open>Durable\<close>, \<open>Runtime_Fence\<close>, \<open>Incident_State\<close> (\<open>runtime_fence.py\<close>, \<open>incident_state.py\<close>): the two registries, a
      JSON file replaced atomically; the locale \<open>durable_registry\<close> is the agreement of memory and file under
      failing writes, interpreted for both.
    \<^item> \<open>Review\<close>, \<open>Verification_Signal\<close>, \<open>Governance_Event\<close> (the files of these names).
    \<^item> \<open>Control\<close>, \<open>Control_Register\<close>, \<open>Control_Contain\<close>, \<open>Control_Authorize\<close> (\<open>control.py\<close>): the state of
      \<open>ContainmentService\<close> and its operations.
    \<^item> \<open>Control_Frames\<close>, \<open>Control_Durable\<close>, \<open>Control_System\<close>, \<open>Control_Evidence\<close>, \<open>Control_Admission\<close>,
      \<open>Control_Recovery\<close>, \<open>Control_Agents\<close>, \<open>Control_Props\<close>, \<open>Control_Auth_Props\<close>, \<open>Control_Typing\<close>,
      \<open>Control_Findings\<close>: what every operation keeps, the service as a transition system over operations,
      environments and restarts, the properties, and the behaviours that differ from what comments and documents
      say; \<open>Control_Demo\<close> is the concrete service the witnesses run on.
    \<^item> \<open>Transport\<close>, \<open>Control_Client\<close>, \<open>Transport_Props\<close>, \<open>Frame_Props\<close>, \<open>Wire_Props\<close> (\<open>transport.py\<close>, \<open>client.py\<close>): the
      protocol of the control socket from both sides, each message a sequential program.
    \<^item> \<open>Wire_Steps\<close>, \<open>Steps_Props\<close> (\<open>transport.py\<close>, \<open>authorize\<close> of \<open>control.py\<close>): the same messages as the steps between
      which other threads run (type \<open>steps\<close>: a step on the state, then the rest), equal to the sequential programs
      when nothing interrupts them, and what every step keeps.
    \<^item> \<open>Host_Adapters\<close> (\<open>process.py\<close>, \<open>bootstrap.py\<close>, \<open>proof.py\<close>, the wiring of \<open>daemon.py\<close>).
    \<^item> \<open>Listener\<close>, \<open>Listener_Props\<close> (\<open>transport.py\<close>, \<open>daemon.py\<close>): the listening socket, the accept loop, its workers
      and the shutdown as threads, with the safety of the whole server in every order of their steps.

  \<^bold>\<open>Evidence.\<close>
    \<^item> \<open>Audit_Log\<close>, \<open>Audit_Props\<close> (\<open>audit.py\<close>), \<open>Evidence_Chain\<close> (\<open>evidence_chain.py\<close>, \<open>incident_evidence.py\<close>,
      \<open>warden_observation.py\<close>): the two hash chains, both instances of \<open>hash_chain\<close>.
    \<^item> \<open>Proof_Receipt\<close>, \<open>Receipt_Props\<close> (\<open>proof_receipt.py\<close>, \<open>incident.py\<close>, the receipts of \<open>containment.py\<close>).
    \<^item> \<open>Regression\<close>, \<open>Regression_Props\<close> (\<open>regression.py\<close>, \<open>regression_replay.py\<close>).
    \<^item> \<open>Observation\<close>, \<open>Observation_Props\<close> (\<open>runtime_observation.py\<close>, \<open>provenance.py\<close>, \<open>warden_observer.py\<close>,
      \<open>dprovenancekit_adapter.py\<close>, \<open>blast_radius.py\<close>).
    \<^item> \<open>Destination\<close>, \<open>Destination_Props\<close> (\<open>destination_egress.py\<close>, \<open>destination_binding.py\<close>).
    \<^item> \<open>Hostile_Demo\<close>, \<open>Hostile_Props\<close>, \<open>Demo_Scenarios\<close>, \<open>Linux_Demo\<close>, \<open>Linux_Props\<close> (\<open>src/demo/\<close>): the demonstrations
      as programs over the models above.

  \<^bold>\<open>How state and operations correspond.\<close>
    \<^item> An object with fields is a record, a method a definition on it, named with the prefix of its record (\<open>rt_\<close>
      runtime, \<open>ctl_\<close> controller, \<open>svc_\<close> service, \<open>gw_\<close> gateway, \<open>tp_\<close> transport, \<open>fg_\<close> and \<open>ig_\<close> registries, and
      so on).  A long method is cut at its own stages, in its order.
    \<^item> What is outside the program is a world of a type \<open>'w\<close> the model never looks into.  Kernel calls, providers,
      clocks, disks, sinks and subprocesses are functions on it given as parameters; every call may change it and,
      where Python lets it, raise.  SHA-256, the keyed digest, the text of floats, \<open>bytes.decode\<close>,
      \<open>ip_address\<close>, \<open>str\<close> and \<open>int\<close> of unusual values are parameters too.
    \<^item> Errors are values: every \<open>raise\<close>, early return and \<open>except\<close> of the source is a branch, with the class and the
      message of the exception.
    \<^item> Identity of objects (\<open>object()\<close>, compared with \<open>is\<close>) is a number; the state keeps the next unused one.
    \<^item> Locks: an operation that holds its lock from start to end is one step.  \<open>authorize\<close> releases it in between and
      is therefore several definitions (\<open>auth_snapshot\<close>, \<open>auth_check\<close>, \<open>auth_decide\<close>, \<open>auth_finish\<close>), and
      properties about it let any other operation run between them; so do the gateway's lease and commit, and
      the steps of the workers of the server (\<open>Listener\<close>), of which a registration has at least three.
    \<^item> A write to disk succeeds, or raises and leaves the file as it was (replacement is atomic), or, for the
      appended audit log, raises after a part of the line has reached the file.

  \<^bold>\<open>Loops and fuel.\<close>  The JSON parser runs on fuel \<open>2 * length + 1\<close>, enough because every recursive call that does
  not shorten the text is followed by one that does (\<open>json_loads_fuel\<close>).  \<open>read_frame\<close> recurses on the room left in the
  frame.  The tree walks (\<open>contain_loop\<close>, \<open>descend_loop\<close>), the wait for an empty cgroup (\<open>cg_wait\<close>) and the wait for a
  marker file (\<open>wait_loop\<close>) are partial functions to an option, and shown to return: on every tree the operations
  build, and whenever the clock advances.  The accept loop of the server has no end of its own; that a shutdown ends it
  is a theorem about its steps.

  \<^bold>\<open>What is proved.\<close>  The claims are numbered C1, C2, ... in their theories, the most important first: containment is
  durable and takes effect whatever fails (C1, C2), recovery is the only way back and is atomic (C3 to C5, C9),
  authorization never acts on a stale state and a verifier cannot raise a decision (C6 to C8), the service stays
  well typed (C10); then the controller and its providers, the registries, reviews, policy, gateway and tree, the
  chains, the wire protocol and the evidence formats.  A claim with hypotheses has a witness, a theorem that
  applies it to a concrete run.

  \<^bold>\<open>Not modelled.\<close>
    \<^item> Text is 8-bit characters: code points above 255, and with them the surrogate escapes of JSON, do not occur.
      Clock values are integers, since the code only compares, adds and subtracts them; other floats are kept as
      their literal.  The limits Python sets on the nesting of JSON and on the digits of an integer are left out.
    \<^item> What one thread does without the service's lock (a call of a socket, an audit record, a halt, which takes the
      lock of the runtime alone) is not placed inside a section another thread runs under that lock, only before or
      after it.
    \<^item> The daemon's argument parser is the standard library's; its results are arguments of the definitions.
    \<^item> \<open>kubectl\<close>, the eBPF controller program, the package \<open>dprovenancekit\<close> and the test runner are parameters.
    \<^item> \<open>__init__.py\<close> lists names; tests, scripts, eBPF sources, policies and documents are not part of the program's
      logic.
\<close>

end
